(* ===== verification/Prelude.thy ===== *)
theory Prelude
  imports Main "HOL-Library.Word" "HOL-Library.Multiset"
begin

section \<open>Shared vocabulary of the development\<close>

text \<open>
  The types, the error values and the two control structures that every component
  uses. Go's functions return a value and an error; the model returns \<open>error + 'a\<close>,
  with \<open>Inl\<close> for the error. \<open>bindE\<close> is the \<open>if err != nil { return err }\<close> that
  follows a call, and \<open>foldE\<close> is a \<open>for ... range\<close> loop whose body may return early
  with an error. Go strings are byte sequences, and so is Isabelle's \<open>string\<close>.
\<close>

type_synonym u8 = "8 word"
type_synonym u32 = "32 word"
type_synonym u64 = "64 word"

text \<open>
  \<open>component_simps\<close> collects the unfolding equations of the modelled operations,
  \<open>wf_simps\<close> those of the well-formedness predicates, and \<open>go_simps\<close> the
  evaluation rules of the string functions, so that a proof names a collection
  rather than a list of definitions.
\<close>

named_theorems component_simps
named_theorems wf_simps
named_theorems go_simps

subsection \<open>Signed 64-bit arithmetic\<close>

text \<open>Go's \<open>int\<close> and \<open>int64\<close> are two's complement: a result is reduced to 64 bits.\<close>

definition i64 :: "int \<Rightarrow> int" where
  "i64 x = signed_take_bit 63 x"

lemma i64_id: "- (2 ^ 63) \<le> x \<Longrightarrow> x < 2 ^ 63 \<Longrightarrow> i64 x = x"
  by (simp add: i64_def signed_take_bit_int_eq_self)

subsection \<open>Errors\<close>

text \<open>
  \<open>Errorf s\<close> is an error made by \<open>fmt.Errorf\<close> or \<open>errors.New\<close> with the text \<open>s\<close>;
  \<open>ErrorfV\<close> and \<open>ErrorfW\<close> are errors whose text ends with \<open>: %v\<close> and \<open>: %w\<close> of a
  cause (the second can be unwrapped by \<open>errors.Is\<close>). \<open>NumError\<close> is what \<open>strconv\<close>
  returns (function, input, reason), \<open>AddrError\<close> what \<open>net.ParseMAC\<close> returns,
  \<open>ErrNotExist\<close> is \<open>os.ErrNotExist\<close>, and \<open>Sys\<close> is any other error that the
  operating system or a package outside the repository reports. \<open>Panic\<close> is not an error
  value: it stands for a run-time panic, which ends the call the same way.
\<close>

datatype num_err = ErrSyntax | ErrRange

datatype error =
    Errorf string
  | ErrorfV string error
  | ErrorfW string error
  | NumError string string num_err
  | AddrError string string
  | ErrNotExist
  | Sys string
  | Panic string

text \<open>\<open>errors.Is\<close>: follows the chain of \<open>%w\<close> wrappings.\<close>

fun errors_Is :: "error \<Rightarrow> error \<Rightarrow> bool" where
  "errors_Is (ErrorfW s e) t = (ErrorfW s e = t \<or> errors_Is e t)"
| "errors_Is e t = (e = t)"

subsection \<open>Early return\<close>

definition bindE :: "'e + 'a \<Rightarrow> ('a \<Rightarrow> 'e + 'b) \<Rightarrow> 'e + 'b" where
  "bindE x f = (case x of Inl e \<Rightarrow> Inl e | Inr a \<Rightarrow> f a)"

lemma bindE_Inl [simp]: "bindE (Inl e) f = Inl e"
  by (simp add: bindE_def)

lemma bindE_Inr [simp]: "bindE (Inr a) f = f a"
  by (simp add: bindE_def)

lemma bindE_eq_Inr: "bindE x f = Inr b \<longleftrightarrow> (\<exists>a. x = Inr a \<and> f a = Inr b)"
  by (cases x) auto

lemma bindE_eq_Inl:
  "bindE x f = Inl e \<longleftrightarrow> x = Inl e \<or> (\<exists>a. x = Inr a \<and> f a = Inl e)"
  by (cases x) auto

text \<open>The \<open>return x, x.validate()\<close> at the end of a function.\<close>

lemma bindE_check_eq_Inr: "bindE r (\<lambda>_ :: unit. Inr x) = Inr y \<longleftrightarrow> r = Inr () \<and> x = y"
  by (cases r) auto

lemma bindE_assoc: "bindE (bindE x f) g = bindE x (\<lambda>a. bindE (f a) g)"
  by (cases x) auto

definition mapE :: "('a \<Rightarrow> 'b) \<Rightarrow> 'e + 'a \<Rightarrow> 'e + 'b" where
  "mapE f x = bindE x (\<lambda>a. Inr (f a))"

lemma mapE_simps [simp]: "mapE f (Inl e) = Inl e" "mapE f (Inr a) = Inr (f a)"
  by (simp_all add: mapE_def)

lemma mapE_eq_Inr: "mapE f x = Inr b \<longleftrightarrow> (\<exists>a. x = Inr a \<and> b = f a)"
  by (cases x) auto

lemma mapE_eq_Inl: "mapE f x = Inl e \<longleftrightarrow> x = Inl e"
  by (cases x) auto

text \<open>The guard \<open>if cond { return err }\<close>.\<close>

definition failIf :: "bool \<Rightarrow> 'e \<Rightarrow> 'e + unit" where
  "failIf b e = (if b then Inl e else Inr ())"

lemma failIf_simps [simp]: "failIf True e = Inl e" "failIf False e = Inr ()"
  by (simp_all add: failIf_def)

lemma failIf_eq_Inr [simp]: "failIf b e = Inr u \<longleftrightarrow> \<not> b"
  by (simp add: failIf_def)

lemma failIf_eq_Inl [simp]: "failIf b e = Inl x \<longleftrightarrow> b \<and> x = e"
  by (auto simp: failIf_def)

subsection \<open>Loops that return early\<close>

fun foldE :: "('o \<Rightarrow> 's \<Rightarrow> 'e + 's) \<Rightarrow> 'o list \<Rightarrow> 's \<Rightarrow> 'e + 's" where
  "foldE f [] s = Inr s"
| "foldE f (x # xs) s = bindE (f x s) (foldE f xs)"

lemma foldE_append: "foldE f (xs @ ys) s = bindE (foldE f xs s) (foldE f ys)"
proof (induction xs arbitrary: s)
  case Nil
  then show ?case by simp
next
  case (Cons x xs)
  then show ?case by (cases "f x s") simp_all
qed

lemma foldE_if_nonempty [simp]:
  "foldE f (if b then [x] else []) s = (if b then f x s else Inr s)"
  by (cases "f x s") auto

text \<open>A property that every iteration keeps holds after the loop.\<close>

lemma foldE_invariant:
  assumes "foldE f xs s = Inr t" and "P s"
    and "\<And>x u v. x \<in> set xs \<Longrightarrow> P u \<Longrightarrow> f x u = Inr v \<Longrightarrow> P v"
  shows "P t"
  using assms
proof (induction xs arbitrary: s)
  case Nil
  then show ?case by simp
next
  case (Cons x xs)
  from Cons.prems(1) obtain u where u: "f x s = Inr u" "foldE f xs u = Inr t"
    by (auto simp: bindE_eq_Inr)
  with Cons.prems(2,3) have "P u" by auto
  with Cons.IH [OF u(2)] Cons.prems(3) show ?case by auto
qed

text \<open>The loop fails exactly when some iteration fails after a prefix that succeeded.\<close>

lemma foldE_error:
  assumes "foldE f xs s = Inl e"
  obtains as x bs t where "xs = as @ x # bs" "foldE f as s = Inr t" "f x t = Inl e"
  using assms
proof (induction xs arbitrary: s thesis)
  case Nil
  then show ?case by simp
next
  case (Cons y xs)
  show ?case
  proof (cases "f y s")
    case (Inl e')
    with Cons.prems(1) [of "[]" y xs s] Cons.prems(2) show ?thesis by simp
  next
    case (Inr u)
    with Cons.prems(2) have "foldE f xs u = Inl e" by simp
    with Cons.IH obtain as x bs t where
      "xs = as @ x # bs" "foldE f as u = Inr t" "f x t = Inl e" by blast
    with Inr Cons.prems(1) [of "y # as" x bs t] show ?thesis by simp
  qed
qed

lemma foldE_fails:
  assumes "x \<in> set xs" "\<And>s. \<exists>e. f x s = Inl e"
  shows "\<exists>e. foldE f xs s = Inl e"
  using assms(1)
proof (induction xs arbitrary: s)
  case Nil
  then show ?case by simp
next
  case (Cons y xs)
  then show ?case using assms(2) [of s] by (cases "f y s") auto
qed

text \<open>
  A loop over distinct elements whose steps commute, as far as they succeed, gives the same
  result in every order.
\<close>

lemma foldE_swap:
  assumes swap: "\<And>m m' vm u w. m \<in> set xs \<Longrightarrow> m' \<in> set xs \<Longrightarrow> m \<noteq> m' \<Longrightarrow> f m vm = Inr u \<Longrightarrow> f m' u = Inr w
      \<Longrightarrow> \<exists>u'. f m' vm = Inr u' \<and> f m u' = Inr w"
    and "foldE f (as @ [m]) vm = Inr w" "set as \<subseteq> set xs" "m \<in> set xs" "m \<notin> set as"
  shows "foldE f (m # as) vm = Inr w"
  using assms(2-)
proof (induction as arbitrary: w rule: rev_induct)
  case Nil
  then show ?case by simp
next
  case (snoc a as)
  from snoc.prems(1) obtain u v where u: "foldE f as vm = Inr u" "f a u = Inr v" "f m v = Inr w"
    by (auto simp: foldE_append bindE_eq_Inr)
  from swap [OF _ _ _ u(2,3)] snoc.prems obtain u' where u': "f m u = Inr u'" "f a u' = Inr w"
    by auto
  from u(1) u'(1) have "foldE f (as @ [m]) vm = Inr u'" by (simp add: foldE_append)
  with snoc have "foldE f (m # as) vm = Inr u'" by simp
  with u'(2) show ?case by (auto simp: foldE_append bindE_eq_Inr)
qed

lemma foldE_permute:
  assumes swap: "\<And>m m' vm u w. m \<in> set xs \<Longrightarrow> m' \<in> set xs \<Longrightarrow> m \<noteq> m' \<Longrightarrow> f m vm = Inr u \<Longrightarrow> f m' u = Inr w
      \<Longrightarrow> \<exists>u'. f m' vm = Inr u' \<and> f m u' = Inr w"
    and "distinct xs" "mset xs = mset ys" "foldE f xs s = Inr r"
  shows "foldE f ys s = Inr r"
  using assms
proof (induction ys arbitrary: xs s)
  case Nil
  then show ?case by simp
next
  case (Cons y ys)
  then have "y \<in> set xs" by (metis list.set_intros(1) set_mset_mset)
  then obtain as bs where xs: "xs = as @ y # bs" by (meson split_list)
  from Cons.prems(4) obtain t where t: "foldE f (as @ [y]) s = Inr t" "foldE f bs t = Inr r"
    by (auto simp: xs foldE_append bindE_eq_Inr)
  have "foldE f (y # as) s = Inr t"
  proof (rule foldE_swap [where xs = xs])
    show "y \<notin> set as" using Cons.prems(2) by (simp add: xs)
  qed (use Cons.prems(1) t(1) xs in auto)
  then obtain u where u: "f y s = Inr u" "foldE f (as @ bs) u = Inr r"
    using t(2) by (auto simp: foldE_append bindE_eq_Inr)
  have "foldE f ys u = Inr r"
  proof (rule Cons.IH [of "as @ bs"])
    show "distinct (as @ bs)" "mset (as @ bs) = mset ys"
      using Cons.prems(2,3) by (auto simp: xs)
    show "\<exists>u'. f m' vm = Inr u' \<and> f m u' = Inr w"
      if "m \<in> set (as @ bs)" "m' \<in> set (as @ bs)" "m \<noteq> m'" "f m vm = Inr v" "f m' v = Inr w"
      for m m' vm v w
      using Cons.prems(1) [of m m' vm v w] that by (auto simp: xs)
  qed (rule u(2))
  with u(1) show ?case by simp
qed

subsection \<open>Collecting results\<close>

text \<open>A loop that appends the result of each call to a slice and stops at an error.\<close>

fun traverseE :: "('a \<Rightarrow> 'e + 'b) \<Rightarrow> 'a list \<Rightarrow> 'e + 'b list" where
  "traverseE f [] = Inr []"
| "traverseE f (x # xs) = bindE (f x) (\<lambda>y. mapE ((#) y) (traverseE f xs))"

lemma traverseE_eq_Inr:
  "traverseE f xs = Inr ys \<longleftrightarrow> list_all2 (\<lambda>x y. f x = Inr y) xs ys"
proof (induction xs arbitrary: ys)
  case Nil
  then show ?case by auto
next
  case (Cons x xs)
  then show ?case
    by (cases ys) (auto simp: bindE_eq_Inr mapE_eq_Inr)
qed

lemma traverseE_append:
  "traverseE f (xs @ ys) =
    bindE (traverseE f xs) (\<lambda>us. mapE ((@) us) (traverseE f ys))"
  by (induction xs) (auto simp: bindE_def mapE_def split: sum.splits)

lemma traverseE_all:
  "(\<And>x. x \<in> set xs \<Longrightarrow> f x = Inr (g x)) \<Longrightarrow> traverseE f xs = Inr (map g xs)"
  by (induction xs) auto

subsection \<open>Early return from a function that changes state\<close>

text \<open>A call that returns a value or an error and, in both cases, the new state.\<close>

definition bindS ::
    "('s \<Rightarrow> ('e + 'a) \<times> 's) \<Rightarrow> ('a \<Rightarrow> 's \<Rightarrow> ('e + 'b) \<times> 's) \<Rightarrow> 's \<Rightarrow> ('e + 'b) \<times> 's" where
  "bindS m f s = (case m s of (Inl e, s') \<Rightarrow> (Inl e, s') | (Inr a, s') \<Rightarrow> f a s')"

definition returnS :: "'e + 'a \<Rightarrow> 's \<Rightarrow> ('e + 'a) \<times> 's" where
  "returnS r s = (r, s)"

lemma bindS_Inr [simp]: "m s = (Inr a, s') \<Longrightarrow> bindS m f s = f a s'"
  by (simp add: bindS_def)

lemma bindS_Inl [simp]: "m s = (Inl e, s') \<Longrightarrow> bindS m f s = (Inl e, s')"
  by (simp add: bindS_def)

lemma bindS_returnS [simp]:
  "bindS (returnS (Inr a)) f s = f a s" "bindS (returnS (Inl e)) f s = (Inl e, s)"
  by (simp_all add: bindS_def returnS_def)

lemma bindS_assoc: "bindS (bindS m f) g = bindS m (\<lambda>a. bindS (f a) g)"
  by (auto simp: fun_eq_iff bindS_def split: prod.splits sum.splits)

lemma bind_returnS: "bindS (returnS (Inr a)) f = f a" "bindS (returnS (Inl e)) f = returnS (Inl e)"
  by (simp_all add: fun_eq_iff returnS_def bindS_def)

lemma returnS_eq [simp]: "returnS r s = (x, t) \<longleftrightarrow> r = x \<and> t = s"
  by (auto simp: returnS_def)

lemma bindS_eq_Inr:
  "bindS m f s = (Inr b, t) \<longleftrightarrow> (\<exists>a u. m s = (Inr a, u) \<and> f a u = (Inr b, t))"
  by (auto simp: bindS_def split: prod.splits sum.splits)

lemma bindS_InrE:
  assumes "bindS m f s = (Inr b, t)"
  obtains a u where "m s = (Inr a, u)" "f a u = (Inr b, t)"
  using assms by (auto simp: bindS_def split: prod.splits sum.splits)

subsection \<open>The host file system\<close>

text \<open>
  What opening a path and reading it gives: the error of \<open>os.Open\<close>, an error while
  reading, or the contents.
\<close>

datatype file_read = OpenFails error | ReadFails error | Contents string

type_synonym file_env = "string \<Rightarrow> file_read"

definition os_Open :: "file_env \<Rightarrow> string \<Rightarrow> error option" where
  "os_Open fs path = (case fs path of OpenFails e \<Rightarrow> Some e | _ \<Rightarrow> None)"

definition os_ReadFile :: "file_env \<Rightarrow> string \<Rightarrow> error + string" where
  "os_ReadFile fs path = (case fs path of
     OpenFails e \<Rightarrow> Inl e | ReadFails e \<Rightarrow> Inl e | Contents c \<Rightarrow> Inr c)"

definition os_Remove :: "string \<Rightarrow> file_env \<Rightarrow> file_env" where
  "os_Remove path fs = fs(path := OpenFails ErrNotExist)"

end
