(* ===== verification/GoStd.thy ===== *)
theory GoStd
  imports Prelude
begin

section \<open>The parts of Go's standard library that the program uses\<close>

text \<open>
  Executable definitions of the functions of \<open>strings\<close>, \<open>strconv\<close>, \<open>fmt\<close>, \<open>net\<close>
  and \<open>path/filepath\<close> that vfkit calls, on byte strings, with the laws the components
  use: splitting and joining, decimal printing and parsing with Go's range and syntax
  errors, MAC addresses, and the runes that \<open>for ... range\<close> yields on a string.
\<close>

subsection \<open>strings.Split, strings.SplitN and strings.Join\<close>

fun split_on :: "char \<Rightarrow> string \<Rightarrow> string list" where
  "split_on c [] = [[]]"
| "split_on c (x # xs) =
     (if x = c then [] # split_on c xs
      else (case split_on c xs of [] \<Rightarrow> [[x]] | y # ys \<Rightarrow> (x # y) # ys))"

fun join_with :: "char \<Rightarrow> string list \<Rightarrow> string" where
  "join_with c [] = []"
| "join_with c [x] = x"
| "join_with c (x # y # zs) = x @ c # join_with c (y # zs)"

text \<open>\<open>strings.SplitN(s, sep, 2)\<close>: one part without the separator, two with it.\<close>

definition split2 :: "char \<Rightarrow> string \<Rightarrow> string list" where
  "split2 c s = (case dropWhile (\<lambda>x. x \<noteq> c) s of
     [] \<Rightarrow> [s]
   | _ # v \<Rightarrow> [takeWhile (\<lambda>x. x \<noteq> c) s, v])"

lemma split_on_nonempty [simp]: "split_on c s \<noteq> []"
  by (induction s) (auto split: list.splits)

lemma split_on_sep_free: "x \<in> set (split_on c s) \<Longrightarrow> c \<notin> set x"
  by (induction s arbitrary: x) (fastforce split: if_splits list.splits)+

lemma split_on_sep_free2: "x \<in> set (split_on c s) \<Longrightarrow> d \<notin> set s \<Longrightarrow> d \<notin> set x"
  by (induction s arbitrary: x) (fastforce split: if_splits list.splits)+

lemma split_on_no_sep: "c \<notin> set s \<Longrightarrow> split_on c s = [s]"
  by (induction s) auto

lemma split_on_append_sep:
  "c \<notin> set x \<Longrightarrow> split_on c (x @ c # s) = x # split_on c s"
  by (induction x) auto

lemma join_with_Cons: "ys \<noteq> [] \<Longrightarrow> join_with c (x # ys) = x @ c # join_with c ys"
  by (cases ys) auto

lemma split_join:
  "xs \<noteq> [] \<Longrightarrow> (\<forall>x \<in> set xs. c \<notin> set x) \<Longrightarrow> split_on c (join_with c xs) = xs"
  by (induction c xs rule: join_with.induct)
    (simp_all add: split_on_no_sep split_on_append_sep)

lemma join_split: "join_with c (split_on c s) = s"
proof (induction s)
  case Nil
  then show ?case by simp
next
  case (Cons x s)
  then show ?case
    by (cases "split_on c s") (auto simp: join_with_Cons neq_Nil_conv split: list.splits,
        (metis append_Cons join_with.simps(2) join_with_Cons)+)
qed

lemma join_with_append_single:
  "xs \<noteq> [] \<Longrightarrow> join_with c (xs @ [y]) = join_with c xs @ c # y"
  by (induction c xs rule: join_with.induct) auto

lemma split2_sep [go_simps]: "c \<notin> set k \<Longrightarrow> split2 c (k @ c # v) = [k, v]"
  by (simp add: split2_def dropWhile_append takeWhile_append)

lemma split2_no_sep [go_simps]: "c \<notin> set s \<Longrightarrow> split2 c s = [s]"
proof -
  assume "c \<notin> set s"
  then have "dropWhile (\<lambda>x. x \<noteq> c) s = []" by auto
  then show ?thesis unfolding split2_def by (simp only: list.case)
qed

lemma split2_sep_free: "x \<in> set (split2 c s) \<Longrightarrow> d \<notin> set s \<Longrightarrow> d \<notin> set x"
proof -
  assume x: "x \<in> set (split2 c s)" and d: "d \<notin> set s"
  have "set (dropWhile (\<lambda>x. x \<noteq> c) s) \<subseteq> set s"
    and "set (takeWhile (\<lambda>x. x \<noteq> c) s) \<subseteq> set s"
    by (auto dest: set_dropWhileD set_takeWhileD)
  with x d show ?thesis
    by (cases "dropWhile (\<lambda>x. x \<noteq> c) s") (auto simp: split2_def)
qed

subsection \<open>Prefixes, suffixes and trimming\<close>

definition has_prefix :: "string \<Rightarrow> string \<Rightarrow> bool" where
  "has_prefix s p = (take (length p) s = p)"

definition has_suffix :: "string \<Rightarrow> string \<Rightarrow> bool" where
  "has_suffix s p = (length p \<le> length s \<and> drop (length s - length p) s = p)"

text \<open>\<open>strings.Trim(s, cutset)\<close> for a cutset of one ASCII character.\<close>

definition trim_char :: "char \<Rightarrow> string \<Rightarrow> string" where
  "trim_char c s = rev (dropWhile (\<lambda>x. x = c) (rev (dropWhile (\<lambda>x. x = c) s)))"

lemma trim_char_id:
  assumes "s \<noteq> []" "hd s \<noteq> c" "last s \<noteq> c"
  shows "trim_char c s = s"
proof -
  have "dropWhile (\<lambda>x. x = c) s = s"
    using assms(1,2) by (cases s) auto
  moreover have "dropWhile (\<lambda>x. x = c) (rev s) = rev s"
    using assms(1,3) by (cases s rule: rev_cases) auto
  ultimately show ?thesis by (simp add: trim_char_def)
qed

lemma trim_char_no_char: "c \<notin> set s \<Longrightarrow> trim_char c s = s"
  by (cases "s = []") (auto simp: trim_char_def [of c "[]"] intro!: trim_char_id)

lemma trim_char_add_left [simp]: "trim_char c (c # s) = trim_char c s"
  by (simp add: trim_char_def)

lemma dropWhile_snoc:
  "dropWhile P (s @ [c]) =
    (if dropWhile P s = [] then if P c then [] else [c] else dropWhile P s @ [c])"
  by (induction s) auto

lemma trim_char_add_right [simp]: "trim_char c (s @ [c]) = trim_char c s"
  by (cases "dropWhile (\<lambda>x. x = c) s = []")
    (simp_all add: trim_char_def dropWhile_snoc del: dropWhile_eq_Nil_conv)

text \<open>What \<open>Trim\<close> leaves neither starts nor ends with the character.\<close>

lemma trim_char_ends:
  assumes "trim_char c s \<noteq> []"
  shows "hd (trim_char c s) \<noteq> c" and "last (trim_char c s) \<noteq> c"
proof -
  let ?l = "dropWhile (\<lambda>x. x = c) s"
  have ne: "dropWhile (\<lambda>x. x = c) (rev ?l) \<noteq> []"
    using assms by (simp add: trim_char_def)
  then show "last (trim_char c s) \<noteq> c"
    using hd_dropWhile [OF ne] by (simp add: trim_char_def last_rev)
  have l: "?l \<noteq> []" using ne by (metis dropWhile.simps(1) rev.simps(1))
  then have hl: "hd ?l \<noteq> c" using hd_dropWhile by blast
  obtain a where a: "?l = trim_char c s @ a"
    unfolding trim_char_def
    by (metis rev_append rev_rev_ident takeWhile_dropWhile_id)
  from hl show "hd (trim_char c s) \<noteq> c"
    using assms by (subst (asm) a) (simp add: hd_append)
qed

lemma set_dropWhile_subset: "set (dropWhile P xs) \<subseteq> set xs"
  by (induction xs) auto

lemma set_trim_char: "set (trim_char c s) \<subseteq> set s"
proof -
  have "set (trim_char c s) \<subseteq> set (rev (dropWhile (\<lambda>x. x = c) s))"
    unfolding trim_char_def set_rev by (rule order_trans [OF set_dropWhile_subset]) simp
  also have "\<dots> \<subseteq> set s"
    unfolding set_rev by (rule set_dropWhile_subset)
  finally show ?thesis .
qed

end
