(* ===== verification/GoStrconv.thy ===== *)
theory GoStrconv
  imports GoStd
begin

section \<open>strconv and the decimal verbs of fmt\<close>

text \<open>
  \<open>FormatUint(n, 10)\<close>, \<open>Itoa\<close> and \<open>%d\<close> print decimal digits; \<open>ParseUint\<close>,
  \<open>ParseInt\<close> and \<open>Atoi\<close> read them back, refusing an empty string or a byte that is not
  a digit with \<open>ErrSyntax\<close> and a value outside the requested width with \<open>ErrRange\<close>.
  The digits are scanned from the left, so whichever of the two comes first is reported.
  Parsed values are \<open>nat\<close> or \<open>int\<close> here, with the width as an argument: the callers
  convert them to their own machine type.
\<close>

subsection \<open>Digits\<close>

definition digit_char :: "nat \<Rightarrow> char" where
  "digit_char d = char_of (48 + d)"

definition is_digit :: "char \<Rightarrow> bool" where
  "is_digit c \<longleftrightarrow> 48 \<le> (of_char c :: nat) \<and> (of_char c :: nat) \<le> 57"

definition digit_val :: "char \<Rightarrow> nat" where
  "digit_val c = of_char c - 48"

lemma of_char_digit_char [simp]: "d < 10 \<Longrightarrow> of_char (digit_char d) = 48 + d"
  by (simp add: digit_char_def)

lemma is_digit_digit_char [simp]: "d < 10 \<Longrightarrow> is_digit (digit_char d)"
  by (simp add: is_digit_def)

lemma digit_val_digit_char [simp]: "d < 10 \<Longrightarrow> digit_val (digit_char d) = d"
  by (simp add: digit_val_def)

subsection \<open>Printing\<close>

fun dec :: "nat \<Rightarrow> string" where
  "dec n = (if n < 10 then [digit_char n] else dec (n div 10) @ [digit_char (n mod 10)])"

declare dec.simps [simp del]

definition dec_int :: "int \<Rightarrow> string" where
  "dec_int i = (if i < 0 then CHR ''-'' # dec (nat (- i)) else dec (nat i))"

lemma dec_induct [case_names small step]:
  assumes "\<And>n. n < 10 \<Longrightarrow> P n" and "\<And>n. \<not> n < 10 \<Longrightarrow> P (n div 10) \<Longrightarrow> P n"
  shows "P (n :: nat)"
proof (induction n rule: dec.induct)
  case (1 n)
  then show ?case using assms by (cases "n < 10") auto
qed

lemma dec_nonempty [simp]: "dec n \<noteq> []"
  by (subst dec.simps) simp

lemma dec_digits: "c \<in> set (dec n) \<Longrightarrow> is_digit c"
proof (induction n rule: dec_induct)
  case (small n)
  then show ?case by (subst (asm) dec.simps) simp
next
  case (step n)
  then show ?case by (subst (asm) (2) dec.simps) auto
qed

lemma dec_no_char: "\<not> is_digit c \<Longrightarrow> c \<notin> set (dec n)"
  using dec_digits by blast

lemma not_is_digit [simp]:
  "\<not> is_digit (CHR '','')" "\<not> is_digit (CHR ''='')" "\<not> is_digit (CHR ''-'')"
  "\<not> is_digit (CHR ''+'')" "\<not> is_digit (CHR '' '')"
  by (simp_all add: is_digit_def)

lemma dec_int_no_char: "\<not> is_digit c \<Longrightarrow> c \<noteq> CHR ''-'' \<Longrightarrow> c \<notin> set (dec_int i)"
  by (simp add: dec_int_def dec_no_char)

lemma dec_int_nonempty [simp]: "dec_int i \<noteq> []"
  by (simp add: dec_int_def)

subsection \<open>Reading\<close>

text \<open>The scanning loop of \<open>strconv.ParseUint\<close> in base 10, with the largest value allowed.\<close>

fun scan_uint :: "nat \<Rightarrow> nat \<Rightarrow> string \<Rightarrow> num_err + nat" where
  "scan_uint mx n [] = Inr n"
| "scan_uint mx n (c # cs) =
     (if \<not> is_digit c then Inl ErrSyntax
      else if mx < n * 10 + digit_val c then Inl ErrRange
      else scan_uint mx (n * 10 + digit_val c) cs)"

definition parse_uint :: "nat \<Rightarrow> string \<Rightarrow> num_err + nat" where
  "parse_uint bits s = (if s = [] then Inl ErrSyntax else scan_uint (2 ^ bits - 1) 0 s)"

definition num_result :: "string \<Rightarrow> string \<Rightarrow> num_err + 'a \<Rightarrow> error + 'a" where
  "num_result fn s r = (case r of Inl e \<Rightarrow> Inl (NumError fn s e) | Inr n \<Rightarrow> Inr n)"

definition ParseUint :: "string \<Rightarrow> nat \<Rightarrow> error + nat" where
  "ParseUint s bits = num_result ''ParseUint'' s (parse_uint bits s)"

text \<open>
  \<open>strconv.ParseInt\<close>: an optional sign, then \<open>ParseUint\<close> of the rest, then the check
  against \<open>2 ^ (bits - 1)\<close>, which the most negative value passes.
\<close>

definition parse_int :: "nat \<Rightarrow> string \<Rightarrow> num_err + int" where
  "parse_int bits s =
    (if s = [] then Inl ErrSyntax
     else
       let neg = (hd s = CHR ''-'');
           body = (if hd s = CHR ''+'' \<or> hd s = CHR ''-'' then tl s else s);
           cutoff = 2 ^ (bits - 1)
       in case parse_uint bits body of
            Inl e \<Rightarrow> Inl e
          | Inr un \<Rightarrow>
              if \<not> neg \<and> cutoff \<le> un then Inl ErrRange
              else if neg \<and> cutoff < un then Inl ErrRange
              else Inr (if neg then - int un else int un))"

definition ParseInt :: "string \<Rightarrow> nat \<Rightarrow> error + int" where
  "ParseInt s bits = num_result ''ParseInt'' s (parse_int bits s)"

definition Atoi :: "string \<Rightarrow> error + int" where
  "Atoi s = num_result ''Atoi'' s (parse_int 64 s)"

lemma num_result_simps [simp]:
  "num_result fn s (Inr n) = Inr n" "num_result fn s (Inl e) = Inl (NumError fn s e)"
  by (simp_all add: num_result_def)

lemma num_result_eq_Inr [simp]: "num_result fn s r = Inr n \<longleftrightarrow> r = Inr n"
  by (cases r) auto

subsection \<open>Printing, then reading\<close>

lemma scan_uint_append:
  "scan_uint mx n (s @ t) = bindE (scan_uint mx n s) (\<lambda>m. scan_uint mx m t)"
  by (induction mx n s rule: scan_uint.induct) auto

lemma scan_uint_dec: "n \<le> mx \<Longrightarrow> scan_uint mx 0 (dec n) = Inr n"
proof (induction n rule: dec_induct)
  case (small n)
  then show ?case by (subst dec.simps) simp
next
  case (step n)
  have "n div 10 \<le> mx" using step.prems by (rule order_trans [OF div_le_dividend])
  with step.IH have "scan_uint mx 0 (dec (n div 10)) = Inr (n div 10)" .
  with step.hyps step.prems show ?case
    by (subst dec.simps) (simp add: scan_uint_append)
qed

lemma scan_uint_dec_overflow: "mx < n \<Longrightarrow> scan_uint mx 0 (dec n) = Inl ErrRange"
proof (induction n rule: dec_induct)
  case (small n)
  then show ?case by (subst dec.simps) simp
next
  case (step n)
  show ?case
  proof (cases "mx < n div 10")
    case True
    with step show ?thesis by (subst dec.simps) (simp add: scan_uint_append)
  next
    case False
    then have "scan_uint mx 0 (dec (n div 10)) = Inr (n div 10)" by (intro scan_uint_dec) simp
    with step show ?thesis by (subst dec.simps) (simp add: scan_uint_append)
  qed
qed

lemma scan_uint_le: "scan_uint mx n s = Inr m \<Longrightarrow> n \<le> mx \<Longrightarrow> m \<le> mx"
  by (induction mx n s rule: scan_uint.induct) (auto split: if_splits)

lemma parse_uint_dec: "n < 2 ^ bits \<Longrightarrow> parse_uint bits (dec n) = Inr n"
  by (simp add: parse_uint_def scan_uint_dec)

lemma parse_uint_bound:
  assumes "parse_uint bits s = Inr n"
  shows "n < 2 ^ bits"
proof -
  have "n \<le> 2 ^ bits - 1"
    using assms scan_uint_le by (auto simp: parse_uint_def split: if_splits)
  also have "\<dots> < 2 ^ bits" by simp
  finally show ?thesis .
qed

lemma ParseUint_dec: "n < 2 ^ bits \<Longrightarrow> ParseUint (dec n) bits = Inr n"
  by (simp add: ParseUint_def parse_uint_dec)

lemma ParseUint_bound: "ParseUint s bits = Inr n \<Longrightarrow> n < 2 ^ bits"
  by (simp add: ParseUint_def parse_uint_bound)

lemma hd_dec: "is_digit (hd (dec n))"
  by (rule dec_digits [of _ n]) simp

lemma hd_dec_not_sign [simp]: "hd (dec n) \<noteq> CHR ''-''" "hd (dec n) \<noteq> CHR ''+''"
  using hd_dec [of n] not_is_digit(3,4) by metis+

lemma parse_int_dec_int:
  assumes "0 < bits" "- (2 ^ (bits - 1)) \<le> i" "i < 2 ^ (bits - 1)"
  shows "parse_int bits (dec_int i) = Inr i"
proof -
  have two: "(2::nat) ^ (bits - 1) < 2 ^ bits" using assms(1) by simp
  show ?thesis
  proof (cases "i < 0")
    case True
    then have "int (nat (- i)) \<le> int (2 ^ (bits - 1))" using assms(2) by simp
    then have n: "nat (- i) \<le> 2 ^ (bits - 1)" by (simp only: of_nat_le_iff)
    with two have "nat (- i) < 2 ^ bits" by linarith
    with True n show ?thesis
      by (simp add: parse_int_def dec_int_def parse_uint_dec)
  next
    case False
    then have "int (nat i) < int (2 ^ (bits - 1))" using assms(3) by simp
    then have n: "nat i < 2 ^ (bits - 1)" by (simp only: of_nat_less_iff)
    with two have "nat i < 2 ^ bits" by linarith
    with False n show ?thesis
      by (simp add: parse_int_def dec_int_def parse_uint_dec)
  qed
qed

lemma Atoi_dec_int: "- (2 ^ 63) \<le> i \<Longrightarrow> i < 2 ^ 63 \<Longrightarrow> Atoi (dec_int i) = Inr i"
  unfolding Atoi_def by (subst parse_int_dec_int) simp_all

lemma ParseInt_dec_int:
  "0 < bits \<Longrightarrow> - (2 ^ (bits - 1)) \<le> i \<Longrightarrow> i < 2 ^ (bits - 1) \<Longrightarrow>
    ParseInt (dec_int i) bits = Inr i"
  unfolding ParseInt_def by (subst parse_int_dec_int) simp_all

lemma parse_int_range:
  assumes "parse_int bits s = Inr i"
  shows "- (2 ^ (bits - 1)) \<le> i" and "i < 2 ^ (bits - 1)"
proof -
  have "(\<exists>un. i = - int un \<and> un \<le> 2 ^ (bits - 1)) \<or>
      (\<exists>un. i = int un \<and> un < 2 ^ (bits - 1))"
    using assms
    by (auto simp: parse_int_def Let_def not_le not_less split: if_splits sum.splits)
  then consider un where "i = - int un" "un \<le> 2 ^ (bits - 1)"
    | un where "i = int un" "un < 2 ^ (bits - 1)"
    by blast
  then have "- (2 ^ (bits - 1)) \<le> i \<and> i < 2 ^ (bits - 1)"
  proof cases
    case 1
    have "int un \<le> 2 ^ (bits - 1)"
      using 1(2) by (metis of_nat_le_iff of_nat_numeral of_nat_power)
    moreover have "(0::int) < 2 ^ (bits - 1)" by simp
    ultimately show ?thesis using 1(1) by linarith
  next
    case 2
    have "int un < 2 ^ (bits - 1)"
      using 2(2) by (metis of_nat_less_iff of_nat_numeral of_nat_power)
    then show ?thesis using 2(1) by linarith
  qed
  then show "- (2 ^ (bits - 1)) \<le> i" and "i < 2 ^ (bits - 1)" by simp_all
qed

lemmas Atoi_range = parse_int_range [of 64, simplified]

text \<open>A decimal numeral is accepted exactly when its value fits, and is never reduced.\<close>

lemma ParseUint_dec_iff:
  "ParseUint (dec n) bits
    = (if n < 2 ^ bits then Inr n else Inl (NumError ''ParseUint'' (dec n) ErrRange))"
proof (cases "n < 2 ^ bits")
  case True
  then show ?thesis by (simp add: ParseUint_dec)
next
  case False
  then have "(2 :: nat) ^ bits - 1 < n" using zero_less_power [of "2 :: nat" bits] by linarith
  moreover have "dec n \<noteq> []" by (subst dec.simps) simp
  ultimately show ?thesis
    using False by (simp add: ParseUint_def parse_uint_def scan_uint_dec_overflow)
qed

lemma ParseInt_32_range:
  "ParseInt s 32 = Inr n \<Longrightarrow> - (2 ^ 31) \<le> n \<and> n < 2 ^ 31"
  using parse_int_range [of 32 s n] by (simp add: ParseInt_def)

end
