(* ===== verification/GoNet.thy ===== *)
theory GoNet
  imports GoStrconv
begin

section \<open>net.HardwareAddr: net.ParseMAC and String\<close>

text \<open>
  A hardware address is a byte slice. \<open>ParseMAC\<close> accepts 6, 8 or 20 bytes, written as
  pairs of hexadecimal digits separated by colons or dashes, or as groups of four
  separated by dots; \<open>String\<close> prints lower-case pairs separated by colons, and the empty
  string for an empty address.
\<close>

unbundle bit_operations_syntax

type_synonym hardware_addr = "u8 list"

subsection \<open>Hexadecimal digits\<close>

definition hex_char :: "nat \<Rightarrow> char" where
  "hex_char d = (if d < 10 then char_of (48 + d) else char_of (87 + d))"

text \<open>The value of one digit, as \<open>net.xtoi\<close> reads it.\<close>

definition hex_val :: "char \<Rightarrow> nat option" where
  "hex_val c = (let n = (of_char c :: nat) in
     if 48 \<le> n \<and> n \<le> 57 then Some (n - 48)
     else if 97 \<le> n \<and> n \<le> 102 then Some (n - 97 + 10)
     else if 65 \<le> n \<and> n \<le> 70 then Some (n - 65 + 10)
     else None)"

lemma hex_val_hex_char [simp]: "d < 16 \<Longrightarrow> hex_val (hex_char d) = Some d"
  by (auto simp: hex_val_def hex_char_def Let_def)

lemma hex_val_bound: "hex_val c = Some d \<Longrightarrow> d < 16"
  by (auto simp: hex_val_def Let_def split: if_splits)

lemma hex_val_sep [simp]:
  "hex_val (CHR '':'') = None" "hex_val (CHR '','') = None" "hex_val (CHR ''='') = None"
  "hex_val (CHR ''-'') = None" "hex_val (CHR ''.'') = None"
  by (simp_all add: hex_val_def)

definition hex_byte :: "u8 \<Rightarrow> string" where
  "hex_byte b = [hex_char (unat (drop_bit 4 b)), hex_char (unat (b AND 15))]"

definition mac_string :: "hardware_addr \<Rightarrow> string" where
  "mac_string a = join_with (CHR '':'') (map hex_byte a)"

subsection \<open>ParseMAC\<close>

text \<open>
  \<open>xtoi2\<close>: the next two digits of \<open>s\<close> as a byte; when \<open>s\<close> has a third character it
  must be the separator \<open>e\<close>.
\<close>

definition xtoi2 :: "string \<Rightarrow> char \<Rightarrow> u8 option" where
  "xtoi2 s e =
    (if 2 < length s \<and> s ! 2 \<noteq> e then None
     else case s of
       x # y # _ \<Rightarrow> (case (hex_val x, hex_val y) of
           (Some h, Some l) \<Rightarrow> Some (of_nat (h * 16 + l))
         | _ \<Rightarrow> None)
     | _ \<Rightarrow> None)"

text \<open>The two loops of \<open>ParseMAC\<close>: \<open>n\<close> bytes left, \<open>s\<close> the rest of the input.\<close>

fun mac_pairs :: "char \<Rightarrow> nat \<Rightarrow> string \<Rightarrow> hardware_addr option" where
  "mac_pairs e 0 s = Some []"
| "mac_pairs e (Suc n) s =
     (case xtoi2 s e of
        None \<Rightarrow> None
      | Some b \<Rightarrow> map_option ((#) b) (mac_pairs e n (drop 3 s)))"

fun mac_quads :: "nat \<Rightarrow> char \<Rightarrow> string \<Rightarrow> hardware_addr option" where
  "mac_quads 0 e s = Some []"
| "mac_quads (Suc n) e s =
     (case (xtoi2 (take 2 s) (CHR 0x00), xtoi2 (drop 2 s) e) of
        (Some a, Some b) \<Rightarrow> map_option (\<lambda>r. a # b # r) (mac_quads n e (drop 5 s))
      | _ \<Rightarrow> None)"

definition mac_len_ok :: "nat \<Rightarrow> bool" where
  "mac_len_ok n \<longleftrightarrow> n = 6 \<or> n = 8 \<or> n = 20"

definition parse_mac :: "string \<Rightarrow> hardware_addr option" where
  "parse_mac s =
    (if length s < 14 then None
     else if s ! 2 = CHR '':'' \<or> s ! 2 = CHR ''-'' then
       (let n = (length s + 1) div 3 in
        if (length s + 1) mod 3 \<noteq> 0 \<or> \<not> mac_len_ok n then None
        else mac_pairs (s ! 2) n s)
     else if s ! 4 = CHR ''.'' then
       (let n = 2 * (length s + 1) div 5 in
        if (length s + 1) mod 5 \<noteq> 0 \<or> \<not> mac_len_ok n then None
        else mac_quads (n div 2) (s ! 4) s)
     else None)"

definition ParseMAC :: "string \<Rightarrow> error + hardware_addr" where
  "ParseMAC s = (case parse_mac s of
     None \<Rightarrow> Inl (AddrError ''invalid MAC address'' s)
   | Some a \<Rightarrow> Inr a)"

subsection \<open>Printing, then reading\<close>

lemma unat_nibbles:
  fixes b :: u8
  shows "unat (drop_bit 4 b) = unat b div 16" "unat (b AND 15) = unat b mod 16"
proof -
  show "unat (drop_bit 4 b) = unat b div 16"
    by (simp only: unat_drop_bit_eq) (simp add: drop_bit_eq_div)
  have "b AND 15 = take_bit 4 b"
    by (simp add: take_bit_eq_mask mask_eq_exp_minus_1)
  then show "unat (b AND 15) = unat b mod 16"
    by (simp only: unsigned_take_bit_eq) (simp add: take_bit_eq_mod)
qed

lemma unat_u8_bound: "unat (b :: u8) < 256"
  using unsigned_less [of b, where ?'a = nat] by simp

lemma nibble_bounds [simp]:
  fixes b :: u8
  shows "unat (drop_bit 4 b) < 16" "unat (b AND 15) < 16"
  using unat_u8_bound [of b] by (simp_all add: unat_nibbles)

lemma of_nat_nibbles: "of_nat (unat (drop_bit 4 b) * 16 + unat (b AND 15)) = (b :: u8)"
proof -
  have "unat (drop_bit 4 b) * 16 + unat (b AND 15) = unat b"
    unfolding unat_nibbles by simp
  then show ?thesis by (simp only: of_nat_unat ucast_id)
qed

lemma xtoi2_hex_byte:
  "xtoi2 (hex_byte b) e = Some b" "xtoi2 (hex_byte b @ e # s) e = Some b"
  using of_nat_nibbles [of b] by (simp_all add: xtoi2_def hex_byte_def)

lemma length_hex_byte [simp]: "length (hex_byte b) = 2"
  by (simp add: hex_byte_def)

lemma drop_hex_byte [simp]: "drop 3 (hex_byte b @ c # s) = s"
  by (simp add: hex_byte_def)

lemma mac_pairs_string:
  "mac_pairs (CHR '':'') (length a) (mac_string a) = Some a"
proof (induction a rule: induct_list012)
  case 1
  then show ?case by simp
next
  case (2 b)
  then show ?case by (simp add: mac_string_def xtoi2_hex_byte)
next
  case (3 b c a)
  then show ?case by (simp add: mac_string_def xtoi2_hex_byte)
qed

lemma length_mac_string: "a \<noteq> [] \<Longrightarrow> length (mac_string a) + 1 = 3 * length a"
proof (induction a rule: induct_list012)
  case (3 b c a)
  then show ?case by (simp add: mac_string_def)
qed (simp_all add: mac_string_def)

lemma mac_string_sep: "2 \<le> length a \<Longrightarrow> mac_string a ! 2 = CHR '':''"
  by (cases a rule: remdups_adj.cases) (auto simp: mac_string_def hex_byte_def)

lemma ParseMAC_mac_string:
  assumes "mac_len_ok (length a)"
  shows "ParseMAC (mac_string a) = Inr a"
proof -
  have a: "a \<noteq> []" "2 \<le> length a" "6 \<le> length a"
    using assms by (auto simp: mac_len_ok_def)
  have len: "length (mac_string a) + 1 = 3 * length a"
    using length_mac_string a(1) .
  then have "\<not> length (mac_string a) < 14" "(length (mac_string a) + 1) mod 3 = 0"
    "(length (mac_string a) + 1) div 3 = length a"
    using a(3) by simp_all
  then have "parse_mac (mac_string a) = Some a"
    using assms mac_string_sep [OF a(2)] mac_pairs_string
    by (simp add: parse_mac_def Let_def)
  then show ?thesis by (simp add: ParseMAC_def)
qed

lemma mac_string_no_comma: "c \<noteq> CHR '':'' \<Longrightarrow> hex_val c = None \<Longrightarrow> c \<notin> set (mac_string a)"
proof (induction a rule: induct_list012)
  case (3 x y a)
  then show ?case by (auto simp: mac_string_def hex_byte_def)
qed (auto simp: mac_string_def hex_byte_def)

lemma length_mac_pairs: "mac_pairs e n s = Some a \<Longrightarrow> length a = n"
  by (induction e n s arbitrary: a rule: mac_pairs.induct) (auto split: option.splits)

lemma length_mac_quads: "mac_quads n e s = Some a \<Longrightarrow> length a = 2 * n"
  by (induction n e s arbitrary: a rule: mac_quads.induct) (auto split: option.splits)

lemma ParseMAC_length: "ParseMAC s = Inr a \<Longrightarrow> mac_len_ok (length a)"
  by (auto simp: ParseMAC_def parse_mac_def Let_def mac_len_ok_def
      dest!: length_mac_pairs length_mac_quads split: option.splits if_splits)

end
