(* ===== verification/Options.thy ===== *)
theory Options
  imports GoNet
begin

section \<open>Command line options and the VMComponent interface\<close>

text \<open>
  \<open>pkg/config\<close> reads a component from a comma separated list of options and prints it
  back as one command line argument. This theory has the \<open>option\<close> pairs, the two
  functions that make them, and the interface \<open>VMComponent\<close> as two locales: what a
  component that can be printed promises (\<open>vm_component\<close>), and what one read from a
  command line promises in addition (\<open>parsed_component\<close>). Each device and bootloader
  theory interprets them on its own definitions.
\<close>

subsection \<open>Options\<close>

record devopt =
  okey :: string
  oval :: string

definition strToOption :: "string \<Rightarrow> devopt" where
  "strToOption str =
    (let splitStr = split2 (CHR ''='') str in
     \<lparr>okey = splitStr ! 0, oval = (if 1 < length splitStr then splitStr ! 1 else [])\<rparr>)"

fun strvToOptions :: "string list \<Rightarrow> devopt list" where
  "strvToOptions [] = []"
| "strvToOptions (opt # opts) =
     (if length opt = 0 then strvToOptions opts
      else strToOption opt # strvToOptions opts)"

text \<open>\<open>%s\<close> of a slice of options, as \<open>fmt\<close> prints a slice of structs.\<close>

definition fmt_options :: "devopt list \<Rightarrow> string" where
  "fmt_options os =
    ''['' @ join_with (CHR '' '') (map (\<lambda>o'. ''{'' @ okey o' @ '' '' @ oval o' @ ''}'') os) @ '']''"

lemma strToOption_sep:
  "CHR ''='' \<notin> set k \<Longrightarrow> strToOption (k @ CHR ''='' # v) = \<lparr>okey = k, oval = v\<rparr>"
  by (simp add: strToOption_def split2_sep)

lemma strToOption_flag:
  "CHR ''='' \<notin> set k \<Longrightarrow> strToOption k = \<lparr>okey = k, oval = []\<rparr>"
  by (simp add: strToOption_def split2_no_sep)

lemmas option_eval [go_simps] =
  strToOption_def split2_def

text \<open>An option read from an argument without commas has none in its key and value.\<close>

definition comma_free :: "string \<Rightarrow> bool" where
  "comma_free s \<longleftrightarrow> CHR '','' \<notin> set s"

definition opt_comma_free :: "devopt \<Rightarrow> bool" where
  "opt_comma_free o' \<longleftrightarrow> comma_free (okey o') \<and> comma_free (oval o')"

lemma comma_free_simps [simp]:
  "comma_free []" "comma_free (c # s) \<longleftrightarrow> c \<noteq> CHR '','' \<and> comma_free s"
  "comma_free (s @ t) \<longleftrightarrow> comma_free s \<and> comma_free t"
  by (auto simp: comma_free_def)

lemma comma_free_dec [simp]: "comma_free (dec n)" "comma_free (dec_int i)"
  by (simp_all add: comma_free_def dec_no_char dec_int_no_char)

lemma comma_free_mac [simp]: "comma_free (mac_string a)"
  by (simp add: comma_free_def mac_string_no_comma)

lemma strToOption_comma_free: "comma_free s \<Longrightarrow> opt_comma_free (strToOption s)"
proof -
  assume s: "comma_free s"
  have "comma_free x" if "x \<in> set (split2 (CHR ''='') s)" for x
    using split2_sep_free [OF that, of "CHR '',''"] s by (simp add: comma_free_def)
  moreover have "split2 (CHR ''='') s ! 0 \<in> set (split2 (CHR ''='') s)"
    by (simp add: split2_def split: list.split)
  ultimately show ?thesis
    by (auto simp: opt_comma_free_def strToOption_def Let_def)
qed

lemma strvToOptions_comma_free:
  "(\<forall>s \<in> set ss. comma_free s) \<Longrightarrow> o' \<in> set (strvToOptions ss) \<Longrightarrow> opt_comma_free o'"
  by (induction ss) (auto simp: strToOption_comma_free split: if_splits)

lemma split_comma_free: "x \<in> set (split_on (CHR '','') s) \<Longrightarrow> comma_free x"
  by (simp add: comma_free_def split_on_sep_free)

lemma strvToOptions_append: "strvToOptions (xs @ ys) = strvToOptions xs @ strvToOptions ys"
  by (induction xs) auto

lemma strvToOptions_nonempty:
  "strvToOptions ss = map strToOption (filter (\<lambda>s. s \<noteq> []) ss)"
  by (induction ss) auto

subsection \<open>The interface: printing, then reading\<close>

text \<open>
  \<open>flag\<close> is the command line flag, \<open>tag\<close> the component's name on it, \<open>new\<close> the value
  that \<open>FromOptions\<close> starts from, \<open>opts\<close> the options that \<open>ToCmdLine\<close> writes, and
  \<open>printable\<close> says for which values the command line can carry the whole component.
\<close>

locale vm_component =
  fixes flag :: string
    and tag :: string
    and new :: 'd
    and FromOptions :: "devopt list \<Rightarrow> 'd \<Rightarrow> error + 'd"
    and ToCmdLine :: "'d \<Rightarrow> error + string list"
    and opts :: "'d \<Rightarrow> string list"
    and printable :: "'d \<Rightarrow> bool"
  assumes tag_comma_free: "comma_free tag"
    and emits: "printable d \<Longrightarrow> ToCmdLine d = Inr [flag, join_with (CHR '','') (tag # opts d)]"
    and opts_comma_free: "printable d \<Longrightarrow> x \<in> set (opts d) \<Longrightarrow> comma_free x"
    and reads: "printable d \<Longrightarrow> FromOptions (strvToOptions (opts d)) new = Inr d"
begin

lemma split_arg:
  "printable d \<Longrightarrow>
    split_on (CHR '','') (join_with (CHR '','') (tag # opts d)) = tag # opts d"
  using tag_comma_free opts_comma_free [of d]
  by (intro split_join) (auto simp: comma_free_def)

lemma print_read:
  assumes "printable d"
  obtains arg where "ToCmdLine d = Inr [flag, arg]"
    and "split_on (CHR '','') arg = tag # opts d"
    and "FromOptions (strvToOptions (opts d)) new = Inr d"
  by (rule that [OF emits [OF assms] split_arg [OF assms] reads [OF assms]])

lemma print_inj:
  assumes "printable d" "printable d'" "ToCmdLine d = ToCmdLine d'"
  shows "d = d'"
proof -
  have "join_with (CHR '','') (tag # opts d) = join_with (CHR '','') (tag # opts d')"
    using assms(3) unfolding emits [OF assms(1)] emits [OF assms(2)]
    by (simp only: sum.inject list.inject)
  then have "tag # opts d = tag # opts d'"
    by (metis split_arg [OF assms(1)] split_arg [OF assms(2)])
  then have "opts d = opts d'" by simp
  then show ?thesis using reads [OF assms(1)] reads [OF assms(2)] by (metis sum.inject(2))
qed

end

text \<open>
  \<open>faithful\<close> singles out the values whose every field \<open>ToCmdLine\<close> writes. A component
  read from a command line that has no comma inside an option, is faithful and can be
  printed at all is printable: reading it back from its own output gives the same value.
\<close>

locale parsed_component = vm_component +
  fixes faithful :: "'d \<Rightarrow> bool"
  assumes parsed_printable:
    "(\<forall>o' \<in> set os. opt_comma_free o') \<Longrightarrow> FromOptions os new = Inr d \<Longrightarrow>
      ToCmdLine d = Inr args \<Longrightarrow> faithful d \<Longrightarrow> printable d"
begin

lemma read_print_read:
  assumes "FromOptions (strvToOptions ss) new = Inr d" "\<forall>s \<in> set ss. comma_free s"
    and "ToCmdLine d = Inr args" "faithful d"
  shows "printable d"
  using parsed_printable [OF _ assms(1,3,4)] strvToOptions_comma_free [OF assms(2)] by blast

end

end
