(* ===== verification/Bootloaders.thy ===== *)
theory Bootloaders
  imports Options
begin

section \<open>Bootloaders\<close>

text \<open>
  \<open>pkg/config/bootloader.go\<close> and \<open>pkg/util/strings.go\<close>. A Linux bootloader is printed
  as three flags of its own, an EFI bootloader as one \<open>--bootloader\<close> argument, and a
  macOS bootloader as nothing. \<open>BootloaderFromCmdLine\<close> gets the argument already split:
  the splitting with quotes is in the theory of \<open>pkg/cmdline\<close>.
\<close>

subsection \<open>TrimQuotes and StringInSlice\<close>

abbreviation quote :: char where
  "quote \<equiv> CHR 0x22"

definition TrimQuotes :: "string \<Rightarrow> string" where
  "TrimQuotes str =
    (if has_prefix str [quote] \<and> has_suffix str [quote] then trim_char quote str else str)"

fun StringInSlice :: "string \<Rightarrow> string list \<Rightarrow> bool" where
  "StringInSlice st [] = False"
| "StringInSlice st (s # sl) = (if st = s then True else StringInSlice st sl)"

lemma StringInSlice_iff: "StringInSlice st sl \<longleftrightarrow> st \<in> set sl"
  by (induction sl) auto

lemma TrimQuotes_no_quotes: "quote \<notin> set s \<Longrightarrow> TrimQuotes s = s"
  by (auto simp: TrimQuotes_def trim_char_no_char)

lemma TrimQuotes_quoted:
  assumes "quote \<notin> set s"
  shows "TrimQuotes (quote # s @ [quote]) = s"
proof -
  have "trim_char quote ((quote # s) @ [quote]) = s"
    unfolding trim_char_add_right trim_char_add_left by (rule trim_char_no_char [OF assms])
  then show ?thesis by (simp add: TrimQuotes_def has_prefix_def has_suffix_def)
qed

text \<open>
  What is left after trimming has no quotes at both ends: trimming twice is trimming once.
\<close>

lemma TrimQuotes_idem: "TrimQuotes (TrimQuotes s) = TrimQuotes s"
proof (cases "has_prefix s [quote] \<and> has_suffix s [quote]")
  case True
  show ?thesis
  proof (cases "trim_char quote s = []")
    case True
    then show ?thesis by (simp add: TrimQuotes_def has_prefix_def)
  next
    case False
    then have "hd (trim_char quote s) \<noteq> quote" by (rule trim_char_ends)
    with False have "\<not> has_prefix (trim_char quote s) [quote]"
      by (cases "trim_char quote s") (auto simp: has_prefix_def)
    then show ?thesis by (simp add: TrimQuotes_def)
  qed
next
  case False
  then show ?thesis by (simp only: TrimQuotes_def if_False)
qed

subsection \<open>LinuxBootloader\<close>

record LinuxBootloader =
  VmlinuzPath :: string
  KernelCmdLine :: string
  InitrdPath :: string

definition linuxBootloaderZero :: LinuxBootloader where
  "linuxBootloaderZero = \<lparr>VmlinuzPath = [], KernelCmdLine = [], InitrdPath = []\<rparr>"

definition NewLinuxBootloader :: "string \<Rightarrow> string \<Rightarrow> string \<Rightarrow> LinuxBootloader" where
  "NewLinuxBootloader vmlinuzPath kernelCmdLine initrdPath =
    \<lparr>VmlinuzPath = vmlinuzPath, KernelCmdLine = kernelCmdLine, InitrdPath = initrdPath\<rparr>"

definition LinuxBootloader_option :: "devopt \<Rightarrow> LinuxBootloader \<Rightarrow> error + LinuxBootloader" where
  "LinuxBootloader_option opt b =
    (if okey opt = ''kernel'' then Inr (b\<lparr>VmlinuzPath := oval opt\<rparr>)
     else if okey opt = ''cmdline'' then Inr (b\<lparr>KernelCmdLine := TrimQuotes (oval opt)\<rparr>)
     else if okey opt = ''initrd'' then Inr (b\<lparr>InitrdPath := oval opt\<rparr>)
     else Inl (Errorf (''unknown option for Linux bootloaders: '' @ okey opt)))"

definition LinuxBootloader_FromOptions ::
    "devopt list \<Rightarrow> LinuxBootloader \<Rightarrow> error + LinuxBootloader" where
  "LinuxBootloader_FromOptions options b = foldE LinuxBootloader_option options b"

definition LinuxBootloader_ToCmdLine :: "LinuxBootloader \<Rightarrow> error + string list" where
  "LinuxBootloader_ToCmdLine b =
    (if VmlinuzPath b = [] then Inl (Errorf ''missing kernel path'')
     else
       let args = [''--kernel'', VmlinuzPath b] in
       if InitrdPath b = [] then Inl (Errorf ''missing initrd path'')
       else
         let args = args @ [''--initrd'', InitrdPath b] in
         if KernelCmdLine b = [] then Inl (Errorf ''missing kernel command line'')
         else Inr (args @ [''--kernel-cmdline'', KernelCmdLine b]))"

subsection \<open>EFIBootloader\<close>

record EFIBootloader =
  EFIVariableStorePath :: string
  CreateVariableStore :: bool

definition efiBootloaderZero :: EFIBootloader where
  "efiBootloaderZero = \<lparr>EFIVariableStorePath = [], CreateVariableStore = False\<rparr>"

definition NewEFIBootloader :: "string \<Rightarrow> bool \<Rightarrow> EFIBootloader" where
  "NewEFIBootloader path create =
    \<lparr>EFIVariableStorePath = path, CreateVariableStore = create\<rparr>"

definition EFIBootloader_option :: "devopt \<Rightarrow> EFIBootloader \<Rightarrow> error + EFIBootloader" where
  "EFIBootloader_option opt b =
    (if okey opt = ''variable-store'' then Inr (b\<lparr>EFIVariableStorePath := oval opt\<rparr>)
     else if okey opt = ''create'' then
       (if oval opt \<noteq> [] then
          Inl (Errorf (''unexpected value for EFI bootloader 'create' option: '' @ oval opt))
        else Inr (b\<lparr>CreateVariableStore := True\<rparr>))
     else Inl (Errorf (''unknown option for EFI bootloaders: '' @ okey opt)))"

definition EFIBootloader_FromOptions :: "devopt list \<Rightarrow> EFIBootloader \<Rightarrow> error + EFIBootloader" where
  "EFIBootloader_FromOptions options b = foldE EFIBootloader_option options b"

definition EFIBootloader_ToCmdLine :: "EFIBootloader \<Rightarrow> error + string list" where
  "EFIBootloader_ToCmdLine b =
    (if EFIVariableStorePath b = [] then Inl (Errorf ''missing EFI store path'')
     else
       let builder = ''efi'' @ '',variable-store='' @ EFIVariableStorePath b;
           builder = (if CreateVariableStore b then builder @ '',create'' else builder)
       in Inr [''--bootloader'', builder])"

subsection \<open>MacOSBootloader\<close>

record MacOSBootloader =
  MachineIdentifierPath :: string
  HardwareModelPath :: string
  AuxImagePath :: string

definition macOSBootloaderZero :: MacOSBootloader where
  "macOSBootloaderZero = \<lparr>MachineIdentifierPath = [], HardwareModelPath = [], AuxImagePath = []\<rparr>"

definition MacOSBootloader_option :: "devopt \<Rightarrow> MacOSBootloader \<Rightarrow> error + MacOSBootloader" where
  "MacOSBootloader_option opt b =
    (if okey opt = ''machineIdentifierPath'' then Inr (b\<lparr>MachineIdentifierPath := oval opt\<rparr>)
     else if okey opt = ''hardwareModelPath'' then Inr (b\<lparr>HardwareModelPath := oval opt\<rparr>)
     else if okey opt = ''auxImagePath'' then Inr (b\<lparr>AuxImagePath := oval opt\<rparr>)
     else Inl (Errorf (''unknown option for macOS bootloaders: '' @ okey opt)))"

definition MacOSBootloader_FromOptions ::
    "devopt list \<Rightarrow> MacOSBootloader \<Rightarrow> error + MacOSBootloader" where
  "MacOSBootloader_FromOptions options b = foldE MacOSBootloader_option options b"

definition MacOSBootloader_ToCmdLine :: "MacOSBootloader \<Rightarrow> error + string list" where
  "MacOSBootloader_ToCmdLine b = Inr []"

lemmas bootloader_defs [component_simps] =
  linuxBootloaderZero_def NewLinuxBootloader_def LinuxBootloader_option_def
  LinuxBootloader_FromOptions_def LinuxBootloader_ToCmdLine_def efiBootloaderZero_def
  NewEFIBootloader_def EFIBootloader_option_def EFIBootloader_FromOptions_def
  EFIBootloader_ToCmdLine_def macOSBootloaderZero_def MacOSBootloader_option_def
  MacOSBootloader_FromOptions_def MacOSBootloader_ToCmdLine_def

subsection \<open>The Bootloader interface\<close>

datatype bootloader =
    BootLinux LinuxBootloader
  | BootEFI EFIBootloader
  | BootMacOS MacOSBootloader

fun bootloader_ToCmdLine :: "bootloader \<Rightarrow> error + string list" where
  "bootloader_ToCmdLine (BootLinux b) = LinuxBootloader_ToCmdLine b"
| "bootloader_ToCmdLine (BootEFI b) = EFIBootloader_ToCmdLine b"
| "bootloader_ToCmdLine (BootMacOS b) = MacOSBootloader_ToCmdLine b"

fun bootloader_FromOptions :: "devopt list \<Rightarrow> bootloader \<Rightarrow> error + bootloader" where
  "bootloader_FromOptions os (BootLinux b) = mapE BootLinux (LinuxBootloader_FromOptions os b)"
| "bootloader_FromOptions os (BootEFI b) = mapE BootEFI (EFIBootloader_FromOptions os b)"
| "bootloader_FromOptions os (BootMacOS b) = mapE BootMacOS (MacOSBootloader_FromOptions os b)"

definition bootloader_new :: "string \<Rightarrow> bootloader option" where
  "bootloader_new bootloaderType =
    (if bootloaderType = ''efi'' then Some (BootEFI efiBootloaderZero)
     else if bootloaderType = ''linux'' then Some (BootLinux linuxBootloaderZero)
     else if bootloaderType = ''macos'' then Some (BootMacOS macOSBootloaderZero)
     else None)"

definition BootloaderFromCmdLine :: "string list \<Rightarrow> error + bootloader" where
  "BootloaderFromCmdLine optsStrv =
    (if length optsStrv < 1 then
       Inl (Errorf ''empty option list in --bootloader command line argument'')
     else case bootloader_new (optsStrv ! 0) of
       None \<Rightarrow> Inl (Errorf (''unknown bootloader type: '' @ optsStrv ! 0))
     | Some b \<Rightarrow> bootloader_FromOptions (strvToOptions (tl optsStrv)) b)"

subsection \<open>Printing, then reading\<close>

definition efi_opts :: "EFIBootloader \<Rightarrow> string list" where
  "efi_opts b = [''variable-store='' @ EFIVariableStorePath b]
    @ (if CreateVariableStore b then [''create''] else [])"

definition efi_printable :: "EFIBootloader \<Rightarrow> bool" where
  "efi_printable b \<longleftrightarrow> EFIVariableStorePath b \<noteq> [] \<and> comma_free (EFIVariableStorePath b)"

lemma efi_loop_parsed:
  assumes "foldE EFIBootloader_option os efiBootloaderZero = Inr d"
    and "\<forall>opt \<in> set os. opt_comma_free opt"
  shows "comma_free (EFIVariableStorePath d)"
  by (rule foldE_invariant [OF assms(1)])
    (use assms(2) in \<open>auto simp: efiBootloaderZero_def EFIBootloader_option_def
      opt_comma_free_def split: if_splits\<close>)

interpretation efi: parsed_component "''--bootloader''" "''efi''" efiBootloaderZero
  EFIBootloader_FromOptions EFIBootloader_ToCmdLine efi_opts efi_printable "\<lambda>_. True"
proof unfold_locales
  fix os args and d :: EFIBootloader
  assume "\<forall>opt \<in> set os. opt_comma_free opt" "EFIBootloader_FromOptions os efiBootloaderZero = Inr d"
    "EFIBootloader_ToCmdLine d = Inr args"
  then show "efi_printable d"
    using efi_loop_parsed [of os d]
    by (auto simp: EFIBootloader_FromOptions_def EFIBootloader_ToCmdLine_def efi_printable_def
        split: if_splits)
qed (auto simp: efi_printable_def efi_opts_def component_simps go_simps split: if_splits)

text \<open>A Linux bootloader is printed when all three of its parts are there.\<close>

lemma LinuxBootloader_ToCmdLine_Inr:
  "LinuxBootloader_ToCmdLine b = Inr args \<longleftrightarrow>
    VmlinuzPath b \<noteq> [] \<and> InitrdPath b \<noteq> [] \<and> KernelCmdLine b \<noteq> []
    \<and> args = [''--kernel'', VmlinuzPath b, ''--initrd'', InitrdPath b,
        ''--kernel-cmdline'', KernelCmdLine b]"
  by (auto simp: LinuxBootloader_ToCmdLine_def)

end
