(* ===== verification/GoUtf8.thy ===== *)
theory GoUtf8
  imports GoStd
begin

section \<open>Runes\<close>

text \<open>
  \<open>for _, c := range str\<close> decodes a string as UTF-8, one rune at a time: a byte that does
  not start a valid sequence gives the rune U+FFFD and is skipped alone.
  \<open>(*strings.Builder).WriteRune\<close> encodes a rune. The ranges of the second byte are those
  of the table in Go's \<open>unicode/utf8\<close>, which exclude overlong forms and surrogates.
\<close>

abbreviation code :: "char \<Rightarrow> nat" where
  "code c \<equiv> of_char c"

definition RuneError :: nat where
  "RuneError = 0xFFFD"

definition second_lo :: "nat \<Rightarrow> nat" where
  "second_lo b = (if b = 0xE0 then 0xA0 else if b = 0xF0 then 0x90 else 0x80)"

definition second_hi :: "nat \<Rightarrow> nat" where
  "second_hi b = (if b = 0xED then 0x9F else if b = 0xF4 then 0x8F else 0xBF)"

definition cont :: "char \<Rightarrow> bool" where
  "cont c \<longleftrightarrow> 0x80 \<le> code c \<and> code c \<le> 0xBF"

definition second_ok :: "char \<Rightarrow> char \<Rightarrow> bool" where
  "second_ok c d \<longleftrightarrow> second_lo (code c) \<le> code d \<and> code d \<le> second_hi (code c)"

text \<open>The rune at the front of a string and the number of bytes it takes.\<close>

fun decode_rune :: "string \<Rightarrow> nat \<times> nat" where
  "decode_rune [] = (RuneError, 0)"
| "decode_rune (c # s) =
    (if code c < 0x80 then (code c, 1)
     else if 0xC2 \<le> code c \<and> code c \<le> 0xDF then
       (case s of
          d # _ \<Rightarrow> if second_ok c d then ((code c - 0xC0) * 64 + (code d - 0x80), 2)
                 else (RuneError, 1)
        | _ \<Rightarrow> (RuneError, 1))
     else if 0xE0 \<le> code c \<and> code c \<le> 0xEF then
       (case s of
          d # e # _ \<Rightarrow>
            if second_ok c d \<and> cont e then
              ((code c - 0xE0) * 4096 + (code d - 0x80) * 64 + (code e - 0x80), 3)
            else (RuneError, 1)
        | _ \<Rightarrow> (RuneError, 1))
     else if 0xF0 \<le> code c \<and> code c \<le> 0xF4 then
       (case s of
          d # e # f # _ \<Rightarrow>
            if second_ok c d \<and> cont e \<and> cont f then
              ((code c - 0xF0) * 262144 + (code d - 0x80) * 4096 + (code e - 0x80) * 64
                + (code f - 0x80), 4)
            else (RuneError, 1)
        | _ \<Rightarrow> (RuneError, 1))
     else (RuneError, 1))"

definition encode_rune :: "nat \<Rightarrow> string" where
  "encode_rune r =
    (if r < 0x80 then [char_of r]
     else if r < 0x800 then [char_of (0xC0 + r div 64), char_of (0x80 + r mod 64)]
     else
       let r = (if 0x10FFFF < r \<or> 0xD800 \<le> r \<and> r \<le> 0xDFFF then RuneError else r) in
       if r < 0x10000 then
         [char_of (0xE0 + r div 4096), char_of (0x80 + r div 64 mod 64), char_of (0x80 + r mod 64)]
       else
         [char_of (0xF0 + r div 262144), char_of (0x80 + r div 4096 mod 64),
          char_of (0x80 + r div 64 mod 64), char_of (0x80 + r mod 64)])"

fun runes :: "string \<Rightarrow> nat list" where
  "runes [] = []"
| "runes (c # s) = (case decode_rune (c # s) of (r, w) \<Rightarrow> r # runes (drop (w - 1) s))"

fun valid_utf8 :: "string \<Rightarrow> bool" where
  "valid_utf8 [] = True"
| "valid_utf8 (c # s) = (case decode_rune (c # s) of (r, w) \<Rightarrow>
     (r, w) \<noteq> (RuneError, 1) \<and> valid_utf8 (drop (w - 1) s))"

text \<open>What remains of a string after decoding and encoding it again.\<close>

definition sanitize :: "string \<Rightarrow> string" where
  "sanitize s = concat (map encode_rune (runes s))"

lemma code_bound: "code c < 256"
  by (metis of_char_mod_256 mod_less_divisor zero_less_numeral)

lemma encode_ascii: "r < 0x80 \<Longrightarrow> encode_rune r = [char_of r]"
  by (simp add: encode_rune_def)

text \<open>Every byte of a longer encoding is at least 0x80, so no ASCII character occurs in it.\<close>

lemma code_char_of: "n < 256 \<Longrightarrow> code (char_of n) = n"
  by (simp add: of_char_of)

lemma encode_high:
  assumes "0x80 \<le> r" "c \<in> set (encode_rune r)"
  shows "0x80 \<le> code c"
proof -
  define q where "q = (if 0x10FFFF < r \<or> 0xD800 \<le> r \<and> r \<le> 0xDFFF then RuneError else r)"
  have q: "q \<le> 0x10FFFF" by (simp add: q_def RuneError_def)
  have m: "x mod 64 < 64" for x :: nat by simp
  have d: "r < 0x800 \<Longrightarrow> r div 64 < 32" "q < 0x10000 \<Longrightarrow> q div 4096 < 16" "q div 262144 < 5"
    using q by (auto simp: less_mult_imp_div_less)
  have "code (char_of (0x80 + x mod 64)) = 0x80 + x mod 64" for x :: nat
    by (rule code_char_of) (use m [of x] in linarith)
  moreover have "r < 0x800 \<Longrightarrow> code (char_of (0xC0 + r div 64)) = 0xC0 + r div 64"
    by (rule code_char_of) (use d(1) in linarith)
  moreover have "q < 0x10000 \<Longrightarrow> code (char_of (0xE0 + q div 4096)) = 0xE0 + q div 4096"
    by (rule code_char_of) (use d(2) in linarith)
  moreover have "code (char_of (0xF0 + q div 262144)) = 0xF0 + q div 262144"
    by (rule code_char_of) (use d(3) in linarith)
  ultimately show ?thesis
    using assms unfolding encode_rune_def Let_def q_def [symmetric]
    by (auto split: if_splits)
qed

text \<open>Decoding a valid sequence and encoding the rune gives the bytes back.\<close>

lemma split64:
  "y < (64 :: nat) \<Longrightarrow> (x * 64 + y) div 64 = x" "y < (64 :: nat) \<Longrightarrow> (x * 64 + y) mod 64 = y"
  by auto

lemma encode_two:
  assumes "2 \<le> x" "x < 32" "y < (64 :: nat)"
  shows "encode_rune (x * 64 + y) = [char_of (0xC0 + x), char_of (0x80 + y)]"
proof -
  have c: "\<not> x * 64 + y < 0x80" "x * 64 + y < 0x800" using assms by linarith+
  show ?thesis
    by (simp only: encode_rune_def split64 [OF assms(3)] c if_True if_False)
qed

lemma encode_three:
  assumes "x < 16" "y < (64 :: nat)" "z < 64"
    and "0x800 \<le> x * 4096 + y * 64 + z"
    and "\<not> (0xD800 \<le> x * 4096 + y * 64 + z \<and> x * 4096 + y * 64 + z \<le> 0xDFFF)"
  shows "encode_rune (x * 4096 + y * 64 + z)
    = [char_of (0xE0 + x), char_of (0x80 + y), char_of (0x80 + z)]"
proof -
  let ?r = "x * 4096 + y * 64 + z"
  have r: "?r = (x * 64 + y) * 64 + z" by (simp add: algebra_simps)
  have c: "?r < 0x10000" "\<not> ?r < 0x80" "\<not> ?r < 0x800" "\<not> 0x10FFFF < ?r"
    using assms(1-4) by linarith+
  have d: "?r div 64 = x * 64 + y" "?r mod 64 = z"
    unfolding r by (rule split64 [OF assms(3)])+
  then have e: "?r div 4096 = x"
    using div_mult2_eq [of ?r 64 64] split64 [OF assms(2)] by simp
  show ?thesis
    by (simp only: encode_rune_def Let_def c d e split64 [OF assms(2)] assms(5)
        if_True if_False simp_thms)
qed

lemma encode_four:
  assumes "x < 5" "y < (64 :: nat)" "z < 64" "u < 64"
    and "0x10000 \<le> x * 262144 + y * 4096 + z * 64 + u"
    and "x * 262144 + y * 4096 + z * 64 + u \<le> 0x10FFFF"
  shows "encode_rune (x * 262144 + y * 4096 + z * 64 + u)
    = [char_of (0xF0 + x), char_of (0x80 + y), char_of (0x80 + z), char_of (0x80 + u)]"
proof -
  let ?r = "x * 262144 + y * 4096 + z * 64 + u"
  have r: "?r = ((x * 64 + y) * 64 + z) * 64 + u" by (simp add: algebra_simps)
  have d1: "?r div 64 = (x * 64 + y) * 64 + z" "?r mod 64 = u"
    unfolding r by (rule split64 [OF assms(4)])+
  have d2: "?r div 4096 = x * 64 + y"
    using div_mult2_eq [of ?r 64 64] unfolding d1 split64 [OF assms(3)] by simp
  have d3: "?r div 262144 = x"
    using div_mult2_eq [of ?r 4096 64] unfolding d2 split64 [OF assms(2)] by simp
  have c: "\<not> ?r < 0x10000" "\<not> ?r < 0x80" "\<not> ?r < 0x800" "\<not> 0x10FFFF < ?r"
    "\<not> ?r \<le> 0xDFFF"
    using assms(5,6) by linarith+
  show ?thesis
    by (simp only: encode_rune_def Let_def c d1 d2 d3 split64 [OF assms(2)] split64 [OF assms(3)]
        if_True if_False simp_thms)
qed

text \<open>The payload of each byte of a sequence.\<close>

lemma cont_payload:
  assumes "cont c"
  obtains x where "code c = 0x80 + x" "x < 64" "char_of (0x80 + x) = c"
proof -
  have "code c = 0x80 + (code c - 0x80)" "code c - 0x80 < 64"
    using assms by (auto simp: cont_def)
  then show thesis using that [of "code c - 0x80"] by (metis char_of_char)
qed

lemma second_cont: "second_ok c d \<Longrightarrow> cont d"
  by (auto simp: second_ok_def second_lo_def second_hi_def cont_def split: if_splits)

lemma lead_payload:
  assumes "b \<le> code c"
  obtains x where "code c = b + x" "char_of (b + x) = c"
  using that [of "code c - b"] assms char_of_char [of c] by simp

lemma decode_two:
  assumes "second_ok c d" "0xC2 \<le> code c" "code c \<le> 0xDF"
  shows "encode_rune ((code c - 0xC0) * 64 + (code d - 0x80)) = [c, d]"
proof -
  obtain x where x: "code c = 0xC0 + x" "char_of (0xC0 + x) = c"
    by (rule lead_payload [of "0xC0" c]) (use assms(2) in simp)
  obtain y where y: "code d = 0x80 + y" "y < 64" "char_of (0x80 + y) = d"
    by (rule cont_payload [OF second_cont [OF assms(1)]])
  show ?thesis
    using encode_two [of x y] assms(2,3) x y by simp
qed

lemma decode_three:
  assumes "second_ok c d" "cont e" "0xE0 \<le> code c" "code c \<le> 0xEF"
  shows "encode_rune ((code c - 0xE0) * 4096 + (code d - 0x80) * 64 + (code e - 0x80)) = [c, d, e]"
proof -
  obtain x where x: "code c = 0xE0 + x" "char_of (0xE0 + x) = c"
    by (rule lead_payload [OF assms(3)])
  obtain y where y: "code d = 0x80 + y" "y < 64" "char_of (0x80 + y) = d"
    by (rule cont_payload [OF second_cont [OF assms(1)]])
  obtain z where z: "code e = 0x80 + z" "z < 64" "char_of (0x80 + z) = e"
    by (rule cont_payload [OF assms(2)])
  have "x < 16" using assms(4) x(1) by simp
  moreover have "0x800 \<le> x * 4096 + y * 64 + z"
    using assms(1) x(1) y(1,2) by (auto simp: second_ok_def second_lo_def split: if_splits)
  moreover have "\<not> (0xD800 \<le> x * 4096 + y * 64 + z \<and> x * 4096 + y * 64 + z \<le> 0xDFFF)"
    using assms(1) x(1) y(1,2) z(2) by (auto simp: second_ok_def second_hi_def split: if_splits)
  ultimately show ?thesis
    using encode_three [of x y z] x y z by simp
qed

lemma decode_four:
  assumes "second_ok c d" "cont e" "cont f" "0xF0 \<le> code c" "code c \<le> 0xF4"
  shows "encode_rune ((code c - 0xF0) * 262144 + (code d - 0x80) * 4096 + (code e - 0x80) * 64
    + (code f - 0x80)) = [c, d, e, f]"
proof -
  obtain x where x: "code c = 0xF0 + x" "char_of (0xF0 + x) = c"
    by (rule lead_payload [OF assms(4)])
  obtain y where y: "code d = 0x80 + y" "y < 64" "char_of (0x80 + y) = d"
    by (rule cont_payload [OF second_cont [OF assms(1)]])
  obtain z where z: "code e = 0x80 + z" "z < 64" "char_of (0x80 + z) = e"
    by (rule cont_payload [OF assms(2)])
  obtain u where u: "code f = 0x80 + u" "u < 64" "char_of (0x80 + u) = f"
    by (rule cont_payload [OF assms(3)])
  have "x < 5" using assms(5) x(1) by simp
  moreover have "0x10000 \<le> x * 262144 + y * 4096 + z * 64 + u"
    using assms(1) x(1) y(1,2) by (auto simp: second_ok_def second_lo_def split: if_splits)
  moreover have "x * 262144 + y * 4096 + z * 64 + u \<le> 0x10FFFF"
    using assms(1,5) x(1) y(1,2) z(2) u(2) by (auto simp: second_ok_def second_hi_def split: if_splits)
  ultimately show ?thesis
    using encode_four [of x y z u] x y z u by simp
qed

lemma encode_decode:
  assumes "decode_rune (c # s) = (r, w)" "(r, w) \<noteq> (RuneError, 1)"
  shows "encode_rune r @ drop (w - 1) s = c # s"
  using assms
  by (auto simp: encode_ascii decode_two decode_three decode_four simp del: diff_diff_left
      add_diff_assoc add_diff_assoc2 split: if_splits list.splits)

lemma sanitize_valid: "valid_utf8 s \<Longrightarrow> sanitize s = s"
proof (induction s rule: valid_utf8.induct)
  case 1
  then show ?case by (simp add: sanitize_def)
next
  case (2 c s)
  obtain r w where d: "decode_rune (c # s) = (r, w)" by (cases "decode_rune (c # s)")
  have v: "(r, w) \<noteq> (RuneError, 1)" "valid_utf8 (drop (w - 1) s)"
    using 2(2) d by auto
  then have "sanitize (drop (w - 1) s) = drop (w - 1) s" using 2(1) d by metis
  then have "sanitize (c # s) = encode_rune r @ drop (w - 1) s"
    using d by (simp add: sanitize_def del: decode_rune.simps)
  then show ?case using encode_decode [OF d v(1)] by simp
qed

lemma decode_append:
  assumes "decode_rune (c # s) = (r, w)" "(r, w) \<noteq> (RuneError, 1)"
  shows "decode_rune (c # s @ t) = (r, w)" "w - 1 \<le> length s"
proof -
  show "decode_rune (c # s @ t) = (r, w)"
    using assms by (auto split: if_splits list.splits)
  show "w - 1 \<le> length s"
    using assms by (auto split: if_splits list.splits)
qed

lemma valid_utf8_append: "valid_utf8 s \<Longrightarrow> valid_utf8 t \<Longrightarrow> valid_utf8 (s @ t)"
proof (induction s rule: valid_utf8.induct)
  case 1
  then show ?case by simp
next
  case (2 c s)
  obtain r w where d: "decode_rune (c # s) = (r, w)" by (cases "decode_rune (c # s)")
  have v: "(r, w) \<noteq> (RuneError, 1)" "valid_utf8 (drop (w - 1) s)"
    using 2(2) d by auto
  note a = decode_append(1) [OF d v(1), of t] decode_append(2) [OF d v(1)]
  have "valid_utf8 (drop (w - 1) s @ t)" using 2(1) d v(2) 2(3) by metis
  then show ?case using a v(1) by (simp add: valid_utf8.simps(2) del: decode_rune.simps)
qed

lemma valid_utf8_ascii [simp]: "code c < 0x80 \<Longrightarrow> valid_utf8 (c # s) = valid_utf8 s"
  by (auto simp: RuneError_def)

declare valid_utf8.simps(2) [simp del]

text \<open>The ASCII characters of a string survive decoding and encoding, valid or not.\<close>

lemma decode_error:
  "decode_rune (c # s) = (r, w) \<Longrightarrow> (r, w) = (RuneError, 1) \<Longrightarrow> 0x80 \<le> code c"
  by (auto simp: RuneError_def split: if_splits)

lemma count_high:
  assumes "code a < 0x80" "0x80 \<le> r"
  shows "count_list (encode_rune r) a = 0"
proof -
  have "a \<notin> set (encode_rune r)" using encode_high [OF assms(2), of a] assms(1) by auto
  then show ?thesis by (simp add: count_list_0_iff)
qed

lemma sanitize_count:
  assumes "code a < 0x80"
  shows "count_list (sanitize s) a = count_list s a"
proof (induction s rule: runes.induct)
  case 1
  then show ?case by (simp add: sanitize_def)
next
  case (2 c s)
  obtain r w where d: "decode_rune (c # s) = (r, w)" by (cases "decode_rune (c # s)")
  then have IH: "count_list (sanitize (drop (w - 1) s)) a = count_list (drop (w - 1) s) a"
    using 2 by metis
  have s: "sanitize (c # s) = encode_rune r @ sanitize (drop (w - 1) s)"
    using d by (simp add: sanitize_def del: decode_rune.simps)
  show ?case
  proof (cases "(r, w) = (RuneError, 1)")
    case True
    then have "0x80 \<le> code c" "0x80 \<le> r" using decode_error [OF d True] by (auto simp: RuneError_def)
    with assms have "c \<noteq> a" "count_list (encode_rune r) a = 0" by (auto intro: count_high)
    with IH True s show ?thesis by simp
  next
    case False
    have "count_list (encode_rune r @ drop (w - 1) s) a = count_list (c # s) a"
      using encode_decode [OF d False] by simp
    with IH s show ?thesis by simp
  qed
qed

end
