(* ===== verification/StringSlice.thy ===== *)
theory StringSlice
  imports Bootloaders GoUtf8
begin

section \<open>The value of --bootloader and --cloud-init\<close>

text \<open>
  \<open>pkg/cmdline/string_slice.go\<close>: a flag value that is a comma separated list, where
  commas inside double quotes do not separate. \<open>parseString\<close> is the code's loop over
  runes with its string builder. It is shown equal to \<open>quoted_fields\<close>, which works on the
  bytes and says what the fields are.
\<close>

subsection \<open>The code\<close>

record strvBuilder =
  strBuilder :: string
  strv :: "string list"
  builder_err :: "error option"

definition strvBuilderZero :: strvBuilder where
  "strvBuilderZero = \<lparr>strBuilder = [], strv = [], builder_err = None\<rparr>"

definition strvBuilder_String :: "strvBuilder \<Rightarrow> string" where
  "strvBuilder_String builder = TrimQuotes (strBuilder builder)"

definition strvBuilder_Next :: "strvBuilder \<Rightarrow> strvBuilder" where
  "strvBuilder_Next builder =
    (let str = strvBuilder_String builder in
     builder\<lparr>strv := strv builder @ [str], strBuilder := []\<rparr>)"

text \<open>\<open>(*strings.Builder).WriteRune\<close> always returns a nil error.\<close>

definition strvBuilder_WriteRune :: "nat \<Rightarrow> strvBuilder \<Rightarrow> strvBuilder" where
  "strvBuilder_WriteRune r builder =
    (if builder_err builder \<noteq> None then builder
     else builder\<lparr>strBuilder := strBuilder builder @ encode_rune r\<rparr>)"

definition strvBuilder_End :: "strvBuilder \<Rightarrow> error + string list" where
  "strvBuilder_End builder =
    (case builder_err builder of
       Some e \<Rightarrow> Inl e
     | None \<Rightarrow>
         let lastStr = strvBuilder_String builder in
         Inr (if length (strv builder) \<noteq> 0 \<or> length lastStr \<noteq> 0
              then strv builder @ [lastStr] else strv builder))"

definition parse_rune :: "nat \<Rightarrow> bool \<times> strvBuilder \<Rightarrow> error + (bool \<times> strvBuilder)" where
  "parse_rune c st = (case st of (withinQuotes, builder) \<Rightarrow>
    if withinQuotes then
      Inr (if c = of_char quote then False else withinQuotes, strvBuilder_WriteRune c builder)
    else if withinQuotes then Inl (Errorf ''coding error in arg parsing'')
    else if c = of_char (CHR '','') then Inr (withinQuotes, strvBuilder_Next builder)
    else if c = of_char quote then Inr (True, strvBuilder_WriteRune c builder)
    else Inr (withinQuotes, strvBuilder_WriteRune c builder))"

definition parseString :: "string \<Rightarrow> error + string list" where
  "parseString str =
    bindE (foldE parse_rune (runes str) (False, strvBuilderZero)) (\<lambda>(withinQuotes, builder).
      if withinQuotes then Inl (Errorf (''mismatched '' @ [quote]))
      else strvBuilder_End builder)"

text \<open>A nil slice and an empty one are not told apart by any operation of the type.\<close>

record stringSliceValue =
  slice_value :: "string list"
  changed :: bool

definition stringSliceZero :: stringSliceValue where
  "stringSliceZero = \<lparr>slice_value = [], changed = False\<rparr>"

definition stringSlice_Set :: "string \<Rightarrow> stringSliceValue \<Rightarrow> error + stringSliceValue" where
  "stringSlice_Set val s =
    bindE (parseString val) (\<lambda>v.
      let s = (if \<not> changed s then s\<lparr>slice_value := v\<rparr>
               else s\<lparr>slice_value := slice_value s @ v\<rparr>)
      in Inr (s\<lparr>changed := True\<rparr>))"

definition stringSlice_Type :: string where
  "stringSlice_Type = ''stringSlice''"

definition stringSlice_String :: "stringSliceValue option \<Rightarrow> string" where
  "stringSlice_String s = (case s of
     None \<Rightarrow> ''[]''
   | Some s \<Rightarrow> if slice_value s = [] then ''[]''
       else ''['' @ join_with (CHR '','') (slice_value s) @ '']'')"

definition stringSlice_Append :: "string \<Rightarrow> stringSliceValue \<Rightarrow> error + stringSliceValue" where
  "stringSlice_Append val s = Inr (s\<lparr>slice_value := slice_value s @ [val]\<rparr>)"

definition stringSlice_Replace :: "string list \<Rightarrow> stringSliceValue \<Rightarrow> error + stringSliceValue" where
  "stringSlice_Replace val s = Inr (s\<lparr>slice_value := val\<rparr>)"

definition stringSlice_GetSlice :: "stringSliceValue \<Rightarrow> string list" where
  "stringSlice_GetSlice s = slice_value s"

subsection \<open>What the loop computes\<close>

text \<open>
  The reference: \<open>quoted_fields q s\<close> splits \<open>s\<close> at the commas outside quotes, \<open>q\<close> saying
  whether \<open>s\<close> starts inside, and \<open>open_at_end q s\<close> whether it ends inside.
\<close>

fun quoted_fields :: "bool \<Rightarrow> string \<Rightarrow> string list" where
  "quoted_fields q [] = [[]]"
| "quoted_fields q (c # s) =
     (if \<not> q \<and> c = CHR '','' then [] # quoted_fields q s
      else case quoted_fields (if c = quote then \<not> q else q) s of
        [] \<Rightarrow> [[c]]
      | f # fs \<Rightarrow> (c # f) # fs)"

definition open_at_end :: "bool \<Rightarrow> string \<Rightarrow> bool" where
  "open_at_end q s \<longleftrightarrow> q \<noteq> odd (count_list s quote)"

definition drop_sole_empty :: "string list \<Rightarrow> string list" where
  "drop_sole_empty fs = (if fs = [[]] then [] else fs)"

lemma quoted_fields_nonempty [simp]: "quoted_fields q s \<noteq> []"
  by (cases s) (auto split: list.splits)

lemma quoted_fields_Cons:
  "quoted_fields q (c # s) = (if \<not> q \<and> c = CHR '','' then [] # quoted_fields q s
    else (c # hd (quoted_fields (if c = quote then \<not> q else q) s))
      # tl (quoted_fields (if c = quote then \<not> q else q) s))"
proof -
  obtain f fs where "quoted_fields (if c = quote then \<not> q else q) s = f # fs"
    by (metis neq_Nil_conv quoted_fields_nonempty)
  then show ?thesis by (simp only: quoted_fields.simps list.case list.sel)
qed

lemma open_at_end_simps [simp]:
  "open_at_end q [] = q"
  "open_at_end q (c # s) = open_at_end (if c = quote then \<not> q else q) s"
  by (auto simp: open_at_end_def)

text \<open>Bytes without a comma or quote extend the field they are in.\<close>

definition plain :: "string \<Rightarrow> bool" where
  "plain s \<longleftrightarrow> CHR '','' \<notin> set s \<and> quote \<notin> set s"

lemma plain_append:
  "plain s \<Longrightarrow> quoted_fields q (s @ t) = (s @ hd (quoted_fields q t)) # tl (quoted_fields q t)"
  "plain s \<Longrightarrow> open_at_end q (s @ t) = open_at_end q t"
proof -
  show "plain s \<Longrightarrow> quoted_fields q (s @ t) = (s @ hd (quoted_fields q t)) # tl (quoted_fields q t)"
    by (induction s) (auto simp: plain_def quoted_fields_Cons simp del: quoted_fields.simps(2))
  show "plain s \<Longrightarrow> open_at_end q (s @ t) = open_at_end q t"
    by (induction s) (auto simp: plain_def)
qed

lemma encode_rune_plain:
  assumes "r \<noteq> of_char (CHR '','')" "r \<noteq> of_char quote"
  shows "plain (encode_rune r)"
proof (cases "r < 0x80")
  case True
  then have "of_char (char_of r :: char) = r" by (simp add: code_char_of)
  with assms have "char_of r \<noteq> CHR '',''" "char_of r \<noteq> quote" by metis+
  with True show ?thesis by (auto simp: plain_def encode_ascii)
next
  case False
  then show ?thesis using encode_high [of r] by (fastforce simp: plain_def)
qed

lemma encode_char: "of_char c < (0x80 :: nat) \<Longrightarrow> encode_rune (of_char c) = [c]"
  by (simp add: encode_ascii char_of_char)

lemma encode_rune_special: "encode_rune 44 = [CHR '','']" "encode_rune 34 = [quote]"
  using encode_char [of "CHR '',''"] encode_char [of quote] by simp_all

text \<open>
  The state of the loop against the fields of the rest of the string: the builder holds
  the fields already finished and the front of the field being read.
\<close>

definition finish :: "strvBuilder \<Rightarrow> string list \<Rightarrow> strvBuilder" where
  "finish b fs =
    \<lparr>strBuilder = last ((strBuilder b @ hd fs) # tl fs),
     strv = strv b @ map TrimQuotes (butlast ((strBuilder b @ hd fs) # tl fs)),
     builder_err = None\<rparr>"

lemma finish_comma:
  assumes "fs \<noteq> []"
  shows "finish b ([] # fs)
    = finish (b\<lparr>strv := strv b @ [TrimQuotes (strBuilder b)], strBuilder := []\<rparr>) fs"
  using assms by (cases fs) (auto simp: finish_def)

lemma finish_plain:
  "finish b ((s @ hd fs) # tl fs) = finish (b\<lparr>strBuilder := strBuilder b @ s\<rparr>) fs"
  by (auto simp: finish_def)

lemma parse_rune_simps:
  "parse_rune 44 (False, b) = Inr (False, strvBuilder_Next b)"
  "parse_rune 44 (True, b) = Inr (True, strvBuilder_WriteRune 44 b)"
  "parse_rune 34 (q, b) = Inr (\<not> q, strvBuilder_WriteRune 34 b)"
  "r \<noteq> 44 \<Longrightarrow> r \<noteq> 34 \<Longrightarrow> parse_rune r (q, b) = Inr (q, strvBuilder_WriteRune r b)"
  by (simp_all add: parse_rune_def)

lemma parse_loop:
  assumes "builder_err b = None"
  shows "foldE parse_rune rs (q, b)
    = Inr (open_at_end q (concat (map encode_rune rs)),
        finish b (quoted_fields q (concat (map encode_rune rs))))"
  using assms
proof (induction rs arbitrary: q b)
  case Nil
  then show ?case by (simp add: finish_def)
next
  case (Cons r rs)
  let ?t = "concat (map encode_rune rs)"
  consider (comma) "r = 44" "\<not> q" | (quote) "r = 34" | (plain_in) "r = 44" "q"
    | (plain) "r \<noteq> 44" "r \<noteq> 34" by blast
  then show ?case
  proof cases
    case comma
    then show ?thesis
      using Cons finish_comma [of "quoted_fields False ?t" b]
      by (simp add: parse_rune_simps strvBuilder_Next_def strvBuilder_String_def
          encode_rune_special quoted_fields_Cons del: quoted_fields.simps(2))
  next
    case quote
    then show ?thesis
      using Cons finish_plain [of b "[CHR 0x22]" "quoted_fields (\<not> q) ?t"]
      by (simp add: parse_rune_simps strvBuilder_WriteRune_def encode_rune_special
          quoted_fields_Cons del: quoted_fields.simps(2))
  next
    case plain_in
    then show ?thesis
      using Cons finish_plain [of b "'',''" "quoted_fields True ?t"]
      by (simp add: parse_rune_simps strvBuilder_WriteRune_def encode_rune_special
          quoted_fields_Cons del: quoted_fields.simps(2))
  next
    case plain
    then have "plain (encode_rune r)" by (intro encode_rune_plain) simp_all
    note p = plain_append [OF this, of q ?t]
    show ?thesis
      using Cons plain finish_plain [of b "encode_rune r" "quoted_fields q ?t"]
      by (simp add: parse_rune_simps strvBuilder_WriteRune_def p)
  qed
qed

lemma map_TrimQuotes_last:
  "fs \<noteq> [] \<Longrightarrow> map TrimQuotes (butlast fs) @ [TrimQuotes (last fs)] = map TrimQuotes fs"
  by (induction fs) auto

lemma parseString_reference:
  "parseString s =
    (if open_at_end False (sanitize s) then Inl (Errorf (''mismatched '' @ [quote]))
     else Inr (drop_sole_empty (map TrimQuotes (quoted_fields False (sanitize s)))))"
proof -
  define fs where "fs = quoted_fields False (sanitize s)"
  obtain f gs where fs: "fs = f # gs"
    by (metis fs_def neq_Nil_conv quoted_fields_nonempty)
  have "foldE parse_rune (runes s) (False, strvBuilderZero)
      = Inr (open_at_end False (sanitize s), finish strvBuilderZero fs)"
    using parse_loop [of strvBuilderZero "runes s" False]
    by (simp add: strvBuilderZero_def sanitize_def fs_def)
  moreover have "strvBuilder_End (finish strvBuilderZero fs)
      = Inr (drop_sole_empty (map TrimQuotes fs))"
    using map_TrimQuotes_last [of fs] fs
    by (auto simp: strvBuilder_End_def finish_def strvBuilderZero_def strvBuilder_String_def
        drop_sole_empty_def)
  ultimately show ?thesis
    by (simp add: parseString_def fs_def)
qed

subsection \<open>Consequences\<close>

lemma quoted_fields_no_quotes:
  "quote \<notin> set s \<Longrightarrow> quoted_fields False s = split_on (CHR '','') s"
  by (induction s) (auto split: list.splits)

lemma open_at_end_no_quotes: "quote \<notin> set s \<Longrightarrow> open_at_end q s = q"
  by (simp add: open_at_end_def count_notin)

lemma parseString_no_quotes:
  assumes "valid_utf8 s" "quote \<notin> set s"
  shows "parseString s = Inr (drop_sole_empty (split_on (CHR '','') s))"
proof -
  have "map TrimQuotes (split_on (CHR '','') s) = split_on (CHR '','') s"
    using split_on_sep_free2 [of _ "CHR '',''" s quote] assms(2)
    by (auto intro!: map_idI TrimQuotes_no_quotes)
  then show ?thesis
    using assms by (simp add: parseString_reference sanitize_valid quoted_fields_no_quotes
        open_at_end_no_quotes)
qed

text \<open>The argument that keeps a list as it is: each item in quotes.\<close>

definition quote_all :: "string list \<Rightarrow> string" where
  "quote_all xs = join_with (CHR '','') (map (\<lambda>x. quote # x @ [quote]) xs)"

lemma inside_quotes:
  "quote \<notin> set x \<Longrightarrow>
    quoted_fields True (x @ quote # t)
      = (x @ quote # hd (quoted_fields False t)) # tl (quoted_fields False t)"
  "quote \<notin> set x \<Longrightarrow> open_at_end True (x @ quote # t) = open_at_end False t"
proof -
  show "quote \<notin> set x \<Longrightarrow> quoted_fields True (x @ quote # t)
      = (x @ quote # hd (quoted_fields False t)) # tl (quoted_fields False t)"
    by (induction x) (auto simp: quoted_fields_Cons simp del: quoted_fields.simps(2))
  show "quote \<notin> set x \<Longrightarrow> open_at_end True (x @ quote # t) = open_at_end False t"
    by (induction x) auto
qed

lemma quote_all_fields:
  assumes "xs \<noteq> []" "\<forall>x \<in> set xs. quote \<notin> set x"
  shows "quoted_fields False (quote_all xs) = map (\<lambda>x. quote # x @ [quote]) xs
    \<and> \<not> open_at_end False (quote_all xs)"
  using assms
proof (induction xs)
  case Nil
  then show ?case by simp
next
  case (Cons x xs)
  show ?case
  proof (cases "xs = []")
    case True
    with Cons.prems show ?thesis
      using inside_quotes [of x "[]"]
      by (simp add: quote_all_def quoted_fields_Cons del: quoted_fields.simps(2))
  next
    case False
    then have "quote_all (x # xs) = quote # x @ quote # CHR '','' # quote_all xs"
      by (simp add: quote_all_def join_with_Cons)
    then show ?thesis
      using Cons False inside_quotes [of x "CHR '','' # quote_all xs"]
      by (simp add: quoted_fields_Cons del: quoted_fields.simps(2))
  qed
qed

lemma quote_all_valid:
  "(\<forall>x \<in> set xs. valid_utf8 x) \<Longrightarrow> valid_utf8 (quote_all xs)"
proof (induction xs)
  case Nil
  then show ?case by (simp add: quote_all_def)
next
  case (Cons x xs)
  then have x: "valid_utf8 (x @ [quote])" by (intro valid_utf8_append) simp_all
  show ?case
  proof (cases "xs = []")
    case True
    with x show ?thesis by (simp add: quote_all_def)
  next
    case False
    then have "quote_all (x # xs) = quote # (x @ [quote]) @ CHR '','' # quote_all xs"
      by (simp add: quote_all_def join_with_Cons)
    with x Cons show ?thesis
      by (simp add: valid_utf8_append [of "x @ [quote]", simplified])
  qed
qed

lemma parseString_quote_all:
  assumes "\<forall>x \<in> set xs. quote \<notin> set x \<and> valid_utf8 x" "xs \<noteq> []" "xs \<noteq> [[]]"
  shows "parseString (quote_all xs) = Inr xs"
proof -
  have "map TrimQuotes (map (\<lambda>x. quote # x @ [quote]) xs) = xs"
    using assms(1) by (auto intro!: map_idI TrimQuotes_quoted)
  then show ?thesis
    using quote_all_fields [of xs] quote_all_valid [of xs] assms
    by (simp add: parseString_reference sanitize_valid drop_sole_empty_def)
qed

text \<open>The first \<open>Set\<close> replaces the default, the later ones append.\<close>

lemma stringSlice_Sets_changed:
  assumes "changed s" "traverseE parseString vals = Inr vs"
  shows "foldE stringSlice_Set vals s
    = Inr (s\<lparr>slice_value := slice_value s @ concat vs\<rparr>)"
  using assms
proof (induction vals arbitrary: s vs)
  case Nil
  then show ?case by simp
next
  case (Cons v vals)
  from Cons.prems(2) obtain w ws where w: "parseString v = Inr w"
    "traverseE parseString vals = Inr ws" "vs = w # ws"
    by (auto simp: bindE_eq_Inr mapE_eq_Inr)
  then show ?case
    using Cons.IH [of "s\<lparr>slice_value := slice_value s @ w\<rparr>" ws] Cons.prems(1)
    by (cases s) (simp add: stringSlice_Set_def)
qed

lemma stringSlice_Sets:
  assumes "traverseE parseString vals = Inr vs" "vals \<noteq> []" "\<not> changed s"
  shows "foldE stringSlice_Set vals s = Inr (s\<lparr>slice_value := concat vs, changed := True\<rparr>)"
proof -
  from assms obtain v vals' w ws where w: "vals = v # vals'" "parseString v = Inr w"
    "traverseE parseString vals' = Inr ws" "vs = w # ws"
    by (cases vals) (auto simp: bindE_eq_Inr mapE_eq_Inr)
  then show ?thesis
    using stringSlice_Sets_changed [of "s\<lparr>slice_value := w, changed := True\<rparr>" vals' ws] assms(3)
    by (simp add: stringSlice_Set_def)
qed

subsection \<open>Properties\<close>

text \<open>
  C10. \<open>parseString\<close>, on any bytes, fails exactly when the string has an odd number of double
  quotes, and otherwise returns the fields between the commas outside quotes, each
  without the quotes around it; a string whose only field is empty gives no field.
\<close>

theorem parseString_spec:
  "parseString s =
    (if odd (count_list s quote) then Inl (Errorf (''mismatched '' @ [quote]))
     else Inr (drop_sole_empty (map TrimQuotes (quoted_fields False (sanitize s)))))"
  using sanitize_count [of quote s] by (simp add: parseString_reference open_at_end_def)

text \<open>
  C15. Any list of valid UTF-8 strings without quotes, commas included, can be passed through
  the flag: with every item in double quotes it is read back as it was. The one list that
  cannot is the list with a single empty string.
\<close>

theorem parseString_quoting:
  assumes "\<forall>x \<in> set xs. quote \<notin> set x \<and> valid_utf8 x" "xs \<noteq> []" "xs \<noteq> [[]]"
  shows "parseString (quote_all xs) = Inr xs"
  using assms by (rule parseString_quote_all)

theorem parseString_quoting_witness:
  "parseString (quote_all [''a,b'', [], [CHR 0xC3, CHR 0xA9]]) = Inr [''a,b'', [], [CHR 0xC3, CHR 0xA9]]"
  by (rule parseString_quoting)
    (simp_all add: valid_utf8.simps(2) second_ok_def second_lo_def second_hi_def RuneError_def)

text \<open>
  A bootloader flag given several times collects the fields of all its values in order;
  the first value replaces a default, and a value that does not parse makes \<open>Set\<close> fail.
\<close>

theorem stringSlice_Set_sequence:
  assumes "\<not> changed s" "vals \<noteq> []"
  shows "case traverseE parseString vals of
      Inr vs \<Rightarrow> foldE stringSlice_Set vals s = Inr (s\<lparr>slice_value := concat vs, changed := True\<rparr>)
    | Inl e \<Rightarrow> foldE stringSlice_Set vals s = Inl e"
proof (cases "traverseE parseString vals")
  case (Inr vs)
  with stringSlice_Sets [OF Inr assms(2,1)] show ?thesis by simp
next
  case (Inl e)
  then have "foldE stringSlice_Set vals t = Inl e" for t
  proof (induction vals arbitrary: t)
    case (Cons v vals)
    then show ?case
      by (cases "parseString v") (auto simp: stringSlice_Set_def mapE_eq_Inl)
  qed simp
  with Inl show ?thesis by simp
qed

theorem stringSlice_Set_sequence_witness:
  "case traverseE parseString [''a''] of
      Inr vs \<Rightarrow> foldE stringSlice_Set [''a''] stringSliceZero
        = Inr (stringSliceZero\<lparr>slice_value := concat vs, changed := True\<rparr>)
    | Inl e \<Rightarrow> foldE stringSlice_Set [''a''] stringSliceZero = Inl e"
  by (rule stringSlice_Set_sequence) (simp_all add: stringSliceZero_def)

lemma quoted_option_fields:
  assumes "quote \<notin> set c" "CHR '','' \<notin> set k" "quote \<notin> set k"
  shows "quoted_fields False (k @ quote # c @ quote # CHR '','' # t)
      = (k @ quote # c @ [quote]) # quoted_fields False t"
    and "open_at_end False (k @ quote # c @ quote # CHR '','' # t) = open_at_end False t"
proof -
  have k: "plain k" using assms(2,3) by (simp add: plain_def)
  show "quoted_fields False (k @ quote # c @ quote # CHR '','' # t)
      = (k @ quote # c @ [quote]) # quoted_fields False t"
    using inside_quotes(1) [OF assms(1), of "CHR '','' # t"]
    by (simp add: plain_append [OF k] quoted_fields_Cons del: quoted_fields.simps(2))
  show "open_at_end False (k @ quote # c @ quote # CHR '','' # t) = open_at_end False t"
    using inside_quotes(2) [OF assms(1), of "CHR '','' # t"] by (simp add: plain_append [OF k])
qed

lemma plain_field:
  assumes "plain k"
  shows "quoted_fields False (k @ CHR '','' # t) = k # quoted_fields False t"
    and "open_at_end False (k @ CHR '','' # t) = open_at_end False t"
    and "quoted_fields False k = [k]" and "\<not> open_at_end False k"
  using plain_append [OF assms, of False "CHR '','' # t"] plain_append [OF assms, of False "[]"]
  by (simp_all add: quoted_fields_Cons)

text \<open>
  C16. The option \<open>cmdline\<close> of a Linux bootloader may contain commas and spaces when it is
  quoted: the command line argument with the three options gives the bootloader with
  exactly that kernel, command line and initrd.
\<close>

theorem linux_bootloader_quoted:
  assumes "plain k" "plain i" "quote \<notin> set c"
    and "valid_utf8 k" "valid_utf8 i" "valid_utf8 c"
  shows "bindE (parseString (''linux,kernel='' @ k @ '',cmdline='' @ quote # c @ quote # '',initrd='' @ i))
      BootloaderFromCmdLine
    = Inr (BootLinux (NewLinuxBootloader k c i))"
proof -
  let ?fs = "[''linux'', ''kernel='' @ k, ''cmdline='' @ quote # c @ [quote], ''initrd='' @ i]"
  define s where "s = ''linux'' @ CHR '','' # (''kernel='' @ k) @ CHR '','' #
    (''cmdline='' @ quote # c @ quote # CHR '','' # (''initrd='' @ i))"
  have p: "plain ''linux''" "plain (''kernel='' @ k)" "plain (''initrd='' @ i)"
    using assms by (auto simp: plain_def)
  have "quote \<notin> set ''cmdline=''" "CHR '','' \<notin> set ''cmdline=''" by simp_all
  note q = quoted_option_fields [OF assms(3) this(2,1), of "''initrd='' @ i"]
  have "quoted_fields False s = ?fs" "\<not> open_at_end False s"
    unfolding s_def plain_field(1,2) [OF p(1)] plain_field(1,2) [OF p(2)] q plain_field(3) [OF p(3)]
    using plain_field(4) [OF p(3)] by simp_all
  moreover have "valid_utf8 s"
    unfolding s_def using assms(4-6)
    by (intro valid_utf8_append) (auto intro!: valid_utf8_append)
  moreover have "map TrimQuotes ?fs = ?fs"
    by (simp add: TrimQuotes_def has_prefix_def)
  ultimately have "parseString s = Inr ?fs"
    by (simp add: parseString_reference sanitize_valid drop_sole_empty_def)
  moreover have "BootloaderFromCmdLine ?fs = Inr (BootLinux (NewLinuxBootloader k c i))"
    using TrimQuotes_quoted [OF assms(3)]
    by (simp add: BootloaderFromCmdLine_def bootloader_new_def component_simps go_simps)
  ultimately show ?thesis by (simp add: s_def)
qed

theorem linux_bootloader_quoted_witness:
  "bindE (parseString (''linux,kernel='' @ ''vmlinuz'' @ '',cmdline='' @ quote # ''console=hvc0,115200 ro''
      @ quote # '',initrd='' @ ''initrd'')) BootloaderFromCmdLine
    = Inr (BootLinux (NewLinuxBootloader ''vmlinuz'' ''console=hvc0,115200 ro'' ''initrd''))"
  by (rule linux_bootloader_quoted) (simp_all add: plain_def)

text \<open>
  An EFI bootloader whose store path has no comma and no quote survives the command
  line: what \<open>ToCmdLine\<close> writes is parsed by the flag and read back as the same bootloader.
\<close>

theorem efi_bootloader_roundtrip:
  assumes "efi_printable b" "quote \<notin> set (EFIVariableStorePath b)"
    and "valid_utf8 (EFIVariableStorePath b)"
  shows "\<exists>arg. EFIBootloader_ToCmdLine b = Inr [''--bootloader'', arg]
    \<and> bindE (parseString arg) BootloaderFromCmdLine = Inr (BootEFI b)"
proof -
  obtain arg where arg: "EFIBootloader_ToCmdLine b = Inr [''--bootloader'', arg]"
    "split_on (CHR '','') arg = ''efi'' # efi_opts b"
    "EFIBootloader_FromOptions (strvToOptions (efi_opts b)) efiBootloaderZero = Inr b"
    by (rule efi.print_read [OF assms(1)])
  have "arg = ''efi,variable-store='' @ EFIVariableStorePath b
      @ (if CreateVariableStore b then '',create'' else [])"
    using arg(1) assms(1) by (auto simp: EFIBootloader_ToCmdLine_def efi_printable_def)
  then have "valid_utf8 arg" "quote \<notin> set arg"
    using assms(2,3) by (auto intro: valid_utf8_append)
  then have "parseString arg = Inr (''efi'' # efi_opts b)"
    using arg(2) by (simp add: parseString_no_quotes drop_sole_empty_def)
  then show ?thesis
    using arg(1,3) by (auto simp: BootloaderFromCmdLine_def bootloader_new_def)
qed

theorem efi_bootloader_roundtrip_witness:
  "\<exists>arg. EFIBootloader_ToCmdLine \<lparr>EFIVariableStorePath = ''/efi vars'', CreateVariableStore = True\<rparr>
      = Inr [''--bootloader'', arg]
    \<and> bindE (parseString arg) BootloaderFromCmdLine
      = Inr (BootEFI \<lparr>EFIVariableStorePath = ''/efi vars'', CreateVariableStore = True\<rparr>)"
  by (rule efi_bootloader_roundtrip) (simp_all add: efi_printable_def)

end
