(* ===== verification/Cmdline.thy ===== *)
theory Cmdline
  imports StringSlice GoStrconv
begin

section \<open>The flags of the vfkit command\<close>

text \<open>
  \<open>pkg/cmdline/cmdline.go\<close> and \<open>version.go\<close>: the options record and the flags that
  \<open>AddFlags\<close> binds to it. \<open>github.com/spf13/pflag\<close> and \<open>cobra\<close> are outside the repository:
  splitting the arguments into flags and their values, the readers of unsigned and boolean
  values and the check of the flag groups are the fields of a record. \<open>cobra_ok\<close> states what
  is documented of them: the syntax of a long flag, \<open>--flag value\<close>, or \<open>--flag\<close> alone for a
  boolean one, which means \<open>true\<close>; decimal numbers; and flag groups that are accepted.
\<close>

subsection \<open>Options\<close>

record Options =
  OptVcpus :: u64
  OptMemoryMiB :: u64
  OptVmlinuzPath :: string
  OptKernelCmdline :: string
  OptInitrdPath :: string
  OptBootloader :: stringSliceValue
  OptTimeSync :: string
  OptDevices :: "string list"
  OptRestfulURI :: string
  OptLogLevel :: string
  OptUseGUI :: bool
  OptIgnitionPath :: string
  OptCloudInitFiles :: stringSliceValue
  OptNested :: bool
  OptPidFile :: string

definition DefaultRestfulURI :: string where
  "DefaultRestfulURI = ''none://''"

text \<open>The flags in the order they are added, the name each has, and which are boolean.\<close>

datatype flag =
    FlagKernel | FlagKernelCmdline | FlagInitrd | FlagBootloader | FlagGui | FlagCpus
  | FlagMemory | FlagTimesync | FlagDevice | FlagLogLevel | FlagRestfulURI | FlagIgnition
  | FlagCloudInit | FlagNested | FlagPidfile

fun flag_name :: "flag \<Rightarrow> string" where
  "flag_name FlagKernel = ''kernel''"
| "flag_name FlagKernelCmdline = ''kernel-cmdline''"
| "flag_name FlagInitrd = ''initrd''"
| "flag_name FlagBootloader = ''bootloader''"
| "flag_name FlagGui = ''gui''"
| "flag_name FlagCpus = ''cpus''"
| "flag_name FlagMemory = ''memory''"
| "flag_name FlagTimesync = ''timesync''"
| "flag_name FlagDevice = ''device''"
| "flag_name FlagLogLevel = ''log-level''"
| "flag_name FlagRestfulURI = ''restful-uri''"
| "flag_name FlagIgnition = ''ignition''"
| "flag_name FlagCloudInit = ''cloud-init''"
| "flag_name FlagNested = ''nested''"
| "flag_name FlagPidfile = ''pidfile''"

fun bool_flag :: "flag \<Rightarrow> bool" where
  "bool_flag FlagGui = True"
| "bool_flag FlagNested = True"
| "bool_flag f = False"

text \<open>The defaults that the \<open>...VarP\<close> calls assign.\<close>

definition default_options :: Options where
  "default_options =
    \<lparr>OptVcpus = 1, OptMemoryMiB = 512, OptVmlinuzPath = [], OptKernelCmdline = [],
     OptInitrdPath = [], OptBootloader = stringSliceZero, OptTimeSync = [], OptDevices = [],
     OptRestfulURI = DefaultRestfulURI, OptLogLevel = [], OptUseGUI = False,
     OptIgnitionPath = [], OptCloudInitFiles = stringSliceZero, OptNested = False,
     OptPidFile = []\<rparr>"

text \<open>The libraries, as the code uses them.\<close>

record cobra =
  ParseFlags :: "string list \<Rightarrow> error + (flag \<times> string) list"
  UintSet :: "string \<Rightarrow> error + u64"
  BoolSet :: "string \<Rightarrow> error + bool"
  ValidateGroups :: "flag list list \<Rightarrow> flag list list \<Rightarrow> flag list \<Rightarrow> error option"

text \<open>What each flag does to the field it is bound to.\<close>

fun set_flag :: "cobra \<Rightarrow> flag \<times> string \<Rightarrow> Options \<Rightarrow> error + Options" where
  "set_flag lib (FlagKernel, v) opts = Inr (opts\<lparr>OptVmlinuzPath := v\<rparr>)"
| "set_flag lib (FlagKernelCmdline, v) opts = Inr (opts\<lparr>OptKernelCmdline := v\<rparr>)"
| "set_flag lib (FlagInitrd, v) opts = Inr (opts\<lparr>OptInitrdPath := v\<rparr>)"
| "set_flag lib (FlagBootloader, v) opts =
     mapE (\<lambda>b. opts\<lparr>OptBootloader := b\<rparr>) (stringSlice_Set v (OptBootloader opts))"
| "set_flag lib (FlagGui, v) opts = mapE (\<lambda>b. opts\<lparr>OptUseGUI := b\<rparr>) (BoolSet lib v)"
| "set_flag lib (FlagCpus, v) opts = mapE (\<lambda>n. opts\<lparr>OptVcpus := n\<rparr>) (UintSet lib v)"
| "set_flag lib (FlagMemory, v) opts = mapE (\<lambda>n. opts\<lparr>OptMemoryMiB := n\<rparr>) (UintSet lib v)"
| "set_flag lib (FlagTimesync, v) opts = Inr (opts\<lparr>OptTimeSync := v\<rparr>)"
| "set_flag lib (FlagDevice, v) opts = Inr (opts\<lparr>OptDevices := OptDevices opts @ [v]\<rparr>)"
| "set_flag lib (FlagLogLevel, v) opts = Inr (opts\<lparr>OptLogLevel := v\<rparr>)"
| "set_flag lib (FlagRestfulURI, v) opts = Inr (opts\<lparr>OptRestfulURI := v\<rparr>)"
| "set_flag lib (FlagIgnition, v) opts = Inr (opts\<lparr>OptIgnitionPath := v\<rparr>)"
| "set_flag lib (FlagCloudInit, v) opts =
     mapE (\<lambda>b. opts\<lparr>OptCloudInitFiles := b\<rparr>) (stringSlice_Set v (OptCloudInitFiles opts))"
| "set_flag lib (FlagNested, v) opts = mapE (\<lambda>b. opts\<lparr>OptNested := b\<rparr>) (BoolSet lib v)"
| "set_flag lib (FlagPidfile, v) opts = Inr (opts\<lparr>OptPidFile := v\<rparr>)"

text \<open>The flag groups that are marked, and the options that the arguments give.\<close>

definition exclusive_flags :: "flag list list" where
  "exclusive_flags = [[FlagKernel, FlagBootloader], [FlagInitrd, FlagBootloader],
    [FlagKernelCmdline, FlagBootloader]]"

definition required_together :: "flag list list" where
  "required_together = [[FlagKernel, FlagInitrd, FlagKernelCmdline]]"

definition parse_args :: "cobra \<Rightarrow> string list \<Rightarrow> error + Options" where
  "parse_args lib args =
    bindE (ParseFlags lib args) (\<lambda>occurrences.
    bindE (foldE (set_flag lib) occurrences default_options) (\<lambda>opts.
      case ValidateGroups lib exclusive_flags required_together (map fst occurrences) of
        Some e \<Rightarrow> Inl e
      | None \<Rightarrow> Inr opts))"

subsection \<open>What the libraries document\<close>

fun render_flag :: "flag \<times> string \<Rightarrow> string list" where
  "render_flag (f, v) = (if bool_flag f then [''--'' @ flag_name f] else [''--'' @ flag_name f, v])"

fun flag_value_ok :: "flag \<times> string \<Rightarrow> bool" where
  "flag_value_ok (f, v) = (bool_flag f \<longrightarrow> v = ''true'')"

text \<open>At most one flag of each exclusive group, and all or none of those required together.\<close>

definition groups_kept :: "flag list list \<Rightarrow> flag list list \<Rightarrow> flag list \<Rightarrow> bool" where
  "groups_kept exclusive required given \<longleftrightarrow>
    list_all (\<lambda>g. length (filter (\<lambda>f. f \<in> set given) g) \<le> 1) exclusive
    \<and> list_all (\<lambda>g. length (filter (\<lambda>f. f \<in> set given) g) \<in> {0, length g}) required"

definition cobra_ok :: "cobra \<Rightarrow> bool" where
  "cobra_ok lib \<longleftrightarrow>
    (\<forall>occ. list_all flag_value_ok occ \<longrightarrow> ParseFlags lib (concat (map render_flag occ)) = Inr occ)
    \<and> (\<forall>n. UintSet lib (dec (unat n)) = Inr n)
    \<and> BoolSet lib ''true'' = Inr True
    \<and> (\<forall>exclusive required given. groups_kept exclusive required given
        \<longrightarrow> ValidateGroups lib exclusive required given = None)"

lemma cobra_okD:
  assumes "cobra_ok lib"
  shows "list_all flag_value_ok occ \<Longrightarrow> ParseFlags lib (concat (map render_flag occ)) = Inr occ"
    and "UintSet lib (dec (unat n)) = Inr n" "BoolSet lib ''true'' = Inr True"
    and "groups_kept exclusive required given \<Longrightarrow> ValidateGroups lib exclusive required given = None"
  using assms unfolding cobra_ok_def by blast+

text \<open>Libraries with these properties, for the concrete instances.\<close>

instantiation flag :: enum
begin

definition enum_flag :: "flag list" where
  "enum_flag = [FlagKernel, FlagKernelCmdline, FlagInitrd, FlagBootloader, FlagGui, FlagCpus,
    FlagMemory, FlagTimesync, FlagDevice, FlagLogLevel, FlagRestfulURI, FlagIgnition,
    FlagCloudInit, FlagNested, FlagPidfile]"

definition enum_all_flag :: "(flag \<Rightarrow> bool) \<Rightarrow> bool" where
  "enum_all_flag P \<longleftrightarrow> list_all P Enum.enum"

definition enum_ex_flag :: "(flag \<Rightarrow> bool) \<Rightarrow> bool" where
  "enum_ex_flag P \<longleftrightarrow> list_ex P Enum.enum"

instance
proof
  have f: "x \<in> set (Enum.enum :: flag list)" for x by (cases x) (simp_all add: enum_flag_def)
  then show u: "UNIV = set (Enum.enum :: flag list)" by auto
  show "distinct (Enum.enum :: flag list)" by (simp add: enum_flag_def)
  show "Enum.enum_all P \<longleftrightarrow> Ball UNIV P" "Enum.enum_ex P \<longleftrightarrow> Bex UNIV P" for P :: "flag \<Rightarrow> bool"
    using f by (auto simp: enum_all_flag_def enum_ex_flag_def list_all_iff list_ex_iff)
qed

end

definition flag_of :: "string \<Rightarrow> flag option" where
  "flag_of s = List.find (\<lambda>f. ''--'' @ flag_name f = s) Enum.enum"

fun long_flags :: "string list \<Rightarrow> error + (flag \<times> string) list" where
  "long_flags [] = Inr []"
| "long_flags (a # args) =
     (case flag_of a of
        None \<Rightarrow> Inl (Sys ''unknown flag'')
      | Some f \<Rightarrow>
          if bool_flag f then mapE ((#) (f, ''true'')) (long_flags args)
          else (case args of
            [] \<Rightarrow> Inl (Sys ''flag needs an argument'')
          | v # args' \<Rightarrow> mapE ((#) (f, v)) (long_flags args')))"

text \<open>No two flags have the same name.\<close>

lemma flag_name_inj: "flag_name f = flag_name g \<Longrightarrow> f = g"
proof -
  have "distinct (map flag_name Enum.enum)" by (simp add: enum_flag_def)
  then have "inj_on flag_name (set Enum.enum)" by (simp add: distinct_map)
  then show "flag_name f = flag_name g \<Longrightarrow> f = g"
    using UNIV_enum by (metis UNIV_I inj_onD)
qed

lemma flag_of_name: "flag_of (''--'' @ flag_name f) = Some f"
  by (cases f) (simp_all add: flag_of_def enum_flag_def)

lemma long_flags_ok:
  "list_all flag_value_ok occ \<Longrightarrow> long_flags (concat (map render_flag occ)) = Inr occ"
proof (induction occ)
  case (Cons o' occ)
  obtain f v where o': "o' = (f, v)" by (cases o')
  have s: "flag_of (CHR ''-'' # CHR ''-'' # flag_name f) = Some f" using flag_of_name [of f] by simp
  from Cons o' show ?case by (simp add: s)
qed simp

definition witness_cobra :: cobra where
  "witness_cobra = \<lparr>ParseFlags = long_flags, UintSet = \<lambda>s. mapE of_nat (ParseUint s 64),
    BoolSet = \<lambda>s. if s = ''true'' then Inr True else if s = ''false'' then Inr False
      else Inl (Sys ''invalid syntax''),
    ValidateGroups = \<lambda>exclusive required given.
      if groups_kept exclusive required given then None else Some (Sys ''flag groups'')\<rparr>"

lemma witness_cobra_ok: "cobra_ok witness_cobra"
proof -
  have "unat n < 2 ^ 64" for n :: u64 using unsigned_less [of n, where ?'a = nat] by simp
  then show ?thesis
    using long_flags_ok by (simp add: cobra_ok_def witness_cobra_def ParseUint_dec)
qed

subsection \<open>The version\<close>

text \<open>
  The two linker variables and what \<open>debug.ReadBuildInfo\<close> reports as the main module's
  version are arguments.
\<close>

definition moduleVersionFromBuildInfo :: "string option \<Rightarrow> string" where
  "moduleVersionFromBuildInfo info =
    (case info of
       None \<Rightarrow> []
     | Some v \<Rightarrow> if v = ''(devel)'' then [] else v)"

definition Version :: "string \<Rightarrow> string \<Rightarrow> string option \<Rightarrow> string" where
  "Version gitArchiveVersion gitVersion info =
    (if \<not> has_prefix gitArchiveVersion ''$Format:'' then gitArchiveVersion
     else if gitVersion \<noteq> [] then gitVersion
     else moduleVersionFromBuildInfo info)"

end
