(* ===== verification/StorageDevices.thy ===== *)
theory StorageDevices
  imports Options
begin

section \<open>Storage devices\<close>

text \<open>
  The disks of \<open>pkg/config/virtio.go\<close>: \<open>StorageConfig\<close> and the two configurations that
  embed it, \<open>DiskStorageConfig\<close> (image file or block device) and
  \<open>NetworkBlockStorageConfig\<close>, and the four devices on top of them. Struct embedding is
  record extension, so a method of the embedded struct is a function on the extensible
  record and applies to the devices as it is. Opening a disk image is the one
  effect: \<open>file_env\<close> (in the prelude) says what \<open>os.Open\<close> and the first \<open>Read\<close> of a path give.
\<close>

subsection \<open>StorageConfig and DiskStorageConfig\<close>

record StorageConfig =
  DevName :: string
  ReadOnly :: bool

definition DiskBackendImage :: string where
  "DiskBackendImage = ''image''"

definition DiskBackendBlockDevice :: string where
  "DiskBackendBlockDevice = ''dev''"

definition DiskBackendDefault :: string where
  "DiskBackendDefault = []"

definition DiskBackendType_IsValid :: "string \<Rightarrow> bool" where
  "DiskBackendType_IsValid typ \<longleftrightarrow>
    typ = DiskBackendImage \<or> typ = DiskBackendBlockDevice \<or> typ = DiskBackendDefault"

lemmas disk_backend_defs [component_simps] =
  DiskBackendImage_def DiskBackendBlockDevice_def DiskBackendDefault_def
  DiskBackendType_IsValid_def

record DiskStorageConfig = StorageConfig +
  ImagePath :: string
  DiskType :: string

definition DiskStorageConfig_ToCmdLine ::
    "'a DiskStorageConfig_scheme \<Rightarrow> error + string list" where
  "DiskStorageConfig_ToCmdLine config =
    (if ImagePath config = [] then
       Inl (Errorf (DevName config @ '' devices need the path to a disk image''))
     else
       let value = DevName config @ '',path='' @ ImagePath config;
           value = (if DiskType config \<noteq> DiskBackendDefault
                    then value @ '',type='' @ DiskType config else value);
           value = (if ReadOnly config then value @ '',readonly'' else value)
       in Inr [''--device'', value])"

definition DiskStorageConfig_option ::
    "devopt \<Rightarrow> 'a DiskStorageConfig_scheme \<Rightarrow> error + 'a DiskStorageConfig_scheme" where
  "DiskStorageConfig_option opt config =
    (if okey opt = ''path'' then Inr (config\<lparr>ImagePath := oval opt\<rparr>)
     else if okey opt = ''type'' then
       (if \<not> DiskBackendType_IsValid (oval opt) then
          Inl (Errorf (''unexpected value for disk 'type' option: '' @ oval opt))
        else Inr (config\<lparr>DiskType := oval opt\<rparr>))
     else if okey opt = ''readonly'' then
       (if oval opt \<noteq> [] then
          Inl (Errorf (''unexpected value for virtio-blk 'readonly' option: '' @ oval opt))
        else Inr (config\<lparr>ReadOnly := True\<rparr>))
     else Inl (Errorf (''unknown option for '' @ DevName config @ '' devices: '' @ okey opt)))"

definition DiskStorageConfig_FromOptions ::
    "devopt list \<Rightarrow> 'a DiskStorageConfig_scheme \<Rightarrow> error + 'a DiskStorageConfig_scheme" where
  "DiskStorageConfig_FromOptions options config = foldE DiskStorageConfig_option options config"

lemmas disk_defs [component_simps] =
  DiskStorageConfig_ToCmdLine_def DiskStorageConfig_option_def
  DiskStorageConfig_FromOptions_def

subsection \<open>NVMe controllers and USB mass storage\<close>

type_synonym NVMExpressController = DiskStorageConfig
type_synonym USBMassStorage = DiskStorageConfig

definition diskStorageNew :: "string \<Rightarrow> DiskStorageConfig" where
  "diskStorageNew name = \<lparr>DevName = name, ReadOnly = False, ImagePath = [], DiskType = []\<rparr>"

definition nvmExpressControllerNewEmpty :: NVMExpressController where
  "nvmExpressControllerNewEmpty = diskStorageNew ''nvme''"

definition NVMExpressControllerNew :: "string \<Rightarrow> error + NVMExpressController" where
  "NVMExpressControllerNew imagePath =
    Inr (nvmExpressControllerNewEmpty\<lparr>ImagePath := imagePath\<rparr>)"

definition usbMassStorageNewEmpty :: USBMassStorage where
  "usbMassStorageNewEmpty = diskStorageNew ''usb-mass-storage''"

definition USBMassStorageNew :: "string \<Rightarrow> error + USBMassStorage" where
  "USBMassStorageNew imagePath = Inr (usbMassStorageNewEmpty\<lparr>ImagePath := imagePath\<rparr>)"

definition USBMassStorage_SetReadOnly :: "bool \<Rightarrow> USBMassStorage \<Rightarrow> USBMassStorage" where
  "USBMassStorage_SetReadOnly readOnly dev = dev\<lparr>ReadOnly := readOnly\<rparr>"

lemmas disk_new_defs [component_simps] =
  diskStorageNew_def nvmExpressControllerNewEmpty_def usbMassStorageNewEmpty_def

text \<open>What the command line can carry of a disk, and the options it is written as.\<close>

definition disk_opts :: "'a DiskStorageConfig_scheme \<Rightarrow> string list" where
  "disk_opts config =
    [''path='' @ ImagePath config]
    @ (if DiskType config \<noteq> [] then [''type='' @ DiskType config] else [])
    @ (if ReadOnly config then [''readonly''] else [])"

definition disk_printable :: "string \<Rightarrow> 'a DiskStorageConfig_scheme \<Rightarrow> bool" where
  "disk_printable name config \<longleftrightarrow>
    DevName config = name \<and> ImagePath config \<noteq> [] \<and> comma_free (ImagePath config)
    \<and> DiskBackendType_IsValid (DiskType config)"

declare disk_opts_def [wf_simps] disk_printable_def [wf_simps]

lemma disk_emits:
  "disk_printable name d \<Longrightarrow>
    DiskStorageConfig_ToCmdLine d
      = Inr [''--device'', join_with (CHR '','') (name # disk_opts d)]"
  by (auto simp: component_simps wf_simps Let_def)

lemma disk_opts_comma_free:
  "disk_printable name d \<Longrightarrow> x \<in> set (disk_opts d) \<Longrightarrow> comma_free x"
  by (auto simp: component_simps wf_simps split: if_splits)

lemma disk_reads:
  assumes "disk_printable name d" "DevName c = name" "\<not> ReadOnly c" "DiskType c = []"
  shows "DiskStorageConfig_FromOptions (strvToOptions (disk_opts d)) c
    = Inr (c\<lparr>ImagePath := ImagePath d, DiskType := DiskType d, ReadOnly := ReadOnly d\<rparr>)"
  using assms by (auto simp: component_simps wf_simps go_simps)

text \<open>What reading options keeps: the device name, and commas stay out of the path.\<close>

definition disk_parsed :: "string \<Rightarrow> 'a DiskStorageConfig_scheme \<Rightarrow> bool" where
  "disk_parsed name d \<longleftrightarrow>
    DevName d = name \<and> comma_free (ImagePath d) \<and> DiskBackendType_IsValid (DiskType d)"

lemma disk_option_parsed:
  "opt_comma_free opt \<Longrightarrow> disk_parsed name c \<Longrightarrow>
    DiskStorageConfig_option opt c = Inr d \<Longrightarrow> disk_parsed name d"
  by (auto simp: disk_parsed_def DiskStorageConfig_option_def opt_comma_free_def split: if_splits)

lemma disk_options_parsed:
  assumes "DiskStorageConfig_FromOptions os c = Inr d" "disk_parsed name c"
    and "\<forall>opt \<in> set os. opt_comma_free opt"
  shows "disk_parsed name d"
  using assms unfolding DiskStorageConfig_FromOptions_def
  by (elim foldE_invariant) (auto intro: disk_option_parsed)

lemma disk_parsed_printable:
  "disk_parsed name d \<Longrightarrow> DiskStorageConfig_ToCmdLine d = Inr args \<Longrightarrow> disk_printable name d"
  by (auto simp: disk_parsed_def disk_printable_def DiskStorageConfig_ToCmdLine_def split: if_splits)

lemma disk_new_parsed [simp]: "disk_parsed name (diskStorageNew name)"
  by (simp add: disk_parsed_def component_simps)

interpretation nvme: parsed_component "''--device''" "''nvme''" nvmExpressControllerNewEmpty
  DiskStorageConfig_FromOptions DiskStorageConfig_ToCmdLine disk_opts "disk_printable ''nvme''"
  "\<lambda>_. True"
proof unfold_locales
  fix d :: NVMExpressController
  assume d: "disk_printable ''nvme'' d"
  show "DiskStorageConfig_FromOptions (strvToOptions (disk_opts d)) nvmExpressControllerNewEmpty = Inr d"
    using disk_reads [OF d, of nvmExpressControllerNewEmpty] d
    by (simp add: disk_new_defs disk_printable_def)
next
  fix os args and d :: NVMExpressController
  assume "\<forall>opt \<in> set os. opt_comma_free opt"
    and "DiskStorageConfig_FromOptions os nvmExpressControllerNewEmpty = Inr d"
    and "DiskStorageConfig_ToCmdLine d = Inr args"
  then show "disk_printable ''nvme'' d"
    using disk_options_parsed disk_parsed_printable nvmExpressControllerNewEmpty_def disk_new_parsed
    by metis
qed (simp_all add: disk_emits disk_opts_comma_free)

interpretation usb: parsed_component "''--device''" "''usb-mass-storage''" usbMassStorageNewEmpty
  DiskStorageConfig_FromOptions DiskStorageConfig_ToCmdLine disk_opts
  "disk_printable ''usb-mass-storage''" "\<lambda>_. True"
proof unfold_locales
  fix d :: USBMassStorage
  assume d: "disk_printable ''usb-mass-storage'' d"
  show "DiskStorageConfig_FromOptions (strvToOptions (disk_opts d)) usbMassStorageNewEmpty = Inr d"
    using disk_reads [OF d, of usbMassStorageNewEmpty] d
    by (simp add: disk_new_defs disk_printable_def)
next
  fix os args and d :: USBMassStorage
  assume "\<forall>opt \<in> set os. opt_comma_free opt"
    and "DiskStorageConfig_FromOptions os usbMassStorageNewEmpty = Inr d"
    and "DiskStorageConfig_ToCmdLine d = Inr args"
  then show "disk_printable ''usb-mass-storage'' d"
    using disk_options_parsed disk_parsed_printable usbMassStorageNewEmpty_def disk_new_parsed
    by metis
qed (simp_all add: disk_emits disk_opts_comma_free)

end
