(* ===== verification/BlockDevices.thy ===== *)
theory BlockDevices
  imports StorageDevices
begin

section \<open>virtio-blk and network block devices\<close>

text \<open>
  The two devices that handle some options themselves and hand the rest to the
  configuration they embed: \<open>VirtioBlk\<close>, which checks the image when it is read from
  options, and \<open>NetworkBlockDevice\<close>, whose timeout is a \<open>time.Duration\<close> in
  nanoseconds on 64 bits.
\<close>

subsection \<open>VirtioBlk\<close>

record VirtioBlk = DiskStorageConfig +
  BlkDeviceIdentifier :: string

definition qcow2Header :: string where
  "qcow2Header = [CHR ''Q'', CHR ''F'', CHR ''I'', CHR 0xFB]"

definition virtioBlkNewEmpty :: VirtioBlk where
  "virtioBlkNewEmpty =
    \<lparr>DevName = ''virtio-blk'', ReadOnly = False, ImagePath = [], DiskType = [],
     BlkDeviceIdentifier = []\<rparr>"

definition VirtioBlkNew :: "string \<Rightarrow> error + VirtioBlk" where
  "VirtioBlkNew imagePath = Inr (virtioBlkNewEmpty\<lparr>ImagePath := imagePath\<rparr>)"

definition VirtioBlk_SetDeviceIdentifier :: "string \<Rightarrow> VirtioBlk \<Rightarrow> VirtioBlk" where
  "VirtioBlk_SetDeviceIdentifier devID dev = dev\<lparr>BlkDeviceIdentifier := devID\<rparr>"

text \<open>
  The four byte buffer is zeroed before \<open>Read\<close> fills as much of it as the file has; an
  empty file makes \<open>Read\<close> fail with \<open>EOF\<close>.
\<close>

definition VirtioBlk_validate :: "file_env \<Rightarrow> VirtioBlk \<Rightarrow> error + unit" where
  "VirtioBlk_validate fs dev =
    (let imgPath = ImagePath dev;
         failed = ''failed to read the header of file '' @ imgPath
     in case fs imgPath of
          OpenFails e \<Rightarrow> Inl (ErrorfV (''failed to open file '' @ imgPath) e)
        | ReadFails e \<Rightarrow> Inl (ErrorfV failed e)
        | Contents c \<Rightarrow>
            if c = [] then Inl (ErrorfV failed (Sys ''EOF''))
            else if take 4 (c @ replicate 4 (CHR 0x00)) = qcow2Header
              then Inl (Errorf ''vfkit does not support qcow2 image format'')
            else Inr ())"

definition VirtioBlk_option ::
    "devopt \<Rightarrow> VirtioBlk \<times> devopt list \<Rightarrow> error + (VirtioBlk \<times> devopt list)" where
  "VirtioBlk_option opt st = (case st of (dev, unhandledOpts) \<Rightarrow>
    if okey opt = ''deviceId'' then Inr (dev\<lparr>BlkDeviceIdentifier := oval opt\<rparr>, unhandledOpts)
    else Inr (dev, unhandledOpts @ [opt]))"

definition VirtioBlk_FromOptions ::
    "file_env \<Rightarrow> devopt list \<Rightarrow> VirtioBlk \<Rightarrow> error + VirtioBlk" where
  "VirtioBlk_FromOptions fs options dev =
    bindE (foldE VirtioBlk_option options (dev, [])) (\<lambda>(dev, unhandledOpts).
    bindE (DiskStorageConfig_FromOptions unhandledOpts dev) (\<lambda>dev.
    bindE (VirtioBlk_validate fs dev) (\<lambda>_. Inr dev)))"

text \<open>
  Both \<open>ToCmdLine\<close> methods check that the embedded configuration gave two arguments and
  then extend the second one.
\<close>

definition VirtioBlk_ToCmdLine :: "VirtioBlk \<Rightarrow> error + string list" where
  "VirtioBlk_ToCmdLine dev =
    bindE (DiskStorageConfig_ToCmdLine dev) (\<lambda>cmdLine.
      if length cmdLine \<noteq> 2 then Inl (Errorf ''unexpected storage config commandline'')
      else if BlkDeviceIdentifier dev \<noteq> [] then
        Inr (cmdLine[1 := (cmdLine ! 1) @ '',deviceId='' @ BlkDeviceIdentifier dev])
      else Inr cmdLine)"

lemmas blk_defs [component_simps] =
  virtioBlkNewEmpty_def VirtioBlk_FromOptions_def VirtioBlk_option_def
  VirtioBlk_ToCmdLine_def

definition blk_opts :: "VirtioBlk \<Rightarrow> string list" where
  "blk_opts d = disk_opts d
    @ (if BlkDeviceIdentifier d \<noteq> [] then [''deviceId='' @ BlkDeviceIdentifier d] else [])"

definition blk_printable :: "file_env \<Rightarrow> VirtioBlk \<Rightarrow> bool" where
  "blk_printable fs d \<longleftrightarrow>
    disk_printable ''virtio-blk'' d \<and> comma_free (BlkDeviceIdentifier d)
    \<and> VirtioBlk_validate fs d = Inr ()"

lemma DiskStorageConfig_ToCmdLine_two:
  "DiskStorageConfig_ToCmdLine c = Inr args \<Longrightarrow> length args = 2"
  by (auto simp: DiskStorageConfig_ToCmdLine_def Let_def split: if_splits)

lemma blk_emits:
  assumes "blk_printable fs d"
  shows "VirtioBlk_ToCmdLine d
    = Inr [''--device'', join_with (CHR '','') (''virtio-blk'' # blk_opts d)]"
proof -
  have e: "DiskStorageConfig_ToCmdLine d
      = Inr [''--device'', join_with (CHR '','') (''virtio-blk'' # disk_opts d)]"
    by (rule disk_emits) (use assms in \<open>simp add: blk_printable_def\<close>)
  have j: "join_with (CHR '','') ((''virtio-blk'' # disk_opts d) @ [x])
      = join_with (CHR '','') (''virtio-blk'' # disk_opts d) @ CHR '','' # x" for x
    by (rule join_with_append_single) simp
  show ?thesis
  proof (cases "BlkDeviceIdentifier d = []")
    case True
    then show ?thesis using e by (simp add: VirtioBlk_ToCmdLine_def blk_opts_def)
  next
    case False
    then show ?thesis
      using e j [of "''deviceId='' @ BlkDeviceIdentifier d"]
      by (simp add: VirtioBlk_ToCmdLine_def blk_opts_def)
  qed
qed

text \<open>The first loop takes the device identifier and leaves everything else in order.\<close>

lemma VirtioBlk_loop_disk:
  "\<forall>opt \<in> set os. okey opt \<noteq> ''deviceId'' \<Longrightarrow>
    foldE VirtioBlk_option os (d, un) = Inr (d, un @ os)"
  by (induction os arbitrary: un) (auto simp: VirtioBlk_option_def)

lemma disk_opts_keys:
  "o' \<in> set (strvToOptions (disk_opts d)) \<Longrightarrow> okey o' \<noteq> ''deviceId''"
  by (auto simp: disk_opts_def go_simps split: if_splits)

lemma VirtioBlk_validate_cong:
  "ImagePath d = ImagePath c \<Longrightarrow> VirtioBlk_validate fs d = VirtioBlk_validate fs c"
  by (simp add: VirtioBlk_validate_def)

lemma blk_reads:
  assumes "blk_printable fs d"
  shows "VirtioBlk_FromOptions fs (strvToOptions (blk_opts d)) virtioBlkNewEmpty = Inr d"
proof -
  let ?c = "virtioBlkNewEmpty\<lparr>BlkDeviceIdentifier := BlkDeviceIdentifier d\<rparr>"
  have p: "disk_printable ''virtio-blk'' d" and v: "VirtioBlk_validate fs d = Inr ()"
    using assms by (simp_all add: blk_printable_def)
  have loop: "foldE VirtioBlk_option (strvToOptions (blk_opts d)) (virtioBlkNewEmpty, [])
      = Inr (?c, strvToOptions (disk_opts d))"
    by (auto simp: blk_opts_def strvToOptions_append foldE_append VirtioBlk_loop_disk
        disk_opts_keys) (auto simp: VirtioBlk_option_def go_simps virtioBlkNewEmpty_def)
  have "DiskStorageConfig_FromOptions (strvToOptions (disk_opts d)) ?c = Inr d"
    using disk_reads [OF p, of ?c] p by (simp add: virtioBlkNewEmpty_def disk_printable_def)
  then show ?thesis using loop v by (simp add: VirtioBlk_FromOptions_def)
qed

lemma blk_opts_comma_free:
  "blk_printable fs d \<Longrightarrow> x \<in> set (blk_opts d) \<Longrightarrow> comma_free x"
  using disk_opts_comma_free [of "''virtio-blk''" d]
  by (auto simp: blk_opts_def blk_printable_def split: if_splits)

definition blk_loop_inv :: "VirtioBlk \<times> devopt list \<Rightarrow> bool" where
  "blk_loop_inv st \<longleftrightarrow> disk_parsed ''virtio-blk'' (fst st)
    \<and> comma_free (BlkDeviceIdentifier (fst st)) \<and> (\<forall>opt \<in> set (snd st). opt_comma_free opt)"

lemma blk_loop_inv_step:
  "opt_comma_free opt \<Longrightarrow> blk_loop_inv st \<Longrightarrow> VirtioBlk_option opt st = Inr st' \<Longrightarrow>
    blk_loop_inv st'"
  by (auto simp: blk_loop_inv_def VirtioBlk_option_def opt_comma_free_def disk_parsed_def
      split: prod.splits if_splits)

lemma disk_option_keeps_id:
  "DiskStorageConfig_option opt (c :: VirtioBlk) = Inr d \<Longrightarrow>
    BlkDeviceIdentifier d = BlkDeviceIdentifier c"
  by (auto simp: DiskStorageConfig_option_def split: if_splits)

lemma disk_options_keep_id:
  assumes "DiskStorageConfig_FromOptions os (c :: VirtioBlk) = Inr d"
  shows "BlkDeviceIdentifier d = BlkDeviceIdentifier c"
  using assms unfolding DiskStorageConfig_FromOptions_def
  by (rule foldE_invariant [where P = "\<lambda>d. BlkDeviceIdentifier d = BlkDeviceIdentifier c"])
    (auto dest: disk_option_keeps_id)

lemma VirtioBlk_FromOptions_validated:
  assumes "VirtioBlk_FromOptions fs os c = Inr d"
  shows "VirtioBlk_validate fs d = Inr ()"
  using assms by (auto simp: VirtioBlk_FromOptions_def bindE_eq_Inr split: prod.splits)

lemma VirtioBlk_FromOptions_parsed:
  assumes "VirtioBlk_FromOptions fs os virtioBlkNewEmpty = Inr d"
    and "\<forall>opt \<in> set os. opt_comma_free opt"
  shows "disk_parsed ''virtio-blk'' d" and "comma_free (BlkDeviceIdentifier d)"
proof -
  obtain e un where loop: "foldE VirtioBlk_option os (virtioBlkNewEmpty, []) = Inr (e, un)"
    and disk: "DiskStorageConfig_FromOptions un e = Inr d"
    using assms(1) by (auto simp: VirtioBlk_FromOptions_def bindE_eq_Inr split: prod.splits)
  have "blk_loop_inv (e, un)"
  proof (rule foldE_invariant [OF loop])
    show "blk_loop_inv (virtioBlkNewEmpty, [])"
      by (simp add: blk_loop_inv_def disk_parsed_def component_simps)
  qed (use assms(2) blk_loop_inv_step in blast)
  then show "disk_parsed ''virtio-blk'' d" "comma_free (BlkDeviceIdentifier d)"
    using disk_options_parsed [OF disk] disk_options_keep_id [OF disk]
    by (simp_all add: blk_loop_inv_def)
qed

lemma VirtioBlk_ToCmdLine_disk:
  "VirtioBlk_ToCmdLine d = Inr args \<Longrightarrow> \<exists>args'. DiskStorageConfig_ToCmdLine d = Inr args'"
  by (auto simp: VirtioBlk_ToCmdLine_def bindE_eq_Inr)

interpretation blk: parsed_component "''--device''" "''virtio-blk''" virtioBlkNewEmpty
  "VirtioBlk_FromOptions fs" VirtioBlk_ToCmdLine blk_opts "blk_printable fs" "\<lambda>_. True"
  for fs
proof unfold_locales
  fix os args d
  assume "\<forall>opt \<in> set os. opt_comma_free opt"
    and "VirtioBlk_FromOptions fs os virtioBlkNewEmpty = Inr d"
    and "VirtioBlk_ToCmdLine d = Inr args"
  then show "blk_printable fs d"
    using VirtioBlk_FromOptions_parsed VirtioBlk_FromOptions_validated
      VirtioBlk_ToCmdLine_disk disk_parsed_printable
    unfolding blk_printable_def by metis
qed (simp_all add: blk_emits blk_reads blk_opts_comma_free)

subsection \<open>Properties\<close>

text \<open>
  A virtio-blk device read from options has an image that could be opened and read, is
  not empty, and does not start with the qcow2 magic \<open>QFI\<close> 0xFB.
\<close>

theorem blk_image_checked:
  assumes "VirtioBlk_FromOptions fs os c = Inr d"
  shows "\<exists>contents. fs (ImagePath d) = Contents contents \<and> contents \<noteq> []
    \<and> \<not> has_prefix contents qcow2Header"
proof -
  have "take 4 (s @ replicate 4 (CHR 0x00)) = qcow2Header" if "has_prefix s qcow2Header" for s
  proof -
    have q: "length qcow2Header = 4" by (simp add: qcow2Header_def)
    have "length (take 4 s) = 4" using that q by (metis has_prefix_def)
    then have "4 \<le> length s" by simp
    with that show ?thesis unfolding has_prefix_def q by simp
  qed
  then show ?thesis
    using VirtioBlk_FromOptions_validated [OF assms]
    by (auto simp: VirtioBlk_validate_def Let_def split: file_read.splits if_splits)
qed

definition witness_fs :: file_env where
  "witness_fs p = (if p = ''/disk.img'' then Contents ''raw image''
    else if p = ''/disk.qcow2'' then Contents (qcow2Header @ ''rest'')
    else OpenFails ErrNotExist)"

theorem blk_image_checked_witness:
  "\<exists>contents. witness_fs ''/disk.img'' = Contents contents \<and> contents \<noteq> []
    \<and> \<not> has_prefix contents qcow2Header"
  using blk_image_checked [of witness_fs "[\<lparr>okey = ''path'', oval = ''/disk.img''\<rparr>]"
      virtioBlkNewEmpty "virtioBlkNewEmpty\<lparr>ImagePath := ''/disk.img''\<rparr>"]
  by (simp add: component_simps VirtioBlk_validate_def witness_fs_def qcow2Header_def)

end
