(* ===== verification/NbdDevice.thy ===== *)
theory NbdDevice
  imports StorageDevices
begin

section \<open>Network block devices\<close>

text \<open>
  \<open>NetworkBlockDevice\<close> of \<open>pkg/config/virtio.go\<close> and the storage configuration it
  embeds. The timeout is a \<open>time.Duration\<close>: nanoseconds in a signed 64-bit integer, read
  from and printed as milliseconds.
\<close>

subsection \<open>time.Duration\<close>

definition Millisecond :: int where
  "Millisecond = 1000000"

text \<open>\<open>time.Duration(n) * time.Millisecond\<close>, and \<open>Milliseconds()\<close>, which truncates.\<close>

definition duration_of_ms :: "int \<Rightarrow> int" where
  "duration_of_ms n = i64 (n * Millisecond)"

definition duration_Milliseconds :: "int \<Rightarrow> int" where
  "duration_Milliseconds d = (if d < 0 then - ((- d) div Millisecond) else d div Millisecond)"

lemma duration_of_ms_exact:
  "- (2 ^ 32) \<le> n \<Longrightarrow> n < 2 ^ 32 \<Longrightarrow> duration_of_ms n = n * Millisecond"
  unfolding duration_of_ms_def Millisecond_def by (rule i64_id) simp_all

lemma duration_Milliseconds_mult [simp]:
  "duration_Milliseconds (n * Millisecond) = n"
proof -
  have "- (n * 1000000) div (1000000 :: int) = - n" by (metis minus_mult_left
    nonzero_mult_div_cancel_right zero_neq_numeral)
  then show ?thesis by (simp add: duration_Milliseconds_def Millisecond_def)
qed

subsection \<open>NetworkBlockStorageConfig\<close>

record NetworkBlockStorageConfig = StorageConfig +
  URI :: string

definition NetworkBlockStorageConfig_ToCmdLine ::
    "'a NetworkBlockStorageConfig_scheme \<Rightarrow> error + string list" where
  "NetworkBlockStorageConfig_ToCmdLine config =
    (if URI config = [] then
       Inl (Errorf (DevName config @ '' devices need the uri to a remote block device''))
     else
       let value = DevName config @ '',uri='' @ URI config;
           value = (if ReadOnly config then value @ '',readonly'' else value)
       in Inr [''--device'', value])"

definition NetworkBlockStorageConfig_option ::
    "devopt \<Rightarrow> 'a NetworkBlockStorageConfig_scheme
      \<Rightarrow> error + 'a NetworkBlockStorageConfig_scheme" where
  "NetworkBlockStorageConfig_option opt config =
    (if okey opt = ''uri'' then Inr (config\<lparr>URI := oval opt\<rparr>)
     else if okey opt = ''readonly'' then
       (if oval opt \<noteq> [] then
          Inl (Errorf (''unexpected value for virtio-blk 'readonly' option: '' @ oval opt))
        else Inr (config\<lparr>ReadOnly := True\<rparr>))
     else Inl (Errorf (''unknown option for '' @ DevName config @ '' devices: '' @ okey opt)))"

definition NetworkBlockStorageConfig_FromOptions ::
    "devopt list \<Rightarrow> 'a NetworkBlockStorageConfig_scheme
      \<Rightarrow> error + 'a NetworkBlockStorageConfig_scheme" where
  "NetworkBlockStorageConfig_FromOptions options config =
    foldE NetworkBlockStorageConfig_option options config"

subsection \<open>NetworkBlockDevice\<close>

definition SynchronizationFullMode :: string where
  "SynchronizationFullMode = ''full''"

definition SynchronizationNoneMode :: string where
  "SynchronizationNoneMode = ''none''"

record NetworkBlockDevice = NetworkBlockStorageConfig +
  NbdDeviceIdentifier :: string
  Timeout :: int
  SynchronizationMode :: string

definition networkBlockDeviceNewEmpty :: NetworkBlockDevice where
  "networkBlockDeviceNewEmpty =
    \<lparr>DevName = ''nbd'', ReadOnly = False, URI = [], NbdDeviceIdentifier = [],
     Timeout = duration_of_ms 15000, SynchronizationMode = SynchronizationFullMode\<rparr>"

definition NetworkBlockDeviceNew ::
    "string \<Rightarrow> u32 \<Rightarrow> string \<Rightarrow> error + NetworkBlockDevice" where
  "NetworkBlockDeviceNew uri timeout synchronization =
    Inr (networkBlockDeviceNewEmpty
      \<lparr>URI := uri, Timeout := duration_of_ms (uint timeout),
       SynchronizationMode := synchronization\<rparr>)"

definition NetworkBlockDevice_ToCmdLine :: "NetworkBlockDevice \<Rightarrow> error + string list" where
  "NetworkBlockDevice_ToCmdLine nbd =
    bindE (NetworkBlockStorageConfig_ToCmdLine nbd) (\<lambda>cmdLine.
      if length cmdLine \<noteq> 2 then Inl (Errorf ''unexpected storage config commandline'')
      else
        let cmdLine = (if NbdDeviceIdentifier nbd \<noteq> []
              then cmdLine[1 := cmdLine ! 1 @ '',deviceId='' @ NbdDeviceIdentifier nbd]
              else cmdLine);
            ms = duration_Milliseconds (Timeout nbd);
            cmdLine = (if 0 < ms then cmdLine[1 := cmdLine ! 1 @ '',timeout='' @ dec_int ms]
              else cmdLine);
            cmdLine = (if SynchronizationMode nbd = ''none'' \<or> SynchronizationMode nbd = ''full''
              then cmdLine[1 := cmdLine ! 1 @ '',sync='' @ SynchronizationMode nbd]
              else cmdLine)
        in Inr cmdLine)"

definition NetworkBlockDevice_option ::
    "devopt \<Rightarrow> NetworkBlockDevice \<times> devopt list
      \<Rightarrow> error + (NetworkBlockDevice \<times> devopt list)" where
  "NetworkBlockDevice_option opt st = (case st of (nbd, unhandledOpts) \<Rightarrow>
    if okey opt = ''deviceId'' then Inr (nbd\<lparr>NbdDeviceIdentifier := oval opt\<rparr>, unhandledOpts)
    else if okey opt = ''timeout'' then
      bindE (ParseInt (oval opt) 32) (\<lambda>timeoutMS.
        Inr (nbd\<lparr>Timeout := duration_of_ms timeoutMS\<rparr>, unhandledOpts))
    else if okey opt = ''sync'' then
      (if oval opt = SynchronizationFullMode then
         Inr (nbd\<lparr>SynchronizationMode := SynchronizationFullMode\<rparr>, unhandledOpts)
       else if oval opt = SynchronizationNoneMode then
         Inr (nbd\<lparr>SynchronizationMode := SynchronizationNoneMode\<rparr>, unhandledOpts)
       else Inl (Errorf (''invalid sync mode: '' @ oval opt @ '', must be 'full' or 'none'' @ [CHR 0x27])))
    else Inr (nbd, unhandledOpts @ [opt]))"

definition NetworkBlockDevice_FromOptions ::
    "devopt list \<Rightarrow> NetworkBlockDevice \<Rightarrow> error + NetworkBlockDevice" where
  "NetworkBlockDevice_FromOptions options nbd =
    bindE (foldE NetworkBlockDevice_option options (nbd, [])) (\<lambda>(nbd, unhandledOpts).
      NetworkBlockStorageConfig_FromOptions unhandledOpts nbd)"

lemmas nbd_defs [component_simps] =
  NetworkBlockStorageConfig_ToCmdLine_def NetworkBlockStorageConfig_option_def
  NetworkBlockStorageConfig_FromOptions_def SynchronizationFullMode_def
  SynchronizationNoneMode_def networkBlockDeviceNewEmpty_def
  NetworkBlockDevice_ToCmdLine_def NetworkBlockDevice_option_def
  NetworkBlockDevice_FromOptions_def

subsection \<open>Printing, then reading\<close>

definition nbd_opts :: "NetworkBlockDevice \<Rightarrow> string list" where
  "nbd_opts d =
    [''uri='' @ URI d]
    @ (if ReadOnly d then [''readonly''] else [])
    @ (if NbdDeviceIdentifier d \<noteq> [] then [''deviceId='' @ NbdDeviceIdentifier d] else [])
    @ [''timeout='' @ dec_int (duration_Milliseconds (Timeout d)),
       ''sync='' @ SynchronizationMode d]"

text \<open>
  What reading options establishes. The timeout is a whole number of milliseconds that
  fits 32 bits, positive or not.
\<close>

definition nbd_parsed :: "NetworkBlockDevice \<Rightarrow> bool" where
  "nbd_parsed d \<longleftrightarrow>
    DevName d = ''nbd'' \<and> comma_free (URI d) \<and> comma_free (NbdDeviceIdentifier d)
    \<and> (SynchronizationMode d = ''none'' \<or> SynchronizationMode d = ''full'')
    \<and> Timeout d = duration_Milliseconds (Timeout d) * Millisecond
    \<and> - (2 ^ 31) \<le> duration_Milliseconds (Timeout d)
    \<and> duration_Milliseconds (Timeout d) < 2 ^ 31"

definition nbd_timeout_positive :: "NetworkBlockDevice \<Rightarrow> bool" where
  "nbd_timeout_positive d \<longleftrightarrow> 0 < duration_Milliseconds (Timeout d)"

definition nbd_printable :: "NetworkBlockDevice \<Rightarrow> bool" where
  "nbd_printable d \<longleftrightarrow> nbd_parsed d \<and> URI d \<noteq> [] \<and> nbd_timeout_positive d"

declare nbd_parsed_def [wf_simps] nbd_timeout_positive_def [wf_simps]
  nbd_printable_def [wf_simps]

lemma nbd_emits:
  "nbd_printable d \<Longrightarrow>
    NetworkBlockDevice_ToCmdLine d
      = Inr [''--device'', join_with (CHR '','') (''nbd'' # nbd_opts d)]"
  by (auto simp: NetworkBlockDevice_ToCmdLine_def NetworkBlockStorageConfig_ToCmdLine_def
      wf_simps nbd_opts_def Let_def)

lemma nbd_opts_comma_free: "nbd_printable d \<Longrightarrow> x \<in> set (nbd_opts d) \<Longrightarrow> comma_free x"
  by (auto simp: nbd_opts_def wf_simps split: if_splits)

lemma nbd_timeout_option:
  assumes "- (2 ^ 31) \<le> n" "n < 2 ^ 31"
  shows "ParseInt (dec_int n) 32 = Inr n" "duration_of_ms n = n * Millisecond"
  using assms ParseInt_dec_int [of 32 n] duration_of_ms_exact [of n] by simp_all

lemma nbd_reads:
  assumes "nbd_printable d"
  shows "NetworkBlockDevice_FromOptions (strvToOptions (nbd_opts d)) networkBlockDeviceNewEmpty
    = Inr d"
proof -
  let ?n = "duration_Milliseconds (Timeout d)"
  have n: "- (2 ^ 31) \<le> ?n" "?n < 2 ^ 31" and t: "?n * Millisecond = Timeout d"
    using assms by (simp_all add: wf_simps)
  have "NetworkBlockDevice_FromOptions (strvToOptions (nbd_opts d)) networkBlockDeviceNewEmpty
    = Inr (networkBlockDeviceNewEmpty\<lparr>URI := URI d, ReadOnly := ReadOnly d,
        NbdDeviceIdentifier := NbdDeviceIdentifier d, Timeout := ?n * Millisecond,
        SynchronizationMode := SynchronizationMode d\<rparr>)"
    using assms
    by (auto simp: nbd_timeout_option [OF n] nbd_opts_def go_simps nbd_defs wf_simps
        simp del: duration_Milliseconds_mult)
  also have "\<dots> = Inr d"
    using assms unfolding t by (simp add: networkBlockDeviceNewEmpty_def wf_simps)
  finally show ?thesis .
qed

subsection \<open>What reading options establishes\<close>

definition nbd_loop_inv :: "NetworkBlockDevice \<times> devopt list \<Rightarrow> bool" where
  "nbd_loop_inv st \<longleftrightarrow> nbd_parsed (fst st) \<and> (\<forall>opt \<in> set (snd st). opt_comma_free opt)"

lemma nbd_parsed_timeout:
  "nbd_parsed d \<Longrightarrow> - (2 ^ 31) \<le> n \<Longrightarrow> n < 2 ^ 31 \<Longrightarrow>
    nbd_parsed (d\<lparr>Timeout := duration_of_ms n\<rparr>)"
  by (simp add: nbd_parsed_def duration_of_ms_exact)

lemma nbd_parsed_simps:
  "nbd_parsed d \<Longrightarrow> comma_free s \<Longrightarrow> nbd_parsed (d\<lparr>NbdDeviceIdentifier := s\<rparr>)"
  "nbd_parsed d \<Longrightarrow> nbd_parsed (d\<lparr>SynchronizationMode := ''full''\<rparr>)"
  "nbd_parsed d \<Longrightarrow> nbd_parsed (d\<lparr>SynchronizationMode := ''none''\<rparr>)"
  "nbd_parsed d \<Longrightarrow> comma_free s \<Longrightarrow> nbd_parsed (d\<lparr>URI := s\<rparr>)"
  "nbd_parsed d \<Longrightarrow> nbd_parsed (d\<lparr>ReadOnly := b\<rparr>)"
  by (simp_all add: nbd_parsed_def)

lemma nbd_loop_inv_step:
  assumes "opt_comma_free opt" "nbd_loop_inv st" "NetworkBlockDevice_option opt st = Inr st'"
  shows "nbd_loop_inv st'"
proof -
  obtain d un where st: "st = (d, un)" by (cases st)
  have d: "nbd_parsed d" and un: "\<forall>opt \<in> set un. opt_comma_free opt"
    using assms(2) by (simp_all add: st nbd_loop_inv_def)
  have c: "comma_free (oval opt)" using assms(1) by (simp add: opt_comma_free_def)
  from assms(3) show ?thesis
    by (auto simp: st NetworkBlockDevice_option_def nbd_loop_inv_def bindE_eq_Inr
        SynchronizationFullMode_def SynchronizationNoneMode_def d un c assms(1)
        nbd_parsed_simps nbd_parsed_timeout dest!: ParseInt_32_range split: if_splits)
qed

lemma nbd_storage_step:
  "opt_comma_free opt \<Longrightarrow> nbd_parsed c \<Longrightarrow>
    NetworkBlockStorageConfig_option opt c = Inr d \<Longrightarrow> nbd_parsed d"
  by (auto simp: NetworkBlockStorageConfig_option_def opt_comma_free_def nbd_parsed_simps
      split: if_splits)

lemma nbd_new_parsed: "nbd_parsed networkBlockDeviceNewEmpty"
  using duration_of_ms_exact [of 15000]
  by (simp add: nbd_parsed_def networkBlockDeviceNewEmpty_def SynchronizationFullMode_def)

lemma NetworkBlockDevice_FromOptions_parsed:
  assumes "NetworkBlockDevice_FromOptions os networkBlockDeviceNewEmpty = Inr d"
    and "\<forall>opt \<in> set os. opt_comma_free opt"
  shows "nbd_parsed d"
proof -
  obtain e un where
    loop: "foldE NetworkBlockDevice_option os (networkBlockDeviceNewEmpty, []) = Inr (e, un)"
    and stor: "foldE NetworkBlockStorageConfig_option un e = Inr d"
    using assms(1) by (auto simp: NetworkBlockDevice_FromOptions_def
        NetworkBlockStorageConfig_FromOptions_def bindE_eq_Inr split: prod.splits)
  have "nbd_loop_inv (e, un)"
  proof (rule foldE_invariant [OF loop])
    show "nbd_loop_inv (networkBlockDeviceNewEmpty, [])"
      by (simp add: nbd_loop_inv_def nbd_new_parsed)
  qed (use assms(2) nbd_loop_inv_step in blast)
  then have e: "nbd_parsed e" "\<forall>opt \<in> set un. opt_comma_free opt"
    by (simp_all add: nbd_loop_inv_def)
  show ?thesis
    by (rule foldE_invariant [OF stor]) (use e nbd_storage_step in blast)+
qed

lemma NetworkBlockDevice_ToCmdLine_uri:
  "NetworkBlockDevice_ToCmdLine d = Inr args \<Longrightarrow> URI d \<noteq> []"
  by (auto simp: NetworkBlockDevice_ToCmdLine_def NetworkBlockStorageConfig_ToCmdLine_def)

interpretation nbd: parsed_component "''--device''" "''nbd''" networkBlockDeviceNewEmpty
  NetworkBlockDevice_FromOptions NetworkBlockDevice_ToCmdLine nbd_opts nbd_printable
  nbd_timeout_positive
proof unfold_locales
  fix os args d
  assume "\<forall>opt \<in> set os. opt_comma_free opt"
    and "NetworkBlockDevice_FromOptions os networkBlockDeviceNewEmpty = Inr d"
    and "NetworkBlockDevice_ToCmdLine d = Inr args" "nbd_timeout_positive d"
  then show "nbd_printable d"
    using NetworkBlockDevice_FromOptions_parsed NetworkBlockDevice_ToCmdLine_uri
    unfolding nbd_printable_def by blast
qed (simp_all add: nbd_emits nbd_reads nbd_opts_comma_free)

subsection \<open>Properties\<close>

text \<open>
  The timeout of a network block device read from options is a whole number of
  milliseconds in the range of a 32-bit integer: the multiplication by a million
  nanoseconds never wraps, and \<open>Milliseconds()\<close> gives the number back.
\<close>

theorem nbd_timeout_exact:
  assumes "NetworkBlockDevice_FromOptions os networkBlockDeviceNewEmpty = Inr d"
    and "\<forall>opt \<in> set os. opt_comma_free opt"
  shows "\<exists>n. Timeout d = n * Millisecond \<and> - (2 ^ 31) \<le> n \<and> n < 2 ^ 31"
  using NetworkBlockDevice_FromOptions_parsed [OF assms] by (auto simp: nbd_parsed_def)

definition witness_nbd_opts :: "devopt list" where
  "witness_nbd_opts =
    [\<lparr>okey = ''uri'', oval = ''nbd://h''\<rparr>, \<lparr>okey = ''timeout'', oval = ''0''\<rparr>]"

definition witness_nbd :: NetworkBlockDevice where
  "witness_nbd = networkBlockDeviceNewEmpty\<lparr>URI := ''nbd://h'', Timeout := duration_of_ms 0\<rparr>"

lemma witness_nbd_read:
  "NetworkBlockDevice_FromOptions witness_nbd_opts networkBlockDeviceNewEmpty = Inr witness_nbd"
  by (simp add: witness_nbd_opts_def witness_nbd_def nbd_defs ParseInt_def parse_int_def
      parse_uint_def is_digit_def digit_val_def)

theorem nbd_timeout_exact_witness:
  "\<exists>n. Timeout witness_nbd = n * Millisecond \<and> - (2 ^ 31) \<le> n \<and> n < 2 ^ 31"
  by (rule nbd_timeout_exact [OF witness_nbd_read])
    (simp add: witness_nbd_opts_def opt_comma_free_def)

text \<open>What is printed without a positive timeout, and what it is read as.\<close>

lemma nbd_no_timeout_options:
  assumes "nbd_parsed d" "\<not> nbd_timeout_positive d" "URI d \<noteq> []"
  defines "os \<equiv> [''uri='' @ URI d] @ (if ReadOnly d then [''readonly''] else [])
    @ (if NbdDeviceIdentifier d \<noteq> [] then [''deviceId='' @ NbdDeviceIdentifier d] else [])
    @ [''sync='' @ SynchronizationMode d]"
  shows "NetworkBlockDevice_ToCmdLine d = Inr [''--device'', join_with (CHR '','') (''nbd'' # os)]"
    and "split_on (CHR '','') (join_with (CHR '','') (''nbd'' # os)) = ''nbd'' # os"
    and "NetworkBlockDevice_FromOptions (strvToOptions os) networkBlockDeviceNewEmpty
      = Inr (d\<lparr>Timeout := 15000 * Millisecond\<rparr>)"
proof -
  show "NetworkBlockDevice_ToCmdLine d = Inr [''--device'', join_with (CHR '','') (''nbd'' # os)]"
    using assms(1-3) by (auto simp: os_def NetworkBlockDevice_ToCmdLine_def
        NetworkBlockStorageConfig_ToCmdLine_def wf_simps Let_def)
  have "comma_free x" if "x \<in> set os" for x
    using that assms(1) by (auto simp: os_def wf_simps split: if_splits)
  then show "split_on (CHR '','') (join_with (CHR '','') (''nbd'' # os)) = ''nbd'' # os"
    by (intro split_join) (auto simp: comma_free_def)
  have "NetworkBlockDevice_FromOptions (strvToOptions os) networkBlockDeviceNewEmpty
    = Inr (networkBlockDeviceNewEmpty\<lparr>URI := URI d, ReadOnly := ReadOnly d,
        NbdDeviceIdentifier := NbdDeviceIdentifier d,
        SynchronizationMode := SynchronizationMode d\<rparr>)"
    using assms(1) by (auto simp: os_def go_simps nbd_defs wf_simps)
  also have "\<dots> = Inr (d\<lparr>Timeout := 15000 * Millisecond\<rparr>)"
    using assms(1) duration_of_ms_exact [of 15000]
    by (simp add: networkBlockDeviceNewEmpty_def wf_simps)
  finally show "NetworkBlockDevice_FromOptions (strvToOptions os) networkBlockDeviceNewEmpty
      = Inr (d\<lparr>Timeout := 15000 * Millisecond\<rparr>)" .
qed

end
