(* ===== verification/VirtioDevices.thy ===== *)
theory VirtioDevices
  imports Options
begin

section \<open>Serial ports, input, graphics, sharing, vsock and the option-less devices\<close>

text \<open>
  The remaining simple devices of \<open>pkg/config/virtio.go\<close>. Each has its record, its
  constructor, \<open>validate\<close> where the code has one, the body of the option loop
  (\<open>..._option\<close>), \<open>FromOptions\<close> and \<open>ToCmdLine\<close>, and ends with its interpretation of
  the component interface.
\<close>

subsection \<open>VirtioSerial\<close>

record VirtioSerial =
  LogFile :: string
  UsesStdio :: bool
  UsesPty :: bool
  PtyName :: string

definition virtioSerialZero :: VirtioSerial where
  "virtioSerialZero = \<lparr>LogFile = [], UsesStdio = False, UsesPty = False, PtyName = []\<rparr>"

definition VirtioSerialNew :: "string \<Rightarrow> error + VirtioSerial" where
  "VirtioSerialNew logFilePath = Inr (virtioSerialZero\<lparr>LogFile := logFilePath\<rparr>)"

definition VirtioSerialNewStdio :: "error + VirtioSerial" where
  "VirtioSerialNewStdio = Inr (virtioSerialZero\<lparr>UsesStdio := True\<rparr>)"

definition VirtioSerialNewPty :: "error + VirtioSerial" where
  "VirtioSerialNewPty = Inr (virtioSerialZero\<lparr>UsesPty := True\<rparr>)"

definition VirtioSerial_validate :: "VirtioSerial \<Rightarrow> error + unit" where
  "VirtioSerial_validate dev =
    (if LogFile dev \<noteq> [] \<and> UsesStdio dev then
       Inl (Errorf '''logFilePath' and 'stdio' cannot be set at the same time'')
     else if LogFile dev \<noteq> [] \<and> UsesPty dev then
       Inl (Errorf '''logFilePath' and 'pty' cannot be set at the same time'')
     else if UsesStdio dev \<and> UsesPty dev then
       Inl (Errorf '''stdio' and 'pty' cannot be set at the same time'')
     else if LogFile dev = [] \<and> \<not> UsesStdio dev \<and> \<not> UsesPty dev then
       Inl (Errorf ''one of 'logFilePath', 'stdio' or 'pty' must be set'')
     else Inr ())"

definition VirtioSerial_ToCmdLine :: "VirtioSerial \<Rightarrow> error + string list" where
  "VirtioSerial_ToCmdLine dev = bindE (VirtioSerial_validate dev) (\<lambda>_.
    if UsesStdio dev then Inr [''--device'', ''virtio-serial,stdio'']
    else if UsesPty dev then Inr [''--device'', ''virtio-serial,pty'']
    else Inr [''--device'', ''virtio-serial,logFilePath='' @ LogFile dev])"

definition VirtioSerial_option :: "devopt \<Rightarrow> VirtioSerial \<Rightarrow> error + VirtioSerial" where
  "VirtioSerial_option opt dev =
    (if okey opt = ''logFilePath'' then Inr (dev\<lparr>LogFile := oval opt\<rparr>)
     else if okey opt = ''stdio'' then
       (if oval opt \<noteq> [] then
          Inl (Errorf (''unexpected value for virtio-serial 'stdio' option: '' @ oval opt))
        else Inr (dev\<lparr>UsesStdio := True\<rparr>))
     else if okey opt = ''pty'' then Inr (dev\<lparr>UsesPty := True\<rparr>)
     else Inl (Errorf (''unknown option for virtio-serial devices: '' @ okey opt)))"

definition VirtioSerial_FromOptions ::
    "devopt list \<Rightarrow> VirtioSerial \<Rightarrow> error + VirtioSerial" where
  "VirtioSerial_FromOptions options dev =
    bindE (foldE VirtioSerial_option options dev) (\<lambda>dev.
    bindE (VirtioSerial_validate dev) (\<lambda>_. Inr dev))"

definition serial_opts :: "VirtioSerial \<Rightarrow> string list" where
  "serial_opts dev =
    (if UsesStdio dev then [''stdio''] else if UsesPty dev then [''pty'']
     else [''logFilePath='' @ LogFile dev])"

definition serial_printable :: "VirtioSerial \<Rightarrow> bool" where
  "serial_printable dev \<longleftrightarrow>
    VirtioSerial_validate dev = Inr () \<and> comma_free (LogFile dev) \<and> PtyName dev = []"

lemma VirtioSerial_validate_ok:
  "VirtioSerial_validate d = Inr () \<longleftrightarrow>
    (LogFile d \<noteq> [] \<and> \<not> UsesStdio d \<and> \<not> UsesPty d)
    \<or> (LogFile d = [] \<and> UsesStdio d \<and> \<not> UsesPty d)
    \<or> (LogFile d = [] \<and> \<not> UsesStdio d \<and> UsesPty d)"
  by (auto simp: VirtioSerial_validate_def)

lemma serial_loop_parsed:
  assumes "foldE VirtioSerial_option os virtioSerialZero = Inr d"
    and "\<forall>opt \<in> set os. opt_comma_free opt"
  shows "comma_free (LogFile d) \<and> PtyName d = []"
  by (rule foldE_invariant [OF assms(1)])
    (use assms(2) in \<open>auto simp: virtioSerialZero_def VirtioSerial_option_def
      opt_comma_free_def split: if_splits\<close>)

interpretation serial: parsed_component "''--device''" "''virtio-serial''" virtioSerialZero
  VirtioSerial_FromOptions VirtioSerial_ToCmdLine serial_opts serial_printable "\<lambda>_. True"
proof unfold_locales
  fix d assume "serial_printable d"
  then show "VirtioSerial_FromOptions (strvToOptions (serial_opts d)) virtioSerialZero = Inr d"
    by (cases d) (auto simp: serial_printable_def VirtioSerial_validate_def serial_opts_def
        VirtioSerial_FromOptions_def VirtioSerial_option_def go_simps virtioSerialZero_def
        split: if_splits)
next
  fix os d args
  assume "\<forall>opt \<in> set os. opt_comma_free opt"
    and "VirtioSerial_FromOptions os virtioSerialZero = Inr d"
  then show "serial_printable d"
    using serial_loop_parsed [of os d]
    by (auto simp: VirtioSerial_FromOptions_def bindE_eq_Inr serial_printable_def)
qed (auto simp: serial_printable_def VirtioSerial_ToCmdLine_def serial_opts_def
    VirtioSerial_validate_def split: if_splits)

subsection \<open>VirtioInput\<close>

record VirtioInput =
  InputType :: string

definition VirtioInputPointingDevice :: string where
  "VirtioInputPointingDevice = ''pointing''"

definition VirtioInputKeyboardDevice :: string where
  "VirtioInputKeyboardDevice = ''keyboard''"

definition virtioInputZero :: VirtioInput where
  "virtioInputZero = \<lparr>InputType = []\<rparr>"

definition VirtioInput_validate :: "VirtioInput \<Rightarrow> error + unit" where
  "VirtioInput_validate dev =
    (if InputType dev \<noteq> VirtioInputPointingDevice \<and> InputType dev \<noteq> VirtioInputKeyboardDevice
     then Inl (Errorf (''unknown option for virtio-input devices: '' @ InputType dev))
     else Inr ())"

definition VirtioInputNew :: "string \<Rightarrow> error + VirtioInput" where
  "VirtioInputNew inputType =
    (let dev = \<lparr>InputType = inputType\<rparr> in bindE (VirtioInput_validate dev) (\<lambda>_. Inr dev))"

definition VirtioInput_ToCmdLine :: "VirtioInput \<Rightarrow> error + string list" where
  "VirtioInput_ToCmdLine dev = bindE (VirtioInput_validate dev) (\<lambda>_.
    Inr [''--device'', ''virtio-input,'' @ InputType dev])"

definition VirtioInput_option :: "devopt \<Rightarrow> VirtioInput \<Rightarrow> error + VirtioInput" where
  "VirtioInput_option opt dev =
    (if okey opt = VirtioInputPointingDevice \<or> okey opt = VirtioInputKeyboardDevice then
       (if oval opt \<noteq> [] then
          Inl (Errorf (''unexpected value for virtio-input '' @ okey opt @ '' option: '' @ oval opt))
        else Inr (dev\<lparr>InputType := okey opt\<rparr>))
     else Inl (Errorf (''unknown option for virtio-input devices: '' @ okey opt)))"

definition VirtioInput_FromOptions :: "devopt list \<Rightarrow> VirtioInput \<Rightarrow> error + VirtioInput" where
  "VirtioInput_FromOptions options dev =
    bindE (foldE VirtioInput_option options dev) (\<lambda>dev.
    bindE (VirtioInput_validate dev) (\<lambda>_. Inr dev))"

lemmas input_defs [component_simps] =
  VirtioInputPointingDevice_def VirtioInputKeyboardDevice_def virtioInputZero_def
  VirtioInput_validate_def VirtioInput_ToCmdLine_def VirtioInput_option_def
  VirtioInput_FromOptions_def VirtioInputNew_def

definition input_opts :: "VirtioInput \<Rightarrow> string list" where
  "input_opts dev = [InputType dev]"

definition input_printable :: "VirtioInput \<Rightarrow> bool" where
  "input_printable dev \<longleftrightarrow> InputType dev = ''pointing'' \<or> InputType dev = ''keyboard''"

interpretation input: parsed_component "''--device''" "''virtio-input''" virtioInputZero
  VirtioInput_FromOptions VirtioInput_ToCmdLine input_opts input_printable "\<lambda>_. True"
  by unfold_locales
    (auto simp: input_printable_def input_opts_def component_simps go_simps bindE_eq_Inr
      split: if_splits)

subsection \<open>VirtioGPU\<close>

record VirtioGPUResolution =
  Width :: int
  Height :: int

record VirtioGPU = VirtioGPUResolution +
  UsesGUI :: bool

definition defaultVirtioGPUResolutionWidth :: int where
  "defaultVirtioGPUResolutionWidth = 800"

definition defaultVirtioGPUResolutionHeight :: int where
  "defaultVirtioGPUResolutionHeight = 600"

definition virtioGPUZero :: VirtioGPU where
  "virtioGPUZero = \<lparr>Width = 0, Height = 0, UsesGUI = False\<rparr>"

definition VirtioGPUNew :: "error + VirtioGPU" where
  "VirtioGPUNew = Inr \<lparr>Width = defaultVirtioGPUResolutionWidth,
    Height = defaultVirtioGPUResolutionHeight, UsesGUI = False\<rparr>"

definition VirtioGPU_validate :: "VirtioGPU \<Rightarrow> error + unit" where
  "VirtioGPU_validate dev =
    (if Height dev < 1 \<or> Width dev < 1 then
       Inl (Errorf (''invalid dimensions for virtio-gpu device resolution: ''
         @ dec_int (Width dev) @ ''x'' @ dec_int (Height dev)))
     else Inr ())"

definition VirtioGPU_ToCmdLine :: "VirtioGPU \<Rightarrow> error + string list" where
  "VirtioGPU_ToCmdLine dev = bindE (VirtioGPU_validate dev) (\<lambda>_.
    Inr [''--device'',
      ''virtio-gpu,width='' @ dec_int (Width dev) @ '',height='' @ dec_int (Height dev)])"

text \<open>\<open>strconv.Atoi\<close> of an option, where any error and any value below 1 are one error.\<close>

definition gpu_dimension :: "devopt \<Rightarrow> error + int" where
  "gpu_dimension opt =
    (let invalid = Errorf (''invalid value for virtio-gpu '' @ okey opt @ '': '' @ oval opt)
     in case Atoi (oval opt) of
          Inl e \<Rightarrow> Inl invalid
        | Inr n \<Rightarrow> if n < 1 then Inl invalid else Inr n)"

definition VirtioGPU_option :: "devopt \<Rightarrow> VirtioGPU \<Rightarrow> error + VirtioGPU" where
  "VirtioGPU_option opt dev =
    (if okey opt = ''height'' then
       bindE (gpu_dimension opt) (\<lambda>height. Inr (dev\<lparr>Height := height\<rparr>))
     else if okey opt = ''width'' then
       bindE (gpu_dimension opt) (\<lambda>width. Inr (dev\<lparr>Width := width\<rparr>))
     else Inl (Errorf (''unknown option for virtio-gpu devices: '' @ okey opt)))"

definition VirtioGPU_FromOptions :: "devopt list \<Rightarrow> VirtioGPU \<Rightarrow> error + VirtioGPU" where
  "VirtioGPU_FromOptions options dev =
    bindE (foldE VirtioGPU_option options dev) (\<lambda>dev.
      let dev = (if Width dev = 0 \<and> Height dev = 0
                 then dev\<lparr>Width := defaultVirtioGPUResolutionWidth,
                          Height := defaultVirtioGPUResolutionHeight\<rparr>
                 else dev)
      in bindE (VirtioGPU_validate dev) (\<lambda>_. Inr dev))"

lemmas gpu_defs [component_simps] =
  defaultVirtioGPUResolutionWidth_def defaultVirtioGPUResolutionHeight_def virtioGPUZero_def
  VirtioGPUNew_def VirtioGPU_validate_def VirtioGPU_ToCmdLine_def gpu_dimension_def
  VirtioGPU_option_def VirtioGPU_FromOptions_def

definition gpu_opts :: "VirtioGPU \<Rightarrow> string list" where
  "gpu_opts dev = [''width='' @ dec_int (Width dev), ''height='' @ dec_int (Height dev)]"

definition gpu_printable :: "VirtioGPU \<Rightarrow> bool" where
  "gpu_printable dev \<longleftrightarrow>
    1 \<le> Width dev \<and> Width dev < 2 ^ 63 \<and> 1 \<le> Height dev \<and> Height dev < 2 ^ 63
    \<and> \<not> UsesGUI dev"

lemma gpu_loop_parsed:
  assumes "foldE VirtioGPU_option os virtioGPUZero = Inr d"
  shows "Width d < 2 ^ 63 \<and> Height d < 2 ^ 63 \<and> \<not> UsesGUI d"
proof (rule foldE_invariant [OF assms])
  fix opt u v
  assume "Width u < 2 ^ 63 \<and> Height u < 2 ^ 63 \<and> \<not> UsesGUI u" "VirtioGPU_option opt u = Inr v"
  then show "Width v < 2 ^ 63 \<and> Height v < 2 ^ 63 \<and> \<not> UsesGUI v"
    by (auto simp: VirtioGPU_option_def gpu_dimension_def bindE_eq_Inr Let_def Atoi_def
        split: if_splits sum.splits dest: Atoi_range)
qed (simp add: virtioGPUZero_def)

interpretation gpu: parsed_component "''--device''" "''virtio-gpu''" virtioGPUZero
  VirtioGPU_FromOptions VirtioGPU_ToCmdLine gpu_opts gpu_printable "\<lambda>_. True"
proof unfold_locales
  fix d assume d: "gpu_printable d"
  have "Atoi (dec_int (Width d)) = Inr (Width d)" "Atoi (dec_int (Height d)) = Inr (Height d)"
    using d by (simp_all add: gpu_printable_def Atoi_dec_int)
  then show "VirtioGPU_FromOptions (strvToOptions (gpu_opts d)) virtioGPUZero = Inr d"
    using d by (auto simp: gpu_printable_def gpu_opts_def gpu_defs go_simps)
next
  fix os d args
  assume "VirtioGPU_FromOptions os virtioGPUZero = Inr d"
  then show "gpu_printable d"
    using gpu_loop_parsed [of os]
    by (fastforce simp: VirtioGPU_FromOptions_def bindE_eq_Inr VirtioGPU_validate_def
        gpu_printable_def Let_def defaultVirtioGPUResolutionWidth_def
        defaultVirtioGPUResolutionHeight_def split: if_splits)
qed (auto simp: gpu_printable_def gpu_defs gpu_opts_def)

subsection \<open>Properties\<close>

text \<open>
  A serial port read from options has exactly one back end: a log file, the standard
  input and output, or a pseudo terminal.
\<close>

theorem serial_one_backend:
  assumes "VirtioSerial_FromOptions os c = Inr d"
  shows "length (filter id [LogFile d \<noteq> [], UsesStdio d, UsesPty d]) = 1"
proof -
  have "VirtioSerial_validate d = Inr ()"
    using assms by (auto simp: VirtioSerial_FromOptions_def bindE_eq_Inr)
  then show ?thesis by (auto simp: VirtioSerial_validate_ok)
qed

theorem serial_one_backend_witness:
  "length (filter id [LogFile (virtioSerialZero\<lparr>UsesPty := True\<rparr>) \<noteq> [],
    UsesStdio (virtioSerialZero\<lparr>UsesPty := True\<rparr>), UsesPty (virtioSerialZero\<lparr>UsesPty := True\<rparr>)]) = 1"
  by (rule serial_one_backend [of "[\<lparr>okey = ''pty'', oval = []\<rparr>]" virtioSerialZero])
    (simp add: VirtioSerial_FromOptions_def VirtioSerial_option_def VirtioSerial_validate_def
      virtioSerialZero_def)

lemma gpu_option_dims:
  "VirtioGPU_option opt c = Inr d \<Longrightarrow>
    (if okey opt = ''width'' then 1 \<le> Width d else Width d = Width c)
    \<and> (if okey opt = ''height'' then 1 \<le> Height d else Height d = Height c)"
  by (auto simp: VirtioGPU_option_def gpu_dimension_def bindE_eq_Inr Let_def
      split: sum.splits if_splits)

lemma gpu_loop_dims:
  "foldE VirtioGPU_option os c = Inr d \<Longrightarrow>
    (Width d = Width c \<and> \<not> (\<exists>opt \<in> set os. okey opt = ''width'')
      \<or> 1 \<le> Width d \<and> (\<exists>opt \<in> set os. okey opt = ''width''))
    \<and> (Height d = Height c \<and> \<not> (\<exists>opt \<in> set os. okey opt = ''height'')
      \<or> 1 \<le> Height d \<and> (\<exists>opt \<in> set os. okey opt = ''height''))
    \<and> (\<forall>opt \<in> set os. okey opt = ''width'' \<or> okey opt = ''height'')"
proof (induction os arbitrary: c)
  case Nil
  then show ?case by simp
next
  case (Cons opt os)
  obtain e where e: "VirtioGPU_option opt c = Inr e" "foldE VirtioGPU_option os e = Inr d"
    using Cons.prems by (auto simp: bindE_eq_Inr)
  have "okey opt = ''width'' \<or> okey opt = ''height''"
    using e(1) by (auto simp: VirtioGPU_option_def split: if_splits)
  with Cons.IH [OF e(2)] gpu_option_dims [OF e(1)] show ?case by (auto split: if_splits)
qed

text \<open>
  A virtio-gpu device is accepted in two cases only: without any option, and then it has
  the default resolution of 800 by 600, or with both a width and a height, and then both
  are positive. One dimension alone is refused: the defaults never fill in the other.
\<close>

theorem gpu_resolution:
  assumes "VirtioGPU_FromOptions os virtioGPUZero = Inr d"
  shows "os = [] \<and> Width d = 800 \<and> Height d = 600
    \<or> (\<exists>opt \<in> set os. okey opt = ''width'') \<and> (\<exists>opt \<in> set os. okey opt = ''height'')
      \<and> 1 \<le> Width d \<and> 1 \<le> Height d"
proof -
  let ?set = "\<lambda>e :: VirtioGPU. if Width e = 0 \<and> Height e = 0 then e\<lparr>Width := 800, Height := 600\<rparr> else e"
  have "\<exists>e. foldE VirtioGPU_option os virtioGPUZero = Inr e
      \<and> bindE (VirtioGPU_validate (?set e)) (\<lambda>_. Inr (?set e)) = Inr d"
    using assms unfolding VirtioGPU_FromOptions_def Let_def
      defaultVirtioGPUResolutionWidth_def defaultVirtioGPUResolutionHeight_def
    by (subst (asm) bindE_eq_Inr)
  then obtain e where e: "foldE VirtioGPU_option os virtioGPUZero = Inr e"
    and r: "bindE (VirtioGPU_validate (?set e)) (\<lambda>_. Inr (?set e)) = Inr d" by blast
  have d: "d = ?set e" and "VirtioGPU_validate (?set e) = Inr ()"
    using r unfolding bindE_check_eq_Inr by blast+
  then have v: "VirtioGPU_validate d = Inr ()" by simp
  have "1 \<le> Width d" "1 \<le> Height d" using v by (auto simp: VirtioGPU_validate_def split: if_splits)
  with gpu_loop_dims [OF e] d show ?thesis
    by (cases os) (auto simp: virtioGPUZero_def split: if_splits)
qed

theorem gpu_resolution_witness:
  "[\<lparr>okey = ''width'', oval = ''5''\<rparr>, \<lparr>okey = ''height'', oval = ''7''\<rparr>] = []
      \<and> Width (virtioGPUZero\<lparr>Width := 5, Height := 7\<rparr>) = 800
      \<and> Height (virtioGPUZero\<lparr>Width := 5, Height := 7\<rparr>) = 600
    \<or> (\<exists>opt \<in> set [\<lparr>okey = ''width'', oval = ''5''\<rparr>, \<lparr>okey = ''height'', oval = ''7''\<rparr>].
          okey opt = ''width'')
      \<and> (\<exists>opt \<in> set [\<lparr>okey = ''width'', oval = ''5''\<rparr>, \<lparr>okey = ''height'', oval = ''7''\<rparr>].
          okey opt = ''height'')
      \<and> 1 \<le> Width (virtioGPUZero\<lparr>Width := 5, Height := 7\<rparr>)
      \<and> 1 \<le> Height (virtioGPUZero\<lparr>Width := 5, Height := 7\<rparr>)"
  by (rule gpu_resolution)
    (simp add: gpu_defs Atoi_def parse_int_def parse_uint_def is_digit_def digit_val_def)

end
