(* ===== verification/SharingDevices.thy ===== *)
theory SharingDevices
  imports Options
begin

section \<open>Directory sharing, vsock, and the devices without options\<close>

text \<open>
  \<open>VirtioFs\<close> and \<open>RosettaShare\<close>, which embed \<open>DirectorySharingConfig\<close>; \<open>VirtioVsock\<close>
  with its 32-bit port; \<open>VirtioRng\<close> and \<open>VirtioBalloon\<close>, which are empty structs. Same
  layout per device as in the other device theories.
\<close>

subsection \<open>VirtioFs\<close>

record DirectorySharingConfig =
  MountTag :: string

record VirtioFs = DirectorySharingConfig +
  SharedDir :: string

definition virtioFsZero :: VirtioFs where
  "virtioFsZero = \<lparr>MountTag = [], SharedDir = []\<rparr>"

definition VirtioFsNew :: "string \<Rightarrow> string \<Rightarrow> error + VirtioFs" where
  "VirtioFsNew sharedDir mountTag = Inr \<lparr>MountTag = mountTag, SharedDir = sharedDir\<rparr>"

definition VirtioFs_ToCmdLine :: "VirtioFs \<Rightarrow> error + string list" where
  "VirtioFs_ToCmdLine dev =
    (if SharedDir dev = [] then
       Inl (Errorf ''virtio-fs needs the path to the directory to share'')
     else if MountTag dev \<noteq> [] then
       Inr [''--device'',
         ''virtio-fs,sharedDir='' @ SharedDir dev @ '',mountTag='' @ MountTag dev]
     else Inr [''--device'', ''virtio-fs,sharedDir='' @ SharedDir dev])"

definition VirtioFs_option :: "devopt \<Rightarrow> VirtioFs \<Rightarrow> error + VirtioFs" where
  "VirtioFs_option opt dev =
    (if okey opt = ''sharedDir'' then Inr (dev\<lparr>SharedDir := oval opt\<rparr>)
     else if okey opt = ''mountTag'' then Inr (dev\<lparr>MountTag := oval opt\<rparr>)
     else Inl (Errorf (''unknown option for virtio-fs devices: '' @ okey opt)))"

definition VirtioFs_FromOptions :: "devopt list \<Rightarrow> VirtioFs \<Rightarrow> error + VirtioFs" where
  "VirtioFs_FromOptions options dev = foldE VirtioFs_option options dev"

lemmas fs_defs [component_simps] =
  virtioFsZero_def VirtioFs_ToCmdLine_def VirtioFs_option_def VirtioFs_FromOptions_def

definition fs_opts :: "VirtioFs \<Rightarrow> string list" where
  "fs_opts dev = [''sharedDir='' @ SharedDir dev]
    @ (if MountTag dev \<noteq> [] then [''mountTag='' @ MountTag dev] else [])"

definition fs_printable :: "VirtioFs \<Rightarrow> bool" where
  "fs_printable dev \<longleftrightarrow>
    SharedDir dev \<noteq> [] \<and> comma_free (SharedDir dev) \<and> comma_free (MountTag dev)"

lemma fs_loop_parsed:
  assumes "foldE VirtioFs_option os virtioFsZero = Inr d"
    and "\<forall>opt \<in> set os. opt_comma_free opt"
  shows "comma_free (SharedDir d) \<and> comma_free (MountTag d)"
  by (rule foldE_invariant [OF assms(1)])
    (use assms(2) in \<open>auto simp: virtioFsZero_def VirtioFs_option_def
      opt_comma_free_def split: if_splits\<close>)

interpretation sharedfs: parsed_component "''--device''" "''virtio-fs''" virtioFsZero
  VirtioFs_FromOptions VirtioFs_ToCmdLine fs_opts fs_printable "\<lambda>_. True"
proof unfold_locales
  fix os d args
  assume "\<forall>opt \<in> set os. opt_comma_free opt" "VirtioFs_FromOptions os virtioFsZero = Inr d"
    "VirtioFs_ToCmdLine d = Inr args"
  then show "fs_printable d"
    using fs_loop_parsed [of os d]
    by (auto simp: VirtioFs_FromOptions_def VirtioFs_ToCmdLine_def fs_printable_def
        split: if_splits)
qed (auto simp: fs_printable_def fs_opts_def fs_defs go_simps split: if_splits)

subsection \<open>RosettaShare\<close>

record RosettaShare = DirectorySharingConfig +
  InstallRosetta :: bool
  IgnoreIfMissing :: bool

definition rosettaZero :: RosettaShare where
  "rosettaZero = \<lparr>MountTag = [], InstallRosetta = False, IgnoreIfMissing = False\<rparr>"

definition RosettaShareNew :: "string \<Rightarrow> error + RosettaShare" where
  "RosettaShareNew mountTag = Inr (rosettaZero\<lparr>MountTag := mountTag\<rparr>)"

definition RosettaShare_ToCmdLine :: "RosettaShare \<Rightarrow> error + string list" where
  "RosettaShare_ToCmdLine dev =
    (if MountTag dev = [] then
       Inl (Errorf ''rosetta shares require a mount tag to be specified'')
     else
       let builder = ''rosetta'' @ '',mountTag='' @ MountTag dev;
           builder = (if InstallRosetta dev then builder @ '',install'' else builder);
           builder = (if IgnoreIfMissing dev then builder @ '',ignore-if-missing'' else builder)
       in Inr [''--device'', builder])"

definition RosettaShare_option :: "devopt \<Rightarrow> RosettaShare \<Rightarrow> error + RosettaShare" where
  "RosettaShare_option opt dev =
    (if okey opt = ''mountTag'' then Inr (dev\<lparr>MountTag := oval opt\<rparr>)
     else if okey opt = ''install'' then Inr (dev\<lparr>InstallRosetta := True\<rparr>)
     else if okey opt = ''ignore-if-missing'' then Inr (dev\<lparr>IgnoreIfMissing := True\<rparr>)
     else Inl (Errorf (''unknown option for rosetta share: '' @ okey opt)))"

definition RosettaShare_FromOptions ::
    "devopt list \<Rightarrow> RosettaShare \<Rightarrow> error + RosettaShare" where
  "RosettaShare_FromOptions options dev = foldE RosettaShare_option options dev"

lemmas rosetta_defs [component_simps] =
  rosettaZero_def RosettaShare_ToCmdLine_def RosettaShare_option_def
  RosettaShare_FromOptions_def

definition rosetta_opts :: "RosettaShare \<Rightarrow> string list" where
  "rosetta_opts dev = [''mountTag='' @ MountTag dev]
    @ (if InstallRosetta dev then [''install''] else [])
    @ (if IgnoreIfMissing dev then [''ignore-if-missing''] else [])"

definition rosetta_printable :: "RosettaShare \<Rightarrow> bool" where
  "rosetta_printable dev \<longleftrightarrow> MountTag dev \<noteq> [] \<and> comma_free (MountTag dev)"

lemma rosetta_loop_parsed:
  assumes "foldE RosettaShare_option os rosettaZero = Inr d"
    and "\<forall>opt \<in> set os. opt_comma_free opt"
  shows "comma_free (MountTag d)"
  by (rule foldE_invariant [OF assms(1)])
    (use assms(2) in \<open>auto simp: rosettaZero_def RosettaShare_option_def
      opt_comma_free_def split: if_splits\<close>)

interpretation rosetta: parsed_component "''--device''" "''rosetta''" rosettaZero
  RosettaShare_FromOptions RosettaShare_ToCmdLine rosetta_opts rosetta_printable "\<lambda>_. True"
proof unfold_locales
  fix os d args
  assume "\<forall>opt \<in> set os. opt_comma_free opt" "RosettaShare_FromOptions os rosettaZero = Inr d"
    "RosettaShare_ToCmdLine d = Inr args"
  then show "rosetta_printable d"
    using rosetta_loop_parsed [of os d]
    by (auto simp: RosettaShare_FromOptions_def RosettaShare_ToCmdLine_def rosetta_printable_def
        split: if_splits)
qed (auto simp: rosetta_printable_def rosetta_opts_def rosetta_defs go_simps split: if_splits)

subsection \<open>VirtioVsock\<close>

record VirtioVsock =
  Port :: u32
  SocketURL :: string
  Listen :: bool

definition virtioVsockZero :: VirtioVsock where
  "virtioVsockZero = \<lparr>Port = 0, SocketURL = [], Listen = False\<rparr>"

definition MaxUint32 :: u64 where
  "MaxUint32 = 0xFFFFFFFF"

definition VirtioVsockNew :: "u64 \<Rightarrow> string \<Rightarrow> bool \<Rightarrow> error + VirtioVsock" where
  "VirtioVsockNew port socketURL listen =
    (if MaxUint32 < port then Inl (Errorf (''invalid vsock port: '' @ dec (unat port)))
     else Inr \<lparr>Port = ucast port, SocketURL = socketURL, Listen = listen\<rparr>)"

definition VirtioVsock_ToCmdLine :: "VirtioVsock \<Rightarrow> error + string list" where
  "VirtioVsock_ToCmdLine dev =
    (if Port dev = 0 \<or> SocketURL dev = [] then
       Inl (Errorf ''virtio-vsock needs both a port and a socket URL'')
     else
       let listenStr = (if Listen dev then ''listen'' else ''connect'')
       in Inr [''--device'', ''virtio-vsock,port='' @ dec (unat (Port dev))
            @ '',socketURL='' @ SocketURL dev @ '','' @ listenStr])"

definition VirtioVsock_option :: "devopt \<Rightarrow> VirtioVsock \<Rightarrow> error + VirtioVsock" where
  "VirtioVsock_option opt dev =
    (if okey opt = ''socketURL'' then Inr (dev\<lparr>SocketURL := oval opt\<rparr>)
     else if okey opt = ''port'' then
       bindE (ParseUint (oval opt) 32) (\<lambda>port. Inr (dev\<lparr>Port := of_nat port\<rparr>))
     else if okey opt = ''listen'' then Inr (dev\<lparr>Listen := True\<rparr>)
     else if okey opt = ''connect'' then Inr (dev\<lparr>Listen := False\<rparr>)
     else Inl (Errorf (''unknown option for virtio-vsock devices: '' @ okey opt)))"

definition VirtioVsock_FromOptions :: "devopt list \<Rightarrow> VirtioVsock \<Rightarrow> error + VirtioVsock" where
  "VirtioVsock_FromOptions options dev =
    foldE VirtioVsock_option options (dev\<lparr>Listen := True\<rparr>)"

lemmas vsock_defs [component_simps] =
  virtioVsockZero_def VirtioVsock_ToCmdLine_def VirtioVsock_option_def
  VirtioVsock_FromOptions_def VirtioVsockNew_def MaxUint32_def

definition vsock_opts :: "VirtioVsock \<Rightarrow> string list" where
  "vsock_opts dev = [''port='' @ dec (unat (Port dev)), ''socketURL='' @ SocketURL dev,
    (if Listen dev then ''listen'' else ''connect'')]"

definition vsock_printable :: "VirtioVsock \<Rightarrow> bool" where
  "vsock_printable dev \<longleftrightarrow>
    Port dev \<noteq> 0 \<and> SocketURL dev \<noteq> [] \<and> comma_free (SocketURL dev)"

lemma unat_u32_bound: "unat (p :: u32) < 2 ^ 32"
  using unsigned_less [of p, where ?'a = nat] by simp

lemma ParseUint_port: "ParseUint (dec (unat (p :: u32))) 32 = Inr (unat p)"
  by (rule ParseUint_dec [OF unat_u32_bound])

lemma vsock_loop_parsed:
  assumes "foldE VirtioVsock_option os (virtioVsockZero\<lparr>Listen := True\<rparr>) = Inr d"
    and "\<forall>opt \<in> set os. opt_comma_free opt"
  shows "comma_free (SocketURL d)"
  by (rule foldE_invariant [OF assms(1)])
    (use assms(2) in \<open>auto simp: virtioVsockZero_def VirtioVsock_option_def bindE_eq_Inr
      opt_comma_free_def split: if_splits\<close>)

interpretation vsock: parsed_component "''--device''" "''virtio-vsock''" virtioVsockZero
  VirtioVsock_FromOptions VirtioVsock_ToCmdLine vsock_opts vsock_printable "\<lambda>_. True"
proof unfold_locales
  fix os d args
  assume "\<forall>opt \<in> set os. opt_comma_free opt" "VirtioVsock_FromOptions os virtioVsockZero = Inr d"
    "VirtioVsock_ToCmdLine d = Inr args"
  then show "vsock_printable d"
    using vsock_loop_parsed [of os d]
    by (auto simp: VirtioVsock_FromOptions_def VirtioVsock_ToCmdLine_def vsock_printable_def
        split: if_splits)
qed (auto simp: vsock_printable_def vsock_opts_def vsock_defs go_simps ParseUint_port
    split: if_splits)

subsection \<open>VirtioRng and VirtioBalloon\<close>

type_synonym VirtioRng = unit
type_synonym VirtioBalloon = unit

definition VirtioRngNew :: "error + VirtioRng" where
  "VirtioRngNew = Inr ()"

definition VirtioBalloonNew :: "error + VirtioBalloon" where
  "VirtioBalloonNew = Inr ()"

definition VirtioRng_ToCmdLine :: "VirtioRng \<Rightarrow> error + string list" where
  "VirtioRng_ToCmdLine dev = Inr [''--device'', ''virtio-rng'']"

definition VirtioRng_FromOptions :: "devopt list \<Rightarrow> VirtioRng \<Rightarrow> error + VirtioRng" where
  "VirtioRng_FromOptions options dev =
    (if length options \<noteq> 0 then
       Inl (Errorf (''unknown options for virtio-rng devices: '' @ fmt_options options))
     else Inr dev)"

definition VirtioBalloon_ToCmdLine :: "VirtioBalloon \<Rightarrow> error + string list" where
  "VirtioBalloon_ToCmdLine dev = Inr [''--device'', ''virtio-balloon'']"

definition VirtioBalloon_FromOptions ::
    "devopt list \<Rightarrow> VirtioBalloon \<Rightarrow> error + VirtioBalloon" where
  "VirtioBalloon_FromOptions options dev =
    (if length options \<noteq> 0 then
       Inl (Errorf (''unknown options for virtio-balloon devices: '' @ fmt_options options))
     else Inr dev)"

lemmas empty_device_defs [component_simps] =
  VirtioRng_ToCmdLine_def VirtioRng_FromOptions_def
  VirtioBalloon_ToCmdLine_def VirtioBalloon_FromOptions_def

interpretation rng: parsed_component "''--device''" "''virtio-rng''" "()"
  VirtioRng_FromOptions VirtioRng_ToCmdLine "\<lambda>_. []" "\<lambda>_. True" "\<lambda>_. True"
  by unfold_locales (simp_all add: empty_device_defs)

interpretation balloon: parsed_component "''--device''" "''virtio-balloon''" "()"
  VirtioBalloon_FromOptions VirtioBalloon_ToCmdLine "\<lambda>_. []" "\<lambda>_. True" "\<lambda>_. True"
  by unfold_locales (simp_all add: empty_device_defs)

subsection \<open>Properties\<close>

text \<open>
  A vsock port is never truncated: the \<open>port\<close> option with the decimal numeral of \<open>n\<close> is
  accepted exactly when \<open>n\<close> fits 32 bits and then sets the port to \<open>n\<close>, and the constructor
  accepts a 64-bit port exactly when it is at most \<open>MaxUint32\<close> and then keeps its value.
\<close>

theorem vsock_port_exact:
  "VirtioVsock_option \<lparr>okey = ''port'', oval = dec n\<rparr> d
      = (if n < 2 ^ 32 then Inr (d\<lparr>Port := of_nat n\<rparr>)
         else Inl (NumError ''ParseUint'' (dec n) ErrRange))
    \<and> (case VirtioVsockNew p url listen of
         Inl e \<Rightarrow> 2 ^ 32 \<le> unat p
       | Inr v \<Rightarrow> unat (Port v) = unat p \<and> unat p < 2 ^ 32)"
proof
  show "VirtioVsock_option \<lparr>okey = ''port'', oval = dec n\<rparr> d
      = (if n < 2 ^ 32 then Inr (d\<lparr>Port := of_nat n\<rparr>)
         else Inl (NumError ''ParseUint'' (dec n) ErrRange))"
    by (simp add: VirtioVsock_option_def ParseUint_dec_iff)
  have "unat (ucast p :: u32) = unat p" if "unat p < 2 ^ 32"
    using that by (simp add: unsigned_ucast_eq take_bit_nat_eq_self)
  moreover have "MaxUint32 < p \<longleftrightarrow> 2 ^ 32 \<le> unat p"
    by (auto simp: MaxUint32_def word_less_nat_alt)
  ultimately show "case VirtioVsockNew p url listen of
         Inl e \<Rightarrow> 2 ^ 32 \<le> unat p
       | Inr v \<Rightarrow> unat (Port v) = unat p \<and> unat p < 2 ^ 32"
    by (auto simp: VirtioVsockNew_def)
qed

end
