(* ===== verification/NetDevice.thy ===== *)
theory NetDevice
  imports Options
begin

section \<open>virtio-net\<close>

text \<open>
  \<open>VirtioNet\<close> of \<open>pkg/config/virtio.go\<close>: a network interface attached to the NAT, to a
  connected datagram socket given as a file descriptor, or to a unix socket path. A
  \<open>*os.File\<close> is its descriptor, and \<open>None\<close> is the nil pointer.
\<close>

record VirtioNet =
  UsesNat :: bool
  MacAddress :: hardware_addr
  Socket :: "nat option"
  UnixSocketPath :: string
  VfkitMagic :: bool

definition virtioNetZero :: VirtioNet where
  "virtioNetZero = \<lparr>UsesNat = False, MacAddress = [], Socket = None, UnixSocketPath = [],
    VfkitMagic = False\<rparr>"

definition VirtioNetNew :: "string \<Rightarrow> error + VirtioNet" where
  "VirtioNetNew macAddress =
    bindE (if macAddress \<noteq> [] then ParseMAC macAddress else Inr []) (\<lambda>hwAddr.
      Inr (virtioNetZero\<lparr>UsesNat := True, MacAddress := hwAddr\<rparr>))"

definition VirtioNet_SetSocket :: "nat option \<Rightarrow> VirtioNet \<Rightarrow> VirtioNet" where
  "VirtioNet_SetSocket file dev = dev\<lparr>Socket := file, UsesNat := False\<rparr>"

definition VirtioNet_SetUnixSocketPath :: "string \<Rightarrow> VirtioNet \<Rightarrow> VirtioNet" where
  "VirtioNet_SetUnixSocketPath path dev =
    dev\<lparr>UnixSocketPath := path, UsesNat := False, VfkitMagic := True\<rparr>"

definition VirtioNet_validate :: "VirtioNet \<Rightarrow> error + unit" where
  "VirtioNet_validate dev =
    (if UsesNat dev \<and> Socket dev \<noteq> None then
       Inl (Errorf '''nat' and 'fd' cannot be set at the same time'')
     else if UsesNat dev \<and> UnixSocketPath dev \<noteq> [] then
       Inl (Errorf '''nat' and 'unixSocketPath' cannot be set at the same time'')
     else if Socket dev \<noteq> None \<and> UnixSocketPath dev \<noteq> [] then
       Inl (Errorf '''fd' and 'unixSocketPath' cannot be set at the same time'')
     else if \<not> UsesNat dev \<and> Socket dev = None \<and> UnixSocketPath dev = [] then
       Inl (Errorf ''one of 'nat' or 'fd' or 'unixSocketPath' must be set'')
     else Inr ())"

text \<open>\<open>(*os.File).Fd\<close>, which is the largest \<open>uintptr\<close> on a nil file.\<close>

definition file_Fd :: "nat option \<Rightarrow> nat" where
  "file_Fd f = (case f of Some fd \<Rightarrow> fd | None \<Rightarrow> 2 ^ 64 - 1)"

definition VirtioNet_ToCmdLine :: "VirtioNet \<Rightarrow> error + string list" where
  "VirtioNet_ToCmdLine dev = bindE (VirtioNet_validate dev) (\<lambda>_.
    let builder = ''virtio-net'';
        builder =
          (if UsesNat dev then builder @ '',nat''
           else if UnixSocketPath dev \<noteq> [] then
             (if VfkitMagic dev then builder @ '',unixSocketPath='' @ UnixSocketPath dev
              else builder @ '',type=unixgram'' @ '',path='' @ UnixSocketPath dev
                @ '',vfkitMagic=off'')
           else builder @ '',fd='' @ dec (file_Fd (Socket dev)));
        builder = (if length (MacAddress dev) \<noteq> 0
          then builder @ '',mac='' @ mac_string (MacAddress dev) else builder)
    in Inr [''--device'', builder])"

definition MaxInt32 :: int where
  "MaxInt32 = 2147483647"

text \<open>
  The loop of \<open>FromOptions\<close> carries the device, \<open>hasType\<close> and \<open>typeOnlyOptions\<close>.
\<close>

type_synonym net_loop = "VirtioNet \<times> bool \<times> string list"

definition VirtioNet_option :: "devopt \<Rightarrow> net_loop \<Rightarrow> error + net_loop" where
  "VirtioNet_option opt st = (case st of (dev, hasType, typeOnlyOptions) \<Rightarrow>
    if okey opt = ''nat'' then
      (if oval opt \<noteq> [] then
         Inl (Errorf (''unexpected value for virtio-net 'nat' option: '' @ oval opt))
       else Inr (dev\<lparr>UsesNat := True\<rparr>, hasType, typeOnlyOptions))
    else if okey opt = ''mac'' then
      bindE (ParseMAC (oval opt)) (\<lambda>macAddress.
        Inr (dev\<lparr>MacAddress := macAddress\<rparr>, hasType, typeOnlyOptions))
    else if okey opt = ''fd'' then
      bindE (Atoi (oval opt)) (\<lambda>fd.
        if fd < 0 \<or> MaxInt32 < fd then
          Inl (Errorf (''invalid file descriptor: '' @ dec_int fd))
        else Inr (dev\<lparr>Socket := Some (nat fd)\<rparr>, hasType, typeOnlyOptions))
    else if okey opt = ''unixSocketPath'' then
      Inr (dev\<lparr>UnixSocketPath := oval opt\<rparr>, hasType, typeOnlyOptions)
    else if okey opt = ''type'' then
      (if oval opt \<noteq> ''unixgram'' then
         Inl (Errorf (''unsupported virtio-net type: '' @ oval opt
           @ '' (only 'unixgram' is supported)''))
       else Inr (dev, True, typeOnlyOptions))
    else if okey opt = ''path'' then
      Inr (dev\<lparr>UnixSocketPath := oval opt\<rparr>, hasType, typeOnlyOptions @ [okey opt])
    else if okey opt = ''vfkitMagic'' then
      (if oval opt \<noteq> ''on'' \<and> oval opt \<noteq> ''off'' then
         Inl (Errorf (''invalid value for vfkitMagic: '' @ oval opt @ '' (expected on/off)''))
       else Inr (dev\<lparr>VfkitMagic := (oval opt = ''on'')\<rparr>, hasType, typeOnlyOptions))
    else if okey opt = ''offloading'' then
      (if oval opt \<noteq> ''off'' then
         Inl (Errorf (''invalid value for offloading: '' @ oval opt
           @ '' (only 'off' is supported)''))
       else Inr (dev, hasType, typeOnlyOptions @ [okey opt]))
    else Inl (Errorf (''unknown option for virtio-net devices: '' @ okey opt)))"

definition VirtioNet_FromOptions :: "devopt list \<Rightarrow> VirtioNet \<Rightarrow> error + VirtioNet" where
  "VirtioNet_FromOptions options dev =
    (let dev = (if \<exists>opt \<in> set options. okey opt = ''path'' \<or> okey opt = ''unixSocketPath''
                then dev\<lparr>VfkitMagic := True\<rparr> else dev)
     in bindE (foldE VirtioNet_option options (dev, False, []))
       (\<lambda>(dev, hasType, typeOnlyOptions).
          if hasType \<and> UnixSocketPath dev = [] then
            Inl (Errorf '''type' option requires 'path' to be specified'')
          else if \<not> hasType \<and> 0 < length typeOnlyOptions then
            Inl (Errorf ([CHR 0x27] @ typeOnlyOptions ! 0
              @ [CHR 0x27] @ '' option requires 'type' to be specified''))
          else bindE (VirtioNet_validate dev) (\<lambda>_. Inr dev)))"

subsection \<open>Printing, then reading\<close>

definition net_opts :: "VirtioNet \<Rightarrow> string list" where
  "net_opts dev =
    (if UsesNat dev then [''nat'']
     else if UnixSocketPath dev \<noteq> [] then
       (if VfkitMagic dev then [''unixSocketPath='' @ UnixSocketPath dev]
        else [''type=unixgram'', ''path='' @ UnixSocketPath dev, ''vfkitMagic=off''])
     else [''fd='' @ dec (file_Fd (Socket dev))])
    @ (if length (MacAddress dev) \<noteq> 0 then [''mac='' @ mac_string (MacAddress dev)] else [])"

definition net_parsed :: "VirtioNet \<Rightarrow> bool" where
  "net_parsed dev \<longleftrightarrow>
    comma_free (UnixSocketPath dev)
    \<and> (MacAddress dev = [] \<or> mac_len_ok (length (MacAddress dev)))
    \<and> (case Socket dev of None \<Rightarrow> True | Some fd \<Rightarrow> int fd \<le> MaxInt32)"

text \<open>The magic packet flag is printed only together with a unix socket path.\<close>

definition net_magic_ok :: "VirtioNet \<Rightarrow> bool" where
  "net_magic_ok dev \<longleftrightarrow> (if UnixSocketPath dev = [] then \<not> VfkitMagic dev else True)"

definition net_printable :: "VirtioNet \<Rightarrow> bool" where
  "net_printable dev \<longleftrightarrow>
    net_parsed dev \<and> net_magic_ok dev \<and> VirtioNet_validate dev = Inr ()"

text \<open>Exactly one of the three ways to attach the interface.\<close>

datatype attachment = AttachNat | AttachFd nat | AttachUnix string

fun net_attachment :: "attachment \<Rightarrow> VirtioNet \<Rightarrow> bool" where
  "net_attachment AttachNat dev =
    (UsesNat dev \<and> Socket dev = None \<and> UnixSocketPath dev = [])"
| "net_attachment (AttachFd fd) dev =
    (\<not> UsesNat dev \<and> Socket dev = Some fd \<and> UnixSocketPath dev = [])"
| "net_attachment (AttachUnix path) dev =
    (\<not> UsesNat dev \<and> Socket dev = None \<and> UnixSocketPath dev = path \<and> path \<noteq> [])"

lemma VirtioNet_validate_ok:
  "VirtioNet_validate d = Inr () \<longleftrightarrow> (\<exists>a. net_attachment a d)"
proof
  assume v: "VirtioNet_validate d = Inr ()"
  show "\<exists>a. net_attachment a d"
  proof (cases "UsesNat d")
    case True
    with v have "net_attachment AttachNat d"
      by (auto simp: VirtioNet_validate_def split: if_splits)
    then show ?thesis by blast
  next
    case False
    show ?thesis
    proof (cases "Socket d")
      case None
      with v False have "net_attachment (AttachUnix (UnixSocketPath d)) d"
        by (auto simp: VirtioNet_validate_def split: if_splits)
      then show ?thesis by blast
    next
      case (Some fd)
      with v False have "net_attachment (AttachFd fd) d"
        by (auto simp: VirtioNet_validate_def split: if_splits)
      then show ?thesis by blast
    qed
  qed
next
  assume "\<exists>a. net_attachment a d"
  then obtain a where "net_attachment a d" ..
  then show "VirtioNet_validate d = Inr ()"
    by (cases a) (auto simp: VirtioNet_validate_def)
qed

lemma net_attachment_unique: "net_attachment a d \<Longrightarrow> net_attachment b d \<Longrightarrow> a = b"
  by (cases a; cases b) auto

lemma net_emits:
  "net_printable d \<Longrightarrow>
    VirtioNet_ToCmdLine d
      = Inr [''--device'', join_with (CHR '','') (''virtio-net'' # net_opts d)]"
  by (auto simp: net_printable_def VirtioNet_ToCmdLine_def net_opts_def Let_def)

lemma net_opts_comma_free: "net_printable d \<Longrightarrow> x \<in> set (net_opts d) \<Longrightarrow> comma_free x"
  by (auto simp: net_printable_def net_parsed_def net_opts_def split: if_splits)

lemma net_fd_option:
  "int fd \<le> MaxInt32 \<Longrightarrow> Atoi (dec fd) = Inr (int fd)"
  using Atoi_dec_int [of "int fd"] by (simp add: dec_int_def MaxInt32_def)

lemma net_mac_loop:
  assumes "MacAddress d = [] \<or> mac_len_ok (length (MacAddress d))" "MacAddress c = []"
  shows "foldE VirtioNet_option
      (strvToOptions (if length (MacAddress d) \<noteq> 0 then [''mac='' @ mac_string (MacAddress d)] else []))
      (c, ht, tos) = Inr (c\<lparr>MacAddress := MacAddress d\<rparr>, ht, tos)"
proof (cases "MacAddress d = []")
  case True
  then show ?thesis using assms(2) by (cases c) simp
next
  case False
  then have "ParseMAC (mac_string (MacAddress d)) = Inr (MacAddress d)"
    using assms(1) ParseMAC_mac_string by simp
  then show ?thesis using False by (simp add: go_simps VirtioNet_option_def)
qed

lemmas net_read_defs =
  VirtioNet_FromOptions_def strvToOptions_append foldE_append net_opts_def

lemma net_mac_keys:
  "\<not> (\<exists>opt \<in> set (strvToOptions (if b then [''mac='' @ m] else [])).
      okey opt = ''path'' \<or> okey opt = ''unixSocketPath'')"
  by (simp add: go_simps)

lemma net_reads:
  assumes "net_printable d"
  shows "VirtioNet_FromOptions (strvToOptions (net_opts d)) virtioNetZero = Inr d"
proof -
  have p: "net_parsed d" and m: "net_magic_ok d" and v: "VirtioNet_validate d = Inr ()"
    using assms by (simp_all add: net_printable_def)
  then have mac: "MacAddress d = [] \<or> mac_len_ok (length (MacAddress d))"
    by (simp add: net_parsed_def)
  obtain a where a: "net_attachment a d" using v VirtioNet_validate_ok by blast
  let ?mac = "strvToOptions (if length (MacAddress d) \<noteq> 0
    then [''mac='' @ mac_string (MacAddress d)] else [])"
  show ?thesis
  proof (cases a)
    case AttachNat
    let ?c = "virtioNetZero\<lparr>UsesNat := True\<rparr>"
    have d: "?c\<lparr>MacAddress := MacAddress d\<rparr> = d"
      using a m AttachNat by (cases d) (auto simp: virtioNetZero_def net_magic_ok_def)
    have o': "strvToOptions (net_opts d) = \<lparr>okey = ''nat'', oval = []\<rparr> # ?mac"
      using a AttachNat by (simp add: net_opts_def go_simps)
    show ?thesis
      unfolding VirtioNet_FromOptions_def o'
      using net_mac_loop [OF mac, of ?c False "[]"] net_mac_keys v d
      by (simp add: VirtioNet_option_def virtioNetZero_def del: strvToOptions.simps)
  next
    case (AttachFd fd)
    let ?c = "virtioNetZero\<lparr>Socket := Some fd\<rparr>"
    have d: "?c\<lparr>MacAddress := MacAddress d\<rparr> = d"
      using a m AttachFd by (cases d) (auto simp: virtioNetZero_def net_magic_ok_def)
    have fd: "Atoi (dec fd) = Inr (int fd)" "int fd \<le> MaxInt32"
      using p a AttachFd net_fd_option by (auto simp: net_parsed_def)
    have o': "strvToOptions (net_opts d) = \<lparr>okey = ''fd'', oval = dec fd\<rparr> # ?mac"
      using a AttachFd by (simp add: net_opts_def go_simps file_Fd_def)
    show ?thesis
      unfolding VirtioNet_FromOptions_def o'
      using net_mac_loop [OF mac, of ?c False "[]"] net_mac_keys v fd d
      by (simp add: VirtioNet_option_def virtioNetZero_def del: strvToOptions.simps)
  next
    case (AttachUnix path)
    let ?c = "virtioNetZero\<lparr>UnixSocketPath := path, VfkitMagic := VfkitMagic d\<rparr>"
    have d: "?c\<lparr>MacAddress := MacAddress d\<rparr> = d"
      using a m AttachUnix by (cases d) (auto simp: virtioNetZero_def)
    have o': "strvToOptions (net_opts d)
      = (if VfkitMagic d then [\<lparr>okey = ''unixSocketPath'', oval = path\<rparr>]
         else [\<lparr>okey = ''type'', oval = ''unixgram''\<rparr>, \<lparr>okey = ''path'', oval = path\<rparr>,
           \<lparr>okey = ''vfkitMagic'', oval = ''off''\<rparr>]) @ ?mac"
      using a AttachUnix by (simp add: net_opts_def go_simps)
    have v': "VirtioNet_validate (?c\<lparr>MacAddress := MacAddress d\<rparr>) = Inr ()"
      using v unfolding d .
    have "path \<noteq> []" using a AttachUnix by simp
    then have "VirtioNet_FromOptions (strvToOptions (net_opts d)) virtioNetZero
        = Inr (?c\<lparr>MacAddress := MacAddress d\<rparr>)"
      unfolding VirtioNet_FromOptions_def o'
      using v' net_mac_loop [OF mac, of ?c "\<not> VfkitMagic d"
        "if VfkitMagic d then [] else [''path'']"]
      by (cases "VfkitMagic d")
        (simp_all add: VirtioNet_option_def virtioNetZero_def foldE_append
          del: strvToOptions.simps)
    then show ?thesis unfolding d .
  qed
qed

subsection \<open>What reading options establishes\<close>

lemma net_option_parsed:
  assumes "opt_comma_free opt" "net_parsed (fst st)" "VirtioNet_option opt st = Inr st'"
  shows "net_parsed (fst st')"
  using assms
  by (cases st)
    (auto simp: VirtioNet_option_def net_parsed_def opt_comma_free_def bindE_eq_Inr
      dest: ParseMAC_length split: if_splits option.splits)

lemma VirtioNet_FromOptions_parsed:
  assumes "VirtioNet_FromOptions os virtioNetZero = Inr d"
    and "\<forall>opt \<in> set os. opt_comma_free opt"
  shows "net_parsed d"
proof -
  define c where "c = (if \<exists>opt \<in> set os. okey opt = ''path'' \<or> okey opt = ''unixSocketPath''
    then virtioNetZero\<lparr>VfkitMagic := True\<rparr> else virtioNetZero)"
  have "net_parsed c" by (simp add: c_def net_parsed_def virtioNetZero_def)
  obtain ht tos where loop: "foldE VirtioNet_option os (c, False, []) = Inr (d, ht, tos)"
    using assms(1)
    by (cases "foldE VirtioNet_option os (c, False, [])")
      (auto simp: VirtioNet_FromOptions_def c_def [symmetric] bindE_eq_Inr
        split: if_splits)
  have "net_parsed (fst (d, ht, tos))"
    by (rule foldE_invariant [OF loop]) (use assms(2) net_option_parsed \<open>net_parsed c\<close> in auto)
  then show ?thesis by simp
qed

lemma VirtioNet_FromOptions_validated:
  "VirtioNet_FromOptions os c = Inr d \<Longrightarrow> VirtioNet_validate d = Inr ()"
  by (auto simp: VirtioNet_FromOptions_def Let_def bindE_eq_Inr split: if_splits)

interpretation netdev: parsed_component "''--device''" "''virtio-net''" virtioNetZero
  VirtioNet_FromOptions VirtioNet_ToCmdLine net_opts net_printable net_magic_ok
proof unfold_locales
  fix os d args
  assume "\<forall>opt \<in> set os. opt_comma_free opt" "VirtioNet_FromOptions os virtioNetZero = Inr d"
    "net_magic_ok d"
  then show "net_printable d"
    by (simp add: net_printable_def VirtioNet_FromOptions_parsed
        VirtioNet_FromOptions_validated)
qed (simp_all add: net_emits net_reads net_opts_comma_free)

subsection \<open>Properties\<close>

text \<open>
  A virtio-net device read from options is attached in exactly one way: to the NAT, to
  one file descriptor, or to one non-empty unix socket path.
\<close>

theorem net_one_attachment:
  assumes "VirtioNet_FromOptions os virtioNetZero = Inr d"
  shows "\<exists>!a. net_attachment a d"
proof -
  have "VirtioNet_validate d = Inr ()"
    using assms by (auto simp: VirtioNet_FromOptions_def Let_def bindE_eq_Inr split: if_splits)
  then obtain a where "net_attachment a d" using VirtioNet_validate_ok by blast
  then show ?thesis using net_attachment_unique by blast
qed

theorem net_one_attachment_witness:
  "\<exists>!a. net_attachment a (virtioNetZero\<lparr>UsesNat := True\<rparr>)"
  by (rule net_one_attachment [of "[\<lparr>okey = ''nat'', oval = []\<rparr>]"])
    (simp add: VirtioNet_FromOptions_def VirtioNet_option_def VirtioNet_validate_def virtioNetZero_def)

lemma net_option_type_loop:
  assumes "foldE VirtioNet_option os (c, ht, tos) = Inr (d, ht', tos')"
  shows "ht' = (ht \<or> (\<exists>opt \<in> set os. okey opt = ''type''))
    \<and> (tos' = [] \<longleftrightarrow> tos = [] \<and> \<not> (\<exists>opt \<in> set os. okey opt = ''path'' \<or> okey opt = ''offloading''))"
  using assms
proof (induction os arbitrary: c ht tos)
  case Nil
  then show ?case by simp
next
  case (Cons opt os)
  obtain c1 ht1 tos1 where s: "VirtioNet_option opt (c, ht, tos) = Inr (c1, ht1, tos1)"
    and f: "foldE VirtioNet_option os (c1, ht1, tos1) = Inr (d, ht', tos')"
    using Cons.prems by (auto simp: bindE_eq_Inr)
  have "ht1 = (ht \<or> okey opt = ''type'')
    \<and> (tos1 = [] \<longleftrightarrow> tos = [] \<and> okey opt \<noteq> ''path'' \<and> okey opt \<noteq> ''offloading'')"
    using s by (auto simp: VirtioNet_option_def bindE_eq_Inr split: if_splits)
  with Cons.IH [OF f] show ?case by auto
qed

text \<open>
  The options \<open>path\<close> and \<open>offloading\<close> are accepted only together with \<open>type\<close>, and
  \<open>type\<close> only together with a socket path.
\<close>

theorem net_type_required:
  assumes "VirtioNet_FromOptions os c = Inr d"
  shows "if list_ex (\<lambda>opt. okey opt = ''type'') os then UnixSocketPath d \<noteq> []
    else \<not> list_ex (\<lambda>opt. okey opt = ''path'' \<or> okey opt = ''offloading'') os"
proof -
  obtain c' ht tos where f: "foldE VirtioNet_option os (c', False, []) = Inr (d, ht, tos)"
    and ok: "\<not> (ht \<and> UnixSocketPath d = [])" "\<not> (\<not> ht \<and> 0 < length tos)"
    using assms
    by (auto simp: VirtioNet_FromOptions_def Let_def bindE_eq_Inr split: prod.splits if_splits)
  show ?thesis using net_option_type_loop [OF f] ok by (auto simp: list_ex_iff)
qed

theorem net_type_required_witness:
  "if list_ex (\<lambda>opt. okey opt = ''type'')
      [\<lparr>okey = ''path'', oval = ''/s''\<rparr>, \<lparr>okey = ''type'', oval = ''unixgram''\<rparr>]
    then UnixSocketPath (virtioNetZero\<lparr>UnixSocketPath := ''/s'', VfkitMagic := True\<rparr>) \<noteq> []
    else \<not> list_ex (\<lambda>opt. okey opt = ''path'' \<or> okey opt = ''offloading'')
      [\<lparr>okey = ''path'', oval = ''/s''\<rparr>, \<lparr>okey = ''type'', oval = ''unixgram''\<rparr>]"
  by (rule net_type_required [of _ virtioNetZero])
    (simp add: VirtioNet_FromOptions_def VirtioNet_option_def VirtioNet_validate_def virtioNetZero_def)

end
