(* ===== verification/Devices.thy ===== *)
theory Devices
  imports BlockDevices NbdDevice VirtioDevices SharingDevices NetDevice
begin

section \<open>The device interface\<close>

text \<open>
  \<open>VirtioDevice\<close> is a Go interface with thirteen implementations: here a datatype with one
  constructor each. \<open>deviceFromCmdLine\<close> chooses the implementation by the first item of
  the argument and hands it the remaining options. The laws that each device proved about
  itself in its own theory give the laws of the dispatching functions.
\<close>

datatype device =
    DevRosetta RosettaShare
  | DevNVMe NVMExpressController
  | DevBlk VirtioBlk
  | DevFs VirtioFs
  | DevNet VirtioNet
  | DevRng VirtioRng
  | DevSerial VirtioSerial
  | DevVsock VirtioVsock
  | DevUSB USBMassStorage
  | DevInput VirtioInput
  | DevGPU VirtioGPU
  | DevBalloon VirtioBalloon
  | DevNbd NetworkBlockDevice

fun device_ToCmdLine :: "device \<Rightarrow> error + string list" where
  "device_ToCmdLine (DevRosetta d) = RosettaShare_ToCmdLine d"
| "device_ToCmdLine (DevNVMe d) = DiskStorageConfig_ToCmdLine d"
| "device_ToCmdLine (DevBlk d) = VirtioBlk_ToCmdLine d"
| "device_ToCmdLine (DevFs d) = VirtioFs_ToCmdLine d"
| "device_ToCmdLine (DevNet d) = VirtioNet_ToCmdLine d"
| "device_ToCmdLine (DevRng d) = VirtioRng_ToCmdLine d"
| "device_ToCmdLine (DevSerial d) = VirtioSerial_ToCmdLine d"
| "device_ToCmdLine (DevVsock d) = VirtioVsock_ToCmdLine d"
| "device_ToCmdLine (DevUSB d) = DiskStorageConfig_ToCmdLine d"
| "device_ToCmdLine (DevInput d) = VirtioInput_ToCmdLine d"
| "device_ToCmdLine (DevGPU d) = VirtioGPU_ToCmdLine d"
| "device_ToCmdLine (DevBalloon d) = VirtioBalloon_ToCmdLine d"
| "device_ToCmdLine (DevNbd d) = NetworkBlockDevice_ToCmdLine d"

text \<open>The empty device that \<open>deviceFromCmdLine\<close> makes for a name.\<close>

definition device_new :: "string \<Rightarrow> device option" where
  "device_new name =
    (if name = ''rosetta'' then Some (DevRosetta rosettaZero)
     else if name = ''nvme'' then Some (DevNVMe nvmExpressControllerNewEmpty)
     else if name = ''virtio-blk'' then Some (DevBlk virtioBlkNewEmpty)
     else if name = ''virtio-fs'' then Some (DevFs virtioFsZero)
     else if name = ''virtio-net'' then Some (DevNet virtioNetZero)
     else if name = ''virtio-rng'' then Some (DevRng ())
     else if name = ''virtio-serial'' then Some (DevSerial virtioSerialZero)
     else if name = ''virtio-vsock'' then Some (DevVsock virtioVsockZero)
     else if name = ''usb-mass-storage'' then Some (DevUSB usbMassStorageNewEmpty)
     else if name = ''virtio-input'' then Some (DevInput virtioInputZero)
     else if name = ''virtio-gpu'' then Some (DevGPU virtioGPUZero)
     else if name = ''virtio-balloon'' then Some (DevBalloon ())
     else if name = ''nbd'' then Some (DevNbd networkBlockDeviceNewEmpty)
     else None)"

fun device_FromOptions :: "file_env \<Rightarrow> devopt list \<Rightarrow> device \<Rightarrow> error + device" where
  "device_FromOptions fs os (DevRosetta d) = mapE DevRosetta (RosettaShare_FromOptions os d)"
| "device_FromOptions fs os (DevNVMe d) = mapE DevNVMe (DiskStorageConfig_FromOptions os d)"
| "device_FromOptions fs os (DevBlk d) = mapE DevBlk (VirtioBlk_FromOptions fs os d)"
| "device_FromOptions fs os (DevFs d) = mapE DevFs (VirtioFs_FromOptions os d)"
| "device_FromOptions fs os (DevNet d) = mapE DevNet (VirtioNet_FromOptions os d)"
| "device_FromOptions fs os (DevRng d) = mapE DevRng (VirtioRng_FromOptions os d)"
| "device_FromOptions fs os (DevSerial d) = mapE DevSerial (VirtioSerial_FromOptions os d)"
| "device_FromOptions fs os (DevVsock d) = mapE DevVsock (VirtioVsock_FromOptions os d)"
| "device_FromOptions fs os (DevUSB d) = mapE DevUSB (DiskStorageConfig_FromOptions os d)"
| "device_FromOptions fs os (DevInput d) = mapE DevInput (VirtioInput_FromOptions os d)"
| "device_FromOptions fs os (DevGPU d) = mapE DevGPU (VirtioGPU_FromOptions os d)"
| "device_FromOptions fs os (DevBalloon d) = mapE DevBalloon (VirtioBalloon_FromOptions os d)"
| "device_FromOptions fs os (DevNbd d) = mapE DevNbd (NetworkBlockDevice_FromOptions os d)"

definition deviceFromCmdLine :: "file_env \<Rightarrow> string \<Rightarrow> error + device" where
  "deviceFromCmdLine fs deviceOpts =
    (let opts = split_on (CHR '','') deviceOpts in
     if length opts = 0 then Inl (Errorf ''empty option list in command line argument'')
     else case device_new (opts ! 0) of
       None \<Rightarrow> Inl (Errorf (''unknown device type: '' @ opts ! 0))
     | Some dev \<Rightarrow> device_FromOptions fs (strvToOptions (tl opts)) dev)"

subsection \<open>The laws of the dispatching functions\<close>

fun device_printable :: "file_env \<Rightarrow> device \<Rightarrow> bool" where
  "device_printable fs (DevRosetta d) = rosetta_printable d"
| "device_printable fs (DevNVMe d) = disk_printable ''nvme'' d"
| "device_printable fs (DevBlk d) = blk_printable fs d"
| "device_printable fs (DevFs d) = fs_printable d"
| "device_printable fs (DevNet d) = net_printable d"
| "device_printable fs (DevRng d) = True"
| "device_printable fs (DevSerial d) = serial_printable d"
| "device_printable fs (DevVsock d) = vsock_printable d"
| "device_printable fs (DevUSB d) = disk_printable ''usb-mass-storage'' d"
| "device_printable fs (DevInput d) = input_printable d"
| "device_printable fs (DevGPU d) = gpu_printable d"
| "device_printable fs (DevBalloon d) = True"
| "device_printable fs (DevNbd d) = nbd_printable d"

text \<open>The two kinds of device that can hold more than their command line shows.\<close>

fun device_faithful :: "device \<Rightarrow> bool" where
  "device_faithful (DevNet d) = net_magic_ok d"
| "device_faithful (DevNbd d) = nbd_timeout_positive d"
| "device_faithful d = True"

fun device_tag :: "device \<Rightarrow> string" where
  "device_tag (DevRosetta d) = ''rosetta''"
| "device_tag (DevNVMe d) = ''nvme''"
| "device_tag (DevBlk d) = ''virtio-blk''"
| "device_tag (DevFs d) = ''virtio-fs''"
| "device_tag (DevNet d) = ''virtio-net''"
| "device_tag (DevRng d) = ''virtio-rng''"
| "device_tag (DevSerial d) = ''virtio-serial''"
| "device_tag (DevVsock d) = ''virtio-vsock''"
| "device_tag (DevUSB d) = ''usb-mass-storage''"
| "device_tag (DevInput d) = ''virtio-input''"
| "device_tag (DevGPU d) = ''virtio-gpu''"
| "device_tag (DevBalloon d) = ''virtio-balloon''"
| "device_tag (DevNbd d) = ''nbd''"

fun device_opts :: "device \<Rightarrow> string list" where
  "device_opts (DevRosetta d) = rosetta_opts d"
| "device_opts (DevNVMe d) = disk_opts d"
| "device_opts (DevBlk d) = blk_opts d"
| "device_opts (DevFs d) = fs_opts d"
| "device_opts (DevNet d) = net_opts d"
| "device_opts (DevRng d) = []"
| "device_opts (DevSerial d) = serial_opts d"
| "device_opts (DevVsock d) = vsock_opts d"
| "device_opts (DevUSB d) = disk_opts d"
| "device_opts (DevInput d) = input_opts d"
| "device_opts (DevGPU d) = gpu_opts d"
| "device_opts (DevBalloon d) = []"
| "device_opts (DevNbd d) = nbd_opts d"

lemma deviceFromCmdLine_split:
  "split_on (CHR '','') arg = name # os \<Longrightarrow> device_new name = Some dev \<Longrightarrow>
    deviceFromCmdLine fs arg = device_FromOptions fs (strvToOptions os) dev"
  by (simp add: deviceFromCmdLine_def)

lemma device_new_tag [simp]:
  "device_new ''rosetta'' = Some (DevRosetta rosettaZero)"
  "device_new ''nvme'' = Some (DevNVMe nvmExpressControllerNewEmpty)"
  "device_new ''virtio-blk'' = Some (DevBlk virtioBlkNewEmpty)"
  "device_new ''virtio-fs'' = Some (DevFs virtioFsZero)"
  "device_new ''virtio-net'' = Some (DevNet virtioNetZero)"
  "device_new ''virtio-rng'' = Some (DevRng ())"
  "device_new ''virtio-serial'' = Some (DevSerial virtioSerialZero)"
  "device_new ''virtio-vsock'' = Some (DevVsock virtioVsockZero)"
  "device_new ''usb-mass-storage'' = Some (DevUSB usbMassStorageNewEmpty)"
  "device_new ''virtio-input'' = Some (DevInput virtioInputZero)"
  "device_new ''virtio-gpu'' = Some (DevGPU virtioGPUZero)"
  "device_new ''virtio-balloon'' = Some (DevBalloon ())"
  "device_new ''nbd'' = Some (DevNbd networkBlockDeviceNewEmpty)"
  by (simp_all add: device_new_def)

text \<open>Printing a printable device gives one argument, and reading it gives the device.\<close>

lemma device_print_read:
  assumes "device_printable fs d"
  obtains arg where "device_ToCmdLine d = Inr [''--device'', arg]"
    and "split_on (CHR '','') arg = device_tag d # device_opts d"
    and "deviceFromCmdLine fs arg = Inr d"
proof (cases d)
  case (DevRosetta x)
  with assms show ?thesis
    by (auto elim!: rosetta.print_read [of x] intro!: that simp: deviceFromCmdLine_split)
next
  case (DevNVMe x)
  with assms show ?thesis
    by (auto elim!: nvme.print_read [of x] intro!: that simp: deviceFromCmdLine_split)
next
  case (DevBlk x)
  with assms show ?thesis
    by (auto elim!: blk.print_read [of fs x] intro!: that simp: deviceFromCmdLine_split)
next
  case (DevFs x)
  with assms show ?thesis
    by (auto elim!: sharedfs.print_read [of x] intro!: that simp: deviceFromCmdLine_split)
next
  case (DevNet x)
  with assms show ?thesis
    by (auto elim!: netdev.print_read [of x] intro!: that simp: deviceFromCmdLine_split)
next
  case (DevRng x)
  show ?thesis
    by (rule rng.print_read [of x])
      (auto intro!: that simp: DevRng deviceFromCmdLine_split)
next
  case (DevSerial x)
  with assms show ?thesis
    by (auto elim!: serial.print_read [of x] intro!: that simp: deviceFromCmdLine_split)
next
  case (DevVsock x)
  with assms show ?thesis
    by (auto elim!: vsock.print_read [of x] intro!: that simp: deviceFromCmdLine_split)
next
  case (DevUSB x)
  with assms show ?thesis
    by (auto elim!: usb.print_read [of x] intro!: that simp: deviceFromCmdLine_split)
next
  case (DevInput x)
  with assms show ?thesis
    by (auto elim!: input.print_read [of x] intro!: that simp: deviceFromCmdLine_split)
next
  case (DevGPU x)
  with assms show ?thesis
    by (auto elim!: gpu.print_read [of x] intro!: that simp: deviceFromCmdLine_split)
next
  case (DevBalloon x)
  show ?thesis
    by (rule balloon.print_read [of x])
      (auto intro!: that simp: DevBalloon deviceFromCmdLine_split)
next
  case (DevNbd x)
  with assms show ?thesis
    by (auto elim!: nbd.print_read [of x] intro!: that simp: deviceFromCmdLine_split)
qed

lemma device_new_SomeD: "device_new name = Some d \<Longrightarrow> device_tag d = name"
  by (auto simp: device_new_def split: if_splits)

lemma device_FromOptions_tag: "device_FromOptions fs os c = Inr d \<Longrightarrow> device_tag d = device_tag c"
  by (cases c) (auto simp: mapE_eq_Inr)

lemma deviceFromCmdLine_InrE:
  assumes "deviceFromCmdLine fs s = Inr d"
  obtains os c where "split_on (CHR '','') s = device_tag d # os"
    and "\<forall>x \<in> set os. comma_free x" and "device_new (device_tag d) = Some c"
    and "device_FromOptions fs (strvToOptions os) c = Inr d"
proof -
  obtain name os where s: "split_on (CHR '','') s = name # os"
    by (metis neq_Nil_conv split_on_nonempty)
  then obtain c where c: "device_new name = Some c" "device_FromOptions fs (strvToOptions os) c = Inr d"
    using assms by (auto simp: deviceFromCmdLine_def Let_def split: option.splits)
  then have "device_tag d = name"
    using device_new_SomeD device_FromOptions_tag by metis
  moreover have "\<forall>x \<in> set os. comma_free x"
    using split_comma_free [of _ s] s by auto
  ultimately show thesis using that s c by blast
qed

text \<open>A device read from a command line can be printed without losing anything.\<close>

lemma device_parsed_printable:
  assumes "deviceFromCmdLine fs s = Inr d" "device_ToCmdLine d = Inr args" "device_faithful d"
  shows "device_printable fs d"
proof -
  obtain os c where *: "\<forall>x \<in> set os. comma_free x" "device_new (device_tag d) = Some c"
    "device_FromOptions fs (strvToOptions os) c = Inr d"
    by (rule deviceFromCmdLine_InrE [OF assms(1)])
  show ?thesis
  proof (cases d)
    case (DevRosetta x) with * assms rosetta.read_print_read [of os x] show ?thesis
      by (auto simp: mapE_eq_Inr)
  next
    case (DevNVMe x) with * assms nvme.read_print_read [of os x] show ?thesis
      by (auto simp: mapE_eq_Inr)
  next
    case (DevBlk x) with * assms blk.read_print_read [of fs os x] show ?thesis
      by (auto simp: mapE_eq_Inr)
  next
    case (DevFs x) with * assms sharedfs.read_print_read [of os x] show ?thesis
      by (auto simp: mapE_eq_Inr)
  next
    case (DevNet x) with * assms netdev.read_print_read [of os x] show ?thesis
      by (auto simp: mapE_eq_Inr)
  next
    case (DevSerial x) with * assms serial.read_print_read [of os x] show ?thesis
      by (auto simp: mapE_eq_Inr)
  next
    case (DevVsock x) with * assms vsock.read_print_read [of os x] show ?thesis
      by (auto simp: mapE_eq_Inr)
  next
    case (DevUSB x) with * assms usb.read_print_read [of os x] show ?thesis
      by (auto simp: mapE_eq_Inr)
  next
    case (DevInput x) with * assms input.read_print_read [of os x] show ?thesis
      by (auto simp: mapE_eq_Inr)
  next
    case (DevGPU x) with * assms gpu.read_print_read [of os x] show ?thesis
      by (auto simp: mapE_eq_Inr)
  next
    case (DevNbd x) with * assms nbd.read_print_read [of os x] show ?thesis
      by (auto simp: mapE_eq_Inr)
  qed simp_all
qed

subsection \<open>Properties\<close>

text \<open>
  C2. A device that the command line can carry is printed as one \<open>--device\<close> argument,
  and reading that argument gives the same device back, for each of the thirteen kinds.
\<close>

theorem device_roundtrip:
  assumes "device_printable fs d"
  shows "\<exists>arg. device_ToCmdLine d = Inr [''--device'', arg] \<and> deviceFromCmdLine fs arg = Inr d"
  by (rule device_print_read [OF assms]) blast

definition witness_net :: device where
  "witness_net = DevNet \<lparr>UsesNat = False, MacAddress = [1, 2, 0xAB, 4, 5, 6], Socket = Some 3,
    UnixSocketPath = [], VfkitMagic = False\<rparr>"

lemma witness_net_printable: "device_printable fs witness_net"
  by (simp add: witness_net_def net_printable_def net_parsed_def net_magic_ok_def
      VirtioNet_validate_def MaxInt32_def mac_len_ok_def)

theorem device_roundtrip_witness:
  "\<exists>arg. device_ToCmdLine witness_net = Inr [''--device'', arg]
    \<and> deviceFromCmdLine (\<lambda>_. OpenFails ErrNotExist) arg = Inr witness_net"
  by (rule device_roundtrip [OF witness_net_printable])

text \<open>
  C3. A device read from any command line argument, whatever the order and repetition of its
  options, is stable: if it can be printed at all and is not one of the two exceptions
  (a non-positive NBD timeout, a magic flag without a socket path), the argument it is
  printed as reads back as the same device.
\<close>

theorem device_stable:
  assumes "deviceFromCmdLine fs s = Inr d" "device_ToCmdLine d = Inr args" "device_faithful d"
  shows "\<exists>arg. args = [''--device'', arg] \<and> deviceFromCmdLine fs arg = Inr d"
proof -
  from device_parsed_printable [OF assms] have "device_printable fs d" .
  then show ?thesis using assms(2) by (elim device_print_read) auto
qed

definition witness_rosetta_arg :: string where
  "witness_rosetta_arg = ''rosetta,install,mountTag=a,mountTag=vz''"

definition witness_rosetta :: RosettaShare where
  "witness_rosetta = \<lparr>MountTag = ''vz'', InstallRosetta = True, IgnoreIfMissing = False\<rparr>"

lemma witness_rosetta_eval:
  "deviceFromCmdLine fs witness_rosetta_arg = Inr (DevRosetta witness_rosetta)"
  "device_ToCmdLine (DevRosetta witness_rosetta)
    = Inr [''--device'', ''rosetta,mountTag=vz,install'']"
  by (simp_all add: witness_rosetta_arg_def witness_rosetta_def deviceFromCmdLine_def
      component_simps go_simps)

theorem device_stable_witness:
  "\<exists>arg. [''--device'', ''rosetta,mountTag=vz,install''] = [''--device'', arg]
    \<and> deviceFromCmdLine (\<lambda>_. OpenFails ErrNotExist) arg = Inr (DevRosetta witness_rosetta)"
  by (rule device_stable [OF witness_rosetta_eval(1,2)]) simp

text \<open>
  C11. The first item of the argument alone decides the kind of device: an argument is either
  refused or gives the device named by its first item, and every other name is refused
  with \<open>unknown device type\<close>, before any option is looked at.
\<close>

theorem device_kind:
  "case device_new (hd (split_on (CHR '','') s)) of
     None \<Rightarrow> deviceFromCmdLine fs s
       = Inl (Errorf (''unknown device type: '' @ hd (split_on (CHR '','') s)))
   | Some c \<Rightarrow> device_tag c = hd (split_on (CHR '','') s)
       \<and> (case deviceFromCmdLine fs s of Inl e \<Rightarrow> True | Inr d \<Rightarrow> device_tag d = device_tag c)"
proof -
  obtain name os where s: "split_on (CHR '','') s = name # os"
    by (metis neq_Nil_conv split_on_nonempty)
  show ?thesis
    using device_new_SomeD [of name] device_FromOptions_tag [of fs "strvToOptions os"]
    by (auto simp: s deviceFromCmdLine_def Let_def split: option.split sum.split)
qed

text \<open>
  C14. A network block device with a timeout of zero or less is accepted on the command line
  but its timeout is not printed: printing it and reading it back succeeds, changes only
  the timeout, and silently makes it the default of 15 seconds.
\<close>

theorem nbd_timeout_lost:
  assumes "deviceFromCmdLine fs s = Inr (DevNbd d)"
    and "\<not> nbd_timeout_positive d" "URI d \<noteq> []"
  shows "\<exists>arg. device_ToCmdLine (DevNbd d) = Inr [''--device'', arg]
    \<and> deviceFromCmdLine fs arg = Inr (DevNbd (d\<lparr>Timeout := 15000 * Millisecond\<rparr>))"
proof -
  obtain os where "\<forall>x \<in> set os. comma_free x"
    "NetworkBlockDevice_FromOptions (strvToOptions os) networkBlockDeviceNewEmpty = Inr d"
    using assms(1) by (elim deviceFromCmdLine_InrE) (auto simp: mapE_eq_Inr)
  then have "nbd_parsed d"
    using NetworkBlockDevice_FromOptions_parsed strvToOptions_comma_free by blast
  from nbd_no_timeout_options [OF this assms(2,3)] show ?thesis
    by (auto simp: deviceFromCmdLine_split)
qed

theorem nbd_timeout_lost_witness:
  "\<exists>arg. device_ToCmdLine (DevNbd witness_nbd) = Inr [''--device'', arg]
    \<and> deviceFromCmdLine (\<lambda>_. OpenFails ErrNotExist) arg
      = Inr (DevNbd (witness_nbd\<lparr>Timeout := 15000 * Millisecond\<rparr>))"
proof (rule nbd_timeout_lost)
  have "strvToOptions [''uri=nbd://h'', ''timeout=0''] = witness_nbd_opts"
    by (simp add: witness_nbd_opts_def go_simps)
  then show "deviceFromCmdLine (\<lambda>_. OpenFails ErrNotExist) ''nbd,uri=nbd://h,timeout=0''
      = Inr (DevNbd witness_nbd)"
    using witness_nbd_read by (simp add: deviceFromCmdLine_def)
qed (simp_all add: witness_nbd_def nbd_timeout_positive_def duration_of_ms_def i64_def
    duration_Milliseconds_def Millisecond_def)

end
