(* ===== verification/VMConfig.thy ===== *)
theory VMConfig
  imports Devices Bootloaders
begin

section \<open>The virtual machine configuration\<close>

text \<open>
  \<open>pkg/config/config.go\<close>: the \<open>VirtualMachine\<close> record, its construction, the command
  line it is printed as, the \<open>exec.Cmd\<close> made of it, and the operations that add devices,
  time synchronisation and an ignition file. The unit conversions come from
  \<open>go.podman.io/common/pkg/strongunits\<close>, outside the repository: they are the record
  argument \<open>su\<close>, and \<open>su_ok\<close> states what the package documents.
\<close>

subsection \<open>Storage units\<close>

record strongunits =
  B_ToBytes :: "u64 \<Rightarrow> u64"
  MiB_ToBytes :: "u64 \<Rightarrow> u64"
  ToMib :: "u64 \<Rightarrow> u64"

definition su_ok :: "strongunits \<Rightarrow> bool" where
  "su_ok su \<longleftrightarrow> (\<forall>b. B_ToBytes su b = b) \<and> (\<forall>m. MiB_ToBytes su m = m * 0x100000)
    \<and> (\<forall>b. ToMib su b = b div 0x100000)"

lemma su_okD:
  assumes "su_ok su"
  shows "B_ToBytes su b = b" "MiB_ToBytes su m = m * 0x100000" "ToMib su b = b div 0x100000"
  using assms by (auto simp: su_ok_def)

definition roundToMiB :: "strongunits \<Rightarrow> u64 \<Rightarrow> u64" where
  "roundToMiB su value_B =
    (let mib = MiB_ToBytes su 1;
         valueB = B_ToBytes su value_B + mib - 1
     in ToMib su valueB)"

lemma roundToMiB_ok: "su_ok su \<Longrightarrow> roundToMiB su v = (v + 0xFFFFF) div 0x100000"
  by (simp add: roundToMiB_def Let_def su_okD add.commute)

lemma roundToMiB_unat:
  assumes "su_ok su" "unat v \<le> 2 ^ 64 - 2 ^ 20"
  shows "unat (roundToMiB su v) = (unat v + (2 ^ 20 - 1)) div 2 ^ 20"
proof -
  have "unat (v + 0xFFFFF) = unat v + 0xFFFFF"
    using assms(2) unat_add_lem [of v "0xFFFFF :: u64"] by simp
  then show ?thesis by (simp add: roundToMiB_ok [OF assms(1)] unat_div_distrib)
qed

lemma ceil_div:
  assumes "0 < (k :: nat)"
  shows "n \<le> (n + (k - 1)) div k * k \<and> (n + (k - 1)) div k * k < n + k"
  using div_mult_mod_eq [of "n + (k - 1)" k] mod_less_divisor [OF assms, of "n + (k - 1)"] assms
  by linarith

lemma roundToMiB_MiB:
  assumes "su_ok su" "unat m < 2 ^ 44"
  shows "roundToMiB su (MiB_ToBytes su m) = m"
proof -
  have u: "unat (m * 0x100000) = unat m * 2 ^ 20"
    using assms(2) unat_mult_lem [of m "0x100000 :: u64"] by simp
  then have le: "unat (m * 0x100000) \<le> 2 ^ 64 - 2 ^ 20" using assms(2) by simp
  have "unat (roundToMiB su (m * 0x100000)) = (unat m * 2 ^ 20 + (2 ^ 20 - 1)) div 2 ^ 20"
    by (rule roundToMiB_unat [OF assms(1) le, unfolded u])
  also have "\<dots> = unat m" by simp
  finally show ?thesis using assms(1) by (simp add: su_okD word_unat_eq_iff)
qed

lemma roundToMiB_wraps:
  assumes "su_ok su" "2 ^ 64 - 2 ^ 20 < unat v"
  shows "roundToMiB su v = 0"
proof -
  have v: "unat v < 2 ^ 64" using unsigned_less [of v, where ?'a = nat] by simp
  have "unat (v + 0xFFFFF) = (unat v + 0xFFFFF) mod 2 ^ 64" by (simp add: unat_word_ariths)
  also have "\<dots> = unat v + 0xFFFFF - 2 ^ 64" using v assms(2) by (simp add: mod_if)
  finally have "unat (v + 0xFFFFF) < 2 ^ 20" using v by simp
  then have "unat ((v + 0xFFFFF) div 0x100000) = 0" by (simp add: unat_div_distrib)
  then show ?thesis by (simp add: roundToMiB_ok [OF assms(1)] unat_eq_0)
qed

subsection \<open>TimeSync\<close>

record TimeSync =
  TimeSyncPort :: u32

definition TimeSyncNew :: "u64 \<Rightarrow> error + TimeSync" where
  "TimeSyncNew vsockPort =
    (if MaxUint32 < vsockPort then Inl (Errorf (''invalid vsock port: '' @ dec (unat vsockPort)))
     else Inr \<lparr>TimeSyncPort = ucast vsockPort\<rparr>)"

definition TimeSync_ToCmdLine :: "TimeSync \<Rightarrow> error + string list" where
  "TimeSync_ToCmdLine ts =
    (let args = (if TimeSyncPort ts \<noteq> 0
                 then [''vsockPort='' @ dec (unat (TimeSyncPort ts))] else [])
     in Inr [''--timesync'', join_with (CHR '','') args])"

definition TimeSync_option :: "devopt \<Rightarrow> TimeSync \<Rightarrow> error + TimeSync" where
  "TimeSync_option opt ts =
    (if okey opt = ''vsockPort'' then
       bindE (ParseUint (oval opt) 32) (\<lambda>vsockPort. Inr (ts\<lparr>TimeSyncPort := of_nat vsockPort\<rparr>))
     else Inl (Errorf (''unknown option for timesync parameter: '' @ okey opt)))"

definition TimeSync_FromOptions :: "devopt list \<Rightarrow> TimeSync \<Rightarrow> error + TimeSync" where
  "TimeSync_FromOptions options ts =
    bindE (foldE TimeSync_option options ts) (\<lambda>ts.
      if TimeSyncPort ts = 0 then
        Inl (Errorf ''missing 'vsockPort' option for timesync parameter'')
      else Inr ts)"

definition timesyncFromCmdLine :: "string \<Rightarrow> error + TimeSync" where
  "timesyncFromCmdLine optsStr =
    TimeSync_FromOptions (strvToOptions (split_on (CHR '','') optsStr)) \<lparr>TimeSyncPort = 0\<rparr>"

lemma timesync_print_read:
  assumes "TimeSyncPort ts \<noteq> 0"
  obtains arg where "TimeSync_ToCmdLine ts = Inr [''--timesync'', arg]"
    and "arg \<noteq> []" and "timesyncFromCmdLine arg = Inr ts"
proof
  let ?a = "''vsockPort='' @ dec (unat (TimeSyncPort ts))"
  show "TimeSync_ToCmdLine ts = Inr [''--timesync'', ?a]"
    using assms by (simp add: TimeSync_ToCmdLine_def)
  show "?a \<noteq> []" by simp
  have "CHR '','' \<notin> set ?a" by (simp add: dec_no_char)
  then have "split_on (CHR '','') ?a = [?a]" by (rule split_on_no_sep)
  moreover have "strToOption ?a = \<lparr>okey = ''vsockPort'', oval = dec (unat (TimeSyncPort ts))\<rparr>"
    by (simp add: go_simps)
  ultimately show "timesyncFromCmdLine ?a = Inr ts"
    using assms ParseUint_port [of "TimeSyncPort ts"]
    by (simp add: timesyncFromCmdLine_def TimeSync_FromOptions_def TimeSync_option_def)
qed

subsection \<open>Ignition\<close>

record Ignition =
  ConfigPath :: string
  SocketPath :: string
  VsockPort :: u32

definition ignitionVsockPort :: u32 where
  "ignitionVsockPort = 1024"

definition IgnitionNew :: "string \<Rightarrow> string \<Rightarrow> error + Ignition" where
  "IgnitionNew configPath unused =
    (if configPath = [] then Inl (Errorf ''config path cannot be empty'')
     else Inr \<lparr>ConfigPath = configPath, SocketPath = [], VsockPort = ignitionVsockPort\<rparr>)"

subsection \<open>VirtualMachine\<close>

record VirtualMachine =
  Vcpus :: u64
  Memory :: u64
  VmBootloader :: "bootloader option"
  VmDevices :: "device list"
  Timesync :: "TimeSync option"
  VmIgnition :: "Ignition option"
  Nested :: bool

definition NewVirtualMachine ::
    "strongunits \<Rightarrow> u64 \<Rightarrow> u64 \<Rightarrow> bootloader option \<Rightarrow> VirtualMachine" where
  "NewVirtualMachine su vcpus memoryMiB boot =
    \<lparr>Vcpus = vcpus, Memory = MiB_ToBytes su memoryMiB, VmBootloader = boot,
     VmDevices = [], Timesync = None, VmIgnition = None, Nested = False\<rparr>"

definition append_device_args :: "device \<Rightarrow> string list \<Rightarrow> error + string list" where
  "append_device_args dev args =
    bindE (device_ToCmdLine dev) (\<lambda>devArgs. Inr (args @ devArgs))"

definition vm_ToCmdLine :: "strongunits \<Rightarrow> VirtualMachine \<Rightarrow> error + string list" where
  "vm_ToCmdLine su vm =
    (let args = (if Vcpus vm \<noteq> 0 then [''--cpus'', dec (unat (Vcpus vm))] else []);
         args = (if B_ToBytes su (Memory vm) \<noteq> 0
                 then args @ [''--memory'', dec (unat (roundToMiB su (Memory vm)))] else args)
     in case VmBootloader vm of
          None \<Rightarrow> Inl (Errorf ''missing bootloader configuration'')
        | Some boot \<Rightarrow>
            bindE (bootloader_ToCmdLine boot) (\<lambda>bootloaderArgs.
            bindE (foldE append_device_args (VmDevices vm) (args @ bootloaderArgs)) (\<lambda>args.
              let args = (case VmIgnition vm of
                            Some ign \<Rightarrow> args @ [''--ignition'', ConfigPath ign]
                          | None \<Rightarrow> args);
                  args = (if Nested vm then args @ [''--nested''] else args)
              in Inr args)))"

fun extra_files :: "device list \<Rightarrow> nat list" where
  "extra_files [] = []"
| "extra_files (DevNet virtioNet # devs) =
     (case Socket virtioNet of
        Some f \<Rightarrow> f # extra_files devs
      | None \<Rightarrow> extra_files devs)"
| "extra_files (dev # devs) = extra_files devs"

definition vm_extraFiles :: "VirtualMachine \<Rightarrow> nat list" where
  "vm_extraFiles vm = extra_files (VmDevices vm)"

record exec_Cmd =
  CmdName :: string
  CmdArgs :: "string list"
  ExtraFiles :: "nat list"

definition vm_Cmd :: "strongunits \<Rightarrow> string \<Rightarrow> VirtualMachine \<Rightarrow> error + exec_Cmd" where
  "vm_Cmd su vfkitPath vm =
    bindE (vm_ToCmdLine su vm) (\<lambda>args.
      Inr \<lparr>CmdName = vfkitPath, CmdArgs = args, ExtraFiles = vm_extraFiles vm\<rparr>)"

text \<open>
  The devices added before a failing one stay: the slice was already assigned.
\<close>

fun vm_AddDevicesFromCmdLine ::
    "file_env \<Rightarrow> string list \<Rightarrow> VirtualMachine \<Rightarrow> error option \<times> VirtualMachine" where
  "vm_AddDevicesFromCmdLine fs [] vm = (None, vm)"
| "vm_AddDevicesFromCmdLine fs (deviceOpts # cmdlineOpts) vm =
     (case deviceFromCmdLine fs deviceOpts of
        Inl e \<Rightarrow> (Some e, vm)
      | Inr dev \<Rightarrow>
          vm_AddDevicesFromCmdLine fs cmdlineOpts (vm\<lparr>VmDevices := VmDevices vm @ [dev]\<rparr>))"

text \<open>The type assertion \<open>dev.(V)\<close> is the argument \<open>isV\<close>.\<close>

fun filter_devices :: "(device \<Rightarrow> 'v option) \<Rightarrow> device list \<Rightarrow> 'v list" where
  "filter_devices isV [] = []"
| "filter_devices isV (dev # devs) =
     (case isV dev of Some d \<Rightarrow> d # filter_devices isV devs | None \<Rightarrow> filter_devices isV devs)"

definition FilterDevices :: "(device \<Rightarrow> 'v option) \<Rightarrow> VirtualMachine \<Rightarrow> 'v list" where
  "FilterDevices isV vm = filter_devices isV (VmDevices vm)"

fun isVirtioGPU :: "device \<Rightarrow> VirtioGPU option" where
  "isVirtioGPU (DevGPU d) = Some d" | "isVirtioGPU d = None"

fun isVirtioVsock :: "device \<Rightarrow> VirtioVsock option" where
  "isVirtioVsock (DevVsock d) = Some d" | "isVirtioVsock d = None"

fun isVirtioInput :: "device \<Rightarrow> VirtioInput option" where
  "isVirtioInput (DevInput d) = Some d" | "isVirtioInput d = None"

fun isVirtioNet :: "device \<Rightarrow> VirtioNet option" where
  "isVirtioNet (DevNet d) = Some d" | "isVirtioNet d = None"

fun isNbd :: "device \<Rightarrow> NetworkBlockDevice option" where
  "isNbd (DevNbd d) = Some d" | "isNbd d = None"

definition VirtioGPUDevices :: "VirtualMachine \<Rightarrow> VirtioGPU list" where
  "VirtioGPUDevices vm = FilterDevices isVirtioGPU vm"

definition VirtioVsockDevices :: "VirtualMachine \<Rightarrow> VirtioVsock list" where
  "VirtioVsockDevices vm = FilterDevices isVirtioVsock vm"

definition VirtioInputDevices :: "VirtualMachine \<Rightarrow> VirtioInput list" where
  "VirtioInputDevices vm = FilterDevices isVirtioInput vm"

definition VirtioNetDevices :: "VirtualMachine \<Rightarrow> VirtioNet list" where
  "VirtioNetDevices vm = FilterDevices isVirtioNet vm"

fun find_nbd :: "string \<Rightarrow> device list \<Rightarrow> NetworkBlockDevice option" where
  "find_nbd deviceID [] = None"
| "find_nbd deviceID (dev # devs) =
     (case isNbd dev of
        Some nbdDev \<Rightarrow>
          if NbdDeviceIdentifier nbdDev = deviceID then Some nbdDev else find_nbd deviceID devs
      | None \<Rightarrow> find_nbd deviceID devs)"

definition vm_NetworkBlockDevice :: "string \<Rightarrow> VirtualMachine \<Rightarrow> NetworkBlockDevice option" where
  "vm_NetworkBlockDevice deviceID vm = find_nbd deviceID (VmDevices vm)"

definition vm_AddDevices :: "device list \<Rightarrow> VirtualMachine \<Rightarrow> error + VirtualMachine" where
  "vm_AddDevices dev vm = Inr (vm\<lparr>VmDevices := VmDevices vm @ dev\<rparr>)"

definition vm_AddDevice :: "device \<Rightarrow> VirtualMachine \<Rightarrow> error + VirtualMachine" where
  "vm_AddDevice dev vm = vm_AddDevices [dev] vm"

definition vm_AddTimeSyncFromCmdLine :: "string \<Rightarrow> VirtualMachine \<Rightarrow> error + VirtualMachine" where
  "vm_AddTimeSyncFromCmdLine cmdlineOpts vm =
    (if cmdlineOpts = [] then Inr vm
     else bindE (timesyncFromCmdLine cmdlineOpts) (\<lambda>timesync.
       Inr (vm\<lparr>Timesync := Some timesync\<rparr>)))"

definition vm_AddIgnitionFileFromCmdLine ::
    "string \<Rightarrow> VirtualMachine \<Rightarrow> error + VirtualMachine" where
  "vm_AddIgnitionFileFromCmdLine cmdlineOpts vm =
    (if cmdlineOpts = [] then Inr vm
     else
       let opts = split_on (CHR '','') cmdlineOpts in
       if length opts \<noteq> 1 then
         Inl (Errorf ''ignition only accepts one option in command line argument'')
       else bindE (IgnitionNew (opts ! 0) []) (\<lambda>ignition.
         Inr (vm\<lparr>VmIgnition := Some ignition\<rparr>)))"

subsection \<open>The command line of a virtual machine\<close>

lemma append_device_args_loop:
  "foldE append_device_args devs args
    = mapE (\<lambda>as. args @ concat as) (traverseE device_ToCmdLine devs)"
proof (induction devs arbitrary: args)
  case Nil
  then show ?case by simp
next
  case (Cons dev devs)
  then show ?case
    by (cases "device_ToCmdLine dev"; cases "traverseE device_ToCmdLine devs")
      (simp_all add: append_device_args_def)
qed

definition cpus_args :: "u64 \<Rightarrow> string list" where
  "cpus_args n = (if n \<noteq> 0 then [''--cpus'', dec (unat n)] else [])"

definition memory_args :: "strongunits \<Rightarrow> u64 \<Rightarrow> string list" where
  "memory_args su m =
    (if B_ToBytes su m \<noteq> 0 then [''--memory'', dec (unat (roundToMiB su m))] else [])"

definition ignition_args :: "Ignition option \<Rightarrow> string list" where
  "ignition_args ign = (case ign of Some i \<Rightarrow> [''--ignition'', ConfigPath i] | None \<Rightarrow> [])"

definition nested_args :: "bool \<Rightarrow> string list" where
  "nested_args b = (if b then [''--nested''] else [])"

lemma vm_ToCmdLine_Inr:
  "vm_ToCmdLine su vm = Inr args \<longleftrightarrow>
    (\<exists>boot ba das. VmBootloader vm = Some boot \<and> bootloader_ToCmdLine boot = Inr ba
      \<and> traverseE device_ToCmdLine (VmDevices vm) = Inr das
      \<and> args = cpus_args (Vcpus vm) @ memory_args su (Memory vm) @ ba @ concat das
          @ ignition_args (VmIgnition vm) @ nested_args (Nested vm))"
  by (auto simp: vm_ToCmdLine_def Let_def append_device_args_loop bindE_eq_Inr mapE_eq_Inr
      cpus_args_def memory_args_def ignition_args_def nested_args_def split: option.splits)

text \<open>Reading a list of device arguments.\<close>

lemma vm_AddDevices_ok:
  "traverseE (deviceFromCmdLine fs) os = Inr devs \<Longrightarrow>
    vm_AddDevicesFromCmdLine fs os vm = (None, vm\<lparr>VmDevices := VmDevices vm @ devs\<rparr>)"
  by (induction os arbitrary: vm devs) (auto simp: bindE_eq_Inr mapE_eq_Inr)

lemma vm_AddDevices_error:
  assumes "traverseE (deviceFromCmdLine fs) os = Inr devs" "deviceFromCmdLine fs x = Inl e"
  shows "vm_AddDevicesFromCmdLine fs (os @ x # rest) vm
    = (Some e, vm\<lparr>VmDevices := VmDevices vm @ devs\<rparr>)"
  using assms by (induction os arbitrary: vm devs) (auto simp: bindE_eq_Inr mapE_eq_Inr)

lemma traverseE_error:
  assumes "traverseE f xs = Inl e"
  obtains as x bs ys where "xs = as @ x # bs" "traverseE f as = Inr ys" "f x = Inl e"
  using assms
proof (induction xs arbitrary: thesis)
  case Nil
  then show ?case by simp
next
  case (Cons y xs)
  show ?case
  proof (cases "f y")
    case (Inl e')
    with Cons.prems(1) [of "[]" y xs "[]"] Cons.prems(2) show ?thesis by simp
  next
    case (Inr u)
    with Cons.prems(2) have "traverseE f xs = Inl e" by (simp add: mapE_eq_Inl)
    with Cons.IH obtain as x bs ys where
      "xs = as @ x # bs" "traverseE f as = Inr ys" "f x = Inl e" by blast
    with Inr Cons.prems(1) [of "y # as" x bs "u # ys"] show ?thesis by simp
  qed
qed

lemma vm_AddDevices_None:
  "fst (vm_AddDevicesFromCmdLine fs os vm) = None \<longleftrightarrow>
    (\<exists>devs. traverseE (deviceFromCmdLine fs) os = Inr devs)"
proof (cases "traverseE (deviceFromCmdLine fs) os")
  case (Inl e)
  then show ?thesis
    by (auto elim!: traverseE_error simp: vm_AddDevices_error)
next
  case (Inr devs)
  then show ?thesis by (simp add: vm_AddDevices_ok)
qed

text \<open>The arguments of printable devices, and their values.\<close>

definition device_arg :: "device \<Rightarrow> string" where
  "device_arg d = join_with (CHR '','') (device_tag d # device_opts d)"

lemma device_print_arg:
  assumes "device_printable fs d"
  shows "device_ToCmdLine d = Inr [''--device'', device_arg d]"
    and "deviceFromCmdLine fs (device_arg d) = Inr d"
proof -
  obtain arg where "device_ToCmdLine d = Inr [''--device'', arg]"
    "split_on (CHR '','') arg = device_tag d # device_opts d" "deviceFromCmdLine fs arg = Inr d"
    by (rule device_print_read [OF assms])
  moreover from this(2) have "arg = device_arg d"
    using join_split [of "CHR '',''" arg] by (simp add: device_arg_def)
  ultimately show "device_ToCmdLine d = Inr [''--device'', device_arg d]"
    "deviceFromCmdLine fs (device_arg d) = Inr d" by simp_all
qed

lemma devices_print:
  "(\<forall>d \<in> set devs. device_printable fs d) \<Longrightarrow>
    traverseE device_ToCmdLine devs = Inr (map (\<lambda>d. [''--device'', device_arg d]) devs)"
  by (rule traverseE_all) (auto intro: device_print_arg(1))

lemma devices_read:
  "(\<forall>d \<in> set devs. device_printable fs d) \<Longrightarrow>
    traverseE (deviceFromCmdLine fs) (map device_arg devs) = Inr devs"
  by (induction devs) (auto simp: device_print_arg)

subsection \<open>Files handed to the child process\<close>

text \<open>
  \<open>os/exec\<close> documents that entry \<open>i\<close> of \<open>ExtraFiles\<close> becomes descriptor \<open>3 + i\<close> of the
  child; descriptors above 2 that are not in it are closed there.
\<close>

definition child_fd :: "exec_Cmd \<Rightarrow> nat \<Rightarrow> nat option" where
  "child_fd cmd n =
    (if 3 \<le> n \<and> n - 3 < length (ExtraFiles cmd) then Some (ExtraFiles cmd ! (n - 3)) else None)"

definition net_socket :: "VirtioNet \<Rightarrow> nat list" where
  "net_socket d = (case Socket d of Some f \<Rightarrow> [f] | None \<Rightarrow> [])"

lemma extra_files_nets:
  "extra_files devs = concat (map net_socket (filter_devices isVirtioNet devs))"
  by (induction devs rule: extra_files.induct) (auto simp: net_socket_def split: option.splits)

lemma child_fd_iff:
  assumes "distinct (ExtraFiles cmd)" "i < length (ExtraFiles cmd)"
  shows "child_fd cmd n = Some (ExtraFiles cmd ! i) \<longleftrightarrow> n = 3 + i"
  using assms by (auto simp: child_fd_def nth_eq_iff_index_eq)

text \<open>The filters keep the order of the devices.\<close>

lemma filter_devices_map_filter: "filter_devices isV devs = List.map_filter isV devs"
  by (induction devs) (auto simp: List.map_filter_simps split: option.split)

lemma filter_devices_append:
  "filter_devices isV (xs @ ys) = filter_devices isV xs @ filter_devices isV ys"
  by (induction xs) (auto split: option.split)

definition nbd_ids :: "device list \<Rightarrow> string list" where
  "nbd_ids devs = map NbdDeviceIdentifier (filter_devices isNbd devs)"

lemma find_nbd_None: "find_nbd deviceID devs = None \<longleftrightarrow> deviceID \<notin> set (nbd_ids devs)"
  by (induction devs) (auto simp: nbd_ids_def split: option.split)

lemma isNbd_Some [simp]: "isNbd dev = Some d \<longleftrightarrow> dev = DevNbd d"
  by (cases dev) auto

lemma find_nbd_first:
  assumes "find_nbd deviceID devs = Some d"
  obtains pre post where "devs = pre @ DevNbd d # post" "NbdDeviceIdentifier d = deviceID"
    "deviceID \<notin> set (nbd_ids pre)"
  using assms
proof (induction devs arbitrary: thesis)
  case Nil
  then show ?case by simp
next
  case (Cons dev devs)
  show ?case
  proof (cases "dev = DevNbd d \<and> NbdDeviceIdentifier d = deviceID")
    case True
    with Cons.prems(1) [of "[]" devs] show ?thesis by (simp add: nbd_ids_def)
  next
    case False
    with Cons.prems(2) have r: "find_nbd deviceID devs = Some d"
      and n: "deviceID \<notin> set (nbd_ids [dev])"
      by (auto simp: nbd_ids_def split: option.splits if_splits)
    from Cons.IH [OF _ r] obtain pre post where "devs = pre @ DevNbd d # post"
      "NbdDeviceIdentifier d = deviceID" "deviceID \<notin> set (nbd_ids pre)" by blast
    with n Cons.prems(1) [of "dev # pre" post] show ?thesis
      by (auto simp: nbd_ids_def split: option.splits)
  qed
qed

subsection \<open>Properties\<close>

text \<open>Conversions that satisfy the documented ones, for the concrete instances below.\<close>

definition binary_units :: strongunits where
  "binary_units = \<lparr>B_ToBytes = (\<lambda>b. b), MiB_ToBytes = (\<lambda>m. m * 0x100000),
    ToMib = (\<lambda>b. b div 0x100000)\<rparr>"

lemma binary_units_ok: "su_ok binary_units"
  by (simp add: su_ok_def binary_units_def)

text \<open>
  C17. \<open>roundToMiB\<close> rounds up: for any memory size up to 2^64 - 2^20 bytes the result is the
  least number of mebibytes that holds it.
\<close>

theorem roundToMiB_ceiling:
  assumes "su_ok su" "unat v \<le> 2 ^ 64 - 2 ^ 20"
  shows "unat v \<le> unat (roundToMiB su v) * 2 ^ 20
    \<and> unat (roundToMiB su v) * 2 ^ 20 < unat v + 2 ^ 20"
  unfolding roundToMiB_unat [OF assms] using ceil_div [of "2 ^ 20" "unat v"] by simp

theorem roundToMiB_ceiling_witness:
  "unat (1048577 :: u64) \<le> unat (roundToMiB binary_units 1048577) * 2 ^ 20
    \<and> unat (roundToMiB binary_units 1048577) * 2 ^ 20 < unat (1048577 :: u64) + 2 ^ 20"
  by (rule roundToMiB_ceiling [OF binary_units_ok]) simp

text \<open>
  C18. Above 2^64 - 2^20 bytes the addition before the division wraps: the command line of
  such a machine asks for 0 mebibytes.
\<close>

theorem memory_wraps_to_zero:
  assumes "su_ok su" "2 ^ 64 - 2 ^ 20 < unat (Memory vm)" "vm_ToCmdLine su vm = Inr args"
  shows "\<exists>as bs. args = as @ [''--memory'', ''0''] @ bs"
proof -
  have "Memory vm \<noteq> 0" using assms(2) by auto
  moreover have "dec 0 = ''0''" by code_simp
  ultimately have "memory_args su (Memory vm) = [''--memory'', ''0'']"
    using roundToMiB_wraps [OF assms(1,2)] su_okD(1) [OF assms(1)] by (simp add: memory_args_def)
  then show ?thesis using assms(3) unfolding vm_ToCmdLine_Inr by metis
qed

definition witness_vm :: VirtualMachine where
  "witness_vm = \<lparr>Vcpus = 2, Memory = 0xFFFFFFFFFFFFFFFF,
    VmBootloader = Some (BootEFI \<lparr>EFIVariableStorePath = ''/vars'', CreateVariableStore = True\<rparr>),
    VmDevices = [DevRng (), DevNet (virtioNetZero\<lparr>Socket := Some 7\<rparr>)],
    Timesync = None, VmIgnition = None, Nested = False\<rparr>"

definition witness_vm_args :: "string list" where
  "witness_vm_args = [''--cpus'', dec 2, ''--memory'', dec 0, ''--bootloader'',
    ''efi,variable-store=/vars,create'', ''--device'', ''virtio-rng'',
    ''--device'', ''virtio-net,fd='' @ dec 7]"

lemma witness_vm_ToCmdLine: "vm_ToCmdLine binary_units witness_vm = Inr witness_vm_args"
  by (simp add: vm_ToCmdLine_def witness_vm_def witness_vm_args_def binary_units_def
      roundToMiB_def append_device_args_def VirtioNet_ToCmdLine_def VirtioNet_validate_def
      virtioNetZero_def file_Fd_def component_simps)

theorem memory_wraps_to_zero_witness:
  "\<exists>as bs. witness_vm_args = as @ [''--memory'', ''0''] @ bs"
  by (rule memory_wraps_to_zero [OF binary_units_ok _ witness_vm_ToCmdLine])
    (simp add: witness_vm_def)

text \<open>
  C13. \<open>AddDevicesFromCmdLine\<close> adds the devices in the order of the arguments and stops at
  the first argument that is refused, with its error; the devices read before it have then
  already been added, and nothing else of the machine changes.
\<close>

theorem AddDevices_spec:
  "(\<exists>devs. traverseE (deviceFromCmdLine fs) os = Inr devs
      \<and> vm_AddDevicesFromCmdLine fs os vm = (None, vm\<lparr>VmDevices := VmDevices vm @ devs\<rparr>))
    \<or> (\<exists>pre x post devs e. os = pre @ x # post
      \<and> traverseE (deviceFromCmdLine fs) pre = Inr devs \<and> deviceFromCmdLine fs x = Inl e
      \<and> vm_AddDevicesFromCmdLine fs os vm = (Some e, vm\<lparr>VmDevices := VmDevices vm @ devs\<rparr>))"
proof (cases "traverseE (deviceFromCmdLine fs) os")
  case (Inr devs)
  then show ?thesis using vm_AddDevices_ok by blast
next
  case (Inl e)
  then obtain pre x post devs where "os = pre @ x # post"
    "traverseE (deviceFromCmdLine fs) pre = Inr devs" "deviceFromCmdLine fs x = Inl e"
    by (rule traverseE_error)
  then show ?thesis using vm_AddDevices_error by blast
qed

text \<open>
  C12. \<open>Cmd\<close> prints for a network device with a socket the descriptor that the socket has in the
  parent, \<open>fd=\<close> on its \<open>--device\<close> argument; but the child process finds the socket at this
  descriptor only if the number happens to be 3 plus the number of sockets of the devices
  before it, where \<open>ExtraFiles\<close> puts it.
\<close>

theorem Cmd_socket_descriptor:
  assumes "vm_Cmd su path vm = Inr cmd"
    and "VmDevices vm = pre @ DevNet d # post" "Socket d = Some fd"
    and "distinct (vm_extraFiles vm)"
  shows "\<exists>as arg bs. device_ToCmdLine (DevNet d) = Inr [''--device'', arg]
    \<and> CmdArgs cmd = as @ [''--device'', arg] @ bs
    \<and> arg = ''virtio-net,fd='' @ dec fd
        @ (if MacAddress d = [] then [] else '',mac='' @ mac_string (MacAddress d))
    \<and> (child_fd cmd fd = Some fd \<longleftrightarrow> fd = 3 + length (extra_files pre))"
proof -
  have x: "ExtraFiles cmd = extra_files pre @ fd # extra_files post"
    using assms(1-3) by (auto simp: vm_Cmd_def bindE_eq_Inr vm_extraFiles_def extra_files_nets
        filter_devices_append net_socket_def)
  with assms(1,4) have "distinct (ExtraFiles cmd)"
    by (auto simp: vm_Cmd_def bindE_eq_Inr)
  then have c: "child_fd cmd fd = Some fd \<longleftrightarrow> fd = 3 + length (extra_files pre)"
    using child_fd_iff [of cmd "length (extra_files pre)" fd] x by simp
  obtain args where "vm_ToCmdLine su vm = Inr args" "CmdArgs cmd = args"
    using assms(1) by (auto simp: vm_Cmd_def bindE_eq_Inr)
  then obtain ba dpre da dpost where d: "device_ToCmdLine (DevNet d) = Inr da"
    and a: "CmdArgs cmd = (cpus_args (Vcpus vm) @ memory_args su (Memory vm) @ ba @ concat dpre) @ da
      @ concat dpost @ ignition_args (VmIgnition vm) @ nested_args (Nested vm)"
    unfolding vm_ToCmdLine_Inr assms(2) traverseE_append by (auto simp: bindE_eq_Inr mapE_eq_Inr)
  have "da = [''--device'', ''virtio-net,fd='' @ dec fd
      @ (if MacAddress d = [] then [] else '',mac='' @ mac_string (MacAddress d))]"
    using d assms(3)
    by (auto simp: VirtioNet_ToCmdLine_def VirtioNet_validate_def bindE_eq_Inr Let_def file_Fd_def
        split: if_splits)
  with d a c show ?thesis by blast
qed

theorem Cmd_socket_descriptor_witness:
  "\<exists>as arg bs. device_ToCmdLine (DevNet (virtioNetZero\<lparr>Socket := Some 7\<rparr>)) = Inr [''--device'', arg]
    \<and> witness_vm_args = as @ [''--device'', arg] @ bs \<and> arg = ''virtio-net,fd='' @ dec 7
    \<and> (child_fd \<lparr>CmdName = ''vfkit'', CmdArgs = witness_vm_args, ExtraFiles = [7]\<rparr> 7 = Some 7
      \<longleftrightarrow> (7 :: nat) = 3 + length (extra_files [DevRng ()]))"
  using Cmd_socket_descriptor [of binary_units "''vfkit''" witness_vm
      "\<lparr>CmdName = ''vfkit'', CmdArgs = witness_vm_args, ExtraFiles = [7]\<rparr>" "[DevRng ()]"
      "virtioNetZero\<lparr>Socket := Some 7\<rparr>" "[]" 7]
  by (simp add: vm_Cmd_def witness_vm_ToCmdLine)
    (simp add: vm_extraFiles_def witness_vm_def virtioNetZero_def)

text \<open>
  \<open>NetworkBlockDevice\<close> returns the first network block device with the identifier, and
  nil exactly when the machine has none.
\<close>

theorem NetworkBlockDevice_first:
  "case vm_NetworkBlockDevice deviceID vm of
     Some d \<Rightarrow> \<exists>pre post. VmDevices vm = pre @ DevNbd d # post
       \<and> NbdDeviceIdentifier d = deviceID \<and> deviceID \<notin> set (nbd_ids pre)
   | None \<Rightarrow> deviceID \<notin> set (nbd_ids (VmDevices vm))"
proof (cases "vm_NetworkBlockDevice deviceID vm")
  case (Some d)
  then have "find_nbd deviceID (VmDevices vm) = Some d" by (simp add: vm_NetworkBlockDevice_def)
  from find_nbd_first [OF this] show ?thesis
    unfolding Some option.case by metis
next
  case None
  then have "deviceID \<notin> set (nbd_ids (VmDevices vm))"
    unfolding vm_NetworkBlockDevice_def find_nbd_None .
  then show ?thesis unfolding None option.case .
qed

text \<open>
  A time synchronisation setting with a port is written by \<open>TimeSync.ToCmdLine\<close> so that
  \<open>AddTimeSyncFromCmdLine\<close> reads it back and sets it on the machine.
\<close>

theorem timesync_roundtrip:
  assumes "TimeSyncPort ts \<noteq> 0"
  shows "\<exists>arg. TimeSync_ToCmdLine ts = Inr [''--timesync'', arg]
    \<and> vm_AddTimeSyncFromCmdLine arg vm = Inr (vm\<lparr>Timesync := Some ts\<rparr>)"
  by (rule timesync_print_read [OF assms]) (auto simp: vm_AddTimeSyncFromCmdLine_def)

theorem timesync_roundtrip_witness:
  "\<exists>arg. TimeSync_ToCmdLine \<lparr>TimeSyncPort = 1234\<rparr> = Inr [''--timesync'', arg]
    \<and> vm_AddTimeSyncFromCmdLine arg witness_vm = Inr (witness_vm\<lparr>Timesync := Some \<lparr>TimeSyncPort = 1234\<rparr>\<rparr>)"
  by (rule timesync_roundtrip) simp

end
