(* ===== verification/Process.thy ===== *)
theory Process
  imports GoStrconv GoUtf8
begin

section \<open>The pid file\<close>

text \<open>
  \<open>pkg/process/process.go\<close>. The
  files are those of \<open>file_env\<close>, and the process table is the argument \<open>ps\<close>, which stands for
  \<open>github.com/shirou/gopsutil\<close>: for a pid, the error of \<open>NewProcess\<close> or the process with
  what its methods return.
\<close>

subsection \<open>strings.TrimSpace\<close>

text \<open>\<open>unicode.IsSpace\<close>.\<close>

definition is_space :: "nat \<Rightarrow> bool" where
  "is_space r \<longleftrightarrow> 9 \<le> r \<and> r \<le> 13 \<or> r = 32 \<or> r = 0x85 \<or> r = 0xA0 \<or> r = 0x1680
    \<or> 0x2000 \<le> r \<and> r \<le> 0x200A \<or> r = 0x2028 \<or> r = 0x2029 \<or> r = 0x202F \<or> r = 0x205F
    \<or> r = 0x3000"

fun trim_left_space :: "string \<Rightarrow> string" where
  "trim_left_space [] = []"
| "trim_left_space (c # s) = (case decode_rune (c # s) of (r, w) \<Rightarrow>
     if is_space r then trim_left_space (drop (w - 1) s) else c # s)"

text \<open>
  \<open>utf8.DecodeLastRune\<close>, on the reversed string: goes back at most three bytes to one that
  can start a rune, and accepts what it decodes from there if it ends at the end.
\<close>

definition rune_start :: "char \<Rightarrow> bool" where
  "rune_start c \<longleftrightarrow> \<not> (0x80 \<le> code c \<and> code c \<le> 0xBF)"

fun decode_last_rune :: "string \<Rightarrow> nat \<times> nat" where
  "decode_last_rune [] = (RuneError, 0)"
| "decode_last_rune (c # t) =
     (if code c < 0x80 then (code c, 1)
      else
        let k = 2 + length (takeWhile (\<lambda>b. \<not> rune_start b) (take 3 t));
            seg = rev (take k (c # t));
            (r, w) = decode_rune seg
        in if w = length seg then (r, w) else (RuneError, 1))"

fun trim_right_rev :: "string \<Rightarrow> string" where
  "trim_right_rev [] = []"
| "trim_right_rev (c # t) = (case decode_last_rune (c # t) of (r, w) \<Rightarrow>
     if is_space r then trim_right_rev (drop (w - 1) t) else c # t)"

definition TrimSpace :: "string \<Rightarrow> string" where
  "TrimSpace s = rev (trim_right_rev (rev (trim_left_space s)))"

text \<open>ASCII text between ASCII white space.\<close>

definition ascii_space :: "char \<Rightarrow> bool" where
  "ascii_space c \<longleftrightarrow> code c < 0x80 \<and> is_space (code c)"

lemma trim_left_space_prefix:
  "(\<forall>c \<in> set ws. ascii_space c) \<Longrightarrow> trim_left_space (ws @ s) = trim_left_space s"
  by (induction ws) (auto simp: ascii_space_def)

lemma trim_right_rev_prefix:
  "(\<forall>c \<in> set ws. ascii_space c) \<Longrightarrow> trim_right_rev (ws @ s) = trim_right_rev s"
  by (induction ws) (auto simp: ascii_space_def)

definition solid :: "char \<Rightarrow> bool" where
  "solid c \<longleftrightarrow> code c < 0x80 \<and> \<not> is_space (code c)"

lemma trim_solid:
  "solid c \<Longrightarrow> trim_left_space (c # s) = c # s" "solid c \<Longrightarrow> trim_right_rev (c # s) = c # s"
  by (simp_all add: solid_def)

lemma TrimSpace_between:
  assumes "\<forall>c \<in> set ws. ascii_space c" "\<forall>c \<in> set vs. ascii_space c"
    and "s \<noteq> []" "solid (hd s)" "solid (last s)"
  shows "TrimSpace (ws @ s @ vs) = s"
proof -
  obtain c t where s: "s = c # t" using assms(3) by (cases s) auto
  have "trim_left_space (ws @ s @ vs) = s @ vs"
    using trim_left_space_prefix [OF assms(1)] trim_solid(1) assms(4) s by simp
  moreover have "trim_right_rev (rev vs @ rev s) = trim_right_rev (rev s)"
    by (rule trim_right_rev_prefix) (use assms(2) in simp)
  moreover have "trim_right_rev (rev s) = rev s"
    using trim_solid(2) [of "last s" "rev (butlast s)"] assms(3,5)
    by (metis append_butlast_last_id rev_eq_Cons_iff rev_rev_ident)
  ultimately show ?thesis by (simp add: TrimSpace_def)
qed

lemma digit_solid: "is_digit c \<Longrightarrow> solid c"
  by (auto simp: is_digit_def solid_def is_space_def)

lemma dec_int_ends: "solid (hd (dec_int i))" "solid (last (dec_int i))"
proof -
  have n: "dec n \<noteq> []" for n by (subst dec.simps) simp
  have d: "solid (hd (dec n))" "solid (last (dec n))" for n
    using dec_digits [of _ n] n digit_solid by (meson hd_in_set last_in_set)+
  have "solid (CHR ''-'')" by (simp add: solid_def is_space_def)
  with d n show "solid (hd (dec_int i))" "solid (last (dec_int i))"
    by (auto simp: dec_int_def)
qed

subsection \<open>Process\<close>

record os_process =
  ProcName :: "error + string"
  ProcExe :: "error + string"
  ProcTerminate :: "error option"
  ProcKill :: "error option"

text \<open>\<open>NewProcess\<close>: an error, a nil process, or a process.\<close>

type_synonym process_table = "int \<Rightarrow> error + os_process option"

record Process =
  ProcessName :: string
  PidFilePath :: string
  ExecutablePath :: string

definition Process_New :: "string \<Rightarrow> string \<Rightarrow> string \<Rightarrow> Process" where
  "Process_New name pidFilePath executablePath =
    \<lparr>ProcessName = name, PidFilePath = pidFilePath, ExecutablePath = executablePath\<rparr>"

definition ReadPidFile :: "file_env \<Rightarrow> Process \<Rightarrow> error + int" where
  "ReadPidFile fs p =
    bindE (os_ReadFile fs (PidFilePath p)) (\<lambda>data.
      let pidStr = TrimSpace data in
      case ParseInt pidStr 32 of
        Inl e \<Rightarrow> Inl (ErrorfW ''invalid pid file'' e)
      | Inr pid \<Rightarrow> Inr pid)"

definition proc_MaxInt32 :: int where
  "proc_MaxInt32 = 2147483647"

definition no_such_process :: error where
  "no_such_process = Sys ''process does not exist''"

definition check_process :: "Process \<Rightarrow> os_process \<Rightarrow> error + os_process" where
  "check_process p proc =
    (case ProcName proc of
       Inl e \<Rightarrow> Inl (ErrorfW ''cannot find process name'' e)
     | Inr name \<Rightarrow>
         if name \<noteq> ProcessName p then Inl ErrNotExist
         else case ProcExe proc of
           Inl e \<Rightarrow> Inl (ErrorfW ''cannot find process exe'' e)
         | Inr exe \<Rightarrow> if exe \<noteq> ExecutablePath p then Inl ErrNotExist else Inr proc)"

definition findProcess :: "process_table \<Rightarrow> file_env \<Rightarrow> Process \<Rightarrow> error + os_process" where
  "findProcess ps fs p =
    bindE (ReadPidFile fs p) (\<lambda>pid.
      if pid < 0 \<or> proc_MaxInt32 < pid then Inl (Errorf (''invalid pid: '' @ dec_int pid))
      else case ps pid of
        Inl e \<Rightarrow> if e = no_such_process then Inl ErrNotExist else Inl e
      | Inr None \<Rightarrow> Inl ErrNotExist
      | Inr (Some proc) \<Rightarrow> check_process p proc)"

definition Process_Exists :: "process_table \<Rightarrow> file_env \<Rightarrow> Process \<Rightarrow> error + bool" where
  "Process_Exists ps fs p =
    (case findProcess ps fs p of
       Inl e \<Rightarrow> if errors_Is e ErrNotExist then Inr False else Inl e
     | Inr proc \<Rightarrow> Inr True)"

definition Process_Terminate :: "process_table \<Rightarrow> file_env \<Rightarrow> Process \<Rightarrow> error option" where
  "Process_Terminate ps fs p =
    (case findProcess ps fs p of
       Inl e \<Rightarrow> Some (ErrorfW ''cannot find process'' e)
     | Inr proc \<Rightarrow> ProcTerminate proc)"

definition Process_Kill :: "process_table \<Rightarrow> file_env \<Rightarrow> Process \<Rightarrow> error option" where
  "Process_Kill ps fs p =
    (case findProcess ps fs p of
       Inl e \<Rightarrow> Some (ErrorfW ''cannot find process'' e)
     | Inr proc \<Rightarrow> ProcKill proc)"

text \<open>
  \<open>os.WriteFile\<close> truncates the file before it writes, and may fail: \<open>werr\<close> is its outcome
  for the path.
\<close>

definition WritePidFile ::
    "(string \<Rightarrow> error option) \<Rightarrow> int \<Rightarrow> Process \<Rightarrow> file_env \<Rightarrow> error + file_env" where
  "WritePidFile werr pid p fs =
    (case werr (PidFilePath p) of
       Some e \<Rightarrow> Inl e
     | None \<Rightarrow> Inr (fs(PidFilePath p := Contents (dec_int pid))))"

lemma check_process_Inr:
  "check_process p proc = Inr proc' \<longleftrightarrow> proc' = proc
    \<and> ProcName proc = Inr (ProcessName p) \<and> ProcExe proc = Inr (ExecutablePath p)"
  by (auto simp: check_process_def split: sum.split)

lemma findProcess_Inr:
  "findProcess ps fs p = Inr proc \<longleftrightarrow>
    (\<exists>pid. ReadPidFile fs p = Inr pid \<and> 0 \<le> pid \<and> pid \<le> proc_MaxInt32
      \<and> ps pid = Inr (Some proc)
      \<and> ProcName proc = Inr (ProcessName p) \<and> ProcExe proc = Inr (ExecutablePath p))"
proof (cases "ReadPidFile fs p")
  case (Inr pid)
  then show ?thesis
    by (cases "ps pid") (auto simp: findProcess_def check_process_Inr split: option.split)
qed (simp add: findProcess_def)

lemma ReadPidFile_range:
  assumes "ReadPidFile fs p = Inr pid"
  shows "pid \<le> proc_MaxInt32"
proof -
  from assms obtain data where "(case ParseInt (TrimSpace data) 32 of
      Inl e \<Rightarrow> Inl (ErrorfW ''invalid pid file'' e) | Inr pid \<Rightarrow> Inr pid) = Inr pid"
    unfolding ReadPidFile_def Let_def bindE_eq_Inr by blast
  then have "ParseInt (TrimSpace data) 32 = Inr pid"
    by (cases "ParseInt (TrimSpace data) 32") auto
  from ParseInt_32_range [OF this] show ?thesis by (simp add: proc_MaxInt32_def)
qed

lemma ReadPidFile_text:
  assumes "fs (PidFilePath p) = Contents (ws @ dec_int pid @ vs)"
    and "\<forall>c \<in> set ws. ascii_space c" "\<forall>c \<in> set vs. ascii_space c"
    and "- (2 ^ 31) \<le> pid" "pid < 2 ^ 31"
  shows "ReadPidFile fs p = Inr pid"
  using assms TrimSpace_between [OF assms(2,3), of "dec_int pid"] dec_int_ends
    ParseInt_dec_int [of 32 pid]
  by (simp add: ReadPidFile_def os_ReadFile_def)

subsection \<open>Properties\<close>

text \<open>
  C19. The pid written to the file is the pid read from it, with any white space around it;
  writing leaves every other file alone.
\<close>

theorem pid_roundtrip:
  assumes "WritePidFile werr pid p fs = Inr fs'" "- (2 ^ 31) \<le> pid" "pid < 2 ^ 31"
    and "\<forall>c \<in> set ws. ascii_space c" "\<forall>c \<in> set vs. ascii_space c"
  shows "ReadPidFile fs' p = Inr pid
    \<and> ReadPidFile (fs'(PidFilePath p := Contents (ws @ dec_int pid @ vs))) p = Inr pid
    \<and> {q. fs' q \<noteq> fs q} \<subseteq> {PidFilePath p}"
proof -
  have fs': "fs' = fs(PidFilePath p := Contents (dec_int pid))"
    using assms(1) by (auto simp: WritePidFile_def split: option.splits)
  show ?thesis
    using ReadPidFile_text [of fs' p "[]" pid "[]"] assms(2,3)
      ReadPidFile_text [OF _ assms(4,5,2,3)]
    by (auto simp: fs')
qed

definition witness_process :: Process where
  "witness_process = Process_New ''vfkit'' ''/run/vfkit.pid'' ''/bin/vfkit''"

definition empty_disk :: file_env where
  "empty_disk = (\<lambda>_. OpenFails ErrNotExist)"

definition witness_disk :: file_env where
  "witness_disk = empty_disk(''/run/vfkit.pid'' := Contents (dec_int 123))"

theorem pid_roundtrip_witness:
  "ReadPidFile witness_disk witness_process = Inr 123
    \<and> ReadPidFile (witness_disk(PidFilePath witness_process := Contents ('' '' @ dec_int 123 @ [CHR 0x0A])))
        witness_process = Inr 123
    \<and> {q. witness_disk q \<noteq> empty_disk q} \<subseteq> {PidFilePath witness_process}"
  by (rule pid_roundtrip [of "\<lambda>_. None"])
    (simp_all add: WritePidFile_def witness_process_def Process_New_def witness_disk_def
      ascii_space_def is_space_def)

text \<open>
  C20. A process is signalled only if it is ours: \<open>Exists\<close> says true exactly when the pid file
  holds the pid of a running process with the expected name and executable, and then
  \<open>Terminate\<close> and \<open>Kill\<close> act on that process; when it says false, or fails, they return
  an error without signalling anything.
\<close>

theorem process_identity:
  "(case Process_Exists ps fs p of
      Inr True \<Rightarrow> \<exists>pid proc. ReadPidFile fs p = Inr pid \<and> 0 \<le> pid \<and> ps pid = Inr (Some proc)
        \<and> ProcName proc = Inr (ProcessName p) \<and> ProcExe proc = Inr (ExecutablePath p)
        \<and> Process_Terminate ps fs p = ProcTerminate proc \<and> Process_Kill ps fs p = ProcKill proc
    | _ \<Rightarrow> \<exists>e. findProcess ps fs p = Inl e
        \<and> Process_Terminate ps fs p = Some (ErrorfW ''cannot find process'' e)
        \<and> Process_Kill ps fs p = Some (ErrorfW ''cannot find process'' e))"
proof (cases "findProcess ps fs p")
  case (Inl e)
  then show ?thesis
    by (simp add: Process_Exists_def Process_Terminate_def Process_Kill_def)
next
  case (Inr proc)
  then have "\<exists>pid. ReadPidFile fs p = Inr pid \<and> 0 \<le> pid \<and> ps pid = Inr (Some proc)
      \<and> ProcName proc = Inr (ProcessName p) \<and> ProcExe proc = Inr (ExecutablePath p)"
    unfolding findProcess_Inr by blast
  with Inr show ?thesis
    by (auto simp: Process_Exists_def Process_Terminate_def Process_Kill_def)
qed

text \<open>
  A missing pid file, a pid without a process, and a process with another name or
  executable are not errors of \<open>Exists\<close>: it answers false.
\<close>

theorem process_gone:
  assumes "fs (PidFilePath p) = OpenFails ErrNotExist
    \<or> (\<exists>pid. ReadPidFile fs p = Inr pid \<and> 0 \<le> pid
        \<and> (ps pid = Inl no_such_process \<or> ps pid = Inr None
          \<or> (\<exists>proc name exe. ps pid = Inr (Some proc) \<and> ProcName proc = Inr name
              \<and> ProcExe proc = Inr exe \<and> (name, exe) \<noteq> (ProcessName p, ExecutablePath p))))"
  shows "Process_Exists ps fs p = Inr False"
proof -
  consider (no_file) "ReadPidFile fs p = Inl ErrNotExist"
    | (no_process) pid where "ReadPidFile fs p = Inr pid" "0 \<le> pid"
        "ps pid = Inl no_such_process \<or> ps pid = Inr None"
    | (other) pid proc name exe where "ReadPidFile fs p = Inr pid" "0 \<le> pid"
        "ps pid = Inr (Some proc)" "ProcName proc = Inr name" "ProcExe proc = Inr exe"
        "(name, exe) \<noteq> (ProcessName p, ExecutablePath p)"
    using assms by (auto simp: ReadPidFile_def os_ReadFile_def)
  then have "findProcess ps fs p = Inl ErrNotExist"
  proof cases
    case no_file
    then show ?thesis by (simp add: findProcess_def)
  next
    case no_process
    then show ?thesis using ReadPidFile_range by (auto simp: findProcess_def dest: leD)
  next
    case other
    then show ?thesis using ReadPidFile_range [OF other(1)]
      by (auto simp: findProcess_def check_process_def)
  qed
  then show ?thesis by (simp add: Process_Exists_def)
qed

theorem process_gone_witness:
  "Process_Exists (\<lambda>_. Inr None) empty_disk witness_process = Inr False"
  by (rule process_gone) (simp add: empty_disk_def)

end
