(* ===== verification/GoPath.thy ===== *)
theory GoPath
  imports GoStd
begin

section \<open>path/filepath on unix, and hexadecimal numbers\<close>

text \<open>
  \<open>filepath.Clean\<close>, \<open>Dir\<close> and \<open>Join\<close>, and the \<open>%x\<close> of \<open>fmt\<close> for a number that is not
  negative: what \<open>pkg/vf\<close> builds the name of its local socket with.
\<close>

text \<open>
  One element of a path on the elements kept so far, the last one first: empty elements and
  \<open>.\<close> disappear, \<open>..\<close> removes the element before it, or stays when there is none to remove
  and the path is not rooted.
\<close>

definition clean_step :: "bool \<Rightarrow> string list \<Rightarrow> string \<Rightarrow> string list" where
  "clean_step rooted out e =
    (if e = [] \<or> e = ''.'' then out
     else if e = ''..'' then
       (case out of
          [] \<Rightarrow> if rooted then [] else [''..'']
        | x # xs \<Rightarrow> if x = ''..'' then ''..'' # out else xs)
     else e # out)"

definition filepath_Clean :: "string \<Rightarrow> string" where
  "filepath_Clean path =
    (let rooted = has_prefix path ''/'';
         out = join_with (CHR ''/'') (rev (foldl (clean_step rooted) [] (split_on (CHR ''/'') path)))
     in if rooted then CHR ''/'' # out else if out = [] then ''.'' else out)"

text \<open>The part up to the last separator, cleaned.\<close>

definition filepath_Dir :: "string \<Rightarrow> string" where
  "filepath_Dir path = filepath_Clean (rev (dropWhile (\<lambda>c. c \<noteq> CHR ''/'') (rev path)))"

definition filepath_Join :: "string \<Rightarrow> string \<Rightarrow> string" where
  "filepath_Join dir name =
    (let elems = filter (\<lambda>e. e \<noteq> []) [dir, name]
     in if elems = [] then [] else filepath_Clean (join_with (CHR ''/'') elems))"

definition hex_digit :: "nat \<Rightarrow> char" where
  "hex_digit d = (if d < 10 then char_of (48 + d) else char_of (87 + d))"

fun hex :: "nat \<Rightarrow> string" where
  "hex n = (if n < 16 then [hex_digit n] else hex (n div 16) @ [hex_digit (n mod 16)])"

declare hex.simps [simp del]

lemma hex_nonempty [simp]: "hex n \<noteq> []"
  by (subst hex.simps) simp

lemma filepath_Clean_nonempty [simp]: "filepath_Clean p \<noteq> []"
  by (simp add: filepath_Clean_def Let_def)

lemma filepath_Join_nonempty: "name \<noteq> [] \<Longrightarrow> filepath_Join dir name \<noteq> []"
  by (simp add: filepath_Join_def Let_def)

end
