(* ===== verification/CloudInit.thy ===== *)
theory CloudInit
  imports Process GoPath
begin

section \<open>Cloud-init images and exit handlers\<close>

text \<open>
  \<open>pkg/util/exithandler.go\<close>, \<open>pkg/util/credtemp.go\<close>, and the cloud-init functions of
  \<open>cmd/vfkit/main.go\<close>. The ISO writer of \<open>github.com/kdomanski/iso9660\<close>, the choice of a
  temporary file name and the process table are arguments.
\<close>

subsection \<open>Exit handlers\<close>

type_synonym 's exit_registry = "('s \<Rightarrow> 's) list"

definition RegisterExitHandler :: "('s \<Rightarrow> 's) \<Rightarrow> 's exit_registry \<Rightarrow> 's exit_registry" where
  "RegisterExitHandler handler handlers = handlers @ [handler]"

fun ExecuteExitHandlers :: "'s exit_registry \<Rightarrow> 's \<Rightarrow> 's" where
  "ExecuteExitHandlers [] s = s"
| "ExecuteExitHandlers (handler # handlers) s = ExecuteExitHandlers handlers (handler s)"

text \<open>The goroutine of \<open>setupExitSignalHandling\<close> over the signals it receives.\<close>

fun exit_signal_loop :: "('s \<Rightarrow> 's) option \<Rightarrow> 'signal list \<Rightarrow> 's \<Rightarrow> 's" where
  "exit_signal_loop shutdownFunc [] s = s"
| "exit_signal_loop shutdownFunc (sig # sigs) s =
     exit_signal_loop shutdownFunc sigs (case shutdownFunc of Some f \<Rightarrow> f s | None \<Rightarrow> s)"

lemma ExecuteExitHandlers_append:
  "ExecuteExitHandlers (hs @ hs') s = ExecuteExitHandlers hs' (ExecuteExitHandlers hs s)"
  by (induction hs arbitrary: s) auto

lemma ExecuteExitHandlers_invariant:
  assumes "P s" "\<And>h t. h \<in> set hs \<Longrightarrow> P t \<Longrightarrow> P (h t)"
  shows "P (ExecuteExitHandlers hs s)"
  using assms by (induction hs arbitrary: s) auto

subsection \<open>Removing stale images\<close>

definition cloudInitPrefix :: string where
  "cloudInitPrefix = ''vfkit-cloudinit''"

text \<open>The directory of the images, in the one of \<open>os.TempDir\<close>.\<close>

definition cloudInitTempDir :: "string \<Rightarrow> string" where
  "cloudInitTempDir tmp = filepath_Join tmp cloudInitPrefix"

text \<open>\<open>fmt\<close>'s \<open>SkipSpace\<close> of \<open>Sscanf\<close>, which refuses a newline.\<close>

fun skip_space :: "string \<Rightarrow> string option" where
  "skip_space [] = Some []"
| "skip_space (c # s) =
     (if c = CHR 0x0D \<and> take 1 s = [CHR 0x0A] then skip_space s
      else if c = CHR 0x0A then None
      else case decode_rune (c # s) of (r, w) \<Rightarrow>
        if is_space r then skip_space (drop (w - 1) s) else Some (c # s))"

text \<open>\<open>%d\<close> into an \<open>int32\<close>: the number and the rest of the input.\<close>

definition scan_int32 :: "string \<Rightarrow> (int \<times> string) option" where
  "scan_int32 s =
    (case skip_space s of
       None \<Rightarrow> None
     | Some t \<Rightarrow>
         let sign = (if t \<noteq> [] \<and> (hd t = CHR ''+'' \<or> hd t = CHR ''-'') then [hd t] else []);
             body = drop (length sign) t;
             digits = takeWhile is_digit body
         in if digits = [] then None
            else case ParseInt (sign @ digits) 64 of
              Inl e \<Rightarrow> None
            | Inr i \<Rightarrow>
                if i < - (2 ^ 31) \<or> 2 ^ 31 \<le> i then None
                else Some (i, drop (length digits) body))"

text \<open>\<open>fmt.Sscanf(filename, cloudInitPrefix+"-%d-", &pid)\<close>\<close>

definition scan_pid :: "string \<Rightarrow> int option" where
  "scan_pid filename =
    (let lead = cloudInitPrefix @ ''-'' in
     if \<not> has_prefix filename lead then None
     else case scan_int32 (drop (length lead) filename) of
       None \<Rightarrow> None
     | Some (pid, rest) \<Rightarrow> if take 1 rest = ''-'' then Some pid else None)"

record dir_entry =
  EntryName :: string
  EntryIsDir :: bool

text \<open>
  The result of \<open>os.ReadDir\<close>, \<open>process.PidExists\<close> and the outcome of each \<open>os.Remove\<close> are
  arguments; the loop returns its error and the paths it removed.
\<close>

fun cleanup_entries ::
    "string \<Rightarrow> (int \<Rightarrow> error + bool) \<Rightarrow> (string \<Rightarrow> error option) \<Rightarrow> dir_entry list
      \<Rightarrow> error option \<times> string list" where
  "cleanup_entries dir PidExists rm [] = (None, [])"
| "cleanup_entries dir PidExists rm (entry # entries) =
     (if EntryIsDir entry then cleanup_entries dir PidExists rm entries
      else
        let filename = EntryName entry in
        case scan_pid filename of
          None \<Rightarrow> cleanup_entries dir PidExists rm entries
        | Some pid \<Rightarrow>
            (case PidExists pid of
               Inl e \<Rightarrow> cleanup_entries dir PidExists rm entries
             | Inr exists \<Rightarrow>
                 if exists then cleanup_entries dir PidExists rm entries
                 else let path = filepath_Join dir filename in
                   case rm path of
                     Some e \<Rightarrow> (Some (ErrorfW (''unable to remove file '' @ path) e), [])
                   | None \<Rightarrow>
                       (case cleanup_entries dir PidExists rm entries of
                          (r, removed) \<Rightarrow> (r, path # removed))))"

definition CleanupStaleCloudInitISO ::
    "string \<Rightarrow> error + dir_entry list \<Rightarrow> (int \<Rightarrow> error + bool) \<Rightarrow> (string \<Rightarrow> error option)
      \<Rightarrow> error option \<times> string list" where
  "CleanupStaleCloudInitISO tmp readDir PidExists rm =
    (let dir = cloudInitTempDir tmp in
     case readDir of
       Inl e \<Rightarrow>
         if e = ErrNotExist then (None, [])
         else (Some (ErrorfW (''unable to read directory '' @ dir) e), [])
     | Inr entries \<Rightarrow> cleanup_entries dir PidExists rm entries)"

definition stale :: "(int \<Rightarrow> error + bool) \<Rightarrow> dir_entry \<Rightarrow> bool" where
  "stale PidExists entry \<longleftrightarrow> \<not> EntryIsDir entry
    \<and> (case scan_pid (EntryName entry) of None \<Rightarrow> False | Some pid \<Rightarrow> PidExists pid = Inr False)"

lemma cleanup_removes_prefix:
  "cleanup_entries dir PidExists rm entries = (r, removed) \<Longrightarrow>
    \<exists>rest. map (\<lambda>e. filepath_Join dir (EntryName e)) (filter (stale PidExists) entries) = removed @ rest
      \<and> (case r of None \<Rightarrow> rest = [] | Some e \<Rightarrow> \<exists>f fs e'. rest = f # fs \<and> rm f = Some e'
          \<and> e = ErrorfW (''unable to remove file '' @ f) e')"
proof (induction entries arbitrary: r removed)
  case Nil
  then show ?case by simp
next
  case (Cons entry entries)
  show ?case
  proof (cases "stale PidExists entry")
    case False
    then have "cleanup_entries dir PidExists rm entries = (r, removed)"
      using Cons.prems by (auto simp: stale_def Let_def split: if_splits option.splits sum.splits)
    with Cons.IH False show ?thesis by simp
  next
    case True
    then obtain pid where pid: "\<not> EntryIsDir entry" "scan_pid (EntryName entry) = Some pid"
      "PidExists pid = Inr False"
      by (auto simp: stale_def split: option.splits)
    show ?thesis
    proof (cases "rm (filepath_Join dir (EntryName entry))")
      case (Some e)
      with Cons.prems pid True show ?thesis by (auto simp: Let_def)
    next
      case None
      obtain r' removed' where c: "cleanup_entries dir PidExists rm entries = (r', removed')"
        by (cases "cleanup_entries dir PidExists rm entries")
      with Cons.prems pid None have "r = r'" "removed = filepath_Join dir (EntryName entry) # removed'" by (auto simp: Let_def)
      with Cons.IH [OF c] True show ?thesis by simp
    qed
  qed
qed

text \<open>The name that \<open>os.CreateTemp\<close> gives for the pattern with the pid of a process.\<close>

definition iso_file_name :: "int \<Rightarrow> string \<Rightarrow> string" where
  "iso_file_name pid random = cloudInitPrefix @ ''-'' @ dec_int pid @ ''-'' @ random @ ''.iso''"

lemma skip_space_solid: "solid c \<Longrightarrow> skip_space (c # s) = Some (c # s)"
  by (auto simp: solid_def is_space_def)

lemma scan_pid_iso_file:
  assumes "0 \<le> pid" "pid < 2 ^ 31"
  shows "scan_pid (iso_file_name pid random) = Some pid"
proof -
  let ?rest = "''-'' @ random @ ''.iso''"
  have d: "dec_int pid = dec (nat pid)" using assms(1) by (simp add: dec_int_def)
  obtain c t where ct: "dec (nat pid) = c # t"
    by (metis dec_int_nonempty d list.exhaust)
  have c: "is_digit c" using dec_digits [of c "nat pid"] ct by simp
  then have s: "skip_space (dec (nat pid) @ ?rest) = Some (dec (nat pid) @ ?rest)"
    using skip_space_solid [OF digit_solid [OF c], of "t @ ?rest"] by (simp only: ct append_Cons)
  have nosign: "c \<noteq> CHR ''+''" "c \<noteq> CHR ''-''" using c by (auto simp: is_digit_def)
  have digits: "takeWhile is_digit (dec (nat pid) @ ?rest) = dec (nat pid)"
    using dec_digits [of _ "nat pid"] by (simp add: takeWhile_append2)
  have "ParseInt (dec (nat pid)) 64 = Inr pid"
    using ParseInt_dec_int [of 64 pid] assms d by simp
  then have "scan_int32 (dec (nat pid) @ ?rest) = Some (pid, ?rest)"
    unfolding scan_int32_def s option.case
    using assms digits nosign ct by (simp add: Let_def)
  then show ?thesis
    by (simp add: scan_pid_def iso_file_name_def d cloudInitPrefix_def has_prefix_def)
qed

subsection \<open>The cloud-init image\<close>

text \<open>\<open>filepath.Base\<close>\<close>

definition filepath_Base :: "string \<Rightarrow> string" where
  "filepath_Base path =
    (if path = [] then ''.''
     else
       let t = dropWhile (\<lambda>c. c = CHR ''/'') (rev path) in
       if t = [] then ''/'' else rev (takeWhile (\<lambda>c. c \<noteq> CHR ''/'') t))"

text \<open>
  What the host does: the errors of the calls that may fail, the pid, the name that
  \<open>os.CreateTemp\<close> picks for a pattern, the order in which \<open>range\<close> visits the map of
  configuration files, and the bytes that the ISO writer makes of the added files.
\<close>

record iso_host =
  TempDir :: string
  Mkdir :: "string \<Rightarrow> error option"
  Getpid :: int
  CreateTemp :: "string \<Rightarrow> string \<Rightarrow> error + string"
  NewWriterErr :: "error option"
  AddFileErr :: "string \<Rightarrow> string \<Rightarrow> error option"
  WriteToErr :: "error option"
  RangeOrder :: "string list"
  IsoBytes :: "(string \<times> string) list \<Rightarrow> string"

text \<open>The files of the host, the directories that exist, and the exit handlers.\<close>

record host_state =
  HostFiles :: file_env
  HostDirs :: "string set"
  HostHandlers :: "file_env exit_registry"

text \<open>
  \<open>os.MkdirAll\<close>: the directories on the way to a path, the path last, are made one after the
  other where they are missing; \<open>mkdir\<close> is the outcome of making one of them.
\<close>

definition path_prefixes :: "string \<Rightarrow> string list" where
  "path_prefixes path =
    map (\<lambda>i. take i path) (filter (\<lambda>i. path ! i = CHR ''/'') [1..<length path]) @ [path]"

fun make_dirs :: "(string \<Rightarrow> error option) \<Rightarrow> string list \<Rightarrow> string set \<Rightarrow> error option \<times> string set" where
  "make_dirs mkdir [] dirs = (None, dirs)"
| "make_dirs mkdir (p # ps) dirs =
     (if p \<in> dirs then make_dirs mkdir ps dirs
      else case mkdir p of
        Some e \<Rightarrow> (Some e, dirs)
      | None \<Rightarrow> make_dirs mkdir ps (insert p dirs))"

definition os_MkdirAll ::
    "(string \<Rightarrow> error option) \<Rightarrow> string \<Rightarrow> string set \<Rightarrow> error option \<times> string set" where
  "os_MkdirAll mkdir path dirs = make_dirs mkdir (path_prefixes path) dirs"

text \<open>The directory stays, whether the file can be made in it or not; the new file is empty.\<close>

definition CreateCloudInitISOFile :: "iso_host \<Rightarrow> host_state \<Rightarrow> (error + string) \<times> host_state" where
  "CreateCloudInitISOFile h st =
    (let dir = cloudInitTempDir (TempDir h) in
     case os_MkdirAll (Mkdir h) dir (HostDirs st) of
       (Some e, dirs) \<Rightarrow>
         (Inl (ErrorfW (''unable to create directory '' @ dir) e), st\<lparr>HostDirs := dirs\<rparr>)
     | (None, dirs) \<Rightarrow>
         let st = st\<lparr>HostDirs := dirs\<rparr> in
         (case CreateTemp h dir (cloudInitPrefix @ ''-'' @ dec_int (Getpid h) @ ''-*.iso'') of
            Inl e \<Rightarrow> (Inl (ErrorfW ''unable to create cloud-init ISO temporary file'' e), st)
          | Inr file \<Rightarrow> (Inr file, st\<lparr>HostFiles := (HostFiles st)(file := Contents [])\<rparr>)))"

text \<open>A reader is the path of the opened file, and nil is \<open>None\<close>.\<close>

type_synonym config_files = "string \<rightharpoonup> string option"

definition add_config_file ::
    "iso_host \<Rightarrow> file_env \<Rightarrow> config_files \<Rightarrow> string \<Rightarrow> (string \<times> string) list
      \<Rightarrow> error + (string \<times> string) list" where
  "add_config_file h fs files name added =
    (let reader = (case files name of Some (Some path) \<Rightarrow> os_ReadFile fs path | _ \<Rightarrow> Inr [])
     in case reader of
          Inl e \<Rightarrow> Inl (ErrorfW (''failed to add '' @ name @ '' file'') e)
        | Inr contents \<Rightarrow>
            (case AddFileErr h contents name of
               Some e \<Rightarrow> Inl (ErrorfW (''failed to add '' @ name @ '' file'') e)
             | None \<Rightarrow> Inr (added @ [(name, contents)])))"

text \<open>The removal of the new file is registered before \<open>WriteTo\<close> writes it.\<close>

definition createCloudInitISO ::
    "iso_host \<Rightarrow> config_files \<Rightarrow> host_state \<Rightarrow> (error + string) \<times> host_state" where
  "createCloudInitISO h files st =
    (case NewWriterErr h of
       Some e \<Rightarrow> (Inl (ErrorfW ''failed to create writer'' e), st)
     | None \<Rightarrow>
         (case foldE (add_config_file h (HostFiles st) files) (RangeOrder h) [] of
            Inl e \<Rightarrow> (Inl e, st)
          | Inr added \<Rightarrow>
              (case CreateCloudInitISOFile h st of
                 (Inl e, st) \<Rightarrow> (Inl e, st)
               | (Inr isoFile, st) \<Rightarrow>
                   let st = st\<lparr>HostHandlers :=
                              RegisterExitHandler (os_Remove isoFile) (HostHandlers st)\<rparr>
                   in case WriteToErr h of
                        Some e \<Rightarrow> (Inl (ErrorfW ''failed to write cloud-init ISO image'' e), st)
                      | None \<Rightarrow>
                          (Inr isoFile,
                           st\<lparr>HostFiles := (HostFiles st)(isoFile := Contents (IsoBytes h added))\<rparr>))))"

definition config_names :: "string list" where
  "config_names = [''user-data'', ''meta-data'', ''network-config'']"

definition collect_config_file ::
    "file_env \<Rightarrow> string \<Rightarrow> config_files \<times> bool \<Rightarrow> error + (config_files \<times> bool)" where
  "collect_config_file fs path st = (case st of (configFiles, hasConfigFile) \<Rightarrow>
    if path = [] then Inr st
    else case os_Open fs path of
      Some e \<Rightarrow> Inl e
    | None \<Rightarrow>
        let filename = filepath_Base path in
        if configFiles filename \<noteq> None then
          Inr (configFiles(filename \<mapsto> Some path),
               hasConfigFile \<or> filename = ''user-data'' \<or> filename = ''meta-data'')
        else Inr st)"

definition initial_config_files :: config_files where
  "initial_config_files = map_of (map (\<lambda>n. (n, None)) config_names)"

definition generateCloudInitImage ::
    "iso_host \<Rightarrow> string list \<Rightarrow> host_state \<Rightarrow> (error + string) \<times> host_state" where
  "generateCloudInitImage h files st =
    (if length files = 0 then (Inr [], st)
     else case foldE (collect_config_file (HostFiles st)) files (initial_config_files, False) of
       Inl e \<Rightarrow> (Inl e, st)
     | Inr (configFiles, hasConfigFile) \<Rightarrow>
         if \<not> hasConfigFile then
           (Inl (Errorf ''cloud-init needs user-data and meta-data files to work''), st)
         else createCloudInitISO h configFiles st)"

text \<open>The last of the given paths whose base name is \<open>n\<close>.\<close>

fun last_with_base :: "string \<Rightarrow> string list \<Rightarrow> string option" where
  "last_with_base n [] = None"
| "last_with_base n (p # ps) =
     (case last_with_base n ps of
        Some q \<Rightarrow> Some q
      | None \<Rightarrow> if p \<noteq> [] \<and> filepath_Base p = n then Some p else None)"

lemma initial_config_files_iff:
  "initial_config_files n = (if n \<in> set config_names then Some None else None)"
  by (simp add: initial_config_files_def config_names_def)

lemma collect_config_file_Inr:
  assumes "collect_config_file fs p (m, b) = Inr (m1, b1)"
  shows "m1 = (if p \<noteq> [] \<and> filepath_Base p \<in> dom m then m(filepath_Base p \<mapsto> Some p) else m)"
    and "b1 = (b \<or> p \<noteq> [] \<and> filepath_Base p \<in> dom m
      \<and> (filepath_Base p = ''user-data'' \<or> filepath_Base p = ''meta-data''))"
proof -
  consider "p = []" | "p \<noteq> []" "os_Open fs p = None" "filepath_Base p \<in> dom m"
    | "p \<noteq> []" "os_Open fs p = None" "filepath_Base p \<notin> dom m"
    using assms by (cases "p = []"; cases "os_Open fs p"; cases "filepath_Base p \<in> dom m")
      (auto simp: collect_config_file_def)
  then have "m1 = (if p \<noteq> [] \<and> filepath_Base p \<in> dom m then m(filepath_Base p \<mapsto> Some p) else m)
    \<and> b1 = (b \<or> p \<noteq> [] \<and> filepath_Base p \<in> dom m
      \<and> (filepath_Base p = ''user-data'' \<or> filepath_Base p = ''meta-data''))"
    by cases (use assms in \<open>auto simp: collect_config_file_def Let_def domIff\<close>)
  then show "m1 = (if p \<noteq> [] \<and> filepath_Base p \<in> dom m then m(filepath_Base p \<mapsto> Some p) else m)"
    "b1 = (b \<or> p \<noteq> [] \<and> filepath_Base p \<in> dom m
      \<and> (filepath_Base p = ''user-data'' \<or> filepath_Base p = ''meta-data''))" by blast+
qed

lemma collect_loop:
  assumes "foldE (collect_config_file fs) paths (m, b) = Inr (m', b')" "dom m = set config_names"
  shows "m' = (\<lambda>n. if n \<in> set config_names then
      (case last_with_base n paths of Some p \<Rightarrow> Some (Some p) | None \<Rightarrow> m n) else None)
    \<and> b' = (b \<or> last_with_base ''user-data'' paths \<noteq> None
      \<or> last_with_base ''meta-data'' paths \<noteq> None)"
  using assms
proof (induction paths arbitrary: m b)
  case Nil
  have "m n = None" if "n \<notin> set config_names" for n using Nil.prems(2) that by blast
  then show ?case using Nil.prems(1) by auto
next
  case (Cons p ps)
  obtain m1 b1 where s: "collect_config_file fs p (m, b) = Inr (m1, b1)"
    "foldE (collect_config_file fs) ps (m1, b1) = Inr (m', b')"
    using Cons.prems(1) by (auto simp: bindE_eq_Inr)
  note c = collect_config_file_Inr [OF s(1), unfolded Cons.prems(2)]
  have "dom m1 = set config_names" using Cons.prems(2) c(1) by auto
  note IH = Cons.IH [OF s(2) this]
  have names: "''user-data'' \<in> set config_names" "''meta-data'' \<in> set config_names"
    by (simp_all add: config_names_def)
  show ?case
  proof (intro conjI ext)
    fix n
    show "m' n = (if n \<in> set config_names then
        (case last_with_base n (p # ps) of Some p \<Rightarrow> Some (Some p) | None \<Rightarrow> m n) else None)"
      unfolding conjunct1 [OF IH] c(1) by (simp split: option.split)
    show "b' = (b \<or> last_with_base ''user-data'' (p # ps) \<noteq> None
        \<or> last_with_base ''meta-data'' (p # ps) \<noteq> None)"
      unfolding conjunct2 [OF IH] c(2) using names by (auto split: option.split)
  qed
qed

text \<open>The contents that the image has for a name.\<close>

definition image_contents :: "file_env \<Rightarrow> string list \<Rightarrow> string \<Rightarrow> error + string" where
  "image_contents fs paths n =
    (case last_with_base n paths of Some p \<Rightarrow> os_ReadFile fs p | None \<Rightarrow> Inr [])"

lemma add_config_files_loop:
  assumes "foldE (add_config_file h fs files) names acc = Inr added"
  shows "\<exists>new. added = acc @ new \<and> list_all2 (\<lambda>n nc. fst nc = n
    \<and> (case files n of Some (Some p) \<Rightarrow> os_ReadFile fs p | _ \<Rightarrow> Inr []) = Inr (snd nc)) names new"
  using assms
proof (induction names arbitrary: acc)
  case Nil
  then show ?case by simp
next
  case (Cons n names)
  obtain acc1 where s: "add_config_file h fs files n acc = Inr acc1"
    "foldE (add_config_file h fs files) names acc1 = Inr added"
    using Cons.prems by (auto simp: bindE_eq_Inr)
  obtain c where c: "(case files n of Some (Some p) \<Rightarrow> os_ReadFile fs p | _ \<Rightarrow> Inr []) = Inr c"
    "acc1 = acc @ [(n, c)]"
    using s(1) by (auto simp: add_config_file_def Let_def split: sum.splits option.splits)
  from Cons.IH [OF s(2)] c obtain new where
    "added = acc @ (n, c) # new" "list_all2 (\<lambda>n nc. fst nc = n
      \<and> (case files n of Some (Some p) \<Rightarrow> os_ReadFile fs p | _ \<Rightarrow> Inr []) = Inr (snd nc)) names new"
    by auto
  with c(1) show ?case by (intro exI [of _ "(n, c) # new"]) simp
qed

subsection \<open>Properties\<close>

text \<open>
  C21. The cleanup of stale images removes, in directory order, exactly the plain files named
  after a process that no longer exists, up to the first removal that fails: never a
  directory, a file with another name, or the image of a running process.
\<close>

theorem cleanup_only_stale:
  "case CleanupStaleCloudInitISO tmp (Inr entries) PidExists rm of (r, removed) \<Rightarrow>
    \<exists>rest. map (\<lambda>e. filepath_Join (cloudInitTempDir tmp) (EntryName e)) (filter (stale PidExists) entries)
        = removed @ rest
      \<and> (case r of None \<Rightarrow> rest = []
         | Some e \<Rightarrow> \<exists>f fs e'. rest = f # fs \<and> rm f = Some e'
             \<and> e = ErrorfW (''unable to remove file '' @ f) e')"
  using cleanup_removes_prefix [of "cloudInitTempDir tmp" PidExists rm entries]
  by (auto simp: CleanupStaleCloudInitISO_def Let_def split: prod.split)

text \<open>
  The image that a running vfkit made for itself survives the cleanup of another one: a
  file named with the pid of an existing process is not stale, and with the pid of a
  process that is gone it is.
\<close>

theorem own_image_not_stale:
  assumes "0 \<le> pid" "pid < 2 ^ 31"
  shows "stale PidExists \<lparr>EntryName = iso_file_name pid random, EntryIsDir = False\<rparr>
    \<longleftrightarrow> PidExists pid = Inr False"
  by (simp add: stale_def scan_pid_iso_file [OF assms])

theorem own_image_not_stale_witness:
  "stale (\<lambda>pid. Inr (pid \<noteq> 77)) \<lparr>EntryName = iso_file_name 77 ''123'', EntryIsDir = False\<rparr>
    \<longleftrightarrow> (Inr (77 \<noteq> (77 :: int)) :: error + bool) = Inr False"
  by (rule own_image_not_stale) simp_all

lemma make_dirs_new: "make_dirs mkdir ps dirs = (r, dirs') \<Longrightarrow> dirs' \<subseteq> dirs \<union> set ps"
  by (induction ps arbitrary: dirs) (fastforce split: if_splits option.splits)+

lemma make_dirs_all: "make_dirs (\<lambda>_. None) ps dirs = (None, dirs \<union> set ps)"
  by (induction ps arbitrary: dirs) auto

text \<open>The directories that making an image may leave.\<close>

definition image_dirs :: "iso_host \<Rightarrow> string set" where
  "image_dirs h = set (path_prefixes (cloudInitTempDir (TempDir h)))"

lemma CreateCloudInitISOFile_cases:
  assumes "CreateCloudInitISOFile h st = (r, st')"
  shows "HostDirs st' \<subseteq> HostDirs st \<union> image_dirs h \<and> HostHandlers st' = HostHandlers st
    \<and> (case r of Inl e \<Rightarrow> HostFiles st' = HostFiles st
        | Inr img \<Rightarrow> HostFiles st' = (HostFiles st)(img := Contents []))"
proof -
  let ?dir = "cloudInitTempDir (TempDir h)"
  obtain m dirs where d: "os_MkdirAll (Mkdir h) ?dir (HostDirs st) = (m, dirs)" by fastforce
  then have "dirs \<subseteq> HostDirs st \<union> image_dirs h"
    using make_dirs_new by (simp add: os_MkdirAll_def image_dirs_def)
  then show ?thesis
    using assms unfolding CreateCloudInitISOFile_def Let_def d
    by (auto split: option.splits sum.splits)
qed

lemma createCloudInitISO_cases:
  assumes "createCloudInitISO h files st = (r, st')"
  shows "HostDirs st' \<subseteq> HostDirs st \<union> image_dirs h
    \<and> (HostFiles st' = HostFiles st \<and> HostHandlers st' = HostHandlers st \<and> (\<exists>e. r = Inl e)
    \<or> (\<exists>img added. foldE (add_config_file h (HostFiles st) files) (RangeOrder h) [] = Inr added
    \<and> HostHandlers st' = HostHandlers st @ [os_Remove img]
    \<and> (r = Inr img \<and> HostFiles st' = (HostFiles st)(img := Contents (IsoBytes h added))
      \<or> (\<exists>e. r = Inl e) \<and> HostFiles st' = (HostFiles st)(img := Contents []))))"
proof -
  obtain f st1 where c: "CreateCloudInitISOFile h st = (f, st1)" by fastforce
  show ?thesis
    using assms CreateCloudInitISOFile_cases [OF c] unfolding createCloudInitISO_def c
    by (auto simp: RegisterExitHandler_def Let_def split: option.splits sum.splits)
qed

lemma generateCloudInitImage_cases:
  assumes "generateCloudInitImage h paths st = (r, st')"
  shows "st' = st \<and> (r = Inr [] \<and> paths = [] \<or> (\<exists>e. r = Inl e))
    \<or> (\<exists>files. foldE (collect_config_file (HostFiles st)) paths (initial_config_files, False)
        = Inr (files, True) \<and> createCloudInitISO h files st = (r, st'))"
proof (cases "paths = []")
  case False
  then show ?thesis
    using assms by (cases "foldE (collect_config_file (HostFiles st)) paths (initial_config_files, False)")
      (auto simp: generateCloudInitImage_def split: if_splits)
qed (use assms in \<open>auto simp: generateCloudInitImage_def\<close>)

text \<open>What making the image does to the host, whatever its outcome.\<close>

lemma generateCloudInitImage_effect:
  assumes "generateCloudInitImage h paths st = (r, st')"
  shows "HostDirs st' \<subseteq> HostDirs st \<union> image_dirs h
    \<and> (HostFiles st' = HostFiles st \<and> HostHandlers st' = HostHandlers st
      \<or> (\<exists>img c. HostHandlers st' = HostHandlers st @ [os_Remove img]
          \<and> HostFiles st' = (HostFiles st)(img := Contents c)))"
  using generateCloudInitImage_cases [OF assms]
proof (elim disjE conjE exE)
  fix files
  assume "createCloudInitISO h files st = (r, st')"
  from createCloudInitISO_cases [OF this] show ?thesis by blast
qed simp_all

text \<open>
  C22. When an image is made, the command line named a \<open>user-data\<close> or a \<open>meta-data\<close> file, and
  the image holds each of \<open>user-data\<close>, \<open>meta-data\<close> and \<open>network-config\<close> once, with the
  contents of the last file given with that base name, or empty.
\<close>

theorem cloudinit_image_contents:
  assumes "generateCloudInitImage h paths st = (Inr img, st')" "paths \<noteq> []"
    and "set (RangeOrder h) = set config_names"
  shows "\<exists>added. HostFiles st' = (HostFiles st)(img := Contents (IsoBytes h added))
    \<and> list_all2 (\<lambda>n (name, contents). name = n
        \<and> image_contents (HostFiles st) paths n = Inr contents) (RangeOrder h) added
    \<and> (\<exists>n \<in> {''user-data'', ''meta-data''}. last_with_base n paths \<noteq> None)"
proof -
  obtain files where f: "foldE (collect_config_file (HostFiles st)) paths (initial_config_files, False)
      = Inr (files, True)" and c: "createCloudInitISO h files st = (Inr img, st')"
    using generateCloudInitImage_cases [OF assms(1)] assms(2) by auto
  have d: "dom initial_config_files = set config_names"
    by (auto simp: initial_config_files_iff split: if_splits)
  note files = collect_loop [OF f d]
  obtain added where a: "foldE (add_config_file h (HostFiles st) files) (RangeOrder h) [] = Inr added"
    and st': "HostFiles st' = (HostFiles st)(img := Contents (IsoBytes h added))"
    using createCloudInitISO_cases [OF c] by auto
  have "(case files n of Some (Some p) \<Rightarrow> os_ReadFile (HostFiles st) p | _ \<Rightarrow> Inr [])
      = image_contents (HostFiles st) paths n" if "n \<in> set (RangeOrder h)" for n
    using files that assms(3)
    by (auto simp: image_contents_def initial_config_files_iff split: option.split)
  then have "list_all2 (\<lambda>n (name, contents). name = n
      \<and> image_contents (HostFiles st) paths n = Inr contents) (RangeOrder h) added"
    using add_config_files_loop [OF a]
    by (fastforce simp: list_all2_conv_all_nth split: prod.split)
  with st' files show ?thesis by auto
qed

definition witness_iso_host :: iso_host where
  "witness_iso_host = \<lparr>TempDir = ''/tmp'', Mkdir = (\<lambda>_. None), Getpid = 42, CreateTemp = (\<lambda>_ _. Inr ''/tmp/x.iso''),
    NewWriterErr = None, AddFileErr = (\<lambda>_ _. None), WriteToErr = None,
    RangeOrder = [''meta-data'', ''user-data'', ''network-config''],
    IsoBytes = (\<lambda>added. concat (map snd added))\<rparr>"

definition witness_host_state :: host_state where
  "witness_host_state = \<lparr>HostFiles = (\<lambda>p. if p = ''/ci/user-data'' then Contents ''#cloud''
    else OpenFails ErrNotExist), HostDirs = {''/tmp''}, HostHandlers = []\<rparr>"

definition witness_host_state' :: host_state where
  "witness_host_state' = snd (generateCloudInitImage witness_iso_host [''/ci/user-data''] witness_host_state)"

lemma witness_generate:
  "generateCloudInitImage witness_iso_host [''/ci/user-data''] witness_host_state
    = (Inr ''/tmp/x.iso'', witness_host_state')"
  by (simp add: witness_host_state'_def generateCloudInitImage_def collect_config_file_def
      witness_iso_host_def witness_host_state_def os_Open_def filepath_Base_def os_ReadFile_def
      initial_config_files_iff config_names_def createCloudInitISO_def add_config_file_def
      CreateCloudInitISOFile_def os_MkdirAll_def make_dirs_all Let_def)

theorem cloudinit_image_contents_witness:
  "\<exists>added. HostFiles witness_host_state'
      = (HostFiles witness_host_state)(''/tmp/x.iso'' := Contents (IsoBytes witness_iso_host added))
    \<and> list_all2 (\<lambda>n (name, contents). name = n
        \<and> image_contents (HostFiles witness_host_state) [''/ci/user-data''] n = Inr contents)
        (RangeOrder witness_iso_host) added
    \<and> (\<exists>n \<in> {''user-data'', ''meta-data''}. last_with_base n [''/ci/user-data''] \<noteq> None)"
  by (rule cloudinit_image_contents [OF witness_generate])
    (auto simp: witness_iso_host_def config_names_def)

text \<open>
  No temporary image is left behind: whether making it succeeds or fails, at most one
  file of the host changes, and if one did, the exit handlers remove it.
\<close>

theorem cloudinit_image_removed:
  "case generateCloudInitImage h paths st of (r, st') \<Rightarrow>
    HostFiles st' = HostFiles st
    \<or> (\<exists>img. {q. HostFiles st' q \<noteq> HostFiles st q} \<subseteq> {img}
        \<and> (\<forall>fs. ExecuteExitHandlers (HostHandlers st') fs img = OpenFails ErrNotExist))"
proof (cases "generateCloudInitImage h paths st")
  case (Pair r st')
  show ?thesis
    using generateCloudInitImage_effect [OF Pair]
  proof (elim conjE disjE exE)
    fix img c
    assume "HostHandlers st' = HostHandlers st @ [os_Remove img]"
      "HostFiles st' = (HostFiles st)(img := Contents c)"
    then have "{q. HostFiles st' q \<noteq> HostFiles st q} \<subseteq> {img}
      \<and> (\<forall>fs. ExecuteExitHandlers (HostHandlers st') fs img = OpenFails ErrNotExist)"
      by (auto simp: ExecuteExitHandlers_append os_Remove_def)
    then show ?thesis using Pair by auto
  qed (use Pair in simp)
qed

end
