(* ===== verification/Launcher.thy ===== *)
theory Launcher
  imports Cmdline VMConfig CloudInit
begin

section \<open>From the options to the machine configuration\<close>

text \<open>
  \<open>newVMConfiguration\<close> of \<open>cmd/vfkit/main.go\<close> and what it calls. It changes the host (the
  cloud-init image with its exit handler, the pid file) and appends to the device options;
  it returns the configuration together with the options. What it asks of the system and
  of the virtualization framework is in the record \<open>launch_host\<close>.
\<close>

subsection \<open>The code\<close>

record launch_host =
  LhUnits :: strongunits
  NestedSupported :: bool
  LhIso :: iso_host
  Argv0 :: string
  Executable :: "error + string"
  WriteFileErr :: "string \<Rightarrow> error option"

definition newLegacyBootloader :: "Options \<Rightarrow> bootloader option" where
  "newLegacyBootloader opts =
    (if OptVmlinuzPath opts = [] \<and> OptKernelCmdline opts = [] \<and> OptInitrdPath opts = []
     then None
     else Some (BootLinux (NewLinuxBootloader (OptVmlinuzPath opts) (OptKernelCmdline opts)
       (OptInitrdPath opts))))"

definition newBootloaderConfiguration :: "Options \<Rightarrow> error + bootloader" where
  "newBootloaderConfiguration opts =
    (case newLegacyBootloader opts of
       Some legacyBootloader \<Rightarrow> Inr legacyBootloader
     | None \<Rightarrow> BootloaderFromCmdLine (stringSlice_GetSlice (OptBootloader opts)))"

text \<open>The pid file, when there is one to write.\<close>

definition write_pid_file :: "launch_host \<Rightarrow> Options \<Rightarrow> host_state \<Rightarrow> (error + unit) \<times> host_state" where
  "write_pid_file h opts st =
    (if OptPidFile opts = [] then (Inr (), st)
     else case Executable h of
       Inl e \<Rightarrow> (Inl (ErrorfW ''could not determine executable path'' e), st)
     | Inr execPath \<Rightarrow>
         let vfProcess = Process_New (Argv0 h) (OptPidFile opts) execPath in
         (case WritePidFile (WriteFileErr h) (Getpid (LhIso h)) vfProcess (HostFiles st) of
            Inl e \<Rightarrow> (Inl (ErrorfW ''could not write PID'' e), st)
          | Inr fs \<Rightarrow> (Inr (), st\<lparr>HostFiles := fs\<rparr>)))"

text \<open>The devices that \<open>--gui\<close> adds when the command line has none.\<close>

definition add_gui_gpu :: "VirtualMachine \<Rightarrow> error + VirtualMachine" where
  "add_gui_gpu vm =
    (if length (VirtioGPUDevices vm) = 0 then
       (case VirtioGPUNew of
          Inl e \<Rightarrow> Inl (ErrorfW ''failed to add virtio-gpu device'' e)
        | Inr dev \<Rightarrow> vm_AddDevice (DevGPU (dev\<lparr>UsesGUI := True\<rparr>)) vm)
     else Inr vm)"

definition add_gui_input :: "VirtualMachine \<Rightarrow> error + VirtualMachine" where
  "add_gui_input vm =
    (if length (VirtioInputDevices vm) = 0 then
       (case VirtioInputNew VirtioInputKeyboardDevice of
          Inl e \<Rightarrow> Inl (ErrorfW ''failed to add virtio-input device'' e)
        | Inr dev \<Rightarrow> vm_AddDevice (DevInput dev) vm)
     else Inr vm)"

definition add_gui_devices :: "Options \<Rightarrow> VirtualMachine \<Rightarrow> error + VirtualMachine" where
  "add_gui_devices opts vm =
    (if OptUseGUI opts then bindE (add_gui_gpu vm) add_gui_input else Inr vm)"

definition add_cmdline_devices ::
    "Options \<Rightarrow> VirtualMachine \<Rightarrow> host_state \<Rightarrow> (error + VirtualMachine) \<times> host_state" where
  "add_cmdline_devices opts vm st =
    (case vm_AddDevicesFromCmdLine (HostFiles st) (OptDevices opts) vm of
       (Some e, vm) \<Rightarrow> (Inl e, st)
     | (None, vm) \<Rightarrow> (Inr vm, st))"

definition add_ignition :: "Options \<Rightarrow> VirtualMachine \<Rightarrow> error + VirtualMachine" where
  "add_ignition opts vm =
    (case vm_AddIgnitionFileFromCmdLine (OptIgnitionPath opts) vm of
       Inl e \<Rightarrow> Inl (ErrorfW ''failed to add ignition file'' e)
     | Inr vm \<Rightarrow> Inr vm)"

definition newVMConfiguration ::
    "launch_host \<Rightarrow> Options \<Rightarrow> host_state \<Rightarrow> (error + VirtualMachine \<times> Options) \<times> host_state" where
  "newVMConfiguration h opts =
    bindS (returnS (newBootloaderConfiguration opts)) (\<lambda>bootloader.
    let vmConfig = NewVirtualMachine (LhUnits h) (OptVcpus opts) (OptMemoryMiB opts) (Some bootloader)
    in if OptNested opts \<and> \<not> NestedSupported h then
         returnS (Inl (Errorf ''nested virtualization is not supported''))
       else
         let vmConfig = vmConfig\<lparr>Nested := OptNested opts\<rparr> in
         bindS (returnS (vm_AddTimeSyncFromCmdLine (OptTimeSync opts) vmConfig)) (\<lambda>vmConfig.
         bindS (generateCloudInitImage (LhIso h) (stringSlice_GetSlice (OptCloudInitFiles opts)))
           (\<lambda>cloudInitISO.
         let opts = (if cloudInitISO \<noteq> []
               then opts\<lparr>OptDevices := OptDevices opts @ [''virtio-blk,path='' @ cloudInitISO]\<rparr>
               else opts)
         in bindS (write_pid_file h opts) (\<lambda>_.
            bindS (add_cmdline_devices opts vmConfig) (\<lambda>vmConfig.
            bindS (returnS (add_gui_devices opts vmConfig)) (\<lambda>vmConfig.
            bindS (returnS (add_ignition opts vmConfig)) (\<lambda>vmConfig.
              returnS (Inr (vmConfig, opts)))))))))"

subsection \<open>The command line that ToCmdLine writes, read by vfkit\<close>

text \<open>
  The configurations whose every field the command line carries: at least one CPU, a
  whole number of mebibytes, a Linux bootloader with its three parts or an EFI bootloader
  whose path needs no quoting, printable devices, no time synchronisation (which
  \<open>ToCmdLine\<close> does not write), and an ignition file given by its path alone.
\<close>

fun bootloader_carried :: "bootloader \<Rightarrow> bool" where
  "bootloader_carried (BootLinux b) =
    (VmlinuzPath b \<noteq> [] \<and> KernelCmdLine b \<noteq> [] \<and> InitrdPath b \<noteq> [])"
| "bootloader_carried (BootEFI b) =
    (efi_printable b \<and> quote \<notin> set (EFIVariableStorePath b) \<and> valid_utf8 (EFIVariableStorePath b))"
| "bootloader_carried (BootMacOS b) = False"

definition ignition_carried :: "Ignition \<Rightarrow> bool" where
  "ignition_carried i \<longleftrightarrow> ConfigPath i \<noteq> [] \<and> comma_free (ConfigPath i)
    \<and> SocketPath i = [] \<and> VsockPort i = ignitionVsockPort"

definition vm_carried :: "strongunits \<Rightarrow> file_env \<Rightarrow> u64 \<Rightarrow> bootloader \<Rightarrow> VirtualMachine \<Rightarrow> bool" where
  "vm_carried su fs mib boot vm \<longleftrightarrow>
    Vcpus vm \<noteq> 0 \<and> Memory vm = MiB_ToBytes su mib \<and> 0 < unat mib \<and> unat mib < 2 ^ 44
    \<and> VmBootloader vm = Some boot \<and> bootloader_carried boot
    \<and> list_all (device_printable fs) (VmDevices vm)
    \<and> Timesync vm = None \<and> pred_option ignition_carried (VmIgnition vm)"

text \<open>The flags that \<open>ToCmdLine\<close> writes.\<close>

fun bootloader_flags :: "bootloader \<Rightarrow> (flag \<times> string) list" where
  "bootloader_flags (BootLinux b) = [(FlagKernel, VmlinuzPath b), (FlagInitrd, InitrdPath b),
    (FlagKernelCmdline, KernelCmdLine b)]"
| "bootloader_flags (BootEFI b) = [(FlagBootloader, join_with (CHR '','') (''efi'' # efi_opts b))]"
| "bootloader_flags (BootMacOS b) = []"

definition ignition_flags :: "Ignition option \<Rightarrow> (flag \<times> string) list" where
  "ignition_flags ign = (case ign of Some i \<Rightarrow> [(FlagIgnition, ConfigPath i)] | None \<Rightarrow> [])"

definition vm_flags :: "u64 \<Rightarrow> bootloader \<Rightarrow> VirtualMachine \<Rightarrow> (flag \<times> string) list" where
  "vm_flags mib boot vm =
    [(FlagCpus, dec (unat (Vcpus vm))), (FlagMemory, dec (unat mib))]
    @ bootloader_flags boot
    @ map (\<lambda>d. (FlagDevice, device_arg d)) (VmDevices vm)
    @ ignition_flags (VmIgnition vm)
    @ (if Nested vm then [(FlagNested, ''true'')] else [])"

lemma bootloader_flags_render:
  "bootloader_carried boot \<Longrightarrow>
    bootloader_ToCmdLine boot = Inr (concat (map render_flag (bootloader_flags boot)))"
  by (cases boot) (auto simp: LinuxBootloader_ToCmdLine_Inr efi.emits)

lemma concat_device_flags:
  "concat (map render_flag (map (\<lambda>d. (FlagDevice, device_arg d)) devs))
    = concat (map (\<lambda>d. [''--device'', device_arg d]) devs)"
  by (induction devs) auto

lemma vm_flags_render:
  assumes "su_ok su" "vm_carried su fs mib boot vm"
  shows "vm_ToCmdLine su vm = Inr (concat (map render_flag (vm_flags mib boot vm)))"
proof -
  have v: "Vcpus vm \<noteq> 0" "Memory vm = MiB_ToBytes su mib" "0 < unat mib" "unat mib < 2 ^ 44"
    "VmBootloader vm = Some boot" "bootloader_carried boot"
    "\<forall>d \<in> set (VmDevices vm). device_printable fs d"
    using assms(2) by (auto simp: vm_carried_def list_all_iff)
  have "roundToMiB su (Memory vm) = mib" using roundToMiB_MiB [OF assms(1) v(4)] v(2) by simp
  moreover have "Memory vm \<noteq> 0"
  proof
    assume "Memory vm = 0"
    then have "unat (roundToMiB su (Memory vm)) = (0 + (2 ^ 20 - 1)) div 2 ^ 20"
      using roundToMiB_unat [OF assms(1), of "Memory vm"] by simp
    with \<open>roundToMiB su (Memory vm) = mib\<close> v(3) show False by simp
  qed
  ultimately have m: "memory_args su (Memory vm) = [''--memory'', dec (unat mib)]"
    using su_okD(1) [OF assms(1)] by (simp add: memory_args_def)
  show ?thesis
    unfolding vm_ToCmdLine_Inr
    using v(1,5) m bootloader_flags_render [OF v(6)] devices_print [OF v(7)]
    by (auto simp: vm_flags_def cpus_args_def ignition_args_def ignition_flags_def nested_args_def
        concat_device_flags split: option.split simp del: map_map)
qed

text \<open>The options that these flags set.\<close>

fun bootloader_options :: "bootloader \<Rightarrow> Options \<Rightarrow> Options" where
  "bootloader_options (BootLinux b) opts =
    opts\<lparr>OptVmlinuzPath := VmlinuzPath b, OptInitrdPath := InitrdPath b,
      OptKernelCmdline := KernelCmdLine b\<rparr>"
| "bootloader_options (BootEFI b) opts =
    opts\<lparr>OptBootloader := \<lparr>slice_value = ''efi'' # efi_opts b, changed = True\<rparr>\<rparr>"
| "bootloader_options (BootMacOS b) opts = opts"

definition vm_options :: "u64 \<Rightarrow> bootloader \<Rightarrow> VirtualMachine \<Rightarrow> Options" where
  "vm_options mib boot vm =
    (bootloader_options boot (default_options\<lparr>OptVcpus := Vcpus vm, OptMemoryMiB := mib\<rparr>))
      \<lparr>OptDevices := map device_arg (VmDevices vm),
       OptIgnitionPath := (case VmIgnition vm of Some i \<Rightarrow> ConfigPath i | None \<Rightarrow> []),
       OptNested := Nested vm\<rparr>"

lemma efi_parse_arg:
  assumes "efi_printable b" "quote \<notin> set (EFIVariableStorePath b)"
    "valid_utf8 (EFIVariableStorePath b)"
  shows "parseString (join_with (CHR '','') (''efi'' # efi_opts b)) = Inr (''efi'' # efi_opts b)"
proof -
  let ?arg = "join_with (CHR '','') (''efi'' # efi_opts b)"
  have "?arg = ''efi,variable-store='' @ EFIVariableStorePath b
      @ (if CreateVariableStore b then '',create'' else [])"
    by (simp add: efi_opts_def)
  then have "valid_utf8 ?arg" "quote \<notin> set ?arg"
    using assms(2,3) by (auto intro: valid_utf8_append)
  then show ?thesis
    using efi.split_arg [OF assms(1)] by (simp add: parseString_no_quotes drop_sole_empty_def)
qed

lemma device_flags_loop:
  "foldE (set_flag lib) (map (\<lambda>d. (FlagDevice, device_arg d)) devs) opts
    = Inr (opts\<lparr>OptDevices := OptDevices opts @ map device_arg devs\<rparr>)"
  by (induction devs arbitrary: opts) simp_all

lemma vm_flags_set:
  assumes "cobra_ok lib" "vm_carried su fs mib boot vm"
  shows "foldE (set_flag lib) (vm_flags mib boot vm) default_options = Inr (vm_options mib boot vm)"
proof -
  note u = cobra_okD(2,3) [OF assms(1)]
  have b: "bootloader_carried boot" using assms(2) by (simp add: vm_carried_def)
  have "foldE (set_flag lib) (bootloader_flags boot) (default_options\<lparr>OptVcpus := n, OptMemoryMiB := mib\<rparr>)
      = Inr (bootloader_options boot (default_options\<lparr>OptVcpus := n, OptMemoryMiB := mib\<rparr>))" for n
    using b by (cases boot) (simp_all add: default_options_def stringSlice_Set_def
        stringSliceZero_def efi_parse_arg del: join_with.simps)
  moreover have "OptDevices (bootloader_options boot (default_options\<lparr>OptVcpus := n, OptMemoryMiB := mib\<rparr>)) = []"
    for n by (cases boot) (simp_all add: default_options_def)
  moreover have "OptNested (bootloader_options boot (default_options\<lparr>OptVcpus := n, OptMemoryMiB := mib\<rparr>)) = False"
    "OptIgnitionPath (bootloader_options boot (default_options\<lparr>OptVcpus := n, OptMemoryMiB := mib\<rparr>)) = []"
    for n by (cases boot; simp add: default_options_def)+
  ultimately show ?thesis
    by (cases "VmIgnition vm"; cases "Nested vm")
      (simp_all add: vm_flags_def vm_options_def foldE_append device_flags_loop u ignition_flags_def)
qed

lemma vm_flags_groups:
  "bootloader_carried boot \<Longrightarrow> groups_kept exclusive_flags required_together (map fst (vm_flags mib boot vm))"
  by (cases boot; cases "VmIgnition vm")
    (auto simp: vm_flags_def groups_kept_def exclusive_flags_def required_together_def
      ignition_flags_def)

lemma vm_flags_values: "list_all flag_value_ok (vm_flags mib boot vm)"
  by (cases boot; cases "VmIgnition vm")
    (auto simp: vm_flags_def list_all_iff ignition_flags_def)

lemma vm_options_parsed:
  assumes "su_ok su" "cobra_ok lib" "vm_carried su fs mib boot vm"
  obtains args where "vm_ToCmdLine su vm = Inr args"
    and "parse_args lib args = Inr (vm_options mib boot vm)"
proof -
  have "bootloader_carried boot" using assms(3) by (simp add: vm_carried_def)
  note groups = cobra_okD(4) [OF assms(2) vm_flags_groups [OF this]]
  have "parse_args lib (concat (map render_flag (vm_flags mib boot vm)))
      = Inr (vm_options mib boot vm)"
    using cobra_okD(1) [OF assms(2) vm_flags_values] groups vm_flags_set [OF assms(2,3)]
    by (simp add: parse_args_def)
  with vm_flags_render [OF assms(1,3)] show thesis by (rule that)
qed

lemma vm_options_bootloader:
  assumes "bootloader_carried boot"
  shows "newBootloaderConfiguration (vm_options mib boot vm) = Inr boot"
proof (cases boot)
  case (BootLinux b)
  with assms show ?thesis
    by (simp add: newBootloaderConfiguration_def newLegacyBootloader_def vm_options_def
        NewLinuxBootloader_def)
next
  case (BootEFI b)
  with assms efi.reads [of b] show ?thesis
    by (simp add: newBootloaderConfiguration_def newLegacyBootloader_def vm_options_def
        default_options_def stringSlice_GetSlice_def BootloaderFromCmdLine_def bootloader_new_def)
qed (use assms in simp)

lemma vm_options_fields [simp]:
  "OptVcpus (vm_options mib boot vm) = Vcpus vm"
  "OptMemoryMiB (vm_options mib boot vm) = mib"
  "OptNested (vm_options mib boot vm) = Nested vm"
  "OptDevices (vm_options mib boot vm) = map device_arg (VmDevices vm)"
  "OptIgnitionPath (vm_options mib boot vm) = (case VmIgnition vm of Some i \<Rightarrow> ConfigPath i | None \<Rightarrow> [])"
  "OptTimeSync (vm_options mib boot vm) = []"
  "OptUseGUI (vm_options mib boot vm) = False"
  "OptPidFile (vm_options mib boot vm) = []"
  "OptCloudInitFiles (vm_options mib boot vm) = stringSliceZero"
  by (cases boot; simp add: vm_options_def default_options_def)+

lemma add_ignition_carried:
  assumes "pred_option ignition_carried ign" "VmIgnition vm = None"
  shows "OptIgnitionPath opts = (case ign of Some i \<Rightarrow> ConfigPath i | None \<Rightarrow> []) \<Longrightarrow>
    add_ignition opts vm = Inr (vm\<lparr>VmIgnition := ign\<rparr>)"
proof (cases ign)
  case None
  assume "OptIgnitionPath opts = (case ign of Some i \<Rightarrow> ConfigPath i | None \<Rightarrow> [])"
  with None assms(2) show ?thesis
    by (cases vm) (simp add: add_ignition_def vm_AddIgnitionFileFromCmdLine_def)
next
  case (Some i)
  assume o': "OptIgnitionPath opts = (case ign of Some i \<Rightarrow> ConfigPath i | None \<Rightarrow> [])"
  have i: "ConfigPath i \<noteq> []" "CHR '','' \<notin> set (ConfigPath i)"
    "\<lparr>ConfigPath = ConfigPath i, SocketPath = [], VsockPort = ignitionVsockPort\<rparr> = i"
    using assms(1) Some by (auto simp: ignition_carried_def comma_free_def)
  show ?thesis
    using o' Some i(1) i(3) split_on_no_sep [OF i(2)]
    by (simp add: add_ignition_def vm_AddIgnitionFileFromCmdLine_def IgnitionNew_def)
qed

lemma newVMConfiguration_carried:
  assumes "vm_carried (LhUnits h) (HostFiles st) mib boot vm" "Nested vm \<longrightarrow> NestedSupported h"
  shows "newVMConfiguration h (vm_options mib boot vm) st = (Inr (vm, vm_options mib boot vm), st)"
proof -
  let ?opts = "vm_options mib boot vm"
  let ?c = "(NewVirtualMachine (LhUnits h) (Vcpus vm) mib (Some boot))\<lparr>Nested := Nested vm\<rparr>"
  have v: "bootloader_carried boot" "\<forall>d \<in> set (VmDevices vm). device_printable (HostFiles st) d"
    "pred_option ignition_carried (VmIgnition vm)"
    using assms(1) by (auto simp: vm_carried_def list_all_iff)
  have vm: "?c\<lparr>VmDevices := VmDevices vm, VmIgnition := VmIgnition vm\<rparr> = vm"
    using assms(1) by (cases vm) (simp add: vm_carried_def NewVirtualMachine_def)
  have t: "vm_AddTimeSyncFromCmdLine (OptTimeSync ?opts) ?c = Inr ?c"
    by (simp add: vm_AddTimeSyncFromCmdLine_def)
  have g: "generateCloudInitImage (LhIso h) (stringSlice_GetSlice (OptCloudInitFiles ?opts)) st = (Inr [], st)"
    by (simp add: generateCloudInitImage_def stringSlice_GetSlice_def stringSliceZero_def)
  have p: "write_pid_file h ?opts st = (Inr (), st)" by (simp add: write_pid_file_def)
  have "VmDevices ?c = []" by (simp add: NewVirtualMachine_def)
  then have d: "add_cmdline_devices ?opts ?c st = (Inr (?c\<lparr>VmDevices := VmDevices vm\<rparr>), st)"
    using vm_AddDevices_ok [OF devices_read [OF v(2)]] by (simp add: add_cmdline_devices_def)
  have u: "add_gui_devices ?opts (?c\<lparr>VmDevices := VmDevices vm\<rparr>) = Inr (?c\<lparr>VmDevices := VmDevices vm\<rparr>)"
    by (simp add: add_gui_devices_def)
  have "VmIgnition (?c\<lparr>VmDevices := VmDevices vm\<rparr>) = None" by (simp add: NewVirtualMachine_def)
  from add_ignition_carried [OF v(3) this, of ?opts]
  have i: "add_ignition ?opts (?c\<lparr>VmDevices := VmDevices vm\<rparr>) = Inr vm"
    using vm by simp
  show ?thesis
    unfolding newVMConfiguration_def
    using assms(2) vm_options_bootloader [OF v(1)] t g p d u i
    by (simp add: bindS_Inr Let_def returnS_def)
qed

subsection \<open>What a configuration is made of\<close>

definition gui_gpu_added :: "Options \<Rightarrow> device list \<Rightarrow> device list" where
  "gui_gpu_added opts devs =
    (if OptUseGUI opts \<and> filter_devices isVirtioGPU devs = []
     then [DevGPU \<lparr>Width = 800, Height = 600, UsesGUI = True\<rparr>] else [])"

definition gui_input_added :: "Options \<Rightarrow> device list \<Rightarrow> device list" where
  "gui_input_added opts devs =
    (if OptUseGUI opts \<and> filter_devices isVirtioInput devs = []
     then [DevInput \<lparr>InputType = ''keyboard''\<rparr>] else [])"

lemma add_gui_devices_eq:
  "add_gui_devices opts vm = Inr (vm\<lparr>VmDevices := VmDevices vm
    @ gui_gpu_added opts (VmDevices vm) @ gui_input_added opts (VmDevices vm)\<rparr>)"
  by (simp add: add_gui_devices_def add_gui_gpu_def add_gui_input_def gui_gpu_added_def
      gui_input_added_def VirtioGPUDevices_def VirtioInputDevices_def FilterDevices_def
      VirtioGPUNew_def VirtioInputNew_def VirtioInputKeyboardDevice_def vm_AddDevice_def
      vm_AddDevices_def filter_devices_append defaultVirtioGPUResolutionWidth_def
      defaultVirtioGPUResolutionHeight_def VirtioInput_validate_def)

lemma add_cmdline_devices_Inr:
  assumes "add_cmdline_devices opts vm st = (Inr vm', st')"
  obtains devs where "traverseE (deviceFromCmdLine (HostFiles st)) (OptDevices opts) = Inr devs"
    and "vm' = vm\<lparr>VmDevices := VmDevices vm @ devs\<rparr>" and "st' = st"
proof -
  have n: "fst (vm_AddDevicesFromCmdLine (HostFiles st) (OptDevices opts) vm) = None"
    using assms by (auto simp: add_cmdline_devices_def split: prod.splits option.splits)
  then obtain devs where d: "traverseE (deviceFromCmdLine (HostFiles st)) (OptDevices opts) = Inr devs"
    unfolding vm_AddDevices_None by blast
  then show thesis
    using that assms vm_AddDevices_ok [OF d, of vm] by (simp add: add_cmdline_devices_def)
qed

lemma write_pid_file_handlers:
  "write_pid_file h opts st = (r, st') \<Longrightarrow> HostHandlers st' = HostHandlers st"
  by (auto simp: write_pid_file_def Let_def split: if_splits sum.splits)

lemma write_pid_file_path:
  "OptPidFile opts = OptPidFile opts' \<Longrightarrow> write_pid_file h opts = write_pid_file h opts'"
  by (auto simp: write_pid_file_def fun_eq_iff split: sum.split)

lemma add_ignition_Inr:
  assumes "add_ignition opts vm = Inr vm'"
  shows "vm' = vm\<lparr>VmIgnition := if OptIgnitionPath opts = [] then VmIgnition vm
    else Some \<lparr>ConfigPath = OptIgnitionPath opts, SocketPath = [], VsockPort = ignitionVsockPort\<rparr>\<rparr>"
proof -
  have "split_on (CHR '','') s ! 0 = s" if "length (split_on (CHR '','') s) = 1" for s
    using that join_split [of "CHR '',''" s] by (cases "split_on (CHR '','') s") auto
  then show ?thesis
    using assms by (auto simp: add_ignition_def vm_AddIgnitionFileFromCmdLine_def IgnitionNew_def
        Let_def split: sum.splits if_splits)
qed

lemma add_timesync_Inr:
  assumes "vm_AddTimeSyncFromCmdLine s vm = Inr vm'" "Timesync vm = None"
  shows "\<exists>t. vm' = vm\<lparr>Timesync := t\<rparr>
    \<and> (if s = [] then Inr None else mapE Some (timesyncFromCmdLine s)) = Inr t"
  using assms
  by (cases vm; cases "timesyncFromCmdLine s")
    (auto simp: vm_AddTimeSyncFromCmdLine_def mapE_def split: if_splits)

text \<open>The steps of a successful run, in order.\<close>

lemma newVMConfiguration_steps:
  assumes "newVMConfiguration h opts st = (Inr (vm, opts'), st')"
  obtains boot c1 img st1 c2 c3 where
    "newBootloaderConfiguration opts = Inr boot"
    "OptNested opts \<longrightarrow> NestedSupported h"
    "vm_AddTimeSyncFromCmdLine (OptTimeSync opts) ((NewVirtualMachine (LhUnits h) (OptVcpus opts)
      (OptMemoryMiB opts) (Some boot))\<lparr>Nested := OptNested opts\<rparr>) = Inr c1"
    "generateCloudInitImage (LhIso h) (slice_value (OptCloudInitFiles opts)) st = (Inr img, st1)"
    "opts' = (if img \<noteq> [] then opts\<lparr>OptDevices := OptDevices opts @ [''virtio-blk,path='' @ img]\<rparr>
      else opts)"
    "write_pid_file h opts' st1 = (Inr (), st')"
    "add_cmdline_devices opts' c1 st' = (Inr c2, st')"
    "add_gui_devices opts' c2 = Inr c3" "add_ignition opts' c3 = Inr vm"
proof -
  let ?c = "\<lambda>boot. (NewVirtualMachine (LhUnits h) (OptVcpus opts) (OptMemoryMiB opts) (Some boot))
    \<lparr>Nested := OptNested opts\<rparr>"
  let ?opts = "\<lambda>img. if img \<noteq> [] then opts\<lparr>OptDevices := OptDevices opts @ [''virtio-blk,path='' @ img]\<rparr>
    else opts"
  let ?rest = "\<lambda>boot. bindS (returnS (vm_AddTimeSyncFromCmdLine (OptTimeSync opts) (?c boot))) (\<lambda>c1.
    bindS (generateCloudInitImage (LhIso h) (stringSlice_GetSlice (OptCloudInitFiles opts))) (\<lambda>img.
    bindS (write_pid_file h (?opts img)) (\<lambda>_.
    bindS (add_cmdline_devices (?opts img) c1) (\<lambda>c2.
    bindS (returnS (add_gui_devices (?opts img) c2)) (\<lambda>c3.
    bindS (returnS (add_ignition (?opts img) c3)) (\<lambda>c4. returnS (Inr (c4, ?opts img))))))))"
  obtain boot where boot: "newBootloaderConfiguration opts = Inr boot"
    and r: "(if OptNested opts \<and> \<not> NestedSupported h
      then returnS (Inl (Errorf ''nested virtualization is not supported'')) else ?rest boot) st
      = (Inr (vm, opts'), st')"
    using assms unfolding newVMConfiguration_def Let_def bindS_eq_Inr [of "returnS _"] returnS_eq
    by blast
  have n: "OptNested opts \<longrightarrow> NestedSupported h"
    using r by (cases "OptNested opts \<and> \<not> NestedSupported h") auto
  then have "?rest boot st = (Inr (vm, opts'), st')" using r by auto
  then obtain c1 img st1 st2 c2 c3 where
    s: "vm_AddTimeSyncFromCmdLine (OptTimeSync opts) (?c boot) = Inr c1"
    "generateCloudInitImage (LhIso h) (stringSlice_GetSlice (OptCloudInitFiles opts)) st = (Inr img, st1)"
    "write_pid_file h (?opts img) st1 = (Inr (), st2)"
    "add_cmdline_devices (?opts img) c1 st2 = (Inr c2, st')"
    "add_gui_devices (?opts img) c2 = Inr c3" "add_ignition (?opts img) c3 = Inr vm"
    and o': "opts' = ?opts img"
    unfolding bindS_eq_Inr returnS_eq by auto
  moreover have "st2 = st'" by (rule add_cmdline_devices_Inr [OF s(4)]) simp
  ultimately show thesis
    using boot n by (intro that [of boot c1 img st1 c2 c3]) (simp_all add: stringSlice_GetSlice_def)
qed

lemma newVMConfiguration_parts:
  assumes "newVMConfiguration h opts st = (Inr (vm, opts'), st')"
  shows "\<exists>devs boot img st1. newBootloaderConfiguration opts = Inr boot
    \<and> generateCloudInitImage (LhIso h) (slice_value (OptCloudInitFiles opts)) st = (Inr img, st1)
    \<and> opts' = opts\<lparr>OptDevices := OptDevices opts
        @ (if img \<noteq> [] then [''virtio-blk,path='' @ img] else [])\<rparr>
    \<and> write_pid_file h opts st1 = (Inr (), st')
    \<and> traverseE (deviceFromCmdLine (HostFiles st')) (OptDevices opts') = Inr devs
    \<and> VmDevices vm = devs @ gui_gpu_added opts devs @ gui_input_added opts devs
    \<and> Vcpus vm = OptVcpus opts \<and> Memory vm = MiB_ToBytes (LhUnits h) (OptMemoryMiB opts)
    \<and> VmBootloader vm = Some boot \<and> Nested vm = OptNested opts
    \<and> \<not> (Nested vm \<and> \<not> NestedSupported h)
    \<and> VmIgnition vm = (if OptIgnitionPath opts = [] then None
        else Some \<lparr>ConfigPath = OptIgnitionPath opts, SocketPath = [], VsockPort = ignitionVsockPort\<rparr>)
    \<and> (if OptTimeSync opts = [] then Inr None
        else mapE Some (timesyncFromCmdLine (OptTimeSync opts))) = Inr (Timesync vm)"
proof (rule newVMConfiguration_steps [OF assms])
  fix boot c1 img st1 c2 c3
  assume boot: "newBootloaderConfiguration opts = Inr boot"
    and n: "OptNested opts \<longrightarrow> NestedSupported h"
    and t: "vm_AddTimeSyncFromCmdLine (OptTimeSync opts) ((NewVirtualMachine (LhUnits h) (OptVcpus opts)
      (OptMemoryMiB opts) (Some boot))\<lparr>Nested := OptNested opts\<rparr>) = Inr c1"
    and o': "opts' = (if img \<noteq> [] then opts\<lparr>OptDevices := OptDevices opts @ [''virtio-blk,path='' @ img]\<rparr>
      else opts)"
    and img: "generateCloudInitImage (LhIso h) (slice_value (OptCloudInitFiles opts)) st = (Inr img, st1)"
    and p: "write_pid_file h opts' st1 = (Inr (), st')"
    and d: "add_cmdline_devices opts' c1 st' = (Inr c2, st')"
    and g: "add_gui_devices opts' c2 = Inr c3" and i: "add_ignition opts' c3 = Inr vm"
  obtain ts where c1: "c1 = (NewVirtualMachine (LhUnits h) (OptVcpus opts)
      (OptMemoryMiB opts) (Some boot))\<lparr>Nested := OptNested opts, Timesync := ts\<rparr>"
    and ts: "(if OptTimeSync opts = [] then Inr None
      else mapE Some (timesyncFromCmdLine (OptTimeSync opts))) = Inr ts"
    using add_timesync_Inr [OF t] by (auto simp: NewVirtualMachine_def)
  obtain devs where devs: "traverseE (deviceFromCmdLine (HostFiles st')) (OptDevices opts') = Inr devs"
    and c2: "c2 = c1\<lparr>VmDevices := VmDevices c1 @ devs\<rparr>" by (rule add_cmdline_devices_Inr [OF d])
  have vm: "vm = c3\<lparr>VmIgnition := if OptIgnitionPath opts = [] then VmIgnition c3
    else Some \<lparr>ConfigPath = OptIgnitionPath opts, SocketPath = [], VsockPort = ignitionVsockPort\<rparr>\<rparr>"
    using add_ignition_Inr [OF i] by (simp add: o')
  have c3: "c3 = c2\<lparr>VmDevices := devs @ gui_gpu_added opts devs @ gui_input_added opts devs\<rparr>"
    using g unfolding add_gui_devices_eq
    by (auto simp: c2 c1 NewVirtualMachine_def gui_gpu_added_def gui_input_added_def o')
  have "opts' = opts\<lparr>OptDevices := OptDevices opts @ (if img \<noteq> [] then [''virtio-blk,path='' @ img] else [])\<rparr>"
    by (simp add: o')
  moreover have "write_pid_file h opts st1 = (Inr (), st')"
    using p write_pid_file_path [of opts' opts h] by (simp add: o')
  ultimately show ?thesis
    using boot n devs img ts
    by (intro exI [of _ devs] exI [of _ boot] exI [of _ img] exI [of _ st1])
      (simp add: vm c3 c2 c1 NewVirtualMachine_def)
qed

subsection \<open>Properties\<close>

text \<open>
  C1. The command line that \<open>ToCmdLine\<close> writes for a configuration, given to vfkit, parses and
  gives back exactly that configuration, without touching the host: CPUs, memory,
  bootloader, every device in order, ignition and nested virtualization.
\<close>

theorem vm_cmdline_roundtrip:
  assumes "su_ok (LhUnits h)" "cobra_ok lib"
    and "vm_carried (LhUnits h) (HostFiles st) mib boot vm" "Nested vm \<longrightarrow> NestedSupported h"
  shows "\<exists>args opts. vm_ToCmdLine (LhUnits h) vm = Inr args
    \<and> parse_args lib args = Inr opts
    \<and> newVMConfiguration h opts st = (Inr (vm, opts), st)"
  by (rule vm_options_parsed [OF assms(1-3)])
    (use newVMConfiguration_carried [OF assms(3,4)] in blast)

definition witness_host :: launch_host where
  "witness_host = \<lparr>LhUnits = binary_units, NestedSupported = True, LhIso = witness_iso_host,
    Argv0 = ''vfkit'', Executable = Inr ''/bin/vfkit'', WriteFileErr = (\<lambda>_. None)\<rparr>"

definition witness_carried_vm :: VirtualMachine where
  "witness_carried_vm = \<lparr>Vcpus = 2, Memory = MiB_ToBytes binary_units 2048,
    VmBootloader = Some (BootEFI \<lparr>EFIVariableStorePath = ''/vars'', CreateVariableStore = True\<rparr>),
    VmDevices = [witness_net, DevRng (), DevInput \<lparr>InputType = ''keyboard''\<rparr>], Timesync = None,
    VmIgnition = Some \<lparr>ConfigPath = ''/ign'', SocketPath = [], VsockPort = 1024\<rparr>, Nested = True\<rparr>"

theorem vm_cmdline_roundtrip_witness:
  "\<exists>args opts. vm_ToCmdLine (LhUnits witness_host) witness_carried_vm = Inr args
    \<and> parse_args witness_cobra args = Inr opts
    \<and> newVMConfiguration witness_host opts witness_host_state
      = (Inr (witness_carried_vm, opts), witness_host_state)"
proof (rule vm_cmdline_roundtrip [OF _ witness_cobra_ok])
  show "su_ok (LhUnits witness_host)" using binary_units_ok by (simp add: witness_host_def)
  show "vm_carried (LhUnits witness_host) (HostFiles witness_host_state) 2048
    (BootEFI \<lparr>EFIVariableStorePath = ''/vars'', CreateVariableStore = True\<rparr>) witness_carried_vm"
    using witness_net_printable
    by (simp add: vm_carried_def witness_carried_vm_def witness_host_def efi_printable_def
        input_printable_def ignition_carried_def ignitionVsockPort_def)
qed (simp add: witness_host_def)

text \<open>
  C4. A configuration that \<open>newVMConfiguration\<close> returns has exactly the CPUs, memory, nested flag,
  ignition file and time synchronisation of the options, the bootloader they name, and as
  devices those of the command line in order, then the disk of the image that
  \<open>generateCloudInitImage\<close> made of the given files, if it made one, then the virtio-gpu and the
  keyboard that \<open>--gui\<close> adds when none was configured. Of the options only the devices change,
  by that disk, and the host is as the image and then the pid file left it.
\<close>

theorem newVMConfiguration_result:
  assumes "newVMConfiguration h opts st = (Inr (vm, opts'), st')"
  shows "\<exists>devs boot img st1. newBootloaderConfiguration opts = Inr boot
    \<and> generateCloudInitImage (LhIso h) (slice_value (OptCloudInitFiles opts)) st = (Inr img, st1)
    \<and> opts' = opts\<lparr>OptDevices := OptDevices opts
        @ (if img \<noteq> [] then [''virtio-blk,path='' @ img] else [])\<rparr>
    \<and> write_pid_file h opts st1 = (Inr (), st')
    \<and> traverseE (deviceFromCmdLine (HostFiles st')) (OptDevices opts') = Inr devs
    \<and> VmDevices vm = devs @ gui_gpu_added opts devs @ gui_input_added opts devs
    \<and> Vcpus vm = OptVcpus opts \<and> Memory vm = MiB_ToBytes (LhUnits h) (OptMemoryMiB opts)
    \<and> VmBootloader vm = Some boot \<and> Nested vm = OptNested opts
    \<and> \<not> (Nested vm \<and> \<not> NestedSupported h)
    \<and> VmIgnition vm = (if OptIgnitionPath opts = [] then None
        else Some \<lparr>ConfigPath = OptIgnitionPath opts, SocketPath = [], VsockPort = ignitionVsockPort\<rparr>)
    \<and> (if OptTimeSync opts = [] then Inr None
        else mapE Some (timesyncFromCmdLine (OptTimeSync opts))) = Inr (Timesync vm)"
  using newVMConfiguration_parts [OF assms] .

definition witness_gui_opts :: Options where
  "witness_gui_opts = default_options\<lparr>OptVmlinuzPath := ''k'', OptDevices := [''virtio-rng''], OptUseGUI := True\<rparr>"

definition witness_gui_vm :: VirtualMachine where
  "witness_gui_vm = (NewVirtualMachine binary_units 1 512 (Some (BootLinux (NewLinuxBootloader ''k'' [] []))))
    \<lparr>VmDevices := [DevRng (), DevGPU \<lparr>Width = 800, Height = 600, UsesGUI = True\<rparr>,
      DevInput \<lparr>InputType = ''keyboard''\<rparr>]\<rparr>"

text \<open>The endpoint of the REST service plays no part.\<close>

lemma witness_gui_run_uri:
  fixes uri
  defines "opts \<equiv> witness_gui_opts\<lparr>OptRestfulURI := uri\<rparr>"
  shows
  "newVMConfiguration witness_host opts witness_host_state
    = (Inr (witness_gui_vm, opts), witness_host_state)"
proof -
  let ?st = witness_host_state
  let ?c = "NewVirtualMachine binary_units 1 512 (Some (BootLinux (NewLinuxBootloader ''k'' [] [])))"
  have o': "OptDevices opts = [''virtio-rng'']" "OptPidFile opts = []"
    "OptCloudInitFiles opts = stringSliceZero" "OptTimeSync opts = []"
    "OptIgnitionPath opts = []" "OptUseGUI opts" "\<not> OptNested opts"
    "OptVcpus opts = 1" "OptMemoryMiB opts = 512"
    by (simp_all add: opts_def witness_gui_opts_def default_options_def)
  have b: "newBootloaderConfiguration opts = Inr (BootLinux (NewLinuxBootloader ''k'' [] []))"
    by (simp add: newBootloaderConfiguration_def newLegacyBootloader_def opts_def
        witness_gui_opts_def default_options_def)
  have c: "?c\<lparr>Nested := False\<rparr> = ?c" "VmDevices ?c = []" by (simp_all add: NewVirtualMachine_def)
  have g: "generateCloudInitImage (LhIso witness_host)
      (stringSlice_GetSlice (OptCloudInitFiles opts)) ?st = (Inr [], ?st)"
    by (simp add: o' generateCloudInitImage_def stringSlice_GetSlice_def stringSliceZero_def)
  have p: "write_pid_file witness_host opts ?st = (Inr (), ?st)"
    by (simp add: write_pid_file_def o')
  have "deviceFromCmdLine fs ''virtio-rng'' = Inr (DevRng ())" for fs
    by (simp add: deviceFromCmdLine_def VirtioRng_FromOptions_def)
  then have d: "add_cmdline_devices opts ?c ?st = (Inr (?c\<lparr>VmDevices := [DevRng ()]\<rparr>), ?st)"
    by (simp add: add_cmdline_devices_def o' c)
  have u: "add_gui_devices opts (?c\<lparr>VmDevices := [DevRng ()]\<rparr>) = Inr witness_gui_vm"
    by (simp add: add_gui_devices_eq o' gui_gpu_added_def gui_input_added_def witness_gui_vm_def)
  have i: "add_ignition opts witness_gui_vm = Inr witness_gui_vm"
    by (simp add: add_ignition_def vm_AddIgnitionFileFromCmdLine_def o')
  have t: "vm_AddTimeSyncFromCmdLine [] ?c = Inr ?c" by (simp add: vm_AddTimeSyncFromCmdLine_def)
  have w: "LhUnits witness_host = binary_units" by (simp add: witness_host_def)
  show ?thesis
    using g p d u i by (simp add: newVMConfiguration_def b o' Let_def w c t returnS_def)
qed

lemma witness_gui_run:
  "newVMConfiguration witness_host witness_gui_opts witness_host_state
    = (Inr (witness_gui_vm, witness_gui_opts), witness_host_state)"
  using witness_gui_run_uri [of "OptRestfulURI witness_gui_opts"] by simp

text \<open>A run that makes an image.\<close>

definition witness_cloud_opts :: Options where
  "witness_cloud_opts = default_options\<lparr>OptVmlinuzPath := ''k'',
    OptCloudInitFiles := \<lparr>slice_value = [''/ci/user-data''], changed = True\<rparr>, OptUseGUI := True\<rparr>"

lemma witness_cloud_disk:
  "\<exists>d. deviceFromCmdLine (HostFiles witness_host_state') ''virtio-blk,path=/tmp/x.iso'' = Inr (DevBlk d)"
proof -
  let ?d = "virtioBlkNewEmpty\<lparr>ImagePath := ''/tmp/x.iso''\<rparr>"
  have "HostFiles witness_host_state' ''/tmp/x.iso'' = Contents ''#cloud''"
    by (simp add: witness_host_state'_def generateCloudInitImage_def collect_config_file_def
        witness_iso_host_def witness_host_state_def os_Open_def filepath_Base_def os_ReadFile_def
        initial_config_files_iff config_names_def createCloudInitISO_def add_config_file_def
        CreateCloudInitISOFile_def os_MkdirAll_def make_dirs_all Let_def)
  then have "VirtioBlk_validate (HostFiles witness_host_state') ?d = Inr ()"
    by (simp add: VirtioBlk_validate_def qcow2Header_def)
  then have "device_printable (HostFiles witness_host_state') (DevBlk ?d)"
    by (simp add: blk_printable_def disk_printable_def virtioBlkNewEmpty_def disk_backend_defs)
  moreover have "device_arg (DevBlk ?d) = ''virtio-blk,path=/tmp/x.iso''"
    by (simp add: device_arg_def blk_opts_def disk_opts_def virtioBlkNewEmpty_def)
  ultimately show ?thesis
    using device_print_arg(2) by metis
qed

lemma witness_cloud_run:
  "\<exists>vm. newVMConfiguration witness_host witness_cloud_opts witness_host_state
    = (Inr (vm, witness_cloud_opts\<lparr>OptDevices := [''virtio-blk,path=/tmp/x.iso'']\<rparr>), witness_host_state')"
proof -
  let ?opts = "witness_cloud_opts\<lparr>OptDevices := [''virtio-blk,path=/tmp/x.iso'']\<rparr>"
  let ?c = "NewVirtualMachine binary_units 1 512 (Some (BootLinux (NewLinuxBootloader ''k'' [] [])))"
  have o': "OptDevices witness_cloud_opts = []" "OptPidFile witness_cloud_opts = []"
    "OptTimeSync witness_cloud_opts = []" "OptIgnitionPath witness_cloud_opts = []"
    "\<not> OptNested witness_cloud_opts" "OptVcpus witness_cloud_opts = 1" "OptMemoryMiB witness_cloud_opts = 512"
    "stringSlice_GetSlice (OptCloudInitFiles witness_cloud_opts) = [''/ci/user-data'']"
    by (simp_all add: witness_cloud_opts_def default_options_def stringSlice_GetSlice_def)
  have b: "newBootloaderConfiguration witness_cloud_opts = Inr (BootLinux (NewLinuxBootloader ''k'' [] []))"
    by (simp add: newBootloaderConfiguration_def newLegacyBootloader_def witness_cloud_opts_def
        default_options_def)
  have c: "?c\<lparr>Nested := False\<rparr> = ?c" by (simp add: NewVirtualMachine_def)
  obtain d where "deviceFromCmdLine (HostFiles witness_host_state') ''virtio-blk,path=/tmp/x.iso'' = Inr (DevBlk d)"
    using witness_cloud_disk by blast
  then have d: "add_cmdline_devices ?opts ?c witness_host_state'
      = (Inr (?c\<lparr>VmDevices := [DevBlk d]\<rparr>), witness_host_state')"
    by (simp add: add_cmdline_devices_def NewVirtualMachine_def)
  have p: "write_pid_file witness_host ?opts st = (Inr (), st)" for st
    by (simp add: write_pid_file_def o')
  have t: "vm_AddTimeSyncFromCmdLine [] ?c = Inr ?c" by (simp add: vm_AddTimeSyncFromCmdLine_def)
  have i: "add_ignition ?opts vm = Inr vm" for vm
    by (simp add: add_ignition_def vm_AddIgnitionFileFromCmdLine_def o')
  have w: "LhUnits witness_host = binary_units" "LhIso witness_host = witness_iso_host"
    by (simp_all add: witness_host_def)
  show ?thesis
    using witness_generate d p
    by (simp add: newVMConfiguration_def b o' Let_def w c t i returnS_def add_gui_devices_eq)
qed

theorem newVMConfiguration_result_witness:
  "\<exists>vm devs boot st1. newVMConfiguration witness_host witness_cloud_opts witness_host_state
      = (Inr (vm, witness_cloud_opts\<lparr>OptDevices := [''virtio-blk,path=/tmp/x.iso'']\<rparr>), witness_host_state')
    \<and> generateCloudInitImage (LhIso witness_host) [''/ci/user-data''] witness_host_state
      = (Inr ''/tmp/x.iso'', st1)
    \<and> newBootloaderConfiguration witness_cloud_opts = Inr boot
    \<and> traverseE (deviceFromCmdLine (HostFiles witness_host_state')) [''virtio-blk,path=/tmp/x.iso''] = Inr devs
    \<and> VmDevices vm = devs @ gui_gpu_added witness_cloud_opts devs @ gui_input_added witness_cloud_opts devs
    \<and> VmBootloader vm = Some boot \<and> VmIgnition vm = None"
proof -
  let ?opts' = "witness_cloud_opts\<lparr>OptDevices := [''virtio-blk,path=/tmp/x.iso'']\<rparr>"
  obtain vm where r: "newVMConfiguration witness_host witness_cloud_opts witness_host_state
      = (Inr (vm, ?opts'), witness_host_state')"
    using witness_cloud_run by blast
  have o': "OptIgnitionPath witness_cloud_opts = []"
    "slice_value (OptCloudInitFiles witness_cloud_opts) = [''/ci/user-data'']"
    by (simp_all add: witness_cloud_opts_def default_options_def)
  have g: "generateCloudInitImage (LhIso witness_host) [''/ci/user-data''] witness_host_state
      = (Inr ''/tmp/x.iso'', witness_host_state')"
    using witness_generate by (simp add: witness_host_def)
  from newVMConfiguration_result [OF r] show ?thesis
    using r g by (simp add: o') blast
qed

end
