(* ===== verification/DeviceTypes.thy ===== *)
theory DeviceTypes
  imports Launcher
begin

section \<open>Well-formed devices\<close>

text \<open>
  What holds of every device that vfkit makes from its command line, one condition per kind:
  the checks of the \<open>validate\<close> methods, and the ranges of the numbers that are read. Each
  comes from the theory of its device; here they are one invariant of the configuration.
\<close>

definition blk_image_ok :: "file_env \<Rightarrow> VirtioBlk \<Rightarrow> bool" where
  "blk_image_ok fs d \<longleftrightarrow> (case fs (ImagePath d) of
      Contents contents \<Rightarrow> contents \<noteq> [] \<and> \<not> has_prefix contents qcow2Header
    | _ \<Rightarrow> False)"

definition timeout_ok :: "NetworkBlockDevice \<Rightarrow> bool" where
  "timeout_ok d \<longleftrightarrow> Timeout d mod Millisecond = 0
    \<and> - (2 ^ 31) \<le> Timeout d div Millisecond \<and> Timeout d div Millisecond < 2 ^ 31"

text \<open>A network device is attached in exactly one way, a serial port has exactly one back end.\<close>

fun device_wf :: "file_env \<Rightarrow> device \<Rightarrow> bool" where
  "device_wf fs (DevRosetta d) = True"
| "device_wf fs (DevNVMe d) = DiskBackendType_IsValid (DiskType d)"
| "device_wf fs (DevBlk d) = (DiskBackendType_IsValid (DiskType d) \<and> blk_image_ok fs d)"
| "device_wf fs (DevFs d) = True"
| "device_wf fs (DevNet d) =
    (length (filter id [UsesNat d, Socket d \<noteq> None, UnixSocketPath d \<noteq> []]) = 1)"
| "device_wf fs (DevRng d) = True"
| "device_wf fs (DevSerial d) =
    (length (filter id [LogFile d \<noteq> [], UsesStdio d, UsesPty d]) = 1 \<and> PtyName d = [])"
| "device_wf fs (DevVsock d) = True"
| "device_wf fs (DevUSB d) = DiskBackendType_IsValid (DiskType d)"
| "device_wf fs (DevInput d) = (InputType d \<in> {''pointing'', ''keyboard''})"
| "device_wf fs (DevGPU d) = (1 \<le> Width d \<and> 1 \<le> Height d)"
| "device_wf fs (DevBalloon d) = True"
| "device_wf fs (DevNbd d) = timeout_ok d"

subsection \<open>Lemmas\<close>

lemma serial_no_pty_name:
  assumes "VirtioSerial_FromOptions os virtioSerialZero = Inr d"
  shows "PtyName d = []"
proof -
  have loop: "foldE VirtioSerial_option os virtioSerialZero = Inr d"
    using assms by (auto simp: VirtioSerial_FromOptions_def bindE_eq_Inr)
  show ?thesis
    by (rule foldE_invariant [OF loop]) (auto simp: virtioSerialZero_def VirtioSerial_option_def split: if_splits)
qed

lemma net_attached:
  assumes "VirtioNet_FromOptions os virtioNetZero = Inr d"
  shows "length (filter id [UsesNat d, Socket d \<noteq> None, UnixSocketPath d \<noteq> []]) = 1"
proof -
  obtain a where "net_attachment a d" using net_one_attachment [OF assms] by blast
  then show ?thesis by (cases a) auto
qed

lemma input_typed:
  "VirtioInput_FromOptions os virtioInputZero = Inr d \<Longrightarrow> InputType d \<in> {''pointing'', ''keyboard''}"
  by (auto simp: VirtioInput_FromOptions_def VirtioInput_validate_def VirtioInputPointingDevice_def
      VirtioInputKeyboardDevice_def bindE_eq_Inr split: if_splits)

lemma gpu_sized:
  assumes "VirtioGPU_FromOptions os virtioGPUZero = Inr d"
  shows "1 \<le> Width d \<and> 1 \<le> Height d"
  using gpu_resolution [OF assms] by auto

lemma timeout_in_range:
  assumes "NetworkBlockDevice_FromOptions os networkBlockDeviceNewEmpty = Inr d"
    and "\<forall>opt \<in> set os. opt_comma_free opt"
  shows "timeout_ok d"
  using nbd_timeout_exact [OF assms] by (auto simp: timeout_ok_def Millisecond_def)

lemma disk_typed:
  assumes "DiskStorageConfig_FromOptions os c = Inr d" "DiskBackendType_IsValid (DiskType c)"
  shows "DiskBackendType_IsValid (DiskType d)"
proof -
  have loop: "foldE DiskStorageConfig_option os c = Inr d"
    using assms(1) by (simp add: DiskStorageConfig_FromOptions_def)
  show ?thesis
    by (rule foldE_invariant [OF loop, where P = "\<lambda>c. DiskBackendType_IsValid (DiskType c)"])
      (use assms(2) in \<open>auto simp: DiskStorageConfig_option_def split: if_splits\<close>)
qed

lemma blk_checked:
  assumes "VirtioBlk_FromOptions fs os virtioBlkNewEmpty = Inr d"
    and "\<forall>opt \<in> set os. opt_comma_free opt"
  shows "DiskBackendType_IsValid (DiskType d) \<and> blk_image_ok fs d"
proof
  show "DiskBackendType_IsValid (DiskType d)"
    using VirtioBlk_FromOptions_parsed(1) [OF assms] by (simp add: disk_parsed_def)
  show "blk_image_ok fs d"
    using blk_image_checked [OF assms(1)] by (auto simp: blk_image_ok_def)
qed

lemma new_disks:
  "DiskType nvmExpressControllerNewEmpty = []" "DiskType usbMassStorageNewEmpty = []"
  "DiskBackendType_IsValid []"
  by (simp_all add: component_simps)

lemma device_read_wf:
  assumes "deviceFromCmdLine fs s = Inr d"
  shows "device_wf fs d"
proof -
  obtain os c where os: "\<forall>x \<in> set os. comma_free x" and c: "device_new (device_tag d) = Some c"
    and r: "device_FromOptions fs (strvToOptions os) c = Inr d"
    by (rule deviceFromCmdLine_InrE [OF assms])
  have cf: "\<forall>opt \<in> set (strvToOptions os). opt_comma_free opt"
    using strvToOptions_comma_free [OF os] by blast
  show ?thesis
  proof (cases d)
    case (DevNVMe x)
    then have "DiskStorageConfig_FromOptions (strvToOptions os) nvmExpressControllerNewEmpty = Inr x"
      using c r by (auto simp: device_new_def mapE_eq_Inr)
    from disk_typed [OF this] show ?thesis by (simp add: new_disks DevNVMe)
  next
    case (DevUSB x)
    then have "DiskStorageConfig_FromOptions (strvToOptions os) usbMassStorageNewEmpty = Inr x"
      using c r by (auto simp: device_new_def mapE_eq_Inr)
    from disk_typed [OF this] show ?thesis by (simp add: new_disks DevUSB)
  next
    case (DevBlk x)
    then have "VirtioBlk_FromOptions fs (strvToOptions os) virtioBlkNewEmpty = Inr x"
      using c r by (auto simp: device_new_def mapE_eq_Inr)
    from blk_checked [OF this cf] show ?thesis by (simp add: DevBlk)
  next
    case (DevNet x)
    then have "VirtioNet_FromOptions (strvToOptions os) virtioNetZero = Inr x"
      using c r by (auto simp: device_new_def mapE_eq_Inr)
    from net_attached [OF this] show ?thesis unfolding DevNet device_wf.simps .
  next
    case (DevSerial x)
    then have x: "VirtioSerial_FromOptions (strvToOptions os) virtioSerialZero = Inr x"
      using c r by (auto simp: device_new_def mapE_eq_Inr)
    show ?thesis unfolding DevSerial device_wf.simps
      using serial_one_backend [OF x] serial_no_pty_name [OF x] by (rule conjI)
  next
    case (DevInput x)
    then have "VirtioInput_FromOptions (strvToOptions os) virtioInputZero = Inr x"
      using c r by (auto simp: device_new_def mapE_eq_Inr)
    from input_typed [OF this] show ?thesis by (simp add: DevInput)
  next
    case (DevGPU x)
    then have "VirtioGPU_FromOptions (strvToOptions os) virtioGPUZero = Inr x"
      using c r by (auto simp: device_new_def mapE_eq_Inr)
    from gpu_sized [OF this] show ?thesis by (simp add: DevGPU)
  next
    case (DevNbd x)
    then have "NetworkBlockDevice_FromOptions (strvToOptions os) networkBlockDeviceNewEmpty = Inr x"
      using c r by (auto simp: device_new_def mapE_eq_Inr)
    from timeout_in_range [OF this cf] show ?thesis by (simp add: DevNbd)
  qed simp_all
qed

lemma gui_added_wf: "list_all (device_wf fs) (gui_gpu_added opts ds @ gui_input_added opts ds)"
  by (simp add: gui_gpu_added_def gui_input_added_def)

subsection \<open>Properties\<close>

text \<open>
  C7. Every device of a configuration made from the command line is well-formed: a disk has a
  known type, and for virtio-blk an image that can be read, is not empty and is not qcow2; a
  network device is attached in exactly one way and a serial port has exactly one back end;
  an input device is one of the two kinds; a GPU has a positive size, and the timeout of a
  network block device is a whole number of milliseconds of 32 bits.
\<close>

theorem configured_devices_wf:
  assumes "newVMConfiguration h opts st = (Inr (vm, opts'), st')"
  shows "list_all (device_wf (HostFiles st')) (VmDevices vm)"
proof -
  obtain devs where "traverseE (deviceFromCmdLine (HostFiles st')) (OptDevices opts') = Inr devs"
    and vm: "VmDevices vm = devs @ gui_gpu_added opts devs @ gui_input_added opts devs"
    using newVMConfiguration_parts [OF assms] by blast
  then have "list_all (device_wf (HostFiles st')) devs"
    by (auto simp: traverseE_eq_Inr list_all2_conv_all_nth list_all_length intro: device_read_wf)
  with gui_added_wf [of "HostFiles st'" opts devs] show ?thesis by (simp add: vm)
qed

theorem configured_devices_wf_witness:
  "list_all (device_wf (HostFiles witness_host_state)) (VmDevices witness_gui_vm)"
  by (rule configured_devices_wf [OF witness_gui_run])

end
