(* ===== verification/GoUrl.thy ===== *)
theory GoUrl
  imports GoNet
begin

section \<open>net/url\<close>

text \<open>
  \<open>url.Parse\<close> and \<open>url.ParseRequestURI\<close>, as far as the program looks at the result: the
  scheme, the host, the path, its escaped form, and whether there is an error. A host in square brackets is
  checked by \<open>net/netip\<close>: the argument \<open>ip\<close> gives what \<open>parseHost\<close> makes of it.
\<close>

record url =
  UrlScheme :: string
  UrlHost :: string
  UrlPath :: string
  UrlRawPath :: string

definition url_error :: "string \<Rightarrow> error" where
  "url_error s = Sys (''parse: '' @ s)"

definition is_alpha :: "char \<Rightarrow> bool" where
  "is_alpha c \<longleftrightarrow> (let n = of_char c :: nat in 65 \<le> n \<and> n \<le> 90 \<or> 97 \<le> n \<and> n \<le> 122)"

definition to_lower :: "char \<Rightarrow> char" where
  "to_lower c = (let n = of_char c :: nat in if 65 \<le> n \<and> n \<le> 90 then char_of (n + 32) else c)"

definition is_ctl :: "char \<Rightarrow> bool" where
  "is_ctl c \<longleftrightarrow> (let n = of_char c :: nat in n < 0x20 \<or> n = 0x7F)"

text \<open>\<open>strings.Cut\<close> and \<open>strings.LastIndex\<close> at a character: the parts before and after it.\<close>

fun cut :: "char \<Rightarrow> string \<Rightarrow> string \<times> string" where
  "cut c [] = ([], [])"
| "cut c (x # s) = (if x = c then ([], s) else (case cut c s of (a, b) \<Rightarrow> (x # a, b)))"

definition cut_last :: "char \<Rightarrow> string \<Rightarrow> (string \<times> string) option" where
  "cut_last c s =
    (if c \<notin> set s then None
     else Some (case cut c (rev s) of (a, b) \<Rightarrow> (rev b, rev a)))"

text \<open>\<open>getScheme\<close>: the scheme and what follows its colon.\<close>

fun scan_scheme :: "string \<Rightarrow> string \<Rightarrow> (string \<times> string) option" where
  "scan_scheme acc [] = None"
| "scan_scheme acc (c # s) =
     (if is_alpha c then scan_scheme (acc @ [c]) s
      else if is_digit c \<or> c = CHR ''+'' \<or> c = CHR ''-'' \<or> c = CHR ''.'' then
        (if acc = [] then None else scan_scheme (acc @ [c]) s)
      else if c = CHR '':'' then Some (acc, s)
      else None)"

definition getScheme :: "string \<Rightarrow> error + (string \<times> string)" where
  "getScheme rawURL =
    (case scan_scheme [] rawURL of
       None \<Rightarrow> Inr ([], rawURL)
     | Some (scheme, rest) \<Rightarrow>
         if scheme = [] then Inl (url_error ''missing protocol scheme'') else Inr (scheme, rest))"

text \<open>
  \<open>unescape\<close>: \<open>%\<close> must be followed by two hexadecimal digits. In a host, it may only stand
  for a non-ASCII byte or for \<open>%\<close> itself, and most punctuation is refused.
\<close>

definition host_char :: "char \<Rightarrow> bool" where
  "host_char c \<longleftrightarrow> 0x80 \<le> (of_char c :: nat) \<or> is_alpha c \<or> is_digit c
    \<or> c \<in> set (''!$&()*+,;=:[]<>-_.~'' @ [CHR 0x22, CHR 0x27])"

fun unescape :: "bool \<Rightarrow> string \<Rightarrow> error + string" where
  "unescape host [] = Inr []"
| "unescape host (c # s) =
     (if c = CHR ''%'' then
        (case s of
           a # b # t \<Rightarrow>
             (case (hex_val a, hex_val b) of
                (Some h, Some l) \<Rightarrow>
                  if host \<and> h < 8 \<and> \<not> (a = CHR ''2'' \<and> b = CHR ''5'') then
                    Inl (url_error ''invalid URL escape'')
                  else mapE ((#) (char_of (h * 16 + l :: nat))) (unescape host t)
              | _ \<Rightarrow> Inl (url_error ''invalid URL escape''))
         | _ \<Rightarrow> Inl (url_error ''invalid URL escape''))
      else if host \<and> \<not> host_char c then Inl (url_error ''invalid character in host name'')
      else mapE ((#) c) (unescape host s))"

text \<open>
  \<open>escape\<close> for a path, \<open>validEncoded\<close>, and \<open>setPath\<close>: the raw path is kept only when it is
  not what escaping the path gives.
\<close>

definition path_unescaped :: "char \<Rightarrow> bool" where
  "path_unescaped c \<longleftrightarrow> is_alpha c \<or> is_digit c \<or> c \<in> set ''-_.~$&+,/:;=@''"

definition upper_hex :: "nat \<Rightarrow> char" where
  "upper_hex d = (if d < 10 then char_of (48 + d) else char_of (55 + d))"

fun escape_path :: "string \<Rightarrow> string" where
  "escape_path [] = []"
| "escape_path (c # s) =
     (if path_unescaped c then c # escape_path s
      else let n = of_char c :: nat
           in CHR ''%'' # upper_hex (n div 16) # upper_hex (n mod 16) # escape_path s)"

definition valid_encoded_path :: "string \<Rightarrow> bool" where
  "valid_encoded_path s \<longleftrightarrow>
    list_all (\<lambda>c. c \<in> set (''!$&()*+,;=:@[]%'' @ [CHR 0x27]) \<or> path_unescaped c) s"

definition raw_path :: "string \<Rightarrow> string \<Rightarrow> string" where
  "raw_path p path = (if escape_path path = p then [] else p)"

definition setPath :: "string \<Rightarrow> url \<Rightarrow> error + url" where
  "setPath p u =
    mapE (\<lambda>path. u\<lparr>UrlPath := path, UrlRawPath := raw_path p path\<rparr>) (unescape False p)"

definition url_EscapedPath :: "url \<Rightarrow> string" where
  "url_EscapedPath u =
    (if UrlRawPath u \<noteq> [] \<and> valid_encoded_path (UrlRawPath u)
        \<and> unescape False (UrlRawPath u) = Inr (UrlPath u) then UrlRawPath u
     else if UrlPath u = ''*'' then ''*''
     else escape_path (UrlPath u))"

definition validOptionalPort :: "string \<Rightarrow> bool" where
  "validOptionalPort port \<longleftrightarrow>
    port = [] \<or> hd port = CHR '':'' \<and> list_all is_digit (tl port)"

definition valid_userinfo :: "string \<Rightarrow> bool" where
  "valid_userinfo s \<longleftrightarrow> list_all (\<lambda>c. is_alpha c \<or> is_digit c
    \<or> c \<in> set (''-._:~!$&()*+,;=%@'' @ [CHR 0x27])) s"

definition parseHost :: "(string \<Rightarrow> error + string) \<Rightarrow> string \<Rightarrow> error + string" where
  "parseHost ip host =
    (if CHR ''['' \<in> set host then ip host
     else case cut_last (CHR '':'') host of
       Some (name, port) \<Rightarrow>
         if \<not> validOptionalPort (CHR '':'' # port) then Inl (url_error ''invalid port after host'')
         else unescape True host
     | None \<Rightarrow> unescape True host)"

definition parseAuthority :: "(string \<Rightarrow> error + string) \<Rightarrow> string \<Rightarrow> error + string" where
  "parseAuthority ip authority =
    (case cut_last (CHR ''@'') authority of
       None \<Rightarrow> parseHost ip authority
     | Some (userinfo, host) \<Rightarrow>
         bindE (parseHost ip host) (\<lambda>h.
           if \<not> valid_userinfo userinfo then Inl (url_error ''invalid userinfo'')
           else bindE (unescape False (fst (cut (CHR '':'') userinfo))) (\<lambda>_.
             mapE (\<lambda>_. h) (unescape False (snd (cut (CHR '':'') userinfo))))))"

definition url_parse ::
    "(string \<Rightarrow> error + string) \<Rightarrow> bool \<Rightarrow> string \<Rightarrow> error + url" where
  "url_parse ip viaRequest rawURL =
    (if list_ex is_ctl rawURL then Inl (url_error ''invalid control character in URL'')
     else if rawURL = [] \<and> viaRequest then Inl (url_error ''empty url'')
     else if rawURL = ''*'' then Inr \<lparr>UrlScheme = [], UrlHost = [], UrlPath = ''*'', UrlRawPath = []\<rparr>
     else bindE (getScheme rawURL) (\<lambda>(scheme, rest).
       let scheme = map to_lower scheme;
           rest = fst (cut (CHR ''?'') rest)
       in if \<not> has_prefix rest ''/'' then
            (if scheme \<noteq> [] then Inr \<lparr>UrlScheme = scheme, UrlHost = [], UrlPath = [], UrlRawPath = []\<rparr>
             else if viaRequest then Inl (url_error ''invalid URI for request'')
             else if CHR '':'' \<in> set (fst (cut (CHR ''/'') rest)) then
               Inl (url_error ''first path segment in URL cannot contain colon'')
             else setPath rest \<lparr>UrlScheme = [], UrlHost = [], UrlPath = [], UrlRawPath = []\<rparr>)
          else if (scheme \<noteq> [] \<or> \<not> viaRequest \<and> \<not> has_prefix rest ''///'') \<and> has_prefix rest ''//'' then
            bindE (parseAuthority ip (takeWhile (\<lambda>c. c \<noteq> CHR ''/'') (drop 2 rest))) (\<lambda>host.
              setPath (dropWhile (\<lambda>c. c \<noteq> CHR ''/'') (drop 2 rest))
                \<lparr>UrlScheme = scheme, UrlHost = host, UrlPath = [], UrlRawPath = []\<rparr>)
          else setPath rest \<lparr>UrlScheme = scheme, UrlHost = [], UrlPath = [], UrlRawPath = []\<rparr>))"

text \<open>\<open>ParseRequestURI\<close> assumes no fragment; \<open>Parse\<close> cuts it off first and unescapes it.\<close>

definition url_ParseRequestURI :: "(string \<Rightarrow> error + string) \<Rightarrow> string \<Rightarrow> error + url" where
  "url_ParseRequestURI ip rawURL = url_parse ip True rawURL"

definition url_Parse :: "(string \<Rightarrow> error + string) \<Rightarrow> string \<Rightarrow> error + url" where
  "url_Parse ip rawURL =
    (case cut (CHR ''#'') rawURL of (u, frag) \<Rightarrow>
      bindE (url_parse ip False u) (\<lambda>parsed. mapE (\<lambda>_. parsed) (unescape False frag)))"

definition url_Port :: "url \<Rightarrow> string" where
  "url_Port u =
    (case cut_last (CHR '':'') (UrlHost u) of
       None \<Rightarrow> []
     | Some (name, port) \<Rightarrow> if validOptionalPort (CHR '':'' # port) then port else [])"

subsection \<open>Laws\<close>

definition pct_free :: "string \<Rightarrow> bool" where
  "pct_free s \<longleftrightarrow> CHR ''%'' \<notin> set s"

lemma unescape_pct_free: "pct_free s \<Longrightarrow> unescape False s = Inr s"
  by (induction s) (auto simp: pct_free_def)

lemma unescape_host_chars: "pct_free s \<Longrightarrow> list_all host_char s \<Longrightarrow> unescape True s = Inr s"
  by (induction s) (auto simp: pct_free_def)

lemma cut_absent: "c \<notin> set s \<Longrightarrow> cut c s = (s, [])"
  by (induction s) auto

lemma cut_sep: "c \<notin> set a \<Longrightarrow> cut c (a @ c # b) = (a, b)"
  by (induction a) auto

lemma cut_last_sep: "c \<notin> set b \<Longrightarrow> cut_last c (a @ c # b) = Some (a, b)"
  by (simp add: cut_last_def cut_sep)

lemma cut_no_sep: "c \<notin> set s \<Longrightarrow> fst (cut c s) = s"
  by (simp add: cut_absent)

text \<open>A URL with an authority: \<open>scheme://a\<close> followed by a path or nothing.\<close>

lemma setPath_pct_free:
  "pct_free p \<Longrightarrow> setPath p u = Inr (u\<lparr>UrlPath := p, UrlRawPath := raw_path p p\<rparr>)"
  by (simp add: setPath_def unescape_pct_free)

lemma url_parse_authority:
  assumes "\<not> list_ex is_ctl s" "getScheme s = Inr (sch, ''//'' @ a @ p)"
    and "map to_lower sch = sch" "sch \<noteq> []"
    and "CHR ''?'' \<notin> set a" "CHR ''?'' \<notin> set p" "CHR ''/'' \<notin> set a"
    and "p \<noteq> [] \<Longrightarrow> hd p = CHR ''/''" "parseAuthority ip a = Inr host"
  shows "url_parse ip via s
    = setPath p \<lparr>UrlScheme = sch, UrlHost = host, UrlPath = [], UrlRawPath = []\<rparr>"
proof -
  have s: "s \<noteq> []" "s \<noteq> ''*''" using assms(2)
    by (auto simp: getScheme_def is_alpha_def is_digit_def)
  have q: "fst (cut (CHR ''?'') (''//'' @ a @ p)) = ''//'' @ a @ p"
    by (rule cut_no_sep) (use assms(5,6) in simp)
  have a: "takeWhile (\<lambda>c. c \<noteq> CHR ''/'') (a @ p) = a" "dropWhile (\<lambda>c. c \<noteq> CHR ''/'') (a @ p) = p"
    using assms(7,8) by (cases p; auto simp: takeWhile_append takeWhile_eq_all_conv dropWhile_append)+
  show ?thesis
    unfolding url_parse_def assms(2)
    using s assms(1,3,4) q a assms(9) by (simp add: has_prefix_def del: cut.simps)
qed

subsection \<open>Plain paths and hosts\<close>

declare scan_scheme.simps [simp del]

text \<open>A path that the URL parser leaves as it is.\<close>

definition plain_path :: "string \<Rightarrow> bool" where
  "plain_path p \<longleftrightarrow> has_prefix p ''/'' \<and> pct_free p \<and> CHR ''?'' \<notin> set p \<and> list_all (\<lambda>c. \<not> is_ctl c) p"

lemma scan_scheme_eval:
  "scan_scheme [] (CHR ''u'' # CHR ''n'' # CHR ''i'' # CHR ''x'' # CHR '':'' # s) = Some (''unix'', s)"
  "scan_scheme [] (CHR ''t'' # CHR ''c'' # CHR ''p'' # CHR '':'' # s) = Some (''tcp'', s)"
  by (simp_all add: scan_scheme.simps is_alpha_def is_digit_def)

lemma to_lower_eval: "map to_lower ''unix'' = ''unix''" "map to_lower ''tcp'' = ''tcp''"
  by (simp_all add: to_lower_def)

text \<open>A host with a port, without brackets, user or escapes.\<close>

definition plain_host_char :: "char \<Rightarrow> bool" where
  "plain_host_char c \<longleftrightarrow> host_char c \<and> \<not> is_ctl c \<and> c \<noteq> CHR ''%'' \<and> c \<noteq> CHR ''[''
    \<and> c \<noteq> CHR ''@'' \<and> c \<noteq> CHR ''/'' \<and> c \<noteq> CHR ''?''"

definition plain_host :: "string \<Rightarrow> string \<Rightarrow> bool" where
  "plain_host name port \<longleftrightarrow>
    list_all plain_host_char name \<and> port \<noteq> [] \<and> list_all is_digit port"

lemma digit_plain: "is_digit c \<Longrightarrow> plain_host_char c"
  by (auto simp: plain_host_char_def host_char_def is_digit_def is_ctl_def)

lemma plain_host_chars:
  assumes "list_all plain_host_char h"
  shows "list_all host_char h" "pct_free h" "\<not> list_ex is_ctl h" "CHR ''['' \<notin> set h"
    "CHR ''@'' \<notin> set h" "CHR ''/'' \<notin> set h" "CHR ''?'' \<notin> set h"
  using assms by (auto simp: list_all_iff list_ex_iff pct_free_def plain_host_char_def)

lemma plain_host_all:
  assumes "plain_host name port"
  shows "list_all plain_host_char (name @ CHR '':'' # port)"
proof -
  have "plain_host_char (CHR '':'')"
    by (simp add: plain_host_char_def host_char_def is_ctl_def)
  moreover have "list_all plain_host_char port"
    using assms digit_plain by (auto simp: plain_host_def list_all_iff)
  ultimately show ?thesis using assms by (simp add: plain_host_def)
qed

lemma cut_last_port:
  assumes "plain_host name port"
  shows "cut_last (CHR '':'') (name @ CHR '':'' # port) = Some (name, port)"
  by (rule cut_last_sep) (use assms in \<open>auto simp: plain_host_def list_all_iff is_digit_def\<close>)

end
