(* ===== verification/GoJson.thy ===== *)
theory GoJson
  imports GoUtf8 GoStrconv
begin

section \<open>The part of encoding/json that the configuration uses\<close>

text \<open>
  JSON values, and how \<open>encoding/json\<close> stores them in Go values through the field tags of a
  struct. The model starts from the value tree: a \<open>json.RawMessage\<close> is the tree of its
  bytes, keys and strings are the decoded ones, an object keeps its members in the order of
  the text with duplicates, and a number keeps its literal, because an integer is read from
  the literal with \<open>strconv\<close>.
\<close>

datatype json =
    JNull
  | JBool bool
  | JNum string
  | JString string
  | JArray "json list"
  | JObject "(string \<times> json) list"

text \<open>
  A decoder stores a value in an existing Go value. The text of Go's \<open>UnmarshalTypeError\<close>
  also names the field and its type.
\<close>

type_synonym 'a decoder = "json \<Rightarrow> 'a \<Rightarrow> error + 'a"

fun json_kind_name :: "json \<Rightarrow> string" where
  "json_kind_name JNull = ''null''"
| "json_kind_name (JBool b) = ''bool''"
| "json_kind_name (JNum n) = ''number''"
| "json_kind_name (JString s) = ''string''"
| "json_kind_name (JArray js) = ''array''"
| "json_kind_name (JObject ms) = ''object''"

definition json_type_error :: "json \<Rightarrow> error" where
  "json_type_error j = Sys (''json: cannot unmarshal '' @ json_kind_name j)"

subsection \<open>Scalars\<close>

text \<open>\<open>null\<close> leaves a scalar as it is.\<close>

fun decode_string :: "string decoder" where
  "decode_string (JString s) x = Inr s"
| "decode_string JNull x = Inr x"
| "decode_string j x = Inl (json_type_error j)"

fun decode_bool :: "bool decoder" where
  "decode_bool (JBool b) x = Inr b"
| "decode_bool JNull x = Inr x"
| "decode_bool j x = Inl (json_type_error j)"

fun decode_int :: "int decoder" where
  "decode_int (JNum s) x =
     (case ParseInt s 64 of Inl e \<Rightarrow> Inl (json_type_error (JNum s)) | Inr n \<Rightarrow> Inr n)"
| "decode_int JNull x = Inr x"
| "decode_int j x = Inl (json_type_error j)"

fun decode_uint :: "'n::len word decoder" where
  "decode_uint (JNum s) x =
     (case ParseUint s 64 of
        Inl e \<Rightarrow> Inl (json_type_error (JNum s))
      | Inr n \<Rightarrow> if 2 ^ LENGTH('n) \<le> n then Inl (json_type_error (JNum s)) else Inr (of_nat n))"
| "decode_uint JNull x = Inr x"
| "decode_uint j x = Inl (json_type_error j)"

subsection \<open>Structs\<close>

text \<open>
  The members of a struct: its tagged names, those of embedded structs included, with the
  decoder of each. A key selects the field of that name, else the first field whose name is
  the same up to case. Case folding maps a letter to upper case and the two other characters
  that fold to an ASCII letter (the long s and the Kelvin sign) to that letter; every other
  character folds outside ASCII, where no field name is.
\<close>

type_synonym 'a json_fields = "(string \<times> 'a decoder) list"

definition fold_rune :: "nat \<Rightarrow> nat" where
  "fold_rune r =
    (if 97 \<le> r \<and> r \<le> 122 then r - 32
     else if r = 0x17F then 83 else if r = 0x212A then 75 else r)"

definition fold_name :: "string \<Rightarrow> nat list" where
  "fold_name s = map fold_rune (runes s)"

definition find_field :: "'a json_fields \<Rightarrow> string \<Rightarrow> 'a decoder option" where
  "find_field fields k =
    (case map_of fields k of
       Some d \<Rightarrow> Some d
     | None \<Rightarrow> map_of (map (\<lambda>(n, d). (fold_name n, d)) fields) (fold_name k))"

definition decode_member :: "'a json_fields \<Rightarrow> string \<times> json \<Rightarrow> 'a \<Rightarrow> error + 'a" where
  "decode_member fields member x =
    (case find_field fields (fst member) of
       None \<Rightarrow> Inr x
     | Some d \<Rightarrow> d (snd member) x)"

text \<open>
  \<open>json.Unmarshal\<close> into a struct. Go goes on after a value of the wrong type and reports the
  first such error at the end; the value is not used then.
\<close>

fun decode_struct :: "'a json_fields \<Rightarrow> 'a decoder" where
  "decode_struct fields (JObject ms) x = foldE (decode_member fields) ms x"
| "decode_struct fields JNull x = Inr x"
| "decode_struct fields j x = Inl (json_type_error j)"

text \<open>A decoder of one field, from its selector and update.\<close>

definition into :: "('b decoder) \<Rightarrow> ('a \<Rightarrow> 'b) \<Rightarrow> ('b \<Rightarrow> 'a \<Rightarrow> 'a) \<Rightarrow> 'a decoder" where
  "into d get put j x = mapE (\<lambda>v. put v x) (d j (get x))"

text \<open>A pointer: \<open>null\<close> makes it nil, anything else is stored in what it points to.\<close>

definition decode_pointer :: "'a decoder \<Rightarrow> 'a \<Rightarrow> 'a option decoder" where
  "decode_pointer d zero j p =
    (case j of
       JNull \<Rightarrow> Inr None
     | _ \<Rightarrow> mapE Some (d j (case p of Some x \<Rightarrow> x | None \<Rightarrow> zero)))"

subsection \<open>Encoding\<close>

text \<open>Bytes that are not UTF-8 are written as the replacement character.\<close>

definition encode_string :: "string \<Rightarrow> json" where
  "encode_string s = JString (sanitize s)"

definition encode_int :: "int \<Rightarrow> json" where
  "encode_int i = JNum (dec_int i)"

definition encode_uint :: "'n::len word \<Rightarrow> json" where
  "encode_uint w = JNum (dec (unat w))"

text \<open>The \<open>omitempty\<close> option, for a string and for a bool.\<close>

definition omitempty_string :: "string \<Rightarrow> string \<Rightarrow> (string \<times> json) list" where
  "omitempty_string name s = (if s = [] then [] else [(name, encode_string s)])"

definition omitempty_bool :: "string \<Rightarrow> bool \<Rightarrow> (string \<times> json) list" where
  "omitempty_bool name b = (if b then [(name, JBool True)] else [])"

subsection \<open>Lemmas\<close>

lemma decode_encode_string [simp]: "valid_utf8 s \<Longrightarrow> decode_string (encode_string s) x = Inr s"
  by (simp add: encode_string_def sanitize_valid)

lemma decode_encode_int [simp]:
  "- (2 ^ 63) \<le> i \<Longrightarrow> i < 2 ^ 63 \<Longrightarrow> decode_int (encode_int i) x = Inr i"
  by (simp add: encode_int_def ParseInt_dec_int)

lemma decode_encode_uint:
  fixes w :: "'n::len word"
  assumes "LENGTH('n) \<le> 64"
  shows "decode_uint (encode_uint w) x = Inr w"
proof -
  have lt: "unat w < 2 ^ LENGTH('n)" by (rule unsigned_less)
  also have "(2 :: nat) ^ LENGTH('n) \<le> 2 ^ 64" using assms by (rule power_increasing) simp
  finally have "ParseUint (dec (unat w)) 64 = Inr (unat w)" by (rule ParseUint_dec)
  with lt show ?thesis by (simp add: encode_uint_def not_le)
qed

lemma encode_uint_not_null: "encode_uint w \<noteq> JNull"
  by (simp add: encode_uint_def)

lemma decode_uint_64 [simp]: "decode_uint (encode_uint (w :: u64)) x = Inr w"
  by (rule decode_encode_uint) simp

lemma decode_uint_32 [simp]: "decode_uint (encode_uint (w :: u32)) x = Inr w"
  by (rule decode_encode_uint) simp

lemma decode_member_exact:
  "map_of fields k = Some d \<Longrightarrow> decode_member fields (k, j) x = d j x"
  by (simp add: decode_member_def find_field_def)

text \<open>
  An omitted member stands for the empty value: decoding what \<open>omitempty\<close> wrote into a value
  whose field is empty is an update of that field.
\<close>

lemma decode_omitempty_string:
  assumes "map_of fields k = Some (into decode_string get put)" "valid_utf8 s"
    and "s = [] \<Longrightarrow> put s x = x"
  shows "foldE (decode_member fields) (omitempty_string k s) x = Inr (put s x)"
  using assms by (simp add: omitempty_string_def decode_member_exact into_def)

lemma decode_omitempty_bool:
  assumes "map_of fields k = Some (into decode_bool get put)"
    and "\<not> b \<Longrightarrow> put b x = x"
  shows "foldE (decode_member fields) (omitempty_bool k b) x = Inr (put b x)"
  using assms by (cases b) (simp_all add: omitempty_bool_def decode_member_exact into_def)

lemmas json_encode = omitempty_string_def omitempty_bool_def

subsection \<open>Structs with a kind\<close>

type_synonym members = "(string \<times> json) list"

definition with_kind :: "string \<Rightarrow> members \<Rightarrow> json" where
  "with_kind k ms = JObject ((''kind'', JString k) # ms)"

text \<open>
  What a type that is written with its kind promises: reading the members it writes into the
  zero value gives the value back, none of them is taken for the kind, and the kind is not
  taken for one of them.
\<close>

locale json_struct =
  fixes fields :: "'a json_fields"
    and enc :: "'a \<Rightarrow> (string \<times> json) list"
    and zero :: 'a
    and wf :: "'a \<Rightarrow> bool"
    and kind_fields :: "string json_fields"
  assumes members: "wf x \<Longrightarrow> foldE (decode_member fields) (enc x) zero = Inr x"
    and kind_only: "find_field kind_fields ''kind'' = Some decode_string"
    and kind_ignored: "find_field fields ''kind'' = None"
    and not_kind: "list_all (\<lambda>m. find_field kind_fields (fst m) = None) (enc x)"
begin

lemma reads_back: "wf x \<Longrightarrow> decode_struct fields (with_kind k (enc x)) zero = Inr x"
  using members kind_ignored by (simp add: decode_member_def with_kind_def)

lemma skip_members: "foldE (decode_member kind_fields) (enc x) k = Inr k"
proof -
  have "list_all (\<lambda>m. find_field kind_fields (fst m) = None) ms \<Longrightarrow>
      foldE (decode_member kind_fields) ms k = Inr k" for ms
    by (induction ms) (simp_all add: decode_member_def)
  then show ?thesis using not_kind .
qed

lemma reads_kind:
  "decode_struct kind_fields (with_kind k (enc x)) k' = Inr k"
  using skip_members kind_only by (simp add: decode_member_def with_kind_def)

end

end
