(* ===== verification/Rest.thy ===== *)
theory Rest
  imports GoUrl GoJson CloudInit
begin

section \<open>The REST service\<close>

text \<open>
  \<open>pkg/rest\<close>: the endpoint given with \<open>--restful-uri\<close>, the routes, and the handlers of
  \<open>pkg/rest/vf\<close>. The calls on the virtual machine go to \<open>github.com/Code-Hex/vz\<close>: their
  outcomes are the argument \<open>ops\<close>, and the model records which calls are made. The check
  of bracketed hosts by \<open>net/netip\<close> is the argument \<open>ip\<close> of the URL parser.
\<close>

subsection \<open>The endpoint\<close>

datatype ServiceScheme = TCP | Unix | NoScheme | HTTP

definition toRestScheme :: "string \<Rightarrow> error + ServiceScheme" where
  "toRestScheme s =
    (if s = ''none'' then Inr NoScheme
     else if s = ''unix'' then Inr Unix
     else if s = ''tcp'' \<or> s = ''http'' then Inr TCP
     else Inl (Errorf (''invalid scheme '' @ s)))"

text \<open>The length of \<open>sun_path\<close> on macOS is 104.\<close>

definition maxSocketPathLen :: nat where
  "maxSocketPathLen = 104 - 1"

definition parseRestfulURI :: "(string \<Rightarrow> error + string) \<Rightarrow> string \<Rightarrow> error + url" where
  "parseRestfulURI ip inputURI =
    bindE (url_ParseRequestURI ip inputURI) (\<lambda>restURI.
    bindE (toRestScheme (UrlScheme restURI)) (\<lambda>scheme.
      if scheme = TCP \<and> length (UrlHost restURI) < 1 then
        Inl (Errorf ''invalid TCP uri: missing host'')
      else if scheme = TCP \<and> 0 < length (UrlPath restURI) then
        Inl (Errorf ''invalid TCP uri: path is forbidden'')
      else if scheme = TCP \<and> url_Port restURI = [] then
        Inl (Errorf ''invalid TCP uri: missing port'')
      else if scheme = Unix \<and> length (UrlPath restURI) < 1 then
        Inl (Errorf ''invalid unix uri: missing path'')
      else if scheme = Unix \<and> 0 < length (UrlHost restURI) then
        Inl (Errorf ''invalid unix uri: host is forbidden'')
      else if scheme = Unix \<and> maxSocketPathLen < length (UrlPath restURI) then
        Inl (Errorf ''invalid unix uri: socket path length exceeds macOS limits'')
      else Inr restURI))"

record Endpoint =
  EpHost :: string
  EpPath :: string
  EpScheme :: ServiceScheme

definition NewEndpoint :: "(string \<Rightarrow> error + string) \<Rightarrow> string \<Rightarrow> error + Endpoint" where
  "NewEndpoint ip input =
    bindE (parseRestfulURI ip input) (\<lambda>uri.
    bindE (toRestScheme (UrlScheme uri)) (\<lambda>scheme.
      Inr \<lparr>EpHost = UrlHost uri, EpPath = UrlPath uri, EpScheme = scheme\<rparr>))"

definition Endpoint_ToCmdLine :: "Endpoint \<Rightarrow> error + string list" where
  "Endpoint_ToCmdLine ep =
    (let args = [''--restful-uri''] in
     case EpScheme ep of
       Unix \<Rightarrow> Inr (args @ [''unix://'' @ EpPath ep])
     | TCP \<Rightarrow> Inr (args @ [''tcp://'' @ EpHost ep @ EpPath ep])
     | NoScheme \<Rightarrow> Inr []
     | _ \<Rightarrow> Inl (Errorf ''invalid endpoint scheme''))"

subsection \<open>The server\<close>

text \<open>
  What the goroutine of \<open>Start\<close> does: listen on TCP or on a unix socket, with the removal
  of the socket registered first, and in every case call \<open>logrus.Fatal\<close>, which exits, once
  the listener returns; for any other scheme there is nothing to wait for.
\<close>

datatype listen_on = ListenTCP string | ListenUnix string | ListenNothing

definition service_Start :: "Endpoint \<Rightarrow> host_state \<Rightarrow> listen_on \<times> host_state" where
  "service_Start ep st =
    (case EpScheme ep of
       TCP \<Rightarrow> (ListenTCP (EpHost ep), st)
     | Unix \<Rightarrow> (ListenUnix (EpPath ep),
         st\<lparr>HostHandlers := RegisterExitHandler (os_Remove (EpPath ep)) (HostHandlers st)\<rparr>)
     | _ \<Rightarrow> (ListenNothing, st))"

text \<open>Whether the process exits as soon as the goroutine runs.\<close>

fun exits_at_once :: "listen_on \<Rightarrow> bool" where
  "exits_at_once ListenNothing = True"
| "exits_at_once l = False"

datatype handler_name = GetVMStateHandler | SetVMStateHandler | InspectHandler

definition routes :: "((string \<times> string) \<times> handler_name) list" where
  "routes = [((''GET'', ''/vm/state''), GetVMStateHandler),
    ((''POST'', ''/vm/state''), SetVMStateHandler),
    ((''GET'', ''/vm/inspect''), InspectHandler)]"

record VFKitService =
  SvcEndpoint :: Endpoint
  SvcRoutes :: "((string \<times> string) \<times> handler_name) list"

definition NewServer ::
    "(string \<Rightarrow> error + string) \<Rightarrow> error option \<Rightarrow> string \<Rightarrow> error + VFKitService" where
  "NewServer ip proxiesErr endpoint =
    bindE (NewEndpoint ip endpoint) (\<lambda>ep.
      case proxiesErr of
        Some e \<Rightarrow> Inl e
      | None \<Rightarrow> Inr \<lparr>SvcEndpoint = ep, SvcRoutes = routes\<rparr>)"

subsection \<open>The handlers\<close>

datatype vz_action = VzPause | VzResume | VzRequestStop | VzStop

type_synonym vz_ops = "vz_action \<Rightarrow> error option"

text \<open>The calls made on the machine, in order, and the error returned.\<close>

definition ChangeState :: "vz_ops \<Rightarrow> string \<Rightarrow> vz_action list \<times> error option" where
  "ChangeState ops newState =
    (if newState = ''Pause'' then ([VzPause], ops VzPause)
     else if newState = ''Resume'' then ([VzResume], ops VzResume)
     else if newState = ''Stop'' then ([VzRequestStop], ops VzRequestStop)
     else if newState = ''HardStop'' then ([VzStop], ops VzStop)
     else ([], Some (Errorf (''invalid new VMState: '' @ newState))))"

text \<open>The bodies: none, an error under the key \<open>error\<close>, a JSON value.\<close>

datatype http_body = NoBody | ErrorBody error | JsonBody json

record http_response =
  HttpStatus :: nat
  HttpBody :: http_body

text \<open>The body is what \<open>ShouldBindJSON\<close> makes of the request.\<close>

definition SetVMState :: "vz_ops \<Rightarrow> error + string \<Rightarrow> vz_action list \<times> http_response" where
  "SetVMState ops body =
    (case body of
       Inl e \<Rightarrow> ([], \<lparr>HttpStatus = 400, HttpBody = ErrorBody e\<rparr>)
     | Inr s \<Rightarrow>
         (case ChangeState ops s of
            (calls, Some e) \<Rightarrow> (calls, \<lparr>HttpStatus = 500, HttpBody = ErrorBody e\<rparr>)
          | (calls, None) \<Rightarrow> (calls, \<lparr>HttpStatus = 202, HttpBody = NoBody\<rparr>)))"

record vz_status =
  VzState :: string
  CanStart :: bool
  CanPause :: bool
  CanResume :: bool
  CanRequestStop :: bool
  CanStop :: bool

text \<open>A map is written with its keys in order.\<close>

definition GetVMState :: "vz_status \<Rightarrow> http_response" where
  "GetVMState vm =
    \<lparr>HttpStatus = 200, HttpBody = JsonBody (JObject
      [(''canHardStop'', JBool (CanStop vm)), (''canPause'', JBool (CanPause vm)),
       (''canResume'', JBool (CanResume vm)), (''canStart'', JBool (CanStart vm)),
       (''canStop'', JBool (CanRequestStop vm)), (''state'', encode_string (VzState vm))])\<rparr>"

subsection \<open>Lemmas\<close>

lemma parseRestfulURI_Inr:
  assumes "parseRestfulURI ip s = Inr u"
  shows "url_ParseRequestURI ip s = Inr u"
    and "toRestScheme (UrlScheme u) = Inr TCP \<Longrightarrow>
      UrlHost u \<noteq> [] \<and> UrlPath u = [] \<and> url_Port u \<noteq> []"
    and "toRestScheme (UrlScheme u) = Inr Unix \<Longrightarrow>
      UrlHost u = [] \<and> UrlPath u \<noteq> [] \<and> length (UrlPath u) \<le> 103"
    and "\<exists>sch. toRestScheme (UrlScheme u) = Inr sch"
  using assms
  by (auto simp: parseRestfulURI_def bindE_eq_Inr maxSocketPathLen_def split: if_splits)

lemma NewEndpoint_Inr:
  assumes "NewEndpoint ip s = Inr ep"
  obtains u where "parseRestfulURI ip s = Inr u" "toRestScheme (UrlScheme u) = Inr (EpScheme ep)"
    "EpHost ep = UrlHost u" "EpPath ep = UrlPath u"
  using assms by (auto simp: NewEndpoint_def bindE_eq_Inr)

lemma parse_unix_uri:
  assumes "plain_path p"
  shows "url_ParseRequestURI ip (''unix://'' @ p)
    = Inr \<lparr>UrlScheme = ''unix'', UrlHost = [], UrlPath = p, UrlRawPath = raw_path p p\<rparr>"
proof -
  have "url_parse ip True (''unix://'' @ p)
      = setPath p \<lparr>UrlScheme = ''unix'', UrlHost = [], UrlPath = [], UrlRawPath = []\<rparr>"
  proof (rule url_parse_authority [where a = "[]"])
    show "\<not> list_ex is_ctl (''unix://'' @ p)"
      using assms by (auto simp: plain_path_def list_ex_iff list_all_iff is_ctl_def)
    show "getScheme (''unix://'' @ p) = Inr (''unix'', ''//'' @ [] @ p)"
      by (simp add: getScheme_def scan_scheme_eval)
    show "parseAuthority ip [] = Inr []"
      by (simp add: parseAuthority_def parseHost_def cut_last_def)
    show "p \<noteq> [] \<Longrightarrow> hd p = CHR ''/''"
      using assms by (cases p) (auto simp: plain_path_def has_prefix_def)
  qed (use assms to_lower_eval in \<open>simp_all add: plain_path_def\<close>)
  then show ?thesis
    using assms by (simp add: url_ParseRequestURI_def plain_path_def setPath_pct_free)
qed

lemma parse_tcp_uri:
  assumes "plain_host name port"
  defines "h \<equiv> name @ CHR '':'' # port"
  shows "url_ParseRequestURI ip (''tcp://'' @ h)
    = Inr \<lparr>UrlScheme = ''tcp'', UrlHost = h, UrlPath = [], UrlRawPath = []\<rparr>"
proof -
  have "url_parse ip True (''tcp://'' @ h)
      = setPath [] \<lparr>UrlScheme = ''tcp'', UrlHost = h, UrlPath = [], UrlRawPath = []\<rparr>"
  proof (rule url_parse_authority [where a = h])
    note t = plain_host_chars [OF plain_host_all [OF assms(1)], folded h_def]
    show "\<not> list_ex is_ctl (''tcp://'' @ h)" using t(3) by (simp add: is_ctl_def)
    show "getScheme (''tcp://'' @ h) = Inr (''tcp'', ''//'' @ h @ [])"
      by (simp add: getScheme_def scan_scheme_eval)
    have "validOptionalPort (CHR '':'' # port)"
      using assms(1) by (simp add: validOptionalPort_def plain_host_def)
    then show "parseAuthority ip h = Inr h"
      using t cut_last_port [OF assms(1), folded h_def]
      by (simp add: parseAuthority_def parseHost_def unescape_host_chars cut_last_def [of "CHR ''@''"])
    show "CHR ''?'' \<notin> set h" "CHR ''/'' \<notin> set h" using t by simp_all
  qed (simp_all add: to_lower_def pct_free_def)
  then show ?thesis
    by (simp add: url_ParseRequestURI_def setPath_def raw_path_def)
qed

subsection \<open>Properties\<close>

text \<open>
  C23. An accepted endpoint can be listened on: a TCP endpoint has a host with a port and no
  path, a unix endpoint has a path that fits a socket address and no host, and the scheme
  \<open>HTTP\<close> never comes out.
\<close>

theorem endpoint_valid:
  assumes "NewEndpoint ip s = Inr ep"
  shows "case EpScheme ep of
      TCP \<Rightarrow> EpHost ep \<noteq> [] \<and> EpPath ep = []
        \<and> (\<exists>name port. cut_last (CHR '':'') (EpHost ep) = Some (name, port) \<and> port \<noteq> []
            \<and> list_all is_digit port)
    | Unix \<Rightarrow> EpHost ep = [] \<and> EpPath ep \<noteq> [] \<and> length (EpPath ep) \<le> 103
    | NoScheme \<Rightarrow> True
    | HTTP \<Rightarrow> False"
proof (rule NewEndpoint_Inr [OF assms])
  fix u assume u: "parseRestfulURI ip s = Inr u" and sch: "toRestScheme (UrlScheme u) = Inr (EpScheme ep)"
    and ep: "EpHost ep = UrlHost u" "EpPath ep = UrlPath u"
  have port: "\<exists>name port. cut_last (CHR '':'') (UrlHost u) = Some (name, port) \<and> port \<noteq> []
      \<and> list_all is_digit port" if "url_Port u \<noteq> []"
    using that by (auto simp: url_Port_def validOptionalPort_def split: option.splits if_splits)
  have "EpScheme ep \<noteq> HTTP" using sch by (auto simp: toRestScheme_def split: if_splits)
  then show ?thesis
    using parseRestfulURI_Inr(2,3) [OF u] sch ep port by (cases "EpScheme ep") simp_all
qed

lemma plain_endpoint_new:
  "plain_path p \<Longrightarrow> length p \<le> 103 \<Longrightarrow>
    NewEndpoint ip (''unix://'' @ p) = Inr \<lparr>EpHost = [], EpPath = p, EpScheme = Unix\<rparr>"
  "plain_host name port \<Longrightarrow> NewEndpoint ip (''tcp://'' @ name @ CHR '':'' # port)
    = Inr \<lparr>EpHost = name @ CHR '':'' # port, EpPath = [], EpScheme = TCP\<rparr>"
proof -
  assume p: "plain_path p" "length p \<le> 103"
  then have "p \<noteq> []" by (auto simp: plain_path_def has_prefix_def)
  with p show "NewEndpoint ip (''unix://'' @ p) = Inr \<lparr>EpHost = [], EpPath = p, EpScheme = Unix\<rparr>"
    using parse_unix_uri [OF p(1), of ip]
    by (simp add: NewEndpoint_def parseRestfulURI_def toRestScheme_def maxSocketPathLen_def)
next
  assume h: "plain_host name port"
  have "url_Port \<lparr>UrlScheme = ''tcp'', UrlHost = name @ CHR '':'' # port, UrlPath = [],
      UrlRawPath = []\<rparr> \<noteq> []"
    using h cut_last_port [OF h]
    by (simp add: url_Port_def validOptionalPort_def plain_host_def)
  then show "NewEndpoint ip (''tcp://'' @ name @ CHR '':'' # port)
    = Inr \<lparr>EpHost = name @ CHR '':'' # port, EpPath = [], EpScheme = TCP\<rparr>"
    using parse_tcp_uri [OF h, of ip]
    by (simp add: NewEndpoint_def parseRestfulURI_def toRestScheme_def)
qed

theorem endpoint_valid_witness:
  "case EpScheme \<lparr>EpHost = ''localhost:8080'', EpPath = [], EpScheme = TCP\<rparr> of
      TCP \<Rightarrow> EpHost \<lparr>EpHost = ''localhost:8080'', EpPath = [], EpScheme = TCP\<rparr> \<noteq> []
        \<and> EpPath \<lparr>EpHost = ''localhost:8080'', EpPath = [], EpScheme = TCP\<rparr> = []
        \<and> (\<exists>name port. cut_last (CHR '':'') (EpHost \<lparr>EpHost = ''localhost:8080'', EpPath = [], EpScheme = TCP\<rparr>)
              = Some (name, port) \<and> port \<noteq> [] \<and> list_all is_digit port)
    | Unix \<Rightarrow> EpHost \<lparr>EpHost = ''localhost:8080'', EpPath = [], EpScheme = TCP\<rparr> = []
        \<and> EpPath \<lparr>EpHost = ''localhost:8080'', EpPath = [], EpScheme = TCP\<rparr> \<noteq> []
        \<and> length (EpPath \<lparr>EpHost = ''localhost:8080'', EpPath = [], EpScheme = TCP\<rparr>) \<le> 103
    | NoScheme \<Rightarrow> True
    | HTTP \<Rightarrow> False"
proof (rule endpoint_valid [of Inr "''tcp://localhost:8080''"])
  have "plain_host ''localhost'' ''8080''"
    by (simp add: plain_host_def plain_host_char_def host_char_def is_alpha_def is_digit_def is_ctl_def)
  from plain_endpoint_new(2) [OF this, of Inr]
  show "NewEndpoint Inr ''tcp://localhost:8080''
      = Inr \<lparr>EpHost = ''localhost:8080'', EpPath = [], EpScheme = TCP\<rparr>" by simp
qed

definition endpoint_plain :: "Endpoint \<Rightarrow> bool" where
  "endpoint_plain ep \<longleftrightarrow>
    (EpScheme ep = TCP \<and> EpPath ep = [] \<and> (\<exists>name port. EpHost ep = name @ CHR '':'' # port \<and> plain_host name port))
    \<or> (EpScheme ep = Unix \<and> EpHost ep = [] \<and> plain_path (EpPath ep) \<and> length (EpPath ep) \<le> 103)"

text \<open>
  C24. The URI that \<open>Endpoint.ToCmdLine\<close> writes is read back as the same endpoint: for a TCP
  host and port and for a unix path of at most 103 bytes, as long as they need no escaping
  (\<open>ToCmdLine\<close> does not escape what \<open>NewEndpoint\<close> unescapes).
\<close>

theorem endpoint_roundtrip:
  assumes "endpoint_plain ep"
  shows "\<exists>uri. Endpoint_ToCmdLine ep = Inr [''--restful-uri'', uri] \<and> NewEndpoint ip uri = Inr ep"
  using assms plain_endpoint_new
  by (cases ep) (auto simp: endpoint_plain_def Endpoint_ToCmdLine_def)

theorem endpoint_roundtrip_witness:
  "\<exists>uri. Endpoint_ToCmdLine \<lparr>EpHost = [], EpPath = ''/run/vfkit.sock'', EpScheme = Unix\<rparr>
      = Inr [''--restful-uri'', uri]
    \<and> NewEndpoint Inr uri = Inr \<lparr>EpHost = [], EpPath = ''/run/vfkit.sock'', EpScheme = Unix\<rparr>"
  by (rule endpoint_roundtrip)
    (simp add: endpoint_plain_def plain_path_def has_prefix_def pct_free_def is_ctl_def)

text \<open>
  A state change request makes at most one call on the machine, the one named in it, and
  only a request whose call succeeded is answered with 202: an unreadable body gets 400
  and an unknown state 500, both without any call.
\<close>

theorem SetVMState_spec:
  "case SetVMState ops body of (calls, resp) \<Rightarrow>
    (case body of
       Inl e \<Rightarrow> calls = [] \<and> HttpStatus resp = 400
     | Inr s \<Rightarrow>
         (case map_of [(''Pause'', VzPause), (''Resume'', VzResume), (''Stop'', VzRequestStop),
             (''HardStop'', VzStop)] s of
            None \<Rightarrow> calls = [] \<and> HttpStatus resp = 500
          | Some call \<Rightarrow> calls = [call]
              \<and> HttpStatus resp = (if ops call = None then 202 else 500)))"
  by (auto simp: SetVMState_def ChangeState_def split: sum.split option.split)

end
