(* ===== verification/JsonConfig.thy ===== *)
theory JsonConfig
  imports GoJson VMConfig
begin

section \<open>JSON configuration\<close>

text \<open>
  \<open>pkg/config/json.go\<close>: every device, bootloader and ignition section is written as an
  object with its kind first, and read by looking at the kind. Of each type there are the
  members that \<open>encoding/json\<close> writes (\<open>_members\<close>), the tagged fields that it reads
  (\<open>_fields\<close>), and \<open>MarshalJSON\<close>. An embedded struct contributes its members in place.
\<close>

definition jsonKind_fields :: "string json_fields" where
  "jsonKind_fields = [(''kind'', decode_string)]"

subsection \<open>Storage devices\<close>

definition StorageConfig_fields :: "'a StorageConfig_scheme json_fields" where
  "StorageConfig_fields =
    [(''devName'', into decode_string DevName (\<lambda>v x. x\<lparr>DevName := v\<rparr>)),
     (''readOnly'', into decode_bool ReadOnly (\<lambda>v x. x\<lparr>ReadOnly := v\<rparr>))]"

definition StorageConfig_members :: "'a StorageConfig_scheme \<Rightarrow> members" where
  "StorageConfig_members x =
    [(''devName'', encode_string (DevName x))] @ omitempty_bool ''readOnly'' (ReadOnly x)"

definition DiskStorageConfig_fields :: "'a DiskStorageConfig_scheme json_fields" where
  "DiskStorageConfig_fields = StorageConfig_fields @
    [(''imagePath'', into decode_string ImagePath (\<lambda>v x. x\<lparr>ImagePath := v\<rparr>)),
     (''type'', into decode_string DiskType (\<lambda>v x. x\<lparr>DiskType := v\<rparr>))]"

definition DiskStorageConfig_members :: "'a DiskStorageConfig_scheme \<Rightarrow> members" where
  "DiskStorageConfig_members x = StorageConfig_members x
    @ omitempty_string ''imagePath'' (ImagePath x) @ omitempty_string ''type'' (DiskType x)"

definition diskStorageZero :: DiskStorageConfig where
  "diskStorageZero = \<lparr>DevName = [], ReadOnly = False, ImagePath = [], DiskType = []\<rparr>"

definition NVMExpressController_MarshalJSON :: "NVMExpressController \<Rightarrow> json" where
  "NVMExpressController_MarshalJSON dev = with_kind ''nvme'' (DiskStorageConfig_members dev)"

definition USBMassStorage_MarshalJSON :: "USBMassStorage \<Rightarrow> json" where
  "USBMassStorage_MarshalJSON dev = with_kind ''usbmassstorage'' (DiskStorageConfig_members dev)"

definition VirtioBlk_fields :: "VirtioBlk json_fields" where
  "VirtioBlk_fields = DiskStorageConfig_fields @
    [(''deviceIdentifier'',
      into decode_string BlkDeviceIdentifier (\<lambda>v x. x\<lparr>BlkDeviceIdentifier := v\<rparr>))]"

definition VirtioBlk_members :: "VirtioBlk \<Rightarrow> members" where
  "VirtioBlk_members x = DiskStorageConfig_members x
    @ omitempty_string ''deviceIdentifier'' (BlkDeviceIdentifier x)"

definition virtioBlkZero :: VirtioBlk where
  "virtioBlkZero = \<lparr>DevName = [], ReadOnly = False, ImagePath = [], DiskType = [],
    BlkDeviceIdentifier = []\<rparr>"

definition VirtioBlk_MarshalJSON :: "VirtioBlk \<Rightarrow> json" where
  "VirtioBlk_MarshalJSON dev = with_kind ''virtioblk'' (VirtioBlk_members dev)"

text \<open>Three fields of \<open>NetworkBlockDevice\<close> have no tag: their names are the Go names.\<close>

definition NetworkBlockDevice_fields :: "NetworkBlockDevice json_fields" where
  "NetworkBlockDevice_fields = StorageConfig_fields @
    [(''uri'', into decode_string URI (\<lambda>v x. x\<lparr>URI := v\<rparr>)),
     (''DeviceIdentifier'',
      into decode_string NbdDeviceIdentifier (\<lambda>v x. x\<lparr>NbdDeviceIdentifier := v\<rparr>)),
     (''Timeout'', into decode_int Timeout (\<lambda>v x. x\<lparr>Timeout := v\<rparr>)),
     (''SynchronizationMode'',
      into decode_string SynchronizationMode (\<lambda>v x. x\<lparr>SynchronizationMode := v\<rparr>))]"

definition NetworkBlockDevice_members :: "NetworkBlockDevice \<Rightarrow> members" where
  "NetworkBlockDevice_members x = StorageConfig_members x
    @ omitempty_string ''uri'' (URI x)
    @ [(''DeviceIdentifier'', encode_string (NbdDeviceIdentifier x)),
       (''Timeout'', encode_int (Timeout x)),
       (''SynchronizationMode'', encode_string (SynchronizationMode x))]"

definition networkBlockDeviceZero :: NetworkBlockDevice where
  "networkBlockDeviceZero = \<lparr>DevName = [], ReadOnly = False, URI = [],
    NbdDeviceIdentifier = [], Timeout = 0, SynchronizationMode = []\<rparr>"

definition NetworkBlockDevice_MarshalJSON :: "NetworkBlockDevice \<Rightarrow> json" where
  "NetworkBlockDevice_MarshalJSON dev = with_kind ''nbd'' (NetworkBlockDevice_members dev)"

subsection \<open>Other devices\<close>

definition VirtioInput_fields :: "VirtioInput json_fields" where
  "VirtioInput_fields =
    [(''inputType'', into decode_string InputType (\<lambda>v x. x\<lparr>InputType := v\<rparr>))]"

definition VirtioInput_members :: "VirtioInput \<Rightarrow> members" where
  "VirtioInput_members x = [(''inputType'', encode_string (InputType x))]"

definition VirtioInput_MarshalJSON :: "VirtioInput \<Rightarrow> json" where
  "VirtioInput_MarshalJSON dev = with_kind ''virtioinput'' (VirtioInput_members dev)"

definition VirtioGPU_fields :: "VirtioGPU json_fields" where
  "VirtioGPU_fields =
    [(''usesGUI'', into decode_bool UsesGUI (\<lambda>v x. x\<lparr>UsesGUI := v\<rparr>)),
     (''width'', into decode_int Width (\<lambda>v x. x\<lparr>Width := v\<rparr>)),
     (''height'', into decode_int Height (\<lambda>v x. x\<lparr>Height := v\<rparr>))]"

definition VirtioGPU_members :: "VirtioGPU \<Rightarrow> members" where
  "VirtioGPU_members x = [(''usesGUI'', JBool (UsesGUI x)),
    (''width'', encode_int (Width x)), (''height'', encode_int (Height x))]"

definition VirtioGPU_MarshalJSON :: "VirtioGPU \<Rightarrow> json" where
  "VirtioGPU_MarshalJSON dev = with_kind ''virtiogpu'' (VirtioGPU_members dev)"

definition VirtioVsock_fields :: "VirtioVsock json_fields" where
  "VirtioVsock_fields =
    [(''port'', into decode_uint Port (\<lambda>v x. x\<lparr>Port := v\<rparr>)),
     (''socketURL'', into decode_string SocketURL (\<lambda>v x. x\<lparr>SocketURL := v\<rparr>)),
     (''listen'', into decode_bool Listen (\<lambda>v x. x\<lparr>Listen := v\<rparr>))]"

definition VirtioVsock_members :: "VirtioVsock \<Rightarrow> members" where
  "VirtioVsock_members x = [(''port'', encode_uint (Port x)),
    (''socketURL'', encode_string (SocketURL x))] @ omitempty_bool ''listen'' (Listen x)"

definition VirtioVsock_MarshalJSON :: "VirtioVsock \<Rightarrow> json" where
  "VirtioVsock_MarshalJSON dev = with_kind ''virtiosock'' (VirtioVsock_members dev)"

definition VirtioFs_fields :: "VirtioFs json_fields" where
  "VirtioFs_fields =
    [(''mountTag'', into decode_string MountTag (\<lambda>v x. x\<lparr>MountTag := v\<rparr>)),
     (''sharedDir'', into decode_string SharedDir (\<lambda>v x. x\<lparr>SharedDir := v\<rparr>))]"

definition VirtioFs_members :: "VirtioFs \<Rightarrow> members" where
  "VirtioFs_members x =
    [(''mountTag'', encode_string (MountTag x)), (''sharedDir'', encode_string (SharedDir x))]"

definition VirtioFs_MarshalJSON :: "VirtioFs \<Rightarrow> json" where
  "VirtioFs_MarshalJSON dev = with_kind ''virtiofs'' (VirtioFs_members dev)"

definition RosettaShare_fields :: "RosettaShare json_fields" where
  "RosettaShare_fields =
    [(''mountTag'', into decode_string MountTag (\<lambda>v x. x\<lparr>MountTag := v\<rparr>)),
     (''installRosetta'', into decode_bool InstallRosetta (\<lambda>v x. x\<lparr>InstallRosetta := v\<rparr>)),
     (''ignoreIfMissing'', into decode_bool IgnoreIfMissing (\<lambda>v x. x\<lparr>IgnoreIfMissing := v\<rparr>))]"

definition RosettaShare_members :: "RosettaShare \<Rightarrow> members" where
  "RosettaShare_members x = [(''mountTag'', encode_string (MountTag x)),
    (''installRosetta'', JBool (InstallRosetta x)), (''ignoreIfMissing'', JBool (IgnoreIfMissing x))]"

definition RosettaShare_MarshalJSON :: "RosettaShare \<Rightarrow> json" where
  "RosettaShare_MarshalJSON dev = with_kind ''rosetta'' (RosettaShare_members dev)"

definition VirtioRng_MarshalJSON :: "VirtioRng \<Rightarrow> json" where
  "VirtioRng_MarshalJSON dev = with_kind ''virtiorng'' []"

definition VirtioBalloon_MarshalJSON :: "VirtioBalloon \<Rightarrow> json" where
  "VirtioBalloon_MarshalJSON dev = with_kind ''virtioballoon'' []"

definition VirtioSerial_fields :: "VirtioSerial json_fields" where
  "VirtioSerial_fields =
    [(''logFile'', into decode_string LogFile (\<lambda>v x. x\<lparr>LogFile := v\<rparr>)),
     (''usesStdio'', into decode_bool UsesStdio (\<lambda>v x. x\<lparr>UsesStdio := v\<rparr>)),
     (''usesPty'', into decode_bool UsesPty (\<lambda>v x. x\<lparr>UsesPty := v\<rparr>)),
     (''ptyName'', into decode_string PtyName (\<lambda>v x. x\<lparr>PtyName := v\<rparr>))]"

definition VirtioSerial_members :: "VirtioSerial \<Rightarrow> members" where
  "VirtioSerial_members x = omitempty_string ''logFile'' (LogFile x)
    @ omitempty_bool ''usesStdio'' (UsesStdio x) @ omitempty_bool ''usesPty'' (UsesPty x)
    @ omitempty_string ''ptyName'' (PtyName x)"

definition VirtioSerial_MarshalJSON :: "VirtioSerial \<Rightarrow> json" where
  "VirtioSerial_MarshalJSON dev = with_kind ''virtioserial'' (VirtioSerial_members dev)"

subsection \<open>Network devices\<close>

text \<open>
  The hardware address has no JSON member of its own: the wrapper
  \<open>virtioNetForMarshalling\<close> carries it as text. A socket is an \<open>*os.File\<close>, a struct without
  exported fields: it is written as an empty object, its descriptor is lost, and reading
  one makes a file without a descriptor, which is the argument \<open>nofile\<close>.
\<close>

record virtioNetForMarshalling = VirtioNet +
  MacAddressText :: string

definition virtioNetForMarshalling_fields :: "nat \<Rightarrow> virtioNetForMarshalling json_fields" where
  "virtioNetForMarshalling_fields nofile =
    [(''nat'', into decode_bool UsesNat (\<lambda>v x. x\<lparr>UsesNat := v\<rparr>)),
     (''socket'', into (decode_pointer (decode_struct []) nofile) Socket (\<lambda>v x. x\<lparr>Socket := v\<rparr>)),
     (''unixSocketPath'', into decode_string UnixSocketPath (\<lambda>v x. x\<lparr>UnixSocketPath := v\<rparr>)),
     (''vfkitMagic'', into decode_bool VfkitMagic (\<lambda>v x. x\<lparr>VfkitMagic := v\<rparr>)),
     (''macAddress'', into decode_string MacAddressText (\<lambda>v x. x\<lparr>MacAddressText := v\<rparr>))]"

definition virtioNetForMarshalling_members :: "virtioNetForMarshalling \<Rightarrow> members" where
  "virtioNetForMarshalling_members x = [(''nat'', JBool (UsesNat x))]
    @ (case Socket x of None \<Rightarrow> [] | Some f \<Rightarrow> [(''socket'', JObject [])])
    @ omitempty_string ''unixSocketPath'' (UnixSocketPath x)
    @ omitempty_bool ''vfkitMagic'' (VfkitMagic x)
    @ omitempty_string ''macAddress'' (MacAddressText x)"

definition VirtioNet_MarshalJSON :: "VirtioNet \<Rightarrow> json" where
  "VirtioNet_MarshalJSON dev = with_kind ''virtionet''
    (virtioNetForMarshalling_members
      (VirtioNet.extend dev \<lparr>MacAddressText = mac_string (MacAddress dev)\<rparr>))"

definition unmarshalVirtioNet :: "nat \<Rightarrow> json \<Rightarrow> error + VirtioNet" where
  "unmarshalVirtioNet nofile rawMsg =
    (let dev = VirtioNet.extend (virtioNetZero\<lparr>VfkitMagic := True\<rparr>) \<lparr>MacAddressText = []\<rparr> in
     bindE (decode_struct (virtioNetForMarshalling_fields nofile) rawMsg dev) (\<lambda>dev.
     bindE (if MacAddressText dev \<noteq> [] then
              mapE (\<lambda>macAddr. dev\<lparr>MacAddress := macAddr\<rparr>) (ParseMAC (MacAddressText dev))
            else Inr dev) (\<lambda>dev.
     let dev = (if UnixSocketPath dev = [] then dev\<lparr>VfkitMagic := False\<rparr> else dev) in
     Inr (VirtioNet.truncate dev))))"

subsection \<open>Bootloaders, time synchronisation, ignition\<close>

definition LinuxBootloader_fields :: "LinuxBootloader json_fields" where
  "LinuxBootloader_fields =
    [(''vmlinuzPath'', into decode_string VmlinuzPath (\<lambda>v x. x\<lparr>VmlinuzPath := v\<rparr>)),
     (''kernelCmdLine'', into decode_string KernelCmdLine (\<lambda>v x. x\<lparr>KernelCmdLine := v\<rparr>)),
     (''initrdPath'', into decode_string InitrdPath (\<lambda>v x. x\<lparr>InitrdPath := v\<rparr>))]"

definition LinuxBootloader_members :: "LinuxBootloader \<Rightarrow> members" where
  "LinuxBootloader_members x = [(''vmlinuzPath'', encode_string (VmlinuzPath x)),
    (''kernelCmdLine'', encode_string (KernelCmdLine x)),
    (''initrdPath'', encode_string (InitrdPath x))]"

definition LinuxBootloader_MarshalJSON :: "LinuxBootloader \<Rightarrow> json" where
  "LinuxBootloader_MarshalJSON boot = with_kind ''linuxBootloader'' (LinuxBootloader_members boot)"

definition EFIBootloader_fields :: "EFIBootloader json_fields" where
  "EFIBootloader_fields =
    [(''efiVariableStorePath'',
      into decode_string EFIVariableStorePath (\<lambda>v x. x\<lparr>EFIVariableStorePath := v\<rparr>)),
     (''createVariableStore'',
      into decode_bool CreateVariableStore (\<lambda>v x. x\<lparr>CreateVariableStore := v\<rparr>))]"

definition EFIBootloader_members :: "EFIBootloader \<Rightarrow> members" where
  "EFIBootloader_members x = [(''efiVariableStorePath'', encode_string (EFIVariableStorePath x)),
    (''createVariableStore'', JBool (CreateVariableStore x))]"

definition EFIBootloader_MarshalJSON :: "EFIBootloader \<Rightarrow> json" where
  "EFIBootloader_MarshalJSON boot = with_kind ''efiBootloader'' (EFIBootloader_members boot)"

text \<open>The macOS bootloader has no \<open>MarshalJSON\<close>: it is written without a kind.\<close>

fun bootloader_MarshalJSON :: "bootloader \<Rightarrow> json" where
  "bootloader_MarshalJSON (BootLinux b) = LinuxBootloader_MarshalJSON b"
| "bootloader_MarshalJSON (BootEFI b) = EFIBootloader_MarshalJSON b"
| "bootloader_MarshalJSON (BootMacOS b) = JObject
     [(''machineIdentifierPath'', encode_string (MachineIdentifierPath b)),
      (''hardwareModelPath'', encode_string (HardwareModelPath b)),
      (''auxImagePath'', encode_string (AuxImagePath b))]"

definition unknown_kind :: "string \<Rightarrow> error" where
  "unknown_kind k = Errorf (''unknown 'kind' field: '{'' @ k @ ''}'' @ [CHR 0x27])"

definition unmarshalBootloader :: "json \<Rightarrow> error + bootloader" where
  "unmarshalBootloader rawMsg =
    bindE (decode_struct jsonKind_fields rawMsg []) (\<lambda>kind.
      if kind = ''efiBootloader'' then
        mapE BootEFI (decode_struct EFIBootloader_fields rawMsg efiBootloaderZero)
      else if kind = ''linuxBootloader'' then
        mapE BootLinux (decode_struct LinuxBootloader_fields rawMsg linuxBootloaderZero)
      else Inl (unknown_kind kind))"

definition TimeSync_fields :: "TimeSync json_fields" where
  "TimeSync_fields =
    [(''vsockPort'', into decode_uint TimeSyncPort (\<lambda>v x. x\<lparr>TimeSyncPort := v\<rparr>))]"

definition TimeSync_members :: "TimeSync \<Rightarrow> members" where
  "TimeSync_members x = [(''vsockPort'', encode_uint (TimeSyncPort x))]"

text \<open>The port of an ignition section has the tag \<open>-\<close> and is neither written nor read.\<close>

definition Ignition_fields :: "Ignition json_fields" where
  "Ignition_fields =
    [(''configPath'', into decode_string ConfigPath (\<lambda>v x. x\<lparr>ConfigPath := v\<rparr>)),
     (''socketPath'', into decode_string SocketPath (\<lambda>v x. x\<lparr>SocketPath := v\<rparr>))]"

definition Ignition_members :: "Ignition \<Rightarrow> members" where
  "Ignition_members x = [(''configPath'', encode_string (ConfigPath x))]
    @ omitempty_string ''socketPath'' (SocketPath x)"

definition ignitionZero :: Ignition where
  "ignitionZero = \<lparr>ConfigPath = [], SocketPath = [], VsockPort = 0\<rparr>"

definition Ignition_MarshalJSON :: "Ignition \<Rightarrow> json" where
  "Ignition_MarshalJSON ign = with_kind ''ignition'' (Ignition_members ign)"

definition unmarshalIgnition :: "json \<Rightarrow> error + Ignition" where
  "unmarshalIgnition rawMsg = decode_struct Ignition_fields rawMsg ignitionZero"

subsection \<open>Any device\<close>

fun device_MarshalJSON :: "device \<Rightarrow> json" where
  "device_MarshalJSON (DevRosetta d) = RosettaShare_MarshalJSON d"
| "device_MarshalJSON (DevNVMe d) = NVMExpressController_MarshalJSON d"
| "device_MarshalJSON (DevBlk d) = VirtioBlk_MarshalJSON d"
| "device_MarshalJSON (DevFs d) = VirtioFs_MarshalJSON d"
| "device_MarshalJSON (DevNet d) = VirtioNet_MarshalJSON d"
| "device_MarshalJSON (DevRng d) = VirtioRng_MarshalJSON d"
| "device_MarshalJSON (DevSerial d) = VirtioSerial_MarshalJSON d"
| "device_MarshalJSON (DevVsock d) = VirtioVsock_MarshalJSON d"
| "device_MarshalJSON (DevUSB d) = USBMassStorage_MarshalJSON d"
| "device_MarshalJSON (DevInput d) = VirtioInput_MarshalJSON d"
| "device_MarshalJSON (DevGPU d) = VirtioGPU_MarshalJSON d"
| "device_MarshalJSON (DevBalloon d) = VirtioBalloon_MarshalJSON d"
| "device_MarshalJSON (DevNbd d) = NetworkBlockDevice_MarshalJSON d"

definition unmarshalDevice :: "nat \<Rightarrow> json \<Rightarrow> error + device" where
  "unmarshalDevice nofile rawMsg =
    bindE (decode_struct jsonKind_fields rawMsg []) (\<lambda>kind.
      if kind = ''virtionet'' then mapE DevNet (unmarshalVirtioNet nofile rawMsg)
      else if kind = ''virtiosock'' then
        mapE DevVsock (decode_struct VirtioVsock_fields rawMsg virtioVsockZero)
      else if kind = ''virtioblk'' then
        mapE DevBlk (decode_struct VirtioBlk_fields rawMsg virtioBlkZero)
      else if kind = ''nvme'' then
        mapE DevNVMe (decode_struct DiskStorageConfig_fields rawMsg diskStorageZero)
      else if kind = ''virtiofs'' then
        mapE DevFs (decode_struct VirtioFs_fields rawMsg virtioFsZero)
      else if kind = ''rosetta'' then
        mapE DevRosetta (decode_struct RosettaShare_fields rawMsg rosettaZero)
      else if kind = ''virtiorng'' then mapE DevRng (decode_struct [] rawMsg ())
      else if kind = ''virtioballoon'' then mapE DevBalloon (decode_struct [] rawMsg ())
      else if kind = ''virtioserial'' then
        mapE DevSerial (decode_struct VirtioSerial_fields rawMsg virtioSerialZero)
      else if kind = ''virtiogpu'' then
        mapE DevGPU (decode_struct VirtioGPU_fields rawMsg \<lparr>Width = 0, Height = 0, UsesGUI = False\<rparr>)
      else if kind = ''virtioinput'' then
        mapE DevInput (decode_struct VirtioInput_fields rawMsg virtioInputZero)
      else if kind = ''usbmassstorage'' then
        mapE DevUSB (decode_struct DiskStorageConfig_fields rawMsg diskStorageZero)
      else if kind = ''nbd'' then
        mapE DevNbd (decode_struct NetworkBlockDevice_fields rawMsg networkBlockDeviceZero)
      else Inl (unknown_kind kind))"

text \<open>
  An element \<open>null\<close> of the list is a nil pointer, which the loop dereferences; a list \<open>null\<close>
  is an empty one.
\<close>

fun unmarshalDevices :: "nat \<Rightarrow> json \<Rightarrow> error + device list" where
  "unmarshalDevices nofile (JArray rawDevices) = traverseE (\<lambda>msg.
     if msg = JNull then Inl (Panic ''invalid memory address or nil pointer dereference'')
     else unmarshalDevice nofile msg) rawDevices"
| "unmarshalDevices nofile JNull = Inr []"
| "unmarshalDevices nofile j = Inl (json_type_error j)"

subsection \<open>The virtual machine\<close>

text \<open>\<open>json.Marshal\<close> of a \<open>VirtualMachine\<close>, through the tags of the struct.\<close>

definition bootloader_value :: "bootloader option \<Rightarrow> json" where
  "bootloader_value b = (case b of None \<Rightarrow> JNull | Some b \<Rightarrow> bootloader_MarshalJSON b)"

definition vm_members :: "VirtualMachine \<Rightarrow> members" where
  "vm_members vm =
    [(''vcpus'', encode_uint (Vcpus vm)), (''memoryBytes'', encode_uint (Memory vm)),
     (''bootloader'', bootloader_value (VmBootloader vm))]
    @ (if VmDevices vm = [] then []
       else [(''devices'', JArray (map device_MarshalJSON (VmDevices vm)))])
    @ (case Timesync vm of None \<Rightarrow> [] | Some ts \<Rightarrow> [(''timesync'', JObject (TimeSync_members ts))])
    @ (case VmIgnition vm of None \<Rightarrow> [] | Some i \<Rightarrow> [(''ignition'', Ignition_MarshalJSON i)])
    @ omitempty_bool ''nested'' (Nested vm)"

definition vm_MarshalJSON :: "VirtualMachine \<Rightarrow> json" where
  "vm_MarshalJSON vm = JObject (vm_members vm)"

text \<open>
  The input is read into a \<open>map[string]*json.RawMessage\<close>: of several members with one key the
  last one stays.
\<close>

fun map_entries :: "members \<Rightarrow> members" where
  "map_entries [] = []"
| "map_entries (m # ms) = (if fst m \<in> set (map fst ms) then map_entries ms else m # map_entries ms)"

fun decode_map :: "json \<Rightarrow> error + members" where
  "decode_map (JObject ms) = Inr (map_entries ms)"
| "decode_map JNull = Inr []"
| "decode_map j = Inl (json_type_error j)"

text \<open>
  One iteration of the loop of \<open>UnmarshalJSON\<close>. The \<open>err\<close> of the ignition case is a variable
  of its own: an ignition section that cannot be read is ignored.
\<close>

definition unmarshal_member :: "nat \<Rightarrow> string \<times> json \<Rightarrow> VirtualMachine \<Rightarrow> error + VirtualMachine" where
  "unmarshal_member nofile m vm = (case m of (idx, rawMsg) \<Rightarrow>
    if rawMsg = JNull then Inr vm
    else if idx = ''vcpus'' then mapE (\<lambda>v. vm\<lparr>Vcpus := v\<rparr>) (decode_uint rawMsg (Vcpus vm))
    else if idx = ''memoryBytes'' then mapE (\<lambda>v. vm\<lparr>Memory := v\<rparr>) (decode_uint rawMsg (Memory vm))
    else if idx = ''bootloader'' then
      mapE (\<lambda>b. vm\<lparr>VmBootloader := Some b\<rparr>) (unmarshalBootloader rawMsg)
    else if idx = ''timesync'' then
      mapE (\<lambda>v. vm\<lparr>Timesync := v\<rparr>)
        (decode_pointer (decode_struct TimeSync_fields) \<lparr>TimeSyncPort = 0\<rparr> rawMsg (Timesync vm))
    else if idx = ''devices'' then
      mapE (\<lambda>devices. vm\<lparr>VmDevices := devices\<rparr>) (unmarshalDevices nofile rawMsg)
    else if idx = ''ignition'' then
      (case unmarshalIgnition rawMsg of
         Inl err \<Rightarrow> Inr vm
       | Inr ign \<Rightarrow> Inr (vm\<lparr>VmIgnition := Some ign\<rparr>))
    else Inr vm)"

text \<open>
  The loop runs over the map in an order of the runtime's choice, the argument \<open>order\<close>; the
  result is the machine that was unmarshalled into, or the error of \<open>UnmarshalJSON\<close>.
\<close>

definition UnmarshalJSON ::
    "(members \<Rightarrow> members) \<Rightarrow> nat \<Rightarrow> json \<Rightarrow> VirtualMachine \<Rightarrow> error + VirtualMachine" where
  "UnmarshalJSON order nofile b vm =
    bindE (decode_map b) (\<lambda>input. foldE (unmarshal_member nofile) (order input) vm)"

subsection \<open>Every type reads back what it writes\<close>

text \<open>Well-formedness: strings that JSON can carry, and numbers in Go's ranges.\<close>

definition storage_utf8 :: "'a StorageConfig_scheme \<Rightarrow> bool" where
  [wf_simps]: "storage_utf8 x \<longleftrightarrow> valid_utf8 (DevName x)"

definition disk_utf8 :: "'a DiskStorageConfig_scheme \<Rightarrow> bool" where
  [wf_simps]: "disk_utf8 x \<longleftrightarrow> storage_utf8 x \<and> valid_utf8 (ImagePath x) \<and> valid_utf8 (DiskType x)"

definition blk_utf8 :: "VirtioBlk \<Rightarrow> bool" where
  [wf_simps]: "blk_utf8 x \<longleftrightarrow> disk_utf8 x \<and> valid_utf8 (BlkDeviceIdentifier x)"

definition i64_range :: "int \<Rightarrow> bool" where
  [wf_simps]: "i64_range i \<longleftrightarrow> - (2 ^ 63) \<le> i \<and> i < 2 ^ 63"

definition nbd_json :: "NetworkBlockDevice \<Rightarrow> bool" where
  [wf_simps]: "nbd_json x \<longleftrightarrow> storage_utf8 x \<and> valid_utf8 (URI x) \<and> valid_utf8 (NbdDeviceIdentifier x)
    \<and> i64_range (Timeout x) \<and> valid_utf8 (SynchronizationMode x)"

definition gpu_json :: "VirtioGPU \<Rightarrow> bool" where
  [wf_simps]: "gpu_json x \<longleftrightarrow> i64_range (Width x) \<and> i64_range (Height x)"

definition serial_utf8 :: "VirtioSerial \<Rightarrow> bool" where
  [wf_simps]: "serial_utf8 x \<longleftrightarrow> valid_utf8 (LogFile x) \<and> valid_utf8 (PtyName x)"

definition fs_utf8 :: "VirtioFs \<Rightarrow> bool" where
  [wf_simps]: "fs_utf8 x \<longleftrightarrow> valid_utf8 (MountTag x) \<and> valid_utf8 (SharedDir x)"

definition linux_utf8 :: "LinuxBootloader \<Rightarrow> bool" where
  [wf_simps]: "linux_utf8 x \<longleftrightarrow>
    valid_utf8 (VmlinuzPath x) \<and> valid_utf8 (KernelCmdLine x) \<and> valid_utf8 (InitrdPath x)"

definition ignition_json :: "Ignition \<Rightarrow> bool" where
  [wf_simps]: "ignition_json x \<longleftrightarrow>
    valid_utf8 (ConfigPath x) \<and> valid_utf8 (SocketPath x) \<and> VsockPort x = 0"

lemmas json_fields_defs = StorageConfig_fields_def DiskStorageConfig_fields_def
  VirtioBlk_fields_def NetworkBlockDevice_fields_def VirtioInput_fields_def VirtioGPU_fields_def
  VirtioVsock_fields_def VirtioFs_fields_def RosettaShare_fields_def VirtioSerial_fields_def
  LinuxBootloader_fields_def EFIBootloader_fields_def TimeSync_fields_def Ignition_fields_def
  virtioNetForMarshalling_fields_def

lemmas json_members_defs = StorageConfig_members_def DiskStorageConfig_members_def
  VirtioBlk_members_def NetworkBlockDevice_members_def VirtioInput_members_def VirtioGPU_members_def
  VirtioVsock_members_def VirtioFs_members_def RosettaShare_members_def VirtioSerial_members_def
  LinuxBootloader_members_def EFIBootloader_members_def TimeSync_members_def Ignition_members_def
  virtioNetForMarshalling_members_def

lemmas json_zero_defs = diskStorageZero_def virtioBlkZero_def networkBlockDeviceZero_def
  virtioInputZero_def virtioVsockZero_def virtioFsZero_def rosettaZero_def virtioSerialZero_def
  linuxBootloaderZero_def efiBootloaderZero_def ignitionZero_def virtioNetZero_def

lemmas json_decode = json_fields_defs json_members_defs json_zero_defs json_encode
  decode_member_def find_field_def into_def

lemma fold_name_ascii: "list_all (\<lambda>c. (of_char c :: nat) < 128) s \<Longrightarrow>
    fold_name s = map (\<lambda>c. fold_rune (of_char c)) s"
  by (induction s) (simp_all add: fold_name_def)

lemmas json_kind_eval = find_field_def json_fields_defs json_members_defs json_encode
  jsonKind_fields_def fold_name_ascii fold_rune_def

interpretation disk_json: json_struct DiskStorageConfig_fields DiskStorageConfig_members diskStorageZero disk_utf8
    jsonKind_fields
proof (unfold_locales, goal_cases)
  case (1 x)
  then show ?case by (cases x) (simp add: wf_simps json_decode)
qed (simp_all add: json_kind_eval)

interpretation blk_json: json_struct VirtioBlk_fields VirtioBlk_members virtioBlkZero blk_utf8
    jsonKind_fields
proof (unfold_locales, goal_cases)
  case (1 x)
  then show ?case by (cases x) (simp add: wf_simps json_decode)
qed (simp_all add: json_kind_eval)

interpretation nbd_json: json_struct NetworkBlockDevice_fields NetworkBlockDevice_members networkBlockDeviceZero nbd_json
    jsonKind_fields
proof (unfold_locales, goal_cases)
  case (1 x)
  then show ?case by (cases x) (simp add: wf_simps json_decode)
qed (simp_all add: json_kind_eval)

interpretation input_json: json_struct VirtioInput_fields VirtioInput_members virtioInputZero "\<lambda>x. valid_utf8 (InputType x)"
    jsonKind_fields
proof (unfold_locales, goal_cases)
  case (1 x)
  then show ?case by (cases x) (simp add: wf_simps json_decode)
qed (simp_all add: json_kind_eval)

interpretation gpu_json: json_struct VirtioGPU_fields VirtioGPU_members "\<lparr>Width = 0, Height = 0, UsesGUI = False\<rparr>" gpu_json
    jsonKind_fields
proof (unfold_locales, goal_cases)
  case (1 x)
  then show ?case by (cases x) (simp add: wf_simps json_decode)
qed (simp_all add: json_kind_eval)

interpretation vsock_json: json_struct VirtioVsock_fields VirtioVsock_members virtioVsockZero "\<lambda>x. valid_utf8 (SocketURL x)"
    jsonKind_fields
proof (unfold_locales, goal_cases)
  case (1 x)
  then show ?case by (cases x) (simp add: wf_simps json_decode)
qed (simp_all add: json_kind_eval)

interpretation fs_json: json_struct VirtioFs_fields VirtioFs_members virtioFsZero fs_utf8
    jsonKind_fields
proof (unfold_locales, goal_cases)
  case (1 x)
  then show ?case by (cases x) (simp add: wf_simps json_decode)
qed (simp_all add: json_kind_eval)

interpretation rosetta_json: json_struct RosettaShare_fields RosettaShare_members rosettaZero "\<lambda>x. valid_utf8 (MountTag x)"
    jsonKind_fields
proof (unfold_locales, goal_cases)
  case (1 x)
  then show ?case by (cases x) (simp add: wf_simps json_decode)
qed (simp_all add: json_kind_eval)

interpretation serial_json: json_struct VirtioSerial_fields VirtioSerial_members virtioSerialZero serial_utf8
    jsonKind_fields
proof (unfold_locales, goal_cases)
  case (1 x)
  then show ?case by (cases x) (simp add: wf_simps json_decode)
qed (simp_all add: json_kind_eval)

interpretation linux_json: json_struct LinuxBootloader_fields LinuxBootloader_members linuxBootloaderZero linux_utf8
    jsonKind_fields
proof (unfold_locales, goal_cases)
  case (1 x)
  then show ?case by (cases x) (simp add: wf_simps json_decode)
qed (simp_all add: json_kind_eval)

interpretation efi_json: json_struct EFIBootloader_fields EFIBootloader_members efiBootloaderZero "\<lambda>x. valid_utf8 (EFIVariableStorePath x)"
    jsonKind_fields
proof (unfold_locales, goal_cases)
  case (1 x)
  then show ?case by (cases x) (simp add: wf_simps json_decode)
qed (simp_all add: json_kind_eval)

interpretation ign_json: json_struct Ignition_fields Ignition_members ignitionZero ignition_json
    jsonKind_fields
proof (unfold_locales, goal_cases)
  case (1 x)
  then show ?case by (cases x) (simp add: wf_simps json_decode)
qed (simp_all add: json_kind_eval)

interpretation unit_json: json_struct "[] :: unit json_fields" "\<lambda>_. []" "()" "\<lambda>_. True"
    jsonKind_fields
proof (unfold_locales, goal_cases)
  case (1 x)
  then show ?case by (cases x) (simp add: wf_simps json_decode)
qed (simp_all add: json_kind_eval)

lemmas reads_back = disk_json.reads_back blk_json.reads_back nbd_json.reads_back
  input_json.reads_back gpu_json.reads_back vsock_json.reads_back fs_json.reads_back
  rosetta_json.reads_back serial_json.reads_back linux_json.reads_back efi_json.reads_back
  ign_json.reads_back unit_json.reads_back

lemmas reads_kind = disk_json.reads_kind blk_json.reads_kind nbd_json.reads_kind
  input_json.reads_kind gpu_json.reads_kind vsock_json.reads_kind fs_json.reads_kind
  rosetta_json.reads_kind serial_json.reads_kind linux_json.reads_kind efi_json.reads_kind
  ign_json.reads_kind unit_json.reads_kind

subsection \<open>Network devices\<close>

lemma hex_byte_ascii: "c \<in> set (hex_byte b) \<Longrightarrow> (of_char c :: nat) < 128"
proof -
  have "(of_char (hex_char d) :: nat) < 128" if "d < 16" for d
    using that by (simp add: hex_char_def)
  then show "c \<in> set (hex_byte b) \<Longrightarrow> (of_char c :: nat) < 128"
    using nibble_bounds [of b] by (auto simp: hex_byte_def)
qed

lemma mac_string_ascii: "c \<in> set (mac_string a) \<Longrightarrow> (of_char c :: nat) < 128"
proof (induction a rule: induct_list012)
  case (3 x y a)
  then show ?case
    using hex_byte_ascii [of c x] by (auto simp: mac_string_def)
qed (auto simp: mac_string_def hex_byte_ascii)

lemma valid_utf8_ascii_all: "(\<And>c. c \<in> set s \<Longrightarrow> (of_char c :: nat) < 128) \<Longrightarrow> valid_utf8 s"
  by (induction s) simp_all

lemma mac_string_utf8 [simp]: "valid_utf8 (mac_string a)"
  by (rule valid_utf8_ascii_all) (rule mac_string_ascii)

text \<open>
  A network device keeps everything but its socket and, when it has a path, the absence of
  the magic: \<open>omitempty\<close> drops a false one and the reader puts true in its place.
\<close>

definition net_json :: "VirtioNet \<Rightarrow> bool" where
  [wf_simps]: "net_json d \<longleftrightarrow> valid_utf8 (UnixSocketPath d) \<and> (MacAddress d = [] \<or> mac_len_ok (length (MacAddress d)))"

lemma mac_string_empty: "mac_string a = [] \<longleftrightarrow> a = []"
  by (cases a rule: remdups_adj.cases) (auto simp: mac_string_def hex_byte_def)

lemma net_kind:
  "decode_struct jsonKind_fields (VirtioNet_MarshalJSON d) k = Inr ''virtionet''"
  by (simp add: VirtioNet_MarshalJSON_def with_kind_def json_decode VirtioNet.defs
      jsonKind_fields_def fold_name_ascii fold_rune_def split: option.split)

lemma net_members:
  assumes "valid_utf8 (UnixSocketPath d)"
  shows "decode_struct (virtioNetForMarshalling_fields nofile) (VirtioNet_MarshalJSON d)
      (VirtioNet.extend (virtioNetZero\<lparr>VfkitMagic := True\<rparr>) \<lparr>MacAddressText = []\<rparr>)
    = Inr (VirtioNet.extend (virtioNetZero\<lparr>UsesNat := UsesNat d, Socket := map_option (\<lambda>_. nofile) (Socket d),
        UnixSocketPath := UnixSocketPath d, VfkitMagic := True\<rparr>) \<lparr>MacAddressText = mac_string (MacAddress d)\<rparr>)"
  using assms
  by (simp add: VirtioNet_MarshalJSON_def with_kind_def json_decode VirtioNet.defs
      decode_pointer_def fold_name_ascii fold_rune_def split: option.split)

lemma net_reads_back:
  assumes "net_json d"
  shows "unmarshalVirtioNet nofile (VirtioNet_MarshalJSON d)
    = Inr (d\<lparr>Socket := map_option (\<lambda>_. nofile) (Socket d), VfkitMagic := UnixSocketPath d \<noteq> []\<rparr>)"
proof -
  have v: "valid_utf8 (UnixSocketPath d)" and m: "MacAddress d \<noteq> [] \<Longrightarrow> mac_len_ok (length (MacAddress d))"
    using assms by (auto simp: net_json_def)
  show ?thesis
    unfolding unmarshalVirtioNet_def Let_def net_members [OF v] bindE_Inr
    using m by (cases d) (simp add: VirtioNet.defs virtioNetZero_def mac_string_empty
        ParseMAC_mac_string)
qed

subsection \<open>Any device\<close>

text \<open>The devices that survive the trip, and what a device is after it.\<close>

fun device_json :: "device \<Rightarrow> bool" where
  "device_json (DevRosetta d) = valid_utf8 (MountTag d)"
| "device_json (DevNVMe d) = disk_utf8 d"
| "device_json (DevBlk d) = blk_utf8 d"
| "device_json (DevFs d) = fs_utf8 d"
| "device_json (DevNet d) = net_json d"
| "device_json (DevRng d) = True"
| "device_json (DevSerial d) = serial_utf8 d"
| "device_json (DevVsock d) = valid_utf8 (SocketURL d)"
| "device_json (DevUSB d) = disk_utf8 d"
| "device_json (DevInput d) = valid_utf8 (InputType d)"
| "device_json (DevGPU d) = gpu_json d"
| "device_json (DevBalloon d) = True"
| "device_json (DevNbd d) = nbd_json d"

fun device_image :: "nat \<Rightarrow> device \<Rightarrow> device" where
  "device_image nofile (DevNet d) = DevNet (d\<lparr>Socket := map_option (\<lambda>_. nofile) (Socket d),
     VfkitMagic := UnixSocketPath d \<noteq> []\<rparr>)"
| "device_image nofile d = d"

lemmas MarshalJSON_defs = RosettaShare_MarshalJSON_def NVMExpressController_MarshalJSON_def
  VirtioBlk_MarshalJSON_def VirtioFs_MarshalJSON_def VirtioRng_MarshalJSON_def
  VirtioSerial_MarshalJSON_def VirtioVsock_MarshalJSON_def USBMassStorage_MarshalJSON_def
  VirtioInput_MarshalJSON_def VirtioGPU_MarshalJSON_def VirtioBalloon_MarshalJSON_def
  NetworkBlockDevice_MarshalJSON_def LinuxBootloader_MarshalJSON_def EFIBootloader_MarshalJSON_def
  Ignition_MarshalJSON_def

lemma unit_reads_back: "decode_struct [] (with_kind k []) () = Inr ()"
  by (rule unit_json.reads_back) simp

lemma device_reads_back:
  "device_json d \<Longrightarrow> unmarshalDevice nofile (device_MarshalJSON d) = Inr (device_image nofile d)"
  by (cases d) (simp_all add: unmarshalDevice_def MarshalJSON_defs reads_kind reads_back
      unit_reads_back net_kind net_reads_back del: decode_struct.simps)

lemma device_not_null: "device_MarshalJSON d \<noteq> JNull"
  by (cases d) (simp_all add: MarshalJSON_defs VirtioNet_MarshalJSON_def with_kind_def)

lemma devices_read_back:
  "list_all device_json ds \<Longrightarrow>
    unmarshalDevices nofile (JArray (map device_MarshalJSON ds)) = Inr (map (device_image nofile) ds)"
  by (induction ds) (simp_all add: device_reads_back device_not_null)

subsection \<open>The order of the members\<close>

text \<open>
  Members with different keys write different fields, so a run of the loop that succeeds
  does so in every order of the map, with the same result.
\<close>

lemma unmarshal_member_swap:
  assumes "fst m \<noteq> fst m'"
    and "unmarshal_member nofile m vm = Inr u" "unmarshal_member nofile m' u = Inr w"
  shows "\<exists>u'. unmarshal_member nofile m' vm = Inr u' \<and> unmarshal_member nofile m u' = Inr w"
  using assms
  by (cases m; cases m')
    (auto simp: unmarshal_member_def mapE_eq_Inr split: if_splits sum.splits)

lemma map_entries_keys: "fst ` set (map_entries ms) = fst ` set ms" "distinct (map fst (map_entries ms))"
proof -
  show k: "fst ` set (map_entries ms) = fst ` set ms" for ms
    by (induction ms) (auto simp: image_iff)
  show "distinct (map fst (map_entries ms))"
    by (induction ms) (auto simp: k)
qed

lemma decode_map_distinct: "decode_map b = Inr ms \<Longrightarrow> distinct (map fst ms)"
  by (cases b) (auto simp: map_entries_keys)

lemma map_entries_distinct: "distinct (map fst ms) \<Longrightarrow> map_entries ms = ms"
  by (induction ms) auto

definition permutes :: "(members \<Rightarrow> members) \<Rightarrow> bool" where
  "permutes order \<longleftrightarrow> (\<forall>ms. mset (order ms) = mset ms)"

lemma unmarshal_permute:
  assumes "distinct (map fst xs)" "mset xs = mset ys" "foldE (unmarshal_member nofile) xs vm = Inr vm'"
  shows "foldE (unmarshal_member nofile) ys vm = Inr vm'"
proof (rule foldE_permute [OF _ _ assms(2,3)])
  show "distinct xs" using assms(1) by (simp add: distinct_map)
  show "\<exists>u'. unmarshal_member nofile m' v = Inr u' \<and> unmarshal_member nofile m u' = Inr w"
    if "m \<in> set xs" "m' \<in> set xs" "m \<noteq> m'" "unmarshal_member nofile m v = Inr u"
      "unmarshal_member nofile m' u = Inr w" for m m' v u w
  proof (rule unmarshal_member_swap [OF _ that(4,5)])
    show "fst m \<noteq> fst m'" using that(1-3) assms(1) by (auto simp: distinct_map inj_on_def)
  qed
qed

lemma unmarshal_any_order:
  assumes "permutes order" "permutes order'" "UnmarshalJSON order nofile b vm = Inr vm'"
  shows "UnmarshalJSON order' nofile b vm = Inr vm'"
proof -
  from assms(3) obtain ms where ms: "decode_map b = Inr ms"
    "foldE (unmarshal_member nofile) (order ms) vm = Inr vm'"
    by (auto simp: UnmarshalJSON_def bindE_eq_Inr)
  have m: "mset (order ms) = mset ms" "mset (order' ms) = mset ms"
    using assms(1,2) by (simp_all add: permutes_def)
  have d: "distinct (map fst (order ms))"
    using decode_map_distinct [OF ms(1)] m(1) by (metis mset_eq_imp_distinct_iff mset_map)
  have "foldE (unmarshal_member nofile) (order' ms) vm = Inr vm'"
    by (rule unmarshal_permute [OF d _ ms(2)]) (simp add: m)
  with ms(1) show ?thesis by (simp add: UnmarshalJSON_def)
qed

subsection \<open>The virtual machine, written and read\<close>

definition bootloader_json :: "bootloader option \<Rightarrow> bool" where
  "bootloader_json b = (case b of
     None \<Rightarrow> True
   | Some (BootLinux l) \<Rightarrow> linux_utf8 l
   | Some (BootEFI e) \<Rightarrow> valid_utf8 (EFIVariableStorePath e)
   | Some (BootMacOS m) \<Rightarrow> False)"

definition vm_json :: "VirtualMachine \<Rightarrow> bool" where
  "vm_json vm \<longleftrightarrow> bootloader_json (VmBootloader vm) \<and> list_all device_json (VmDevices vm)
    \<and> (case VmIgnition vm of None \<Rightarrow> True
       | Some i \<Rightarrow> valid_utf8 (ConfigPath i) \<and> valid_utf8 (SocketPath i))"

text \<open>What is left of a machine: \<open>nested\<close> and the ignition port are lost.\<close>

definition vm_image :: "nat \<Rightarrow> VirtualMachine \<Rightarrow> VirtualMachine" where
  "vm_image nofile vm = vm\<lparr>VmDevices := map (device_image nofile) (VmDevices vm),
    VmIgnition := map_option (\<lambda>i. i\<lparr>VsockPort := 0\<rparr>) (VmIgnition vm), Nested := False\<rparr>"

definition vmZero :: VirtualMachine where
  "vmZero = \<lparr>Vcpus = 0, Memory = 0, VmBootloader = None, VmDevices = [], Timesync = None,
    VmIgnition = None, Nested = False\<rparr>"

lemma bootloader_reads_back:
  "bootloader_json (Some b) \<Longrightarrow> unmarshalBootloader (bootloader_MarshalJSON b) = Inr b"
  by (cases b) (simp_all add: bootloader_json_def unmarshalBootloader_def MarshalJSON_defs
      reads_kind reads_back del: decode_struct.simps)

lemma bootloader_not_null: "bootloader_MarshalJSON b \<noteq> JNull"
  by (cases b) (simp_all add: MarshalJSON_defs with_kind_def)

lemma timesync_reads_back:
  "decode_struct TimeSync_fields (JObject (TimeSync_members ts)) \<lparr>TimeSyncPort = 0\<rparr> = Inr ts"
  by (cases ts) (simp add: json_decode)

lemma ignition_reads_back:
  assumes "valid_utf8 (ConfigPath i)" "valid_utf8 (SocketPath i)"
  shows "unmarshalIgnition (Ignition_MarshalJSON i) = Inr (i\<lparr>VsockPort := 0\<rparr>)"
proof -
  have "Ignition_members i = Ignition_members (i\<lparr>VsockPort := 0\<rparr>)"
    by (simp add: Ignition_members_def)
  then show ?thesis
    using assms ign_json.reads_back [of "i\<lparr>VsockPort := 0\<rparr>" "''ignition''"]
    by (simp add: unmarshalIgnition_def Ignition_MarshalJSON_def ignition_json_def
        del: decode_struct.simps)
qed

lemma ignition_not_null: "Ignition_MarshalJSON i \<noteq> JNull"
  by (simp add: Ignition_MarshalJSON_def with_kind_def)

lemma vm_members_distinct: "distinct (map fst (vm_members vm))"
  by (simp add: vm_members_def omitempty_bool_def split: option.split)

text \<open>The steps of the loop over the members that \<open>vm_members\<close> writes, in its order.\<close>

lemma vm_steps:
  "unmarshal_member nofile (''vcpus'', encode_uint w) vm = Inr (vm\<lparr>Vcpus := w\<rparr>)"
  "unmarshal_member nofile (''memoryBytes'', encode_uint w) vm = Inr (vm\<lparr>Memory := w\<rparr>)"
  "bootloader_json b \<Longrightarrow> VmBootloader vm = None \<Longrightarrow> 
    unmarshal_member nofile (''bootloader'', bootloader_value b) vm = Inr (vm\<lparr>VmBootloader := b\<rparr>)"
  "list_all device_json ds \<Longrightarrow> unmarshal_member nofile (''devices'', JArray (map device_MarshalJSON ds)) vm
    = Inr (vm\<lparr>VmDevices := map (device_image nofile) ds\<rparr>)"
  "Timesync vm = None \<Longrightarrow> unmarshal_member nofile (''timesync'', JObject (TimeSync_members ts)) vm
    = Inr (vm\<lparr>Timesync := Some ts\<rparr>)"
  "valid_utf8 (ConfigPath i) \<Longrightarrow> valid_utf8 (SocketPath i) \<Longrightarrow>
    unmarshal_member nofile (''ignition'', Ignition_MarshalJSON i) vm
    = Inr (vm\<lparr>VmIgnition := Some (i\<lparr>VsockPort := 0\<rparr>)\<rparr>)"
  "unmarshal_member nofile (''nested'', j) vm = Inr vm"
proof -
  show "bootloader_json b \<Longrightarrow> VmBootloader vm = None \<Longrightarrow> 
    unmarshal_member nofile (''bootloader'', bootloader_value b) vm = Inr (vm\<lparr>VmBootloader := b\<rparr>)"
    by (cases b) (simp_all add: unmarshal_member_def bootloader_value_def bootloader_not_null
        bootloader_reads_back)
qed (simp_all add: unmarshal_member_def encode_uint_def [symmetric] encode_uint_not_null
    devices_read_back decode_pointer_def timesync_reads_back ignition_not_null ignition_reads_back
    del: unmarshalDevices.simps decode_struct.simps)

lemma vm_loop:
  assumes "vm_json vm"
  shows "foldE (unmarshal_member nofile) (vm_members vm) vmZero = Inr (vm_image nofile vm)"
proof -
  obtain c m b ds ts i n where vm: "vm = \<lparr>Vcpus = c, Memory = m, VmBootloader = b, VmDevices = ds,
    Timesync = ts, VmIgnition = i, Nested = n\<rparr>" by (cases vm)
  have b: "bootloader_json b" and ds: "list_all device_json ds"
    and i: "\<And>x. i = Some x \<Longrightarrow> valid_utf8 (ConfigPath x)" "\<And>x. i = Some x \<Longrightarrow> valid_utf8 (SocketPath x)"
    using assms by (auto simp: vm vm_json_def split: option.splits)
  show ?thesis
    using i by (cases ts; cases i; cases "ds = []"; cases n)
      (simp_all add: vm vm_members_def vm_image_def vmZero_def omitempty_bool_def vm_steps b ds)
qed

lemma json_reads_back:
  assumes "vm_json vm"
  shows "UnmarshalJSON (\<lambda>ms. ms) nofile (vm_MarshalJSON vm) vmZero = Inr (vm_image nofile vm)"
  by (simp add: UnmarshalJSON_def vm_MarshalJSON_def map_entries_distinct vm_members_distinct
      vm_loop [OF assms])

lemma permutes_id: "permutes (\<lambda>ms. ms)" and permutes_rev: "permutes rev"
  by (simp_all add: permutes_def)

definition witness_json_vm :: VirtualMachine where
  "witness_json_vm = \<lparr>Vcpus = 2, Memory = 0x80000000,
    VmBootloader = Some (BootEFI \<lparr>EFIVariableStorePath = ''vars'', CreateVariableStore = True\<rparr>),
    VmDevices = [DevRng (), DevNet (virtioNetZero\<lparr>UnixSocketPath := ''/run/net'',
      MacAddress := [0x5A, 0x94, 0xEF, 0xE4, 0x0C, 0xDD]\<rparr>)],
    Timesync = Some \<lparr>TimeSyncPort = 1234\<rparr>, VmIgnition = None, Nested = True\<rparr>"

lemma witness_vm_json: "vm_json witness_json_vm"
  by (simp add: witness_json_vm_def vm_json_def bootloader_json_def net_json_def mac_len_ok_def
      virtioNetZero_def)

text \<open>
  C26. \<open>VirtualMachine.UnmarshalJSON\<close> walks over a Go map, in an order that differs from
  run to run: when one order reads the document, every order does, with the same machine.
\<close>

theorem unmarshal_order:
  assumes "permutes order" "permutes order'" "UnmarshalJSON order nofile b vm = Inr vm'"
  shows "UnmarshalJSON order' nofile b vm = Inr vm'"
  by (rule unmarshal_any_order [OF assms])

theorem unmarshal_order_witness:
  "UnmarshalJSON rev 0 (vm_MarshalJSON witness_json_vm) vmZero = Inr (vm_image 0 witness_json_vm)"
  by (rule unmarshal_order [OF permutes_id permutes_rev])
    (rule json_reads_back [OF witness_vm_json])

text \<open>
  C25. A machine written as JSON and read again, whatever the order of the map, is the same
  machine but for four things: \<open>nested\<close> is not read, the ignition port is not written, a
  socket loses its descriptor, and the magic of a network device becomes whether it has a
  unix socket path. Strings must be UTF-8 and numbers in the range of their Go type.
\<close>

theorem json_roundtrip:
  assumes "permutes order" "vm_json vm"
  shows "UnmarshalJSON order nofile (vm_MarshalJSON vm) vmZero = Inr (vm_image nofile vm)"
  by (rule unmarshal_any_order [OF permutes_id assms(1)]) (rule json_reads_back [OF assms(2)])

theorem json_roundtrip_witness:
  "UnmarshalJSON rev 7 (vm_MarshalJSON witness_json_vm) vmZero = Inr (vm_image 7 witness_json_vm)"
  by (rule json_roundtrip [OF permutes_rev witness_vm_json])

text \<open>
  C27. A machine with a macOS bootloader is written as JSON that \<open>UnmarshalJSON\<close> refuses, in
  every order: the bootloader has no \<open>MarshalJSON\<close> and is written without a kind.
\<close>

theorem json_macos_refused:
  assumes "permutes order" "VmBootloader vm = Some (BootMacOS b)"
  shows "\<exists>e. UnmarshalJSON order nofile (vm_MarshalJSON vm) vm' = Inl e"
proof -
  let ?m = "(''bootloader'', bootloader_MarshalJSON (BootMacOS b))"
  have "?m \<in> set (vm_members vm)" 
    using assms(2) by (simp add: vm_members_def bootloader_value_def)
  then have "?m \<in> set (order (vm_members vm))"
    using assms(1) by (metis permutes_def set_mset_mset)
  moreover have "\<exists>e. unmarshal_member nofile ?m v = Inl e" for v
    by (simp add: unmarshal_member_def unmarshalBootloader_def decode_member_def find_field_def
        jsonKind_fields_def fold_name_ascii fold_rune_def)
  ultimately have "\<exists>e. foldE (unmarshal_member nofile) (order (vm_members vm)) vm' = Inl e"
    by (rule foldE_fails)
  then show ?thesis
    by (simp add: UnmarshalJSON_def vm_MarshalJSON_def map_entries_distinct vm_members_distinct)
qed

theorem json_macos_refused_witness:
  "\<exists>e. UnmarshalJSON rev 0 (vm_MarshalJSON (vmZero\<lparr>VmBootloader := Some (BootMacOS macOSBootloaderZero)\<rparr>))
    vmZero = Inl e"
  by (rule json_macos_refused [OF permutes_rev]) simp

text \<open>An ignition section that cannot be read is dropped without an error.\<close>

lemma json_bad_ignition_ignored:
  "unmarshalIgnition j = Inl e \<Longrightarrow> unmarshal_member nofile (''ignition'', j) vm = Inr vm"
  by (simp add: unmarshal_member_def)

text \<open>A device \<open>null\<close> makes the reader dereference a nil pointer.\<close>

lemma json_null_device_panics:
  "unmarshalDevices nofile (JArray [JNull])
    = Inl (Panic ''invalid memory address or nil pointer dereference'')"
  by simp

end
