(* ===== verification/RestApi.thy ===== *)
theory RestApi
  imports Rest JsonConfig
begin

section \<open>The requests of the REST service\<close>







subsection \<open>Lemmas\<close>




subsection \<open>Properties\<close>









end
