(* ===== verification/VmWait.thy ===== *)
theory VmWait
  imports Rest
begin

section \<open>Waiting for the state of the machine\<close>

text \<open>
  \<open>waitForVMState\<close> and \<open>shutdownFunc\<close> of \<open>cmd/vfkit/main.go\<close>, and the two goroutines that
  wait at the same time: the main one for the machine to stop, and the one of
  \<open>SetupExitSignalHandling\<close>, which after a signal waits for the same. Which channel
  \<open>StateChangedNotify\<close> of \<open>github.com/Code-Hex/vz\<close> gives to each of them is an argument.
\<close>

subsection \<open>The loop\<close>

text \<open>The states that the code names, and the others of the framework by a number.\<close>

datatype vm_state = VmStopped | VmRunning | VmError | VmOther nat

datatype wait_event = SignalReceived | StateChanged vm_state | TimeoutFired

text \<open>One turn of the \<open>select\<close>: the value it returns, or \<open>None\<close> when it goes on.\<close>

fun select_case :: "vm_state \<Rightarrow> wait_event \<Rightarrow> (error + unit) option" where
  "select_case state SignalReceived = None"
| "select_case state (StateChanged newState) =
     (if newState = state then Some (Inr ())
      else if newState = VmError then Some (Inl (Errorf ''hypervisor virtualization error''))
      else None)"
| "select_case state TimeoutFired = Some (Inl (Errorf ''timeout waiting for VM state''))"

text \<open>Over the events in the order they are received; \<open>None\<close> when it still waits after them.\<close>

fun waitForVMState :: "vm_state \<Rightarrow> wait_event list \<Rightarrow> (error + unit) option" where
  "waitForVMState state [] = None"
| "waitForVMState state (ev # evs) =
     (case select_case state ev of
        Some r \<Rightarrow> Some r
      | None \<Rightarrow> waitForVMState state evs)"

text \<open>The events of a wait with \<open>time.After\<close>, given those received before it fires.\<close>

definition with_timeout :: "wait_event list \<Rightarrow> wait_event list" where
  "with_timeout evs = evs @ [TimeoutFired]"

text \<open>
  The calls that \<open>shutdownFunc\<close> makes on the machine. The results of the calls are only
  logged.
\<close>

definition shutdownFunc :: "wait_event list \<Rightarrow> vz_action list option" where
  "shutdownFunc evs =
    (case waitForVMState VmStopped (with_timeout evs) of
       None \<Rightarrow> None
     | Some (Inl e) \<Rightarrow> Some [VzRequestStop, VzStop]
     | Some (Inr u) \<Rightarrow> Some [VzRequestStop])"

subsection \<open>Two receivers\<close>

datatype receiver = MainLoop | ShutdownLoop

datatype recv_status = Idle | Waiting | Done "error + unit"

text \<open>
  \<open>Queue\<close> holds the notifications of each channel that were not yet received: the library
  puts every change of state on the channels it has.
\<close>

record wait_system =
  VmNow :: vm_state
  Queue :: "nat \<Rightarrow> vm_state list"
  Status :: "receiver \<Rightarrow> recv_status"

definition main_waiting :: wait_system where
  "main_waiting = \<lparr>VmNow = VmRunning, Queue = \<lambda>_. [],
    Status = (\<lambda>_. Idle)(MainLoop := Waiting)\<rparr>"

definition changed :: "vm_state \<Rightarrow> wait_system \<Rightarrow> wait_system" where
  "changed s sys = sys\<lparr>VmNow := s, Queue := \<lambda>c. Queue sys c @ [s]\<rparr>"

definition set_status :: "receiver \<Rightarrow> recv_status \<Rightarrow> wait_system \<Rightarrow> wait_system" where
  "set_status r s sys = sys\<lparr>Status := (Status sys)(r := s)\<rparr>"

definition take_event :: "nat \<Rightarrow> wait_system \<Rightarrow> wait_system" where
  "take_event c sys = sys\<lparr>Queue := (Queue sys)(c := tl (Queue sys c))\<rparr>"

definition after_select :: "(error + unit) option \<Rightarrow> recv_status" where
  "after_select r = (case r of None \<Rightarrow> Waiting | Some x \<Rightarrow> Done x)"

text \<open>
  A change of state by the framework, after which a stopped machine stays stopped, since
  the code starts it once; a signal, which starts \<open>shutdownFunc\<close> again when the last one is
  over; a notification received; and the timeout of \<open>shutdownFunc\<close>.
\<close>

inductive wait_step :: "(receiver \<Rightarrow> nat) \<Rightarrow> wait_system \<Rightarrow> wait_system \<Rightarrow> bool"
  for chan :: "receiver \<Rightarrow> nat" where
  change: "VmNow sys \<noteq> VmStopped \<Longrightarrow> wait_step chan sys (changed s sys)"
| signal: "Status sys ShutdownLoop \<noteq> Waiting \<Longrightarrow>
    wait_step chan sys (set_status ShutdownLoop Waiting sys)"
| receive: "Status sys r = Waiting \<Longrightarrow> Queue sys (chan r) = s # q \<Longrightarrow>
    wait_step chan sys (set_status r (after_select (select_case VmStopped (StateChanged s)))
      (take_event (chan r) sys))"
| timeout: "Status sys ShutdownLoop = Waiting \<Longrightarrow>
    wait_step chan sys (set_status ShutdownLoop
      (after_select (select_case VmStopped TimeoutFired)) sys)"

inductive_cases wait_stepE: "wait_step chan sys sys'"

text \<open>Any number of steps.\<close>

inductive wait_steps :: "(receiver \<Rightarrow> nat) \<Rightarrow> wait_system \<Rightarrow> wait_system \<Rightarrow> bool"
  for chan :: "receiver \<Rightarrow> nat" where
  wait_refl: "wait_steps chan sys sys"
| wait_snoc: "wait_steps chan sys sys' \<Longrightarrow> wait_step chan sys' sys'' \<Longrightarrow> wait_steps chan sys sys''"

subsection \<open>Lemmas on the loop\<close>

lemma waitForVMState_find:
  "waitForVMState state evs
    = Option.bind (find (\<lambda>ev. select_case state ev \<noteq> None) evs) (select_case state)"
  by (induction evs) (auto split: option.split)

lemma select_case_None:
  "select_case state ev = None \<longleftrightarrow>
    ev = SignalReceived \<or> (\<exists>s. ev = StateChanged s \<and> s \<noteq> state \<and> s \<noteq> VmError)"
  by (cases ev) auto

lemma waitForVMState_None:
  "waitForVMState state evs = None \<longleftrightarrow> (\<forall>ev \<in> set evs. select_case state ev = None)"
  by (induction evs) (auto split: option.split)

lemma waitForVMState_append:
  "waitForVMState state (evs @ evs')
    = (case waitForVMState state evs of Some r \<Rightarrow> Some r | None \<Rightarrow> waitForVMState state evs')"
  by (induction evs) (auto split: option.split)

lemma timed_wait_returns: "waitForVMState state (with_timeout evs) \<noteq> None"
  by (simp add: with_timeout_def waitForVMState_append split: option.split)

lemma stopped_first:
  "waitForVMState VmStopped (with_timeout evs) = Some (Inr ()) \<longleftrightarrow>
    find (\<lambda>ev. ev \<in> {StateChanged VmStopped, StateChanged VmError, TimeoutFired}) evs
      = Some (StateChanged VmStopped)"
proof (induction evs)
  case (Cons ev evs)
  show ?case
  proof (cases "select_case VmStopped ev")
    case None
    with Cons show ?thesis by (auto simp: with_timeout_def select_case_None)
  next
    case (Some r)
    then show ?thesis by (cases ev) (auto simp: with_timeout_def split: if_splits)
  qed
qed (simp add: with_timeout_def)

subsection \<open>Lemmas on the receivers\<close>

lemmas wait_defs = changed_def set_status_def take_event_def after_select_def

lemma wait_steps_trans:
  assumes "wait_steps chan b c" "wait_steps chan a b"
  shows "wait_steps chan a c"
  using assms by (induction rule: wait_steps.induct) (auto intro: wait_steps.intros)

lemma wait_invariant:
  assumes "wait_steps chan a sys" "I a" "\<And>s s'. wait_step chan s s' \<Longrightarrow> I s \<Longrightarrow> I s'"
  shows "I sys"
  using assms(1,2) by (induction rule: wait_steps.induct) (auto intro: assms(3))

lemma wait_steps_one: "wait_step chan a b \<Longrightarrow> wait_steps chan a b"
  by (blast intro: wait_steps.intros)

text \<open>A channel of its own, or no signal so far.\<close>

definition undisturbed :: "(receiver \<Rightarrow> nat) \<Rightarrow> wait_system \<Rightarrow> bool" where
  "undisturbed chan sys \<longleftrightarrow>
    chan MainLoop \<noteq> chan ShutdownLoop \<or> Status sys ShutdownLoop = Idle"

text \<open>
  The invariant: as long as the main loop waits, the stop of the machine is still in its
  channel.
\<close>

definition stop_pending :: "(receiver \<Rightarrow> nat) \<Rightarrow> wait_system \<Rightarrow> bool" where
  "stop_pending chan sys \<longleftrightarrow>
    (undisturbed chan sys \<and> VmNow sys = VmStopped \<and> Status sys MainLoop = Waiting
      \<longrightarrow> VmStopped \<in> set (Queue sys (chan MainLoop)))"

lemma stop_pending_step:
  assumes "wait_step chan sys sys'" "stop_pending chan sys"
  shows "stop_pending chan sys'"
  using assms(1)
proof (cases rule: wait_step.cases)
  case (receive r s q)
  then show ?thesis
    using assms(2)
    by (cases r; cases "chan MainLoop = chan ShutdownLoop")
      (auto simp: stop_pending_def undisturbed_def wait_defs split: if_splits)
qed (use assms(2) in \<open>auto simp: stop_pending_def undisturbed_def wait_defs\<close>)

lemma stop_pending_reachable:
  "wait_steps chan main_waiting sys \<Longrightarrow> stop_pending chan sys"
  by (erule wait_invariant) (simp add: stop_pending_def main_waiting_def, rule stop_pending_step)

lemma main_not_idle:
  "wait_steps chan main_waiting sys \<Longrightarrow> Status sys MainLoop \<noteq> Idle"
  by (erule wait_invariant)
    (auto elim!: wait_stepE simp: main_waiting_def wait_defs split: option.splits if_splits)

text \<open>A loop that has a notification to end on ends.\<close>

lemma drain:
  assumes "VmStopped \<in> set (Queue sys (chan r))" "Status sys r = Waiting"
  shows "\<exists>sys' x. wait_steps chan sys sys' \<and> Status sys' r = Done x"
  using assms
proof (induction "Queue sys (chan r)" arbitrary: sys)
  case (Cons s q)
  let ?next = "set_status r (after_select (select_case VmStopped (StateChanged s))) (take_event (chan r) sys)"
  have step: "wait_step chan sys ?next"
    using Cons.hyps(2) [symmetric] Cons.prems(2) by (rule wait_step.receive [rotated])
  show ?case
  proof (cases "select_case VmStopped (StateChanged s)")
    case None
    then have "q = Queue ?next (chan r)" "Status ?next r = Waiting" "VmStopped \<in> set (Queue ?next (chan r))"
      using Cons.hyps(2) [symmetric] Cons.prems(1) by (auto simp: wait_defs split: if_splits)
    from Cons.hyps(1) [OF this(1,3,2)] show ?thesis
      using wait_steps_trans wait_steps_one [OF step] by blast
  next
    case (Some x)
    then have "Status ?next r = Done x" by (simp add: wait_defs)
    with wait_steps_one [OF step] show ?thesis by blast
  qed
qed simp

text \<open>A loop with nothing left to receive on a stopped machine waits for ever.\<close>

definition stuck :: "(receiver \<Rightarrow> nat) \<Rightarrow> wait_system \<Rightarrow> bool" where
  "stuck chan sys \<longleftrightarrow> VmNow sys = VmStopped \<and> Queue sys (chan MainLoop) = []
    \<and> Status sys MainLoop = Waiting"

lemma stuck_step:
  assumes "wait_step chan sys sys'" "stuck chan sys"
  shows "stuck chan sys'"
  using assms(1)
proof (cases rule: wait_step.cases)
  case (receive r s q)
  with assms(2) show ?thesis by (cases r) (auto simp: stuck_def wait_defs)
qed (use assms(2) in \<open>auto simp: stuck_def wait_defs\<close>)

lemma stuck_steps: "wait_steps chan sys sys' \<Longrightarrow> stuck chan sys \<Longrightarrow> stuck chan sys'"
  by (erule wait_invariant) (auto intro: stuck_step)

text \<open>
  With one channel for both: a signal, the machine stops, and the notification goes to
  \<open>shutdownFunc\<close>.
\<close>

lemma stolen_stop:
  assumes "chan MainLoop = chan ShutdownLoop"
  shows "\<exists>sys. wait_steps chan main_waiting sys \<and> stuck chan sys
    \<and> Status sys ShutdownLoop = Done (Inr ())"
proof -
  let ?a = "set_status ShutdownLoop Waiting main_waiting"
  let ?b = "changed VmStopped ?a"
  let ?c = "set_status ShutdownLoop (after_select (select_case VmStopped (StateChanged VmStopped)))
    (take_event (chan ShutdownLoop) ?b)"
  have "wait_step chan main_waiting ?a"
    by (rule wait_step.signal) (simp add: main_waiting_def)
  moreover have "wait_step chan ?a ?b"
    by (rule wait_step.change) (simp add: main_waiting_def wait_defs)
  moreover have "wait_step chan ?b ?c"
    by (rule wait_step.receive) (simp_all add: main_waiting_def wait_defs)
  ultimately have "wait_steps chan main_waiting ?c" by (meson wait_steps.intros)
  moreover have "stuck chan ?c" "Status ?c ShutdownLoop = Done (Inr ())"
    using assms by (simp_all add: stuck_def main_waiting_def wait_defs)
  ultimately show ?thesis by blast
qed

subsection \<open>Properties\<close>

text \<open>
  C29. A shutdown always comes to an end: it asks the machine to stop, and it forces the stop
  exactly when the first notification that counts, stopped or error, is not that it stopped.
\<close>

theorem shutdown_ends:
  "shutdownFunc evs = Some (VzRequestStop #
    (if find (\<lambda>ev. ev \<in> {StateChanged VmStopped, StateChanged VmError, TimeoutFired}) evs
        = Some (StateChanged VmStopped) then [] else [VzStop]))"
  using timed_wait_returns [of VmStopped evs] stopped_first [of evs]
  by (auto simp: shutdownFunc_def split: option.split sum.split)

text \<open>
  C9. The stop of the machine is not missed while the main loop has a channel of its own, or
  while there was no signal: whenever the machine has stopped and the main loop still waits,
  it can receive its way to its end.
\<close>

theorem stop_not_missed:
  assumes "wait_steps chan main_waiting sys" "VmNow sys = VmStopped"
    and "chan MainLoop \<noteq> chan ShutdownLoop \<or> Status sys ShutdownLoop = Idle"
  shows "\<exists>sys' x. wait_steps chan sys sys' \<and> Status sys' MainLoop = Done x"
proof (cases "Status sys MainLoop")
  case Waiting
  then show ?thesis
    using stop_pending_reachable [OF assms(1)] assms(2,3)
    by (intro drain) (auto simp: stop_pending_def undisturbed_def)
qed (use main_not_idle [OF assms(1)] wait_steps.intros in auto)

theorem stop_not_missed_witness:
  "\<exists>sys' x. wait_steps (\<lambda>_. 0) (changed VmStopped main_waiting) sys' \<and> Status sys' MainLoop = Done x"
proof (rule stop_not_missed)
  have "VmNow main_waiting \<noteq> VmStopped" by (simp add: main_waiting_def)
  then show "wait_steps (\<lambda>_. 0) main_waiting (changed VmStopped main_waiting)"
    by (intro wait_steps_one wait_step.change)
qed (simp_all add: changed_def main_waiting_def)

text \<open>
  C28. With one channel for both loops, a signal can make vfkit hang: the machine stops, the
  notification goes to \<open>shutdownFunc\<close>, which ends, and the main loop waits for ever.
\<close>

theorem stop_can_be_stolen:
  assumes "chan MainLoop = chan ShutdownLoop"
  shows "\<exists>sys. wait_steps chan main_waiting sys \<and> VmNow sys = VmStopped
    \<and> Status sys ShutdownLoop = Done (Inr ())
    \<and> {Status sys' MainLoop | sys'. wait_steps chan sys sys'} = {Waiting}"
proof -
  from stolen_stop [of chan, OF assms] obtain sys where s: "wait_steps chan main_waiting sys"
    "stuck chan sys" "Status sys ShutdownLoop = Done (Inr ())" by blast
  have "{Status sys' MainLoop | sys'. wait_steps chan sys sys'} = {Waiting}"
  proof
    show "{Status sys' MainLoop | sys'. wait_steps chan sys sys'} \<subseteq> {Waiting}"
      using stuck_steps [OF _ s(2)] by (auto simp: stuck_def)
    show "{Waiting} \<subseteq> {Status sys' MainLoop | sys'. wait_steps chan sys sys'}"
      using s(2) wait_steps.wait_refl [of chan sys] by (auto simp: stuck_def intro!: exI [of _ sys])
  qed
  with s show ?thesis by (auto simp: stuck_def)
qed

theorem stop_can_be_stolen_witness:
  "\<exists>sys. wait_steps (\<lambda>_. 0) main_waiting sys \<and> VmNow sys = VmStopped
    \<and> Status sys ShutdownLoop = Done (Inr ())
    \<and> {Status sys' MainLoop | sys'. wait_steps (\<lambda>_. 0) sys sys'} = {Waiting}"
  by (rule stop_can_be_stolen) (rule refl)

end
