(* ===== verification/VzState.thy ===== *)
theory VzState
  imports GoPath GoUrl VMConfig CloudInit
begin

section \<open>The virtualization framework, as the program sees it\<close>

text \<open>
  \<open>pkg/vf\<close> builds the configuration of a machine with calls to \<open>github.com/Code-Hex/vz\<close>,
  which is not part of the repository. Each call that may fail is a value of \<open>vz_call\<close>; its
  outcome is given by the environment and may depend on all calls made before it. What
  the calls return appears in the model only as the configuration it is used for.
\<close>

subsection \<open>Calls and configurations\<close>

datatype disk_sync = SyncFsync | SyncFull | SyncNone

text \<open>
  An attachment: a disk image, an open block device (descriptor and name of the file), or a
  network block device.
\<close>

datatype attachment =
    ImageAttachment string bool
  | BlockAttachment "nat \<times> string" bool
  | NbdAttachment string int bool disk_sync

datatype storage_config =
    NVMeStorage attachment
  | BlkStorage attachment "string option"
  | USBStorage attachment
  | NbdStorage attachment string NetworkBlockDevice

datatype sharing_config = DirectoryShare string string | LinuxRosettaShare string

datatype graphics_config = VirtioGraphics int int | MacGraphics int int

datatype net_attachment = FileHandleNet nat | NATNet

record net_config =
  NetAttachment :: net_attachment
  NetMAC :: "hardware_addr option"

datatype serial_config = StdioSerial | FileSerial string

datatype vz_call =
    VzDiskImageAttachment string bool
  | VzBlockDeviceAttachment "nat \<times> string" bool
  | VzNbdAttachment string int bool disk_sync
  | VzNVMe attachment
  | VzVirtioBlock attachment
  | VzBlockDeviceIdentifier string
  | VzUSBMassStorage attachment
  | VzPointing
  | VzKeyboard
  | VzVirtioGraphics
  | VzScanout int int
  | VzMacGraphics
  | VzMacDisplay int int
  | VzSharedDirectory string
  | VzSingleDirectoryShare string
  | VzFileSystem string
  | VzRosettaShare
  | VzInstallRosetta
  | VzEntropy
  | VzBalloon
  | VzSerialAttachment serial_config
  | VzSerialPort serial_config
  | VzPtyAttachment nat
  | VzConsolePort nat
  | VzConsoleDevice
  | VzSocketDevice
  | VzMACAddress "hardware_addr option"
  | VzNetAttachment net_attachment
  | VzNetworkDevice net_attachment
  | VzEFIVariableStore string bool
  | VzEFIBootLoader string
  | VzLinuxBootLoader string string string
  | VzMacOSBootLoader
  | VzMachineConfiguration u64 u64
  | VzGenericIdentifier
  | VzGenericPlatform
  | VzNested
  | VzMacHardwareModel string
  | VzMacAuxiliaryStorage string
  | VzMacMachineIdentifier string
  | VzMacPlatform
  | VzValidate
  | VzMachine

text \<open>
  \<open>VirtualMachineConfiguration\<close>: the lists that the devices are collected in, and the
  memory balloons, which are set directly.
\<close>

record vm_configuration =
  StorageDevices :: "storage_config list"
  DirectorySharing :: "sharing_config list"
  Keyboards :: nat
  PointingDevices :: nat
  GraphicsDevices :: "graphics_config list"
  NetworkDevices :: "net_config list"
  EntropyDevices :: nat
  SerialPorts :: "serial_config list"
  SocketDevices :: nat
  ConsolePorts :: "nat list"
  Balloons :: nat

definition emptyConfiguration :: vm_configuration where
  "emptyConfiguration = \<lparr>StorageDevices = [], DirectorySharing = [], Keyboards = 0,
    PointingDevices = 0, GraphicsDevices = [], NetworkDevices = [], EntropyDevices = 0,
    SerialPorts = [], SocketDevices = 0, ConsolePorts = [], Balloons = 0\<rparr>"

subsection \<open>The environment and the state\<close>

text \<open>
  The functions that open a descriptor are given the set of open ones. What the process
  holds on the host: the files, the directories, and the descriptors it has opened. The
  exit handlers act on these. The files that the framework itself writes (the store of the
  EFI variables, the log of a serial port) are not among them.
\<close>

record resources =
  ResFiles :: file_env
  ResDirs :: "string set"
  ResFds :: "nat set"

datatype rosetta_availability = RosettaNotSupported | RosettaNotInstalled | RosettaInstalled

record vz_env =
  Vz :: "vz_call list \<Rightarrow> vz_call \<Rightarrow> error option"
  Arm64 :: bool
  LstatIsBlock :: "string \<Rightarrow> error + bool"
  OpenDevice :: "nat set \<Rightarrow> string \<Rightarrow> bool \<Rightarrow> error + nat"
  RosettaAvailability :: rosetta_availability
  Tcgetattr :: "nat \<Rightarrow> error option"
  Tcsetattr :: "nat \<Rightarrow> error option"
  OpenPty :: "nat set \<Rightarrow> error + (nat \<times> nat \<times> string)"
  VfPid :: nat
  RandInt31n :: nat
  CreateExclErr :: "string \<Rightarrow> error option"
  BindUnix :: "string \<Rightarrow> error option"
  ConnectUnix :: "string \<Rightarrow> string \<Rightarrow> error option"
  SyscallConnErr :: "error option"
  ControlErr :: "error option"
  SendErr :: "error option"
  DupFile :: "nat set \<Rightarrow> error + nat"
  CloseConnErr :: "error option"
  IpHost :: "string \<Rightarrow> error + string"
  MachineValid :: bool

record vf_state =
  VfRes :: resources
  VfHandlers :: "resources exit_registry"
  VzCalls :: "vz_call list"
  PlatformType :: string
  VfConfig :: vm_configuration

type_synonym 'a vf = "vf_state \<Rightarrow> (error + 'a) \<times> vf_state"

text \<open>One call to the framework.\<close>

definition vz_do :: "vz_env \<Rightarrow> vz_call \<Rightarrow> unit vf" where
  "vz_do env call st =
    (let st' = st\<lparr>VzCalls := VzCalls st @ [call]\<rparr> in
     case Vz env (VzCalls st) call of
       Some e \<Rightarrow> (Inl e, st')
     | None \<Rightarrow> (Inr (), st'))"

text \<open>A call whose error is returned as \<open>fmt.Errorf\<close> makes it, with \<open>%w\<close> or \<open>%v\<close>.\<close>

definition wrapW :: "string \<Rightarrow> 'a vf \<Rightarrow> 'a vf" where
  "wrapW s m st = (case m st of (Inl e, st') \<Rightarrow> (Inl (ErrorfW s e), st') | (Inr a, st') \<Rightarrow> (Inr a, st'))"

definition wrapV :: "string \<Rightarrow> 'a vf \<Rightarrow> 'a vf" where
  "wrapV s m st = (case m st of (Inl e, st') \<Rightarrow> (Inl (ErrorfV s e), st') | (Inr a, st') \<Rightarrow> (Inr a, st'))"

text \<open>A change of the state, and a function of the operating system with its outcome.\<close>

definition modify :: "(vf_state \<Rightarrow> vf_state) \<Rightarrow> unit vf" where
  "modify f st = (Inr (), f st)"

definition check :: "error option \<Rightarrow> unit vf" where
  "check r st = (case r of Some e \<Rightarrow> (Inl e, st) | None \<Rightarrow> (Inr (), st))"

definition update_config :: "(vm_configuration \<Rightarrow> vm_configuration) \<Rightarrow> unit vf" where
  "update_config f = modify (\<lambda>st. st\<lparr>VfConfig := f (VfConfig st)\<rparr>)"

definition register :: "(resources \<Rightarrow> resources) \<Rightarrow> unit vf" where
  "register h = modify (\<lambda>st. st\<lparr>VfHandlers := RegisterExitHandler h (VfHandlers st)\<rparr>)"

definition on_resources :: "(resources \<Rightarrow> resources) \<Rightarrow> unit vf" where
  "on_resources f = modify (\<lambda>st. st\<lparr>VfRes := f (VfRes st)\<rparr>)"

definition open_fd :: "nat \<Rightarrow> resources \<Rightarrow> resources" where
  "open_fd fd r = r\<lparr>ResFds := insert fd (ResFds r)\<rparr>"

definition close_fd :: "nat \<Rightarrow> resources \<Rightarrow> resources" where
  "close_fd fd r = r\<lparr>ResFds := ResFds r - {fd}\<rparr>"

definition remove_file :: "string \<Rightarrow> resources \<Rightarrow> resources" where
  "remove_file path r = r\<lparr>ResFiles := os_Remove path (ResFiles r)\<rparr>"

text \<open>A unix socket is a file that cannot be opened for reading.\<close>

definition bind_socket :: "string \<Rightarrow> resources \<Rightarrow> resources" where
  "bind_socket path r = r\<lparr>ResFiles := (ResFiles r)(path := OpenFails (Sys ''socket''))\<rparr>"

end
