(* ===== verification/VzDevices.thy ===== *)
theory VzDevices
  imports VzState
begin

section \<open>Adding devices to the configuration\<close>

text \<open>
  \<open>pkg/vf/virtio.go\<close>: \<open>toVz\<close> and \<open>AddToVirtualMachineConfig\<close> of every device but the
  network, and the checks of \<open>rosetta_arm64.go\<close>. Log messages are left out.
\<close>

subsection \<open>Storage\<close>

text \<open>The check and the opening of a block device file.\<close>

definition open_block_device :: "vz_env \<Rightarrow> string \<Rightarrow> bool \<Rightarrow> (nat \<times> string) vf" where
  "open_block_device env path readOnly st =
    (case LstatIsBlock env path of
       Inl e \<Rightarrow> (Inl (ErrorfV ''error stating file'' e), st)
     | Inr isBlock \<Rightarrow>
         if \<not> isBlock then (Inl (Errorf (''file '' @ path @ '' is not a block device'')), st)
         else case OpenDevice env (ResFds (VfRes st)) path readOnly of
           Inl e \<Rightarrow> (Inl (ErrorfV ''error opening file'' e), st)
         | Inr fd \<Rightarrow> (Inr (fd, path), st\<lparr>VfRes := open_fd fd (VfRes st)\<rparr>))"

text \<open>The file is closed at once when there is no attachment for it, else on exit.\<close>

definition attach_block_device :: "vz_env \<Rightarrow> bool \<Rightarrow> nat \<times> string \<Rightarrow> attachment vf" where
  "attach_block_device env readOnly f st =
    (case vz_do env (VzBlockDeviceAttachment f readOnly) st of
       (Inl e, st) \<Rightarrow>
         bindS (on_resources (close_fd (fst f)))
           (\<lambda>_. returnS (Inl (ErrorfV ''error creating disk attachment'' e))) st
     | (Inr _, st) \<Rightarrow>
         bindS (register (close_fd (fst f))) (\<lambda>_. returnS (Inr (BlockAttachment f readOnly))) st)"

definition DiskStorageConfig_toVz :: "vz_env \<Rightarrow> 'a DiskStorageConfig_scheme \<Rightarrow> attachment vf" where
  "DiskStorageConfig_toVz env conf =
    (if DiskType conf = DiskBackendImage \<or> DiskType conf = DiskBackendDefault then
       if ImagePath conf = [] then
         returnS (Inl (Errorf (''missing mandatory 'path' option for '' @ DevName conf @ '' device'')))
       else
         bindS (vz_do env (VzDiskImageAttachment (ImagePath conf) (ReadOnly conf)))
           (\<lambda>_. returnS (Inr (ImageAttachment (ImagePath conf) (ReadOnly conf))))
     else if DiskType conf = DiskBackendBlockDevice then
       bindS (open_block_device env (ImagePath conf) (ReadOnly conf))
         (attach_block_device env (ReadOnly conf))
     else returnS (Inl (Errorf (''unknown disk backend type: '' @ DiskType conf))))"

definition add_storage :: "storage_config \<Rightarrow> unit vf" where
  "add_storage c = update_config (\<lambda>cfg. cfg\<lparr>StorageDevices := StorageDevices cfg @ [c]\<rparr>)"

definition NVMExpressController_toVz :: "vz_env \<Rightarrow> NVMExpressController \<Rightarrow> storage_config vf" where
  "NVMExpressController_toVz env dev =
    bindS (DiskStorageConfig_toVz env dev) (\<lambda>attachment.
    bindS (vz_do env (VzNVMe attachment)) (\<lambda>_. returnS (Inr (NVMeStorage attachment))))"

definition NVMExpressController_Add :: "vz_env \<Rightarrow> NVMExpressController \<Rightarrow> unit vf" where
  "NVMExpressController_Add env dev = bindS (NVMExpressController_toVz env dev) add_storage"

definition USBMassStorage_toVz :: "vz_env \<Rightarrow> USBMassStorage \<Rightarrow> storage_config vf" where
  "USBMassStorage_toVz env dev =
    bindS (DiskStorageConfig_toVz env dev) (\<lambda>attachment.
    bindS (vz_do env (VzUSBMassStorage attachment)) (\<lambda>_. returnS (Inr (USBStorage attachment))))"

definition USBMassStorage_Add :: "vz_env \<Rightarrow> USBMassStorage \<Rightarrow> unit vf" where
  "USBMassStorage_Add env dev = bindS (USBMassStorage_toVz env dev) add_storage"

definition VirtioBlk_toVz :: "vz_env \<Rightarrow> VirtioBlk \<Rightarrow> storage_config vf" where
  "VirtioBlk_toVz env dev =
    bindS (DiskStorageConfig_toVz env dev) (\<lambda>attachment.
    bindS (vz_do env (VzVirtioBlock attachment)) (\<lambda>_.
      if BlkDeviceIdentifier dev \<noteq> [] then
        bindS (vz_do env (VzBlockDeviceIdentifier (BlkDeviceIdentifier dev)))
          (\<lambda>_. returnS (Inr (BlkStorage attachment (Some (BlkDeviceIdentifier dev)))))
      else returnS (Inr (BlkStorage attachment None))))"

definition VirtioBlk_Add :: "vz_env \<Rightarrow> VirtioBlk \<Rightarrow> unit vf" where
  "VirtioBlk_Add env dev =
    bindS (VirtioBlk_toVz env dev) (\<lambda>storageDeviceConfig.
      if \<not> DiskBackendType_IsValid (DiskType dev) then
        returnS (Inl (Errorf (''invalid disk type: '' @ DiskType dev)))
      else add_storage storageDeviceConfig)"

subsection \<open>Network block devices\<close>

definition validateNbdURI :: "vz_env \<Rightarrow> string \<Rightarrow> error + unit" where
  "validateNbdURI env uri =
    (if uri = [] then Inl (Errorf '''uri' must be specified'')
     else case url_Parse (IpHost env) uri of
       Inl e \<Rightarrow> Inl (ErrorfW ''error'' e)
     | Inr parsed \<Rightarrow>
         if UrlScheme parsed \<notin> set [''nbd'', ''nbds'', ''nbd+unix'', ''nbds+unix''] then
           Inl (Errorf (''invalid scheme: '' @ UrlScheme parsed
             @ ''. Expected one of: 'nbd', 'nbds', 'nbd+unix', or 'nbds+unix'' @ [CHR 0x27]))
         else Inr ())"

definition validateNbdDeviceIdentifier :: "string \<Rightarrow> error + unit" where
  "validateNbdDeviceIdentifier deviceID =
    (if deviceID = [] then Inl (Errorf '''deviceId' must be specified'')
     else if CHR ''/'' \<in> set deviceID then
       Inl (Errorf ''invalid 'deviceId': it cannot contain any forward slash'')
     else if 255 < length deviceID then
       Inl (Errorf ''invalid 'deviceId': exceeds maximum length'')
     else Inr ())"

definition SynchronizationModeVZ :: "NetworkBlockDevice \<Rightarrow> disk_sync" where
  "SynchronizationModeVZ dev =
    (if SynchronizationMode dev = SynchronizationNoneMode then SyncNone else SyncFull)"

text \<open>The two errors are formatted with their text, not wrapped.\<close>

definition NetworkBlockDevice_toVz :: "vz_env \<Rightarrow> NetworkBlockDevice \<Rightarrow> storage_config vf" where
  "NetworkBlockDevice_toVz env dev =
    bindS (wrapV (''invalid NBD device 'uri'' @ [CHR 0x27]) (returnS (validateNbdURI env (URI dev)))) (\<lambda>_.
    bindS (wrapV (''invalid NBD device 'deviceId'' @ [CHR 0x27])
        (returnS (validateNbdDeviceIdentifier (NbdDeviceIdentifier dev)))) (\<lambda>_.
    let attachment = NbdAttachment (URI dev) (Timeout dev) (ReadOnly dev) (SynchronizationModeVZ dev) in
    bindS (vz_do env (VzNbdAttachment (URI dev) (Timeout dev) (ReadOnly dev) (SynchronizationModeVZ dev))) (\<lambda>_.
    bindS (vz_do env (VzVirtioBlock attachment)) (\<lambda>_.
    bindS (vz_do env (VzBlockDeviceIdentifier (NbdDeviceIdentifier dev))) (\<lambda>_.
      returnS (Inr (NbdStorage attachment (NbdDeviceIdentifier dev) dev)))))))"

definition NetworkBlockDevice_Add :: "vz_env \<Rightarrow> NetworkBlockDevice \<Rightarrow> unit vf" where
  "NetworkBlockDevice_Add env dev = bindS (NetworkBlockDevice_toVz env dev) add_storage"

subsection \<open>Input and graphics\<close>

datatype input_config = PointingConfig | KeyboardConfig

definition VirtioInput_toVz :: "vz_env \<Rightarrow> VirtioInput \<Rightarrow> input_config vf" where
  "VirtioInput_toVz env dev =
    (if InputType dev = VirtioInputPointingDevice then
       bindS (wrapW ''failed to create pointing device configuration'' (vz_do env VzPointing))
         (\<lambda>_. returnS (Inr PointingConfig))
     else
       bindS (wrapW ''failed to create keyboard device configuration'' (vz_do env VzKeyboard))
         (\<lambda>_. returnS (Inr KeyboardConfig)))"

definition VirtioInput_Add :: "vz_env \<Rightarrow> VirtioInput \<Rightarrow> unit vf" where
  "VirtioInput_Add env dev =
    bindS (VirtioInput_toVz env dev) (\<lambda>conf.
      if conf = PointingConfig then update_config (\<lambda>cfg. cfg\<lparr>PointingDevices := Suc (PointingDevices cfg)\<rparr>)
      else update_config (\<lambda>cfg. cfg\<lparr>Keyboards := Suc (Keyboards cfg)\<rparr>))"

definition newVirtioGraphicsDeviceConfiguration :: "vz_env \<Rightarrow> VirtioGPU \<Rightarrow> graphics_config vf" where
  "newVirtioGraphicsDeviceConfiguration env dev =
    bindS (wrapW ''failed to initialize virtio graphics device'' (vz_do env VzVirtioGraphics)) (\<lambda>_.
    bindS (wrapW ''failed to create graphics scanout'' (vz_do env (VzScanout (Width dev) (Height dev)))) (\<lambda>_.
      returnS (Inr (VirtioGraphics (Width dev) (Height dev)))))"

text \<open>\<open>vm_arm64.go\<close> and \<open>vm_amd64.go\<close>\<close>

definition no_macos :: error where
  "no_macos = Errorf ''running macOS guests is only supported on ARM devices''"

definition newMacGraphicsDeviceConfiguration :: "vz_env \<Rightarrow> VirtioGPU \<Rightarrow> graphics_config vf" where
  "newMacGraphicsDeviceConfiguration env dev =
    (if \<not> Arm64 env then returnS (Inl no_macos)
     else
       bindS (wrapW ''failed to initialize macOS graphics device'' (vz_do env VzMacGraphics)) (\<lambda>_.
       bindS (wrapW ''failed to create macOS graphics configuration''
           (vz_do env (VzMacDisplay (Width dev) (Height dev)))) (\<lambda>_.
         returnS (Inr (MacGraphics (Width dev) (Height dev))))))"

definition VirtioGPU_toVz :: "vz_env \<Rightarrow> VirtioGPU \<Rightarrow> graphics_config vf" where
  "VirtioGPU_toVz env dev st =
    (if PlatformType st = ''macos'' then newMacGraphicsDeviceConfiguration env dev st
     else newVirtioGraphicsDeviceConfiguration env dev st)"

definition VirtioGPU_Add :: "vz_env \<Rightarrow> VirtioGPU \<Rightarrow> unit vf" where
  "VirtioGPU_Add env dev =
    bindS (VirtioGPU_toVz env dev) (\<lambda>c.
      update_config (\<lambda>cfg. cfg\<lparr>GraphicsDevices := GraphicsDevices cfg @ [c]\<rparr>))"

subsection \<open>Directory sharing\<close>

definition add_sharing :: "sharing_config \<Rightarrow> unit vf" where
  "add_sharing c = update_config (\<lambda>cfg. cfg\<lparr>DirectorySharing := DirectorySharing cfg @ [c]\<rparr>)"

definition VirtioFs_toVz :: "vz_env \<Rightarrow> VirtioFs \<Rightarrow> sharing_config vf" where
  "VirtioFs_toVz env dev =
    (if SharedDir dev = [] then
       returnS (Inl (Errorf ''missing mandatory 'sharedDir' option for virtio-fs device''))
     else
       let mountTag = (if MountTag dev \<noteq> [] then MountTag dev else filepath_Base (SharedDir dev)) in
       bindS (vz_do env (VzSharedDirectory (SharedDir dev))) (\<lambda>_.
       bindS (vz_do env (VzSingleDirectoryShare (SharedDir dev))) (\<lambda>_.
       bindS (vz_do env (VzFileSystem mountTag)) (\<lambda>_.
         returnS (Inr (DirectoryShare mountTag (SharedDir dev)))))))"

definition VirtioFs_Add :: "vz_env \<Rightarrow> VirtioFs \<Rightarrow> unit vf" where
  "VirtioFs_Add env dev = bindS (VirtioFs_toVz env dev) add_sharing"

text \<open>Rosetta may have to be installed; a failed installation can be ignored.\<close>

definition checkRosettaAvailability :: "vz_env \<Rightarrow> RosettaShare \<Rightarrow> unit vf" where
  "checkRosettaAvailability env dev =
    (case RosettaAvailability env of
       RosettaNotSupported \<Rightarrow> returnS (Inl (Errorf ''rosetta is not supported''))
     | RosettaNotInstalled \<Rightarrow>
         if \<not> InstallRosetta dev then returnS (Inl (Errorf ''rosetta is not installed''))
         else (\<lambda>st. case vz_do env VzInstallRosetta st of
             (Inl e, st) \<Rightarrow>
               if IgnoreIfMissing dev then (Inr (), st)
               else (Inl (ErrorfW ''failed to install rosetta'' e), st)
           | (Inr _, st) \<Rightarrow> (Inr (), st))
     | RosettaInstalled \<Rightarrow> returnS (Inr ()))"

definition RosettaShare_toVz :: "vz_env \<Rightarrow> RosettaShare \<Rightarrow> sharing_config vf" where
  "RosettaShare_toVz env dev =
    (if MountTag dev = [] then
       returnS (Inl (Errorf ''missing mandatory 'mountTage' option for rosetta share''))
     else
       bindS (checkRosettaAvailability env dev) (\<lambda>_.
       bindS (wrapW ''failed to create a new rosetta directory share'' (vz_do env VzRosettaShare)) (\<lambda>_.
       bindS (wrapW ''failed to create a new virtio file system configuration for rosetta''
           (vz_do env (VzFileSystem (MountTag dev)))) (\<lambda>_.
         returnS (Inr (LinuxRosettaShare (MountTag dev)))))))"

definition RosettaShare_Add :: "vz_env \<Rightarrow> RosettaShare \<Rightarrow> unit vf" where
  "RosettaShare_Add env dev =
    (if \<not> Arm64 env then returnS (Inl (Errorf ''rosetta is unsupported on non-arm64 platforms''))
     else bindS (RosettaShare_toVz env dev) add_sharing)"

subsection \<open>Entropy, balloon, vsock\<close>

definition VirtioRng_toVz :: "vz_env \<Rightarrow> VirtioRng \<Rightarrow> unit vf" where
  "VirtioRng_toVz env dev = vz_do env VzEntropy"

definition VirtioRng_Add :: "vz_env \<Rightarrow> VirtioRng \<Rightarrow> unit vf" where
  "VirtioRng_Add env dev =
    bindS (VirtioRng_toVz env dev)
      (\<lambda>_. update_config (\<lambda>cfg. cfg\<lparr>EntropyDevices := Suc (EntropyDevices cfg)\<rparr>))"

definition VirtioBalloon_toVz :: "vz_env \<Rightarrow> VirtioBalloon \<Rightarrow> unit vf" where
  "VirtioBalloon_toVz env dev = vz_do env VzBalloon"

text \<open>The list of balloons is set, not extended: a second balloon replaces the first.\<close>

definition VirtioBalloon_Add :: "vz_env \<Rightarrow> VirtioBalloon \<Rightarrow> unit vf" where
  "VirtioBalloon_Add env dev =
    bindS (VirtioBalloon_toVz env dev) (\<lambda>_. update_config (\<lambda>cfg. cfg\<lparr>Balloons := 1\<rparr>))"

definition VirtioVsock_Add :: "vz_env \<Rightarrow> VirtioVsock \<Rightarrow> unit vf" where
  "VirtioVsock_Add env dev st =
    (if SocketDevices (VfConfig st) \<noteq> 0 then (Inr (), st)
     else bindS (vz_do env VzSocketDevice)
       (\<lambda>_. update_config (\<lambda>cfg. cfg\<lparr>SocketDevices := Suc (SocketDevices cfg)\<rparr>)) st)"

subsection \<open>Serial ports\<close>

definition setRawMode :: "vz_env \<Rightarrow> nat \<Rightarrow> unit vf" where
  "setRawMode env fd = bindS (check (Tcgetattr env fd)) (\<lambda>_. check (Tcsetattr env fd))"

text \<open>Standard input is descriptor 0.\<close>

definition VirtioSerial_toVz :: "vz_env \<Rightarrow> VirtioSerial \<Rightarrow> serial_config vf" where
  "VirtioSerial_toVz env dev =
    (let c = (if UsesStdio dev then StdioSerial else FileSerial (LogFile dev)) in
     bindS (if UsesStdio dev then setRawMode env 0 else returnS (Inr ())) (\<lambda>_.
     bindS (vz_do env (VzSerialAttachment c)) (\<lambda>_.
     bindS (vz_do env (VzSerialPort c)) (\<lambda>_. returnS (Inr c)))))"

definition open_pty :: "vz_env \<Rightarrow> (nat \<times> nat \<times> string) vf" where
  "open_pty env st =
    (case OpenPty env (ResFds (VfRes st)) of
       Inl e \<Rightarrow> (Inl e, st)
     | Inr (master, slave, name) \<Rightarrow>
         (Inr (master, slave, name),
          st\<lparr>VfRes := open_fd slave (open_fd master (VfRes st))\<rparr>))"

text \<open>The two ends of the terminal stay open until the exit.\<close>

definition open_console :: "vz_env \<Rightarrow> (nat \<times> string) vf" where
  "open_console env =
    bindS (open_pty env) (\<lambda>(master, slave, name).
    bindS (register (\<lambda>r. close_fd slave (close_fd master r))) (\<lambda>_.
      returnS (Inr (master, name))))"

text \<open>Returns the console port and the device with its \<open>PtyName\<close> set.\<close>

definition VirtioSerial_toVzConsole :: "vz_env \<Rightarrow> VirtioSerial \<Rightarrow> (nat \<times> VirtioSerial) vf" where
  "VirtioSerial_toVzConsole env dev =
    bindS (open_console env) (\<lambda>(master, name).
    bindS (setRawMode env master) (\<lambda>_.
    bindS (vz_do env (VzPtyAttachment master)) (\<lambda>_.
    bindS (vz_do env (VzConsolePort master)) (\<lambda>_.
      returnS (Inr (master, dev\<lparr>PtyName := name\<rparr>))))))"

definition VirtioSerial_Add :: "vz_env \<Rightarrow> VirtioSerial \<Rightarrow> VirtioSerial vf" where
  "VirtioSerial_Add env dev =
    (if PtyName dev \<noteq> [] then
       returnS (Inl (Errorf (''VirtioSerial.PtyName must be empty (current value: '' @ PtyName dev @ '')'')))
     else if UsesPty dev then
       bindS (VirtioSerial_toVzConsole env dev) (\<lambda>(port, dev).
       bindS (update_config (\<lambda>cfg. cfg\<lparr>ConsolePorts := ConsolePorts cfg @ [port]\<rparr>))
         (\<lambda>_. returnS (Inr dev)))
     else
       bindS (VirtioSerial_toVz env dev) (\<lambda>c.
       bindS (update_config (\<lambda>cfg. cfg\<lparr>SerialPorts := SerialPorts cfg @ [c]\<rparr>))
         (\<lambda>_. returnS (Inr dev))))"

end
