(* ===== verification/VzNet.thy ===== *)
theory VzNet
  imports VzState
begin

section \<open>Network devices on the host\<close>

text \<open>
  \<open>pkg/vf/virtionet.go\<close>: a device with a unix socket path is connected to it from a local
  socket next to it, and the connection's descriptor takes the place of the path.
\<close>

text \<open>\<open>VirtioNet\<close> of \<open>pkg/vf\<close>: the device and the address of its local socket.\<close>

record vf_VirtioNet = VirtioNet +
  LocalAddr :: "string option"

text \<open>The file is created exclusively, and removed again when the function returns.\<close>

definition local_socket_name :: "vz_env \<Rightarrow> string \<Rightarrow> string" where
  "local_socket_name env dir = filepath_Join dir
    (''vfkit-'' @ hex (VfPid env) @ ''-'' @ hex (RandInt31n env) @ ''.sock'')"

definition localUnixSocketPath :: "vz_env \<Rightarrow> string \<Rightarrow> string vf" where
  "localUnixSocketPath env dir =
    (let filename = local_socket_name env dir
     in bindS (check (CreateExclErr env filename)) (\<lambda>_.
        bindS (on_resources (remove_file filename)) (\<lambda>_. returnS (Inr filename))))"

definition maxUnixgramPathLen :: nat where
  "maxUnixgramPathLen = 104"

text \<open>
  \<open>net.DialUnix\<close> binds the local address, which makes the socket, and then connects it: a
  socket that cannot be connected is closed, but stays as a file.
\<close>

definition dial_unix :: "vz_env \<Rightarrow> string \<Rightarrow> string \<Rightarrow> unit vf" where
  "dial_unix env local_addr remote_addr =
    bindS (check (BindUnix env local_addr)) (\<lambda>_.
    bindS (on_resources (bind_socket local_addr)) (\<lambda>_.
      check (ConnectUnix env local_addr remote_addr)))"

definition dup_file :: "vz_env \<Rightarrow> nat vf" where
  "dup_file env st =
    (case DupFile env (ResFds (VfRes st)) of
       Inl e \<Rightarrow> (Inl e, st)
     | Inr fd \<Rightarrow> (Inr fd, st\<lparr>VfRes := open_fd fd (VfRes st)\<rparr>))"

text \<open>
  The connection itself is closed on every path. The errors of the two \<open>SetsockoptInt\<close>
  stay in a variable of the inner function and have no effect.
\<close>

definition connectUnixPath :: "vz_env \<Rightarrow> vf_VirtioNet \<Rightarrow> vf_VirtioNet vf" where
  "connectUnixPath env dev =
    bindS (localUnixSocketPath env (filepath_Dir (UnixSocketPath dev))) (\<lambda>localSocketPath.
    if maxUnixgramPathLen \<le> length localSocketPath then
      returnS (Inl (Errorf (''unixgram path '' @ [CHR 0x27] @ localSocketPath @ [CHR 0x27] @ '' is too long: ''
        @ dec (length localSocketPath) @ '' >= '' @ dec maxUnixgramPathLen @ '' bytes'')))
    else
      bindS (dial_unix env localSocketPath (UnixSocketPath dev)) (\<lambda>_.
      bindS (check (SyscallConnErr env)) (\<lambda>_.
      bindS (check (ControlErr env)) (\<lambda>_.
      bindS (if VfkitMagic dev then check (SendErr env) else returnS (Inr ())) (\<lambda>_.
      bindS (dup_file env) (\<lambda>dupFd.
      bindS (check (CloseConnErr env)) (\<lambda>_.
        returnS (Inr (dev\<lparr>Socket := Some dupFd, LocalAddr := Some localSocketPath,
          UnixSocketPath := []\<rparr>)))))))))"

text \<open>The hardware address is drawn at random when the device has none.\<close>

definition VirtioNet_toVz :: "vz_env \<Rightarrow> vf_VirtioNet \<Rightarrow> net_config vf" where
  "VirtioNet_toVz env dev =
    (let mac = (if length (MacAddress dev) = 0 then None else Some (MacAddress dev));
         attachment = (case Socket dev of Some fd \<Rightarrow> FileHandleNet fd | None \<Rightarrow> NATNet)
     in bindS (vz_do env (VzMACAddress mac)) (\<lambda>_.
        bindS (vz_do env (VzNetAttachment attachment)) (\<lambda>_.
        bindS (vz_do env (VzNetworkDevice attachment)) (\<lambda>_.
          returnS (Inr \<lparr>NetAttachment = attachment, NetMAC = mac\<rparr>)))))"

definition Shutdown :: "vf_VirtioNet \<Rightarrow> resources \<Rightarrow> resources" where
  "Shutdown dev r =
    (let r = (case LocalAddr dev of Some name \<Rightarrow> remove_file name r | None \<Rightarrow> r)
     in case Socket dev of Some fd \<Rightarrow> close_fd fd r | None \<Rightarrow> r)"

text \<open>Returns the device, which the connection has changed.\<close>

definition VirtioNet_Add :: "vz_env \<Rightarrow> VirtioNet \<Rightarrow> VirtioNet vf" where
  "VirtioNet_Add env d =
    (let dev = VirtioNet.extend d \<lparr>LocalAddr = None\<rparr> in
     bindS (if UnixSocketPath dev \<noteq> [] then connectUnixPath env dev else returnS (Inr dev)) (\<lambda>dev.
     bindS (register (Shutdown dev)) (\<lambda>_.
     bindS (VirtioNet_toVz env dev) (\<lambda>netConfig.
     bindS (update_config (\<lambda>cfg. cfg\<lparr>NetworkDevices := NetworkDevices cfg @ [netConfig]\<rparr>)) (\<lambda>_.
       returnS (Inr (VirtioNet.truncate dev)))))))"

end
