(* ===== verification/VzMachine.thy ===== *)
theory VzMachine
  imports VzDevices VzNet
begin

section \<open>From the configuration to a virtual machine\<close>

text \<open>
  \<open>pkg/vf/vm.go\<close>, \<open>bootloader.go\<close> and the platform files: the bootloader, the platform,
  and the loop over the devices.
\<close>

subsection \<open>Bootloaders\<close>

definition compareBytes :: "string \<Rightarrow> string \<Rightarrow> nat \<Rightarrow> bool" where
  "compareBytes buf subSlice startOffset =
    (let sl = length subSlice in
     if length buf < startOffset + sl then False
     else take sl (drop startOffset buf) = subSlice)"

definition isUncompressedArm64Kernel :: "string \<Rightarrow> bool" where
  "isUncompressedArm64Kernel buf =
    compareBytes buf [CHR 0x41, CHR 0x52, CHR 0x4D, CHR 0x64] 0x38"

text \<open>Reads into a buffer of 2048 zero bytes; reading an empty file is an error.\<close>

definition isKernelUncompressed :: "file_env \<Rightarrow> string \<Rightarrow> error + bool" where
  "isKernelUncompressed fs filename =
    bindE (os_ReadFile fs filename) (\<lambda>c.
      if c = [] then Inl (Sys ''EOF'')
      else Inr (isUncompressedArm64Kernel (take 2048 c @ replicate (2048 - length c) (CHR 0x00))))"

definition toVzLinuxBootloader :: "vz_env \<Rightarrow> LinuxBootloader \<Rightarrow> unit vf" where
  "toVzLinuxBootloader env b st =
    (let call = VzLinuxBootLoader (VmlinuzPath b) (KernelCmdLine b) (InitrdPath b) in
     if Arm64 env then
       (case isKernelUncompressed (ResFiles (VfRes st)) (VmlinuzPath b) of
          Inl e \<Rightarrow> (Inl e, st)
        | Inr uncompressed \<Rightarrow>
            if \<not> uncompressed then
              (Inl (Errorf (''kernel must be uncompressed, '' @ VmlinuzPath b @ '' is a compressed file'')), st)
            else vz_do env call st)
     else vz_do env call st)"

definition toVzEFIBootloader :: "vz_env \<Rightarrow> EFIBootloader \<Rightarrow> unit vf" where
  "toVzEFIBootloader env b =
    bindS (vz_do env (VzEFIVariableStore (EFIVariableStorePath b) (CreateVariableStore b)))
      (\<lambda>_. vz_do env (VzEFIBootLoader (EFIVariableStorePath b)))"

definition toVzMacOSBootloader :: "vz_env \<Rightarrow> MacOSBootloader \<Rightarrow> unit vf" where
  "toVzMacOSBootloader env b =
    (if Arm64 env then vz_do env VzMacOSBootLoader else returnS (Inl no_macos))"

definition toVzBootloader :: "vz_env \<Rightarrow> bootloader option \<Rightarrow> unit vf" where
  "toVzBootloader env b =
    (case b of
       Some (BootLinux l) \<Rightarrow> toVzLinuxBootloader env l
     | Some (BootEFI e) \<Rightarrow> toVzEFIBootloader env e
     | Some (BootMacOS m) \<Rightarrow> toVzMacOSBootloader env m
     | None \<Rightarrow> returnS (Inl (Errorf ''unexpected bootloader type: <nil>'')))"

subsection \<open>Devices\<close>

text \<open>Returns the device as the call leaves it.\<close>

fun AddToVirtualMachineConfig :: "vz_env \<Rightarrow> device \<Rightarrow> device vf" where
  "AddToVirtualMachineConfig env (DevUSB d) =
     bindS (USBMassStorage_Add env d) (\<lambda>_. returnS (Inr (DevUSB d)))"
| "AddToVirtualMachineConfig env (DevBlk d) =
     bindS (VirtioBlk_Add env d) (\<lambda>_. returnS (Inr (DevBlk d)))"
| "AddToVirtualMachineConfig env (DevRosetta d) =
     bindS (RosettaShare_Add env d) (\<lambda>_. returnS (Inr (DevRosetta d)))"
| "AddToVirtualMachineConfig env (DevNVMe d) =
     bindS (NVMExpressController_Add env d) (\<lambda>_. returnS (Inr (DevNVMe d)))"
| "AddToVirtualMachineConfig env (DevFs d) =
     bindS (VirtioFs_Add env d) (\<lambda>_. returnS (Inr (DevFs d)))"
| "AddToVirtualMachineConfig env (DevNet d) =
     bindS (VirtioNet_Add env d) (\<lambda>d. returnS (Inr (DevNet d)))"
| "AddToVirtualMachineConfig env (DevRng d) =
     bindS (VirtioRng_Add env d) (\<lambda>_. returnS (Inr (DevRng d)))"
| "AddToVirtualMachineConfig env (DevSerial d) =
     bindS (VirtioSerial_Add env d) (\<lambda>d. returnS (Inr (DevSerial d)))"
| "AddToVirtualMachineConfig env (DevVsock d) =
     bindS (VirtioVsock_Add env d) (\<lambda>_. returnS (Inr (DevVsock d)))"
| "AddToVirtualMachineConfig env (DevInput d) =
     bindS (VirtioInput_Add env d) (\<lambda>_. returnS (Inr (DevInput d)))"
| "AddToVirtualMachineConfig env (DevGPU d) =
     bindS (VirtioGPU_Add env d) (\<lambda>_. returnS (Inr (DevGPU d)))"
| "AddToVirtualMachineConfig env (DevBalloon d) =
     bindS (VirtioBalloon_Add env d) (\<lambda>_. returnS (Inr (DevBalloon d)))"
| "AddToVirtualMachineConfig env (DevNbd d) =
     bindS (NetworkBlockDevice_Add env d) (\<lambda>_. returnS (Inr (DevNbd d)))"

fun add_devices :: "vz_env \<Rightarrow> device list \<Rightarrow> device list vf" where
  "add_devices env [] = returnS (Inr [])"
| "add_devices env (dev # devs) =
     bindS (AddToVirtualMachineConfig env dev) (\<lambda>dev.
     bindS (add_devices env devs) (\<lambda>devs. returnS (Inr (dev # devs))))"

text \<open>The vsock device that time synchronisation or ignition needs for its port.\<close>

definition add_vsock_for :: "vz_env \<Rightarrow> u32 option \<Rightarrow> unit vf" where
  "add_vsock_for env port =
    (case port of
       None \<Rightarrow> returnS (Inr ())
     | Some port \<Rightarrow>
         if port \<noteq> 0 then VirtioVsock_Add env \<lparr>Port = port, SocketURL = [], Listen = False\<rparr>
         else returnS (Inr ()))"

definition add_console :: "vz_env \<Rightarrow> unit vf" where
  "add_console env st =
    (if 0 < length (ConsolePorts (VfConfig st)) then vz_do env VzConsoleDevice st else (Inr (), st))"

definition cfg_toVz :: "vz_env \<Rightarrow> VirtualMachine \<Rightarrow> VirtualMachine vf" where
  "cfg_toVz env vm =
    bindS (add_devices env (VmDevices vm)) (\<lambda>devices.
    bindS (add_vsock_for env (map_option TimeSyncPort (Timesync vm))) (\<lambda>_.
    bindS (add_vsock_for env (map_option VsockPort (VmIgnition vm))) (\<lambda>_.
    bindS (add_console env) (\<lambda>_.
    bindS (vz_do env VzValidate) (\<lambda>_.
      if \<not> MachineValid env then returnS (Inl (Errorf ''invalid virtual machine configuration''))
      else returnS (Inr (vm\<lparr>VmDevices := devices\<rparr>)))))))"

subsection \<open>Machines\<close>

definition NewVirtualMachineConfiguration :: "vz_env \<Rightarrow> VirtualMachine \<Rightarrow> unit vf" where
  "NewVirtualMachineConfiguration env vm =
    bindS (toVzBootloader env (VmBootloader vm)) (\<lambda>_.
    bindS (vz_do env (VzMachineConfiguration (Vcpus vm) (Memory vm))) (\<lambda>_.
      update_config (\<lambda>_. emptyConfiguration)))"

definition NewGenericPlatformConfiguration :: "vz_env \<Rightarrow> VirtualMachine \<Rightarrow> unit vf" where
  "NewGenericPlatformConfiguration env vm =
    bindS (wrapV ''error generating vz identifier'' (vz_do env VzGenericIdentifier)) (\<lambda>_.
    bindS (wrapW ''error creating generic platform configuration'' (vz_do env VzGenericPlatform)) (\<lambda>_.
      if Nested vm then
        wrapW ''error setting nested virtualization enabled'' (vz_do env VzNested)
      else returnS (Inr ())))"

definition NewMacPlatformConfiguration :: "vz_env \<Rightarrow> MacOSBootloader \<Rightarrow> unit vf" where
  "NewMacPlatformConfiguration env b =
    (if \<not> Arm64 env then returnS (Inl no_macos)
     else
       bindS (wrapW ''hardwareModel error'' (vz_do env (VzMacHardwareModel (HardwareModelPath b)))) (\<lambda>_.
       bindS (wrapW ''macAuxiliaryStorage error'' (vz_do env (VzMacAuxiliaryStorage (AuxImagePath b)))) (\<lambda>_.
       bindS (wrapW ''machineIdentifier error''
           (vz_do env (VzMacMachineIdentifier (MachineIdentifierPath b)))) (\<lambda>_.
         vz_do env VzMacPlatform))))"

text \<open>
  The platform type is a variable of the package; the macOS branch sets it before it looks
  at the error of the platform.
\<close>

definition set_platform :: "string \<Rightarrow> unit vf" where
  "set_platform p = modify (\<lambda>st. st\<lparr>PlatformType := p\<rparr>)"

definition platform_of :: "vz_env \<Rightarrow> VirtualMachine \<Rightarrow> unit vf" where
  "platform_of env vm =
    (case VmBootloader vm of
       Some (BootMacOS b) \<Rightarrow>
         (\<lambda>st. case NewMacPlatformConfiguration env b st of
            (err, st) \<Rightarrow> bindS (set_platform ''macos'') (\<lambda>_. bindS (returnS err) (\<lambda>_.
              if Nested vm then
                returnS (Inl (Errorf ''nested virtualization is not supported with the macOS bootloader''))
              else returnS (Inr ()))) st)
     | _ \<Rightarrow>
         bindS (wrapV ''error creating generic platform configuration''
           (NewGenericPlatformConfiguration env vm)) (\<lambda>_. set_platform ''linux''))"

text \<open>\<open>toVz\<close> of the machine, which has \<open>toVz\<close> of its configuration make the devices.\<close>

definition VirtualMachine_toVz :: "vz_env \<Rightarrow> VirtualMachine \<Rightarrow> VirtualMachine vf" where
  "VirtualMachine_toVz env vm =
    bindS (cfg_toVz env vm) (\<lambda>vm.
    bindS (vz_do env VzMachine) (\<lambda>_. returnS (Inr vm)))"

definition vf_NewVirtualMachine :: "vz_env \<Rightarrow> VirtualMachine \<Rightarrow> VirtualMachine vf" where
  "vf_NewVirtualMachine env vm =
    bindS (NewVirtualMachineConfiguration env vm) (\<lambda>_.
    bindS (platform_of env vm) (\<lambda>_. VirtualMachine_toVz env vm))"

text \<open>The check of \<open>ListenNetworkBlockDevices\<close>, before it starts a goroutine per device.\<close>

fun ListenNetworkBlockDevices :: "storage_config list \<Rightarrow> error + unit" where
  "ListenNetworkBlockDevices [] = Inr ()"
| "ListenNetworkBlockDevices (NbdStorage (NbdAttachment u t r s) ident dev # devs) =
     ListenNetworkBlockDevices devs"
| "ListenNetworkBlockDevices (NbdStorage a ident dev # devs) =
     Inl (Errorf ''NetworkBlockDevice must use a NBD attachment'')"
| "ListenNetworkBlockDevices (dev # devs) = ListenNetworkBlockDevices devs"

end
