(* ===== verification/VzLogic.thy ===== *)
theory VzLogic
  imports VzMachine
begin

section \<open>Invariants of the framework code\<close>

text \<open>
  A predicate on the state that a function keeps whatever its outcome, and one that holds
  of its result. The locales collect what an invariant must promise about the elementary
  steps; they give it for the functions of \<open>pkg/vf\<close>.
\<close>

definition preserves :: "(vf_state \<Rightarrow> bool) \<Rightarrow> 'a vf \<Rightarrow> bool" where
  "preserves I m \<longleftrightarrow> (\<forall>st. I st \<longrightarrow> I (snd (m st)))"

named_theorems preserves_intros

lemma preservesI: "(\<And>st. I st \<Longrightarrow> I (snd (m st))) \<Longrightarrow> preserves I m"
  by (simp add: preserves_def)

lemma preservesD: "preserves I m \<Longrightarrow> m st = (r, st') \<Longrightarrow> I st \<Longrightarrow> I st'"
  unfolding preserves_def by (metis snd_conv)

lemma preserves_bindS [preserves_intros]:
  assumes "preserves I m" "\<And>a. preserves I (f a)"
  shows "preserves I (bindS m f)"
proof (rule preservesI)
  fix st assume "I st"
  then have "I (snd (m st))" using assms(1) by (simp add: preserves_def)
  then show "I (snd (bindS m f st))"
    using assms(2) by (auto simp: bindS_def preserves_def split: prod.split sum.split)
qed

lemma preserves_returnS [preserves_intros]: "preserves I (returnS r)"
  by (simp add: preserves_def returnS_def)

lemma preserves_check [preserves_intros]: "preserves I (check r)"
  by (simp add: preserves_def check_def split: option.split)

lemma preserves_wrapW [preserves_intros]: "preserves I m \<Longrightarrow> preserves I (wrapW s m)"
  unfolding preserves_def wrapW_def by (simp split: prod.split sum.split) (metis snd_conv)

lemma preserves_wrapV [preserves_intros]: "preserves I m \<Longrightarrow> preserves I (wrapV s m)"
  unfolding preserves_def wrapV_def by (simp split: prod.split sum.split) (metis snd_conv)

lemma preserves_if [preserves_intros]:
  "preserves I m \<Longrightarrow> preserves I m' \<Longrightarrow> preserves I (if b then m else m')"
  by simp

lemma preserves_prod [preserves_intros]:
  "(\<And>a b. preserves I (f a b)) \<Longrightarrow> preserves I (case p of (a, b) \<Rightarrow> f a b)"
  by (cases p) simp

lemma preserves_option [preserves_intros]:
  "preserves I m \<Longrightarrow> (\<And>a. preserves I (f a)) \<Longrightarrow> preserves I (case p of None \<Rightarrow> m | Some a \<Rightarrow> f a)"
  by (cases p) simp_all

lemma preserves_setRawMode [preserves_intros]: "preserves I (setRawMode env fd)"
  unfolding setRawMode_def by (intro preserves_intros)

subsection \<open>The locales\<close>

text \<open>
  An invariant of \<open>toVz\<close>: calls to the framework keep it, and so do the two functions that
  open descriptors together with the handlers that close them.
\<close>

locale vz_invariant =
  fixes env :: vz_env and I :: "vf_state \<Rightarrow> bool"
  assumes calls: "I st \<Longrightarrow> I (st\<lparr>VzCalls := cs\<rparr>)"
    and block: "preserves I (bindS (open_block_device env path ro) (attach_block_device env ro))"
    and console: "preserves I (open_console env)"
begin

lemma vz_do: "preserves I (vz_do env call)"
  using calls by (simp add: preserves_def vz_do_def Let_def split: option.split)

lemmas steps = preserves_intros vz_do block console

lemma storage:
  "preserves I (DiskStorageConfig_toVz env c)"
  unfolding DiskStorageConfig_toVz_def by (intro steps)

lemma disks:
  "preserves I (NVMExpressController_toVz env nvme)" "preserves I (USBMassStorage_toVz env usb)"
  "preserves I (VirtioBlk_toVz env blk)" "preserves I (NetworkBlockDevice_toVz env nbd)"
  unfolding NVMExpressController_toVz_def USBMassStorage_toVz_def VirtioBlk_toVz_def
    NetworkBlockDevice_toVz_def Let_def
  by (intro steps storage)+

lemma graphics: "preserves I (VirtioGPU_toVz env gpu)"
proof -
  have "preserves I (newMacGraphicsDeviceConfiguration env gpu)"
    "preserves I (newVirtioGraphicsDeviceConfiguration env gpu)"
    unfolding newMacGraphicsDeviceConfiguration_def newVirtioGraphicsDeviceConfiguration_def
    by (intro steps)+
  then show ?thesis by (simp add: preserves_def VirtioGPU_toVz_def)
qed

lemma input: "preserves I (VirtioInput_toVz env inp)"
  unfolding VirtioInput_toVz_def by (intro steps)

lemma rosetta_available: "preserves I (checkRosettaAvailability env r)"
proof (cases "RosettaAvailability env")
  case RosettaNotInstalled
  then show ?thesis
    using vz_do by (auto simp: checkRosettaAvailability_def preserves_def returnS_def
        split: prod.split sum.split) (metis snd_conv)+
qed (simp_all add: checkRosettaAvailability_def preserves_returnS)

lemma sharing: "preserves I (VirtioFs_toVz env fs)" "preserves I (RosettaShare_toVz env r)"
  unfolding VirtioFs_toVz_def RosettaShare_toVz_def Let_def
  by (intro steps rosetta_available)+

lemma serial: "preserves I (VirtioSerial_toVz env s)" "preserves I (VirtioSerial_toVzConsole env s)"
  unfolding VirtioSerial_toVz_def VirtioSerial_toVzConsole_def Let_def
  by (intro steps)+

lemma net: "preserves I (VirtioNet_toVz env n)"
  unfolding VirtioNet_toVz_def Let_def by (intro steps)

end

text \<open>
  An invariant that does not look at the configuration, and that the handler of a device
  without a socket of its own keeps: then adding devices keeps it, as long as none is
  connected to a unix socket path.
\<close>

fun no_unix_path :: "device \<Rightarrow> bool" where
  "no_unix_path (DevNet d) = (UnixSocketPath d = [])"
| "no_unix_path d = True"

locale vz_steady = vz_invariant +
  assumes config: "I st \<Longrightarrow> I (st\<lparr>VfConfig := c\<rparr>)"
    and platform: "I st \<Longrightarrow> I (st\<lparr>PlatformType := p\<rparr>)"
    and inherited: "preserves I (register (Shutdown (VirtioNet.extend d \<lparr>LocalAddr = None\<rparr>)))"
begin

lemma update_config: "preserves I (update_config f)"
  using config by (simp add: preserves_def update_config_def modify_def)

lemma vsock: "preserves I (VirtioVsock_Add env v)"
proof (rule preservesI)
  fix st assume "I st"
  moreover have "preserves I (bindS (vz_do env VzSocketDevice)
      (\<lambda>_. update_config (\<lambda>cfg. cfg\<lparr>SocketDevices := Suc (SocketDevices cfg)\<rparr>)))"
    by (intro preserves_intros vz_do update_config)
  ultimately show "I (snd (VirtioVsock_Add env v st))"
    by (simp add: VirtioVsock_Add_def preserves_def)
qed

lemma net_without_path:
  assumes "UnixSocketPath d = []"
  shows "preserves I (VirtioNet_Add env d)"
proof -
  let ?d = "VirtioNet.extend d \<lparr>LocalAddr = None\<rparr>"
  have "VirtioNet_Add env d =
      bindS (register (Shutdown ?d)) (\<lambda>_. bindS (VirtioNet_toVz env ?d) (\<lambda>c.
      bindS (update_config (\<lambda>cfg. cfg\<lparr>NetworkDevices := NetworkDevices cfg @ [c]\<rparr>)) (\<lambda>_.
        returnS (Inr (VirtioNet.truncate ?d)))))"
    using assms by (simp add: VirtioNet_Add_def VirtioNet.defs bind_returnS Let_def)
  then show ?thesis
    using inherited by (simp only:) (intro preserves_intros net update_config)
qed

lemma device:
  "no_unix_path d \<Longrightarrow> preserves I (AddToVirtualMachineConfig env d)"
  by (cases d) (auto simp: NVMExpressController_Add_def USBMassStorage_Add_def VirtioBlk_Add_def
      NetworkBlockDevice_Add_def VirtioInput_Add_def VirtioGPU_Add_def VirtioFs_Add_def
      RosettaShare_Add_def VirtioRng_Add_def VirtioRng_toVz_def VirtioBalloon_Add_def VirtioBalloon_toVz_def VirtioSerial_Add_def
      add_storage_def add_sharing_def
      intro!: preserves_intros vz_do update_config disks graphics input sharing serial vsock
        net_without_path)

lemma devices: "list_all no_unix_path ds \<Longrightarrow> preserves I (add_devices env ds)"
  by (induction ds) (auto intro!: preserves_intros device)

lemma vsock_for: "preserves I (add_vsock_for env port)"
  unfolding add_vsock_for_def by (intro preserves_intros vsock)

lemma console_device: "preserves I (add_console env)"
  using vz_do [of VzConsoleDevice] by (simp add: preserves_def add_console_def)

lemma toVz: "list_all no_unix_path (VmDevices vm) \<Longrightarrow> preserves I (cfg_toVz env vm)"
  unfolding cfg_toVz_def
  by (intro preserves_intros devices vsock_for console_device vz_do)

lemma bootloader: "preserves I (toVzBootloader env b)"
proof -
  have "preserves I (toVzLinuxBootloader env l)" for l
    using vz_do by (auto simp: preserves_def toVzLinuxBootloader_def Let_def split: sum.split)
  then show ?thesis
    by (auto simp: toVzBootloader_def toVzEFIBootloader_def toVzMacOSBootloader_def
        intro!: preserves_intros vz_do split: option.split bootloader.split)
qed

lemma set_platform: "preserves I (set_platform p)"
  using platform by (simp add: preserves_def set_platform_def modify_def)

lemma platform_steps: "preserves I (platform_of env vm)"
proof -
  have mac: "preserves I (NewMacPlatformConfiguration env b)" for b
    unfolding NewMacPlatformConfiguration_def by (intro preserves_intros vz_do)
  have rest: "preserves I (bindS (set_platform p) (\<lambda>_. bindS (returnS e) (\<lambda>_.
      if n then returnS x else returnS y)))" for p e n x y
    by (intro preserves_intros set_platform)
  have gen: "preserves I (NewGenericPlatformConfiguration env vm)"
    unfolding NewGenericPlatformConfiguration_def by (intro preserves_intros vz_do)
  have macos: "preserves I (\<lambda>st. case NewMacPlatformConfiguration env b st of
            (err, st) \<Rightarrow> bindS (set_platform p) (\<lambda>_. bindS (returnS err) (\<lambda>_.
              if Nested vm then returnS x else returnS y)) st)" for b p x y
  proof (rule preservesI)
    fix st assume "I st"
    obtain err st' where r: "NewMacPlatformConfiguration env b st = (err, st')"
      by (cases "NewMacPlatformConfiguration env b st") auto
    have "I st'" by (rule preservesD [OF mac r \<open>I st\<close>])
    then show "I (snd (case NewMacPlatformConfiguration env b st of
            (err, st) \<Rightarrow> bindS (set_platform p) (\<lambda>_. bindS (returnS err) (\<lambda>_.
              if Nested vm then returnS x else returnS y)) st))"
      using rest [of p err "Nested vm" x y] unfolding r prod.case preserves_def by blast
  qed
  show ?thesis
    by (auto simp: platform_of_def intro!: preserves_intros gen set_platform macos
        split: option.split bootloader.split split del: if_split)
qed

lemma configuration: "preserves I (NewVirtualMachineConfiguration env vm)"
  unfolding NewVirtualMachineConfiguration_def
  by (intro preserves_intros bootloader vz_do update_config)

lemma machine: "list_all no_unix_path (VmDevices vm) \<Longrightarrow> preserves I (vf_NewVirtualMachine env vm)"
  unfolding vf_NewVirtualMachine_def VirtualMachine_toVz_def
  by (intro preserves_intros configuration platform_steps toVz vz_do)

end

end
