(* ===== verification/VzCleanup.thy ===== *)
theory VzCleanup
  imports VzLogic
begin

section \<open>What the exit handlers leave behind\<close>

text \<open>
  Building a machine opens descriptors and makes sockets; the exit handlers registered on
  the way must undo this. \<open>tidy r0\<close> says that they will: whatever the process holds beyond
  what it held at \<open>r0\<close>, some handler gives back.
\<close>

definition absent :: file_read where
  "absent = OpenFails ErrNotExist"

definition handler_ok :: "(resources \<Rightarrow> resources) \<Rightarrow> bool" where
  "handler_ok h \<longleftrightarrow> (\<forall>r. ResFds (h r) \<subseteq> ResFds r \<and> ResDirs (h r) \<subseteq> ResDirs r
    \<and> (\<forall>p. ResFiles (h r) p = ResFiles r p \<or> ResFiles (h r) p = absent))"

definition tidy :: "resources \<Rightarrow> vf_state \<Rightarrow> bool" where
  "tidy r0 st \<longleftrightarrow> (\<forall>h \<in> set (VfHandlers st). handler_ok h) \<and> ResDirs (VfRes st) \<subseteq> ResDirs r0
    \<and> (\<forall>fd \<in> ResFds (VfRes st). fd \<in> ResFds r0 \<or> (\<exists>h \<in> set (VfHandlers st). \<forall>r. fd \<notin> ResFds (h r)))
    \<and> (\<forall>p. ResFiles (VfRes st) p = ResFiles r0 p \<or> ResFiles (VfRes st) p = absent
        \<or> (\<exists>h \<in> set (VfHandlers st). \<forall>r. ResFiles (h r) p = absent))"

definition after_exit :: "vf_state \<Rightarrow> resources" where
  "after_exit st = ExecuteExitHandlers (VfHandlers st) (VfRes st)"

text \<open>
  Nothing opened since \<open>r0\<close> is open, there is no new directory, and every file is as it was or
  absent.
\<close>

definition released :: "resources \<Rightarrow> resources \<Rightarrow> bool" where
  "released r0 r \<longleftrightarrow> ResFds r \<subseteq> ResFds r0 \<and> ResDirs r \<subseteq> ResDirs r0
    \<and> (\<forall>p. ResFiles r p = ResFiles r0 p \<or> ResFiles r p = absent)"

lemma handlers_shrink:
  assumes "\<forall>h \<in> set hs. handler_ok h"
  shows "ResFds (ExecuteExitHandlers hs r) \<subseteq> ResFds r"
    and "ResFiles (ExecuteExitHandlers hs r) p = ResFiles r p \<or> ResFiles (ExecuteExitHandlers hs r) p = absent"
    and "ResDirs (ExecuteExitHandlers hs r) \<subseteq> ResDirs r"
  using assms
proof (induction hs arbitrary: r)
  case (Cons h hs)
  { case 1 then show ?case using Cons(1) [of "h r"] unfolding handler_ok_def by simp blast }
  { case 2 then show ?case using Cons(2) [of "h r"] unfolding handler_ok_def by auto metis }
  { case 3 then show ?case using Cons(3) [of "h r"] unfolding handler_ok_def by simp blast }
qed simp_all

lemma handlers_release:
  assumes "\<forall>h \<in> set hs. handler_ok h" "h \<in> set hs"
  shows "(\<And>r. fd \<notin> ResFds (h r)) \<Longrightarrow> fd \<notin> ResFds (ExecuteExitHandlers hs r)"
    and "(\<And>r. ResFiles (h r) p = absent) \<Longrightarrow> ResFiles (ExecuteExitHandlers hs r) p = absent"
proof -
  obtain as bs where hs: "hs = as @ h # bs" using assms(2) by (meson split_list)
  let ?r = "h (ExecuteExitHandlers as r)"
  have e: "ExecuteExitHandlers hs r = ExecuteExitHandlers bs ?r"
    by (simp add: hs ExecuteExitHandlers_append)
  have bs: "\<forall>h \<in> set bs. handler_ok h" using assms(1) hs by simp
  show "(\<And>r. fd \<notin> ResFds (h r)) \<Longrightarrow> fd \<notin> ResFds (ExecuteExitHandlers hs r)"
    using handlers_shrink(1) [OF bs, of ?r] by (auto simp: e)
  show "(\<And>r. ResFiles (h r) p = absent) \<Longrightarrow> ResFiles (ExecuteExitHandlers hs r) p = absent"
    using handlers_shrink(2) [OF bs, of ?r p] by (simp add: e)
qed

lemma tidy_released: "tidy r0 st \<Longrightarrow> released r0 (after_exit st)"
proof -
  assume t: "tidy r0 st"
  then have ok: "\<forall>h \<in> set (VfHandlers st). handler_ok h" by (simp add: tidy_def)
  show ?thesis unfolding released_def
  proof (intro conjI allI subsetI)
    fix fd assume fd: "fd \<in> ResFds (after_exit st)"
    then have "fd \<in> ResFds (VfRes st)"
      using handlers_shrink(1) [OF ok] by (auto simp: after_exit_def)
    with t consider "fd \<in> ResFds r0" | h where "h \<in> set (VfHandlers st)" "\<forall>r. fd \<notin> ResFds (h r)"
      by (auto simp: tidy_def)
    then show "fd \<in> ResFds r0"
      using fd handlers_release(1) [OF ok] by cases (auto simp: after_exit_def)
  next
    fix d assume "d \<in> ResDirs (after_exit st)"
    then show "d \<in> ResDirs r0"
      using t handlers_shrink(3) [OF ok] by (auto simp: after_exit_def tidy_def)
  next
    fix p
    consider "ResFiles (VfRes st) p = ResFiles r0 p" | "ResFiles (VfRes st) p = absent"
      | h where "h \<in> set (VfHandlers st)" "\<forall>r. ResFiles (h r) p = absent"
      using t unfolding tidy_def by blast
    then show "ResFiles (after_exit st) p = ResFiles r0 p \<or> ResFiles (after_exit st) p = absent"
      using handlers_shrink(2) [OF ok, of "VfRes st" p] handlers_release(2) [OF ok]
      by cases (auto simp: after_exit_def)
  qed
qed

lemma handler_ok_simps [simp]:
  "handler_ok (close_fd fd)" "handler_ok (remove_file p)"
  "handler_ok g \<Longrightarrow> handler_ok h \<Longrightarrow> handler_ok (\<lambda>r. g (h r))"
proof -
  show "handler_ok (close_fd fd)" by (auto simp: handler_ok_def close_fd_def)
  show "handler_ok (remove_file p)"
    by (auto simp: handler_ok_def remove_file_def os_Remove_def absent_def)
  show "handler_ok g \<Longrightarrow> handler_ok h \<Longrightarrow> handler_ok (\<lambda>r. g (h r))"
    unfolding handler_ok_def by (metis (no_types, lifting) order_trans)
qed

lemma handler_ok_Shutdown [simp]: "handler_ok (Shutdown dev)"
proof -
  have "handler_ok (\<lambda>r. r)" by (simp add: handler_ok_def)
  then show ?thesis
    by (cases "LocalAddr dev"; cases "Socket dev") (simp_all add: Shutdown_def [abs_def])
qed

text \<open>Registering a handler keeps an invariant state, and pays for what it gives back.\<close>

lemma tidy_register:
  assumes "tidy r0 (st\<lparr>VfRes := r\<rparr>)" "handler_ok h" "ResDirs (VfRes st) = ResDirs r"
    and "\<And>fd. fd \<in> ResFds (VfRes st) \<Longrightarrow> fd \<in> ResFds r \<or> (\<forall>r. fd \<notin> ResFds (h r))"
    and "\<And>p. ResFiles (VfRes st) p = ResFiles r p \<or> (\<forall>r. ResFiles (h r) p = absent)"
  shows "tidy r0 (st\<lparr>VfHandlers := RegisterExitHandler h (VfHandlers st)\<rparr>)"
  using assms unfolding tidy_def RegisterExitHandler_def
  by (auto simp: Bex_def Ball_def) metis+

lemma tidy_cong:
  "VfRes st' = VfRes st \<Longrightarrow> VfHandlers st' = VfHandlers st \<Longrightarrow> tidy r0 st' = tidy r0 st"
  by (simp add: tidy_def)

lemma tidy_close:
  "tidy r0 st \<Longrightarrow> tidy r0 (st\<lparr>VfRes := close_fd fd (open_fd fd (VfRes st))\<rparr>)"
  by (auto simp: tidy_def close_fd_def open_fd_def)

lemma tidy_open_close:
  assumes "tidy r0 st" "VfRes st' = open_fd fd (VfRes st)" "VfHandlers st' = VfHandlers st"
  shows "tidy r0 (st'\<lparr>VfHandlers := RegisterExitHandler (close_fd fd) (VfHandlers st')\<rparr>)"
proof (rule tidy_register [where r = "VfRes st"])
  show "tidy r0 (st'\<lparr>VfRes := VfRes st\<rparr>)"
    using assms(1,3) by (simp add: tidy_def)
qed (use assms(2) in \<open>auto simp: open_fd_def close_fd_def\<close>)

lemma tidy_block: "preserves (tidy r0) (bindS (open_block_device env path ro) (attach_block_device env ro))"
proof (rule preservesI)
  fix st assume t: "tidy r0 st"
  let ?m = "bindS (open_block_device env path ro) (attach_block_device env ro)"
  obtain r st1 where o: "open_block_device env path ro st = (r, st1)" by (cases "open_block_device env path ro st") auto
  show "tidy r0 (snd (?m st))"
  proof (cases r)
    case (Inl e)
    then have "st1 = st"
      using o by (auto simp: open_block_device_def split: sum.splits if_splits)
    with Inl o t show ?thesis by simp
  next
    case (Inr f)
    then have st1: "st1 = st\<lparr>VfRes := open_fd (fst f) (VfRes st)\<rparr>"
      using o by (auto simp: open_block_device_def split: sum.splits if_splits)
    let ?st2 = "st1\<lparr>VzCalls := VzCalls st1 @ [VzBlockDeviceAttachment f ro]\<rparr>"
    have "?m st = attach_block_device env ro f st1" using Inr o by simp
    also have "tidy r0 (snd \<dots>)"
    proof (cases "Vz env (VzCalls st1) (VzBlockDeviceAttachment f ro)")
      case None
      then have "snd (attach_block_device env ro f st1)
          = ?st2\<lparr>VfHandlers := RegisterExitHandler (close_fd (fst f)) (VfHandlers ?st2)\<rparr>"
        by (simp add: attach_block_device_def vz_do_def register_def modify_def returnS_def bindS_def)
      then show ?thesis
        using tidy_open_close [OF t, of ?st2 "fst f"] by (simp add: st1)
    next
      case (Some e)
      then have "snd (attach_block_device env ro f st1)
          = ?st2\<lparr>VfRes := close_fd (fst f) (VfRes ?st2)\<rparr>"
        by (simp add: attach_block_device_def vz_do_def on_resources_def modify_def returnS_def bindS_def)
      then show ?thesis
        using tidy_close [OF t, of "fst f"] by (simp add: st1 tidy_def)
    qed
    finally show ?thesis .
  qed
qed

lemma tidy_console: "preserves (tidy r0) (open_console env)"
proof (rule preservesI)
  fix st assume t: "tidy r0 st"
  show "tidy r0 (snd (open_console env st))"
  proof (cases "OpenPty env (ResFds (VfRes st))")
    case (Inl e)
    with t show ?thesis by (simp add: open_console_def open_pty_def bindS_def)
  next
    case (Inr p)
    obtain m s n where p: "p = (m, s, n)" by (cases p) auto
    let ?st = "st\<lparr>VfRes := open_fd s (open_fd m (VfRes st))\<rparr>"
    have "snd (open_console env st)
        = ?st\<lparr>VfHandlers := RegisterExitHandler (\<lambda>r. close_fd s (close_fd m r)) (VfHandlers ?st)\<rparr>"
      using Inr p by (simp add: open_console_def open_pty_def register_def modify_def returnS_def bindS_def)
    also have "tidy r0 \<dots>"
    proof (rule tidy_register [where r = "VfRes st"])
      show "handler_ok (\<lambda>r. close_fd s (close_fd m r))" by simp
    qed (use t in \<open>auto simp: open_fd_def close_fd_def\<close>)
    finally show ?thesis .
  qed
qed

lemma tidy_inherited: "preserves (tidy r0) (register (Shutdown dev))"
proof (rule preservesI)
  fix st assume "tidy r0 st"
  then show "tidy r0 (snd (register (Shutdown dev) st))"
    by (auto simp: register_def modify_def intro!: tidy_register [where r = "VfRes st"])
qed

interpretation exit_tidy: vz_steady env "tidy r0" for env r0
  by unfold_locales (simp_all add: tidy_block tidy_console tidy_inherited, simp_all add: tidy_def)

subsection \<open>Connected network devices\<close>

text \<open>
  A device connected to a unix socket path is only tidy once its handler is registered,
  which happens after everything that can fail in the connection: the machine is tidy when
  it was built, not when building it failed. \<open>keeps\<close> is an invariant of success.
\<close>

definition keeps :: "(vf_state \<Rightarrow> bool) \<Rightarrow> 'a vf \<Rightarrow> bool" where
  "keeps I m \<longleftrightarrow> (\<forall>st a st'. I st \<longrightarrow> m st = (Inr a, st') \<longrightarrow> I st')"

lemma preserves_keeps: "preserves I m \<Longrightarrow> keeps I m"
  unfolding keeps_def by (blast intro: preservesD)

lemma keeps_bindS: "keeps I m \<Longrightarrow> (\<And>a. keeps I (f a)) \<Longrightarrow> keeps I (bindS m f)"
  unfolding keeps_def by (meson bindS_eq_Inr)

lemma keepsD: "keeps I m \<Longrightarrow> m st = (Inr a, st') \<Longrightarrow> I st \<Longrightarrow> I st'"
  unfolding keeps_def by blast

text \<open>What a connection does when it succeeds.\<close>

lemma connectUnixPath_Inr:
  assumes "connectUnixPath env dev st = (Inr dev', st')"
  obtains name fd where "length name < 104" "dev' = dev\<lparr>Socket := Some fd, LocalAddr := Some name, UnixSocketPath := []\<rparr>"
    "localUnixSocketPath env (filepath_Dir (UnixSocketPath dev)) st = (Inr name, st\<lparr>VfRes := remove_file name (VfRes st)\<rparr>)"
    "st' = st\<lparr>VfRes := open_fd fd (bind_socket name (remove_file name (VfRes st)))\<rparr>"
proof -
  from assms obtain name st1 where l: "localUnixSocketPath env (filepath_Dir (UnixSocketPath dev)) st = (Inr name, st1)"
    and n: "\<not> maxUnixgramPathLen \<le> length name"
    and rest: "bindS (dial_unix env name (UnixSocketPath dev)) (\<lambda>_.
      bindS (check (SyscallConnErr env)) (\<lambda>_.
      bindS (check (ControlErr env)) (\<lambda>_.
      bindS (if VfkitMagic dev then check (SendErr env) else returnS (Inr ())) (\<lambda>_.
      bindS (dup_file env) (\<lambda>dupFd.
      bindS (check (CloseConnErr env)) (\<lambda>_.
        returnS (Inr (dev\<lparr>Socket := Some dupFd, LocalAddr := Some name,
          UnixSocketPath := []\<rparr>)))))))) st1 = (Inr dev', st')"
    unfolding connectUnixPath_def by (elim bindS_InrE) (auto split: if_splits)
  have st1: "st1 = st\<lparr>VfRes := remove_file name (VfRes st)\<rparr>"
    using l by (auto simp: localUnixSocketPath_def Let_def check_def on_resources_def modify_def
        bindS_def returnS_def split: option.splits)
  have "\<exists>fd. dev' = dev\<lparr>Socket := Some fd, LocalAddr := Some name, UnixSocketPath := []\<rparr>
      \<and> st' = st1\<lparr>VfRes := open_fd fd (bind_socket name (VfRes st1))\<rparr>"
    using rest by (auto simp: dial_unix_def check_def on_resources_def modify_def dup_file_def
        bindS_def returnS_def split: option.splits sum.splits if_splits)
  then show thesis using that l n st1 by (auto simp: maxUnixgramPathLen_def)
qed

lemma tidy_remove: "tidy r0 st \<Longrightarrow> tidy r0 (st\<lparr>VfRes := remove_file p (VfRes st)\<rparr>)"
  by (auto simp: tidy_def remove_file_def os_Remove_def absent_def)

lemma tidy_connect: "keeps (tidy r0) (bindS (connectUnixPath env dev)
    (\<lambda>dev. bindS (register (Shutdown dev)) (\<lambda>_. returnS (Inr dev))))"
proof -
  have "tidy r0 (snd (register (Shutdown dev') st'))"
    if t: "tidy r0 st" and c: "connectUnixPath env dev st = (Inr dev', st')" for st dev' st'
  proof (rule connectUnixPath_Inr [OF c])
    fix name fd
    assume d: "dev' = dev\<lparr>Socket := Some fd, LocalAddr := Some name, UnixSocketPath := []\<rparr>"
      and st': "st' = st\<lparr>VfRes := open_fd fd (bind_socket name (remove_file name (VfRes st)))\<rparr>"
    have "tidy r0 (st'\<lparr>VfHandlers := RegisterExitHandler (Shutdown dev') (VfHandlers st')\<rparr>)"
    proof (rule tidy_register [where r = "remove_file name (VfRes st)"])
      show "tidy r0 (st'\<lparr>VfRes := remove_file name (VfRes st)\<rparr>)"
        using tidy_remove [OF t] by (simp add: st')
    qed (auto simp: st' d Shutdown_def open_fd_def close_fd_def bind_socket_def remove_file_def
        os_Remove_def absent_def)
    then show ?thesis by (simp add: register_def modify_def)
  qed
  then show ?thesis
    unfolding keeps_def by (auto simp: bindS_def register_def modify_def returnS_def
        split: prod.splits sum.splits)
qed

lemma VirtioNet_Add_connected:
  assumes "UnixSocketPath d \<noteq> []"
  shows "VirtioNet_Add env d =
    bindS (bindS (connectUnixPath env (VirtioNet.extend d \<lparr>LocalAddr = None\<rparr>))
      (\<lambda>dev. bindS (register (Shutdown dev)) (\<lambda>_. returnS (Inr dev)))) (\<lambda>dev.
    bindS (VirtioNet_toVz env dev) (\<lambda>c.
    bindS (update_config (\<lambda>cfg. cfg\<lparr>NetworkDevices := NetworkDevices cfg @ [c]\<rparr>)) (\<lambda>_.
      returnS (Inr (VirtioNet.truncate dev)))))"
  using assms by (simp add: VirtioNet_Add_def VirtioNet.defs bindS_assoc bind_returnS Let_def)

lemma tidy_net: "keeps (tidy r0) (VirtioNet_Add env d)"
proof (cases "UnixSocketPath d = []")
  case True
  then show ?thesis by (intro preserves_keeps exit_tidy.net_without_path)
next
  case False
  show ?thesis
    unfolding VirtioNet_Add_connected [OF False]
    by (intro keeps_bindS tidy_connect preserves_keeps exit_tidy.net
        exit_tidy.update_config preserves_returnS)
qed

lemma tidy_devices: "keeps (tidy r0) (add_devices env ds)"
proof -
  have "keeps (tidy r0) (AddToVirtualMachineConfig env d)" for d
  proof (cases "no_unix_path d")
    case True
    then show ?thesis by (intro preserves_keeps exit_tidy.device)
  next
    case False
    then show ?thesis
      by (cases d) (simp_all, intro keeps_bindS tidy_net preserves_keeps [OF preserves_returnS])
  qed
  then show ?thesis
    by (induction ds) (auto intro!: keeps_bindS intro: preserves_keeps preserves_returnS)
qed

lemma tidy_machine: "keeps (tidy r0) (vf_NewVirtualMachine env vm)"
  unfolding vf_NewVirtualMachine_def VirtualMachine_toVz_def cfg_toVz_def
  by (intro keeps_bindS tidy_devices)
    (intro preserves_keeps preserves_intros exit_tidy.configuration exit_tidy.platform_steps
      exit_tidy.vsock_for exit_tidy.console_device exit_tidy.vz_do)+

subsection \<open>Devices that could not be connected\<close>

text \<open>
  When the connection of a network device fails, its local socket may stay. \<open>leaves ps\<close>: a
  function that succeeds keeps the state tidy, and one that fails leaves it tidy but for the
  files of \<open>ps\<close> and for descriptors.
\<close>

definition with_files :: "string set \<Rightarrow> file_env \<Rightarrow> resources \<Rightarrow> resources" where
  "with_files P fs r = r\<lparr>ResFiles := \<lambda>p. if p \<in> P then fs p else ResFiles r p\<rparr>"

definition sparing :: "string list \<Rightarrow> resources \<Rightarrow> vf_state \<Rightarrow> resources" where
  "sparing ps r0 st = (with_files (set ps) (ResFiles (VfRes st)) r0)\<lparr>ResFds := UNIV\<rparr>"

definition leaves :: "string list \<Rightarrow> 'a vf \<Rightarrow> bool" where
  "leaves ps m \<longleftrightarrow> (\<forall>r0 st r st'. tidy r0 st \<longrightarrow> m st = (r, st') \<longrightarrow>
    (case r of Inr a \<Rightarrow> tidy r0 st' | Inl e \<Rightarrow> tidy (sparing ps r0 st') st'))"

named_theorems leaves_intros

lemma tidy_sparing: "tidy r0 st \<Longrightarrow> tidy (sparing ps r0 st) st"
  by (auto simp: tidy_def sparing_def with_files_def)

lemma sparing_mono: "set ps \<subseteq> set qs \<Longrightarrow> tidy (sparing ps r0 st) st \<Longrightarrow> tidy (sparing qs r0 st) st"
  unfolding tidy_def sparing_def with_files_def by simp (metis in_mono)

lemma leavesI:
  assumes "\<And>r0 st a st'. tidy r0 st \<Longrightarrow> m st = (Inr a, st') \<Longrightarrow> tidy r0 st'"
    and "\<And>r0 st e st'. tidy r0 st \<Longrightarrow> m st = (Inl e, st') \<Longrightarrow> tidy (sparing ps r0 st') st'"
  shows "leaves ps m"
  using assms unfolding leaves_def by (auto split: sum.split)

lemma leavesD:
  assumes "leaves ps m" "tidy r0 st" "m st = (r, st')"
  shows "case r of Inr a \<Rightarrow> tidy r0 st' | Inl e \<Rightarrow> tidy (sparing ps r0 st') st'"
  using assms unfolding leaves_def by blast

lemma leaves_preserves [leaves_intros]: "(\<And>r0. preserves (tidy r0) m) \<Longrightarrow> leaves ps m"
  by (rule leavesI) (auto intro: tidy_sparing preservesD)

lemma leaves_bindS [leaves_intros]:
  assumes "leaves ps m" "\<And>a. leaves ps (f a)"
  shows "leaves ps (bindS m f)"
proof (rule leavesI)
  fix r0 st a st'
  assume "tidy r0 st" "bindS m f st = (Inr a, st')"
  then show "tidy r0 st'" using leavesD [OF assms(1)] leavesD [OF assms(2)] by (fastforce elim!: bindS_InrE)
next
  fix r0 st e st'
  assume t: "tidy r0 st" and b: "bindS m f st = (Inl e, st')"
  obtain r st1 where m: "m st = (r, st1)" by fastforce
  show "tidy (sparing ps r0 st') st'"
    using leavesD [OF assms(1) t m] leavesD [OF assms(2)] b m by (cases r) fastforce+
qed

lemma leaves_mono: "leaves ps m \<Longrightarrow> set ps \<subseteq> set qs \<Longrightarrow> leaves qs m"
proof (rule leavesI)
  fix r0 st a st' assume "leaves ps m" "tidy r0 st" "m st = (Inr a, st')"
  from leavesD [OF this] show "tidy r0 st'" by simp
next
  fix r0 st e st' assume "leaves ps m" "set ps \<subseteq> set qs" "tidy r0 st" "m st = (Inl e, st')"
  with leavesD [of ps m r0 st "Inl e" st'] show "tidy (sparing qs r0 st') st'"
    by (simp add: sparing_mono)
qed

text \<open>The local sockets of the devices that are connected to a unix socket path.\<close>

fun local_socket :: "vz_env \<Rightarrow> device \<Rightarrow> string list" where
  "local_socket env (DevNet d) =
    (if UnixSocketPath d = [] then [] else [local_socket_name env (filepath_Dir (UnixSocketPath d))])"
| "local_socket env d = []"

definition local_sockets :: "vz_env \<Rightarrow> device list \<Rightarrow> string list" where
  "local_sockets env ds = concat (map (local_socket env) ds)"

lemma connectUnixPath_changes:
  assumes "connectUnixPath env dev st = (r, st')"
  shows "VfHandlers st' = VfHandlers st" "ResDirs (VfRes st') = ResDirs (VfRes st)"
    and "p \<noteq> local_socket_name env (filepath_Dir (UnixSocketPath dev)) \<Longrightarrow>
      ResFiles (VfRes st') p = ResFiles (VfRes st) p"
proof -
  let ?n = "local_socket_name env (filepath_Dir (UnixSocketPath dev))"
  define I where "I s \<longleftrightarrow> VfHandlers s = VfHandlers st \<and> ResDirs (VfRes s) = ResDirs (VfRes st)
    \<and> (\<forall>p. p \<noteq> ?n \<longrightarrow> ResFiles (VfRes s) p = ResFiles (VfRes st) p)" for s :: vf_state
  obtain l st1 where l: "localUnixSocketPath env (filepath_Dir (UnixSocketPath dev)) st = (l, st1)"
    by fastforce
  then have st1: "I st1" and n: "\<And>name. l = Inr name \<Longrightarrow> name = ?n"
    by (auto simp: I_def localUnixSocketPath_def Let_def check_def on_resources_def modify_def
        remove_file_def os_Remove_def bindS_def returnS_def split: option.splits)
  have steps: "preserves I (on_resources (bind_socket ?n))" "preserves I (dup_file env)"
    by (simp_all add: preserves_def I_def on_resources_def modify_def bind_socket_def dup_file_def
        open_fd_def split: sum.split)
  have "I st'"
  proof (cases l)
    case (Inl e)
    then show ?thesis using assms st1 l by (simp add: connectUnixPath_def bindS_def)
  next
    case (Inr name)
    then have "name = ?n" by (rule n)
    have at: "preserves I m \<Longrightarrow> I (snd (m st1))" for m :: "vf_VirtioNet vf"
      using st1 by (simp add: preserves_def)
    have "I (snd (connectUnixPath env dev st))"
      unfolding connectUnixPath_def
        bindS_Inr [where m = "localUnixSocketPath env (filepath_Dir (UnixSocketPath dev))", OF l [unfolded Inr]]
      unfolding \<open>name = ?n\<close> dial_unix_def
      by (rule at) (intro preserves_intros steps)
    then show ?thesis using assms by simp
  qed
  then show "VfHandlers st' = VfHandlers st" "ResDirs (VfRes st') = ResDirs (VfRes st)"
    "p \<noteq> ?n \<Longrightarrow> ResFiles (VfRes st') p = ResFiles (VfRes st) p"
    by (simp_all add: I_def)
qed

lemma leaves_connect:
  "leaves [local_socket_name env (filepath_Dir (UnixSocketPath dev))] (bindS (connectUnixPath env dev)
    (\<lambda>dev. bindS (register (Shutdown dev)) (\<lambda>_. returnS (Inr dev))))"
proof (rule leavesI)
  fix r0 st e st'
  assume t: "tidy r0 st" and "bindS (connectUnixPath env dev)
    (\<lambda>dev. bindS (register (Shutdown dev)) (\<lambda>_. returnS (Inr dev))) st = (Inl e, st')"
  then have "connectUnixPath env dev st = (Inl e, st')"
    by (auto simp: bindS_def register_def modify_def returnS_def split: prod.splits sum.splits)
  from connectUnixPath_changes [OF this] t
  show "tidy (sparing [local_socket_name env (filepath_Dir (UnixSocketPath dev))] r0 st') st'"
    by (simp add: tidy_def sparing_def with_files_def)
qed (rule keepsD [OF tidy_connect])

lemma leaves_net: "leaves (local_socket env (DevNet d)) (VirtioNet_Add env d)"
proof (cases "UnixSocketPath d = []")
  case True
  then show ?thesis by (intro leaves_preserves exit_tidy.net_without_path)
next
  case False
  let ?d = "VirtioNet.extend d \<lparr>LocalAddr = None\<rparr>"
  have "local_socket env (DevNet d) = [local_socket_name env (filepath_Dir (UnixSocketPath ?d))]"
    using False by (simp add: VirtioNet.defs)
  then show ?thesis
    unfolding VirtioNet_Add_connected [OF False]
    by (simp only:) (intro leaves_bindS leaves_connect leaves_preserves exit_tidy.net
        exit_tidy.update_config preserves_returnS)
qed

lemma leaves_device: "leaves (local_socket env d) (AddToVirtualMachineConfig env d)"
proof (cases "no_unix_path d")
  case True
  then show ?thesis by (intro leaves_preserves exit_tidy.device)
next
  case False
  then obtain n where "d = DevNet n" by (cases d) auto
  then show ?thesis
    by (simp only: AddToVirtualMachineConfig.simps)
      (intro leaves_bindS leaves_net leaves_preserves preserves_returnS)
qed

lemma leaves_devices: "leaves (local_sockets env ds) (add_devices env ds)"
proof (induction ds)
  case (Cons d ds)
  have s: "local_sockets env (d # ds) = local_socket env d @ local_sockets env ds"
    by (simp add: local_sockets_def)
  show ?case
    unfolding add_devices.simps s
    by (intro leaves_bindS leaves_mono [OF leaves_device] leaves_mono [OF Cons.IH] leaves_preserves
        preserves_returnS) auto
qed (simp add: leaves_preserves preserves_returnS)

lemma leaves_machine: "leaves (local_sockets env (VmDevices vm)) (vf_NewVirtualMachine env vm)"
  unfolding vf_NewVirtualMachine_def VirtualMachine_toVz_def cfg_toVz_def
  by (intro leaves_bindS leaves_devices)
    (intro leaves_preserves preserves_intros exit_tidy.configuration exit_tidy.platform_steps
      exit_tidy.vsock_for exit_tidy.console_device exit_tidy.vz_do)+

subsection \<open>A host on which every call succeeds\<close>

definition witness_env :: vz_env where
  "witness_env = \<lparr>Vz = \<lambda>_ _. None, Arm64 = True, LstatIsBlock = \<lambda>_. Inr True,
    OpenDevice = \<lambda>_ _ _. Inr 5, RosettaAvailability = RosettaInstalled, Tcgetattr = \<lambda>_. None,
    Tcsetattr = \<lambda>_. None, OpenPty = \<lambda>_. Inr (6, 7, ''/dev/ttys1''), VfPid = 16, RandInt31n = 255,
    CreateExclErr = \<lambda>_. None, BindUnix = \<lambda>_. None,
    ConnectUnix = \<lambda>_ _. None, SyscallConnErr = None, ControlErr = None,
    SendErr = None, DupFile = \<lambda>_. Inr 8, CloseConnErr = None, IpHost = Inr, MachineValid = True\<rparr>"

definition witness_state :: vf_state where
  "witness_state = \<lparr>VfRes = \<lparr>ResFiles = \<lambda>_. absent, ResDirs = {}, ResFds = {0, 1, 2}\<rparr>, VfHandlers = [],
    VzCalls = [], PlatformType = [], VfConfig = emptyConfiguration\<rparr>"

definition witness_net_vm :: VirtualMachine where
  "witness_net_vm = \<lparr>Vcpus = 1, Memory = 0x40000000,
    VmBootloader = Some (BootEFI efiBootloaderZero),
    VmDevices = [DevNet (virtioNetZero\<lparr>UnixSocketPath := ''/run/net'', VfkitMagic := True\<rparr>)],
    Timesync = None, VmIgnition = None, Nested = False\<rparr>"

lemma witness_local_name:
  "hex 16 = ''10''" "hex 255 = ''ff''"
  "filepath_Join (filepath_Dir ''/run/net'') ''vfkit-10-ff.sock'' = ''/run/vfkit-10-ff.sock''"
  by code_simp+

lemma witness_built: "\<exists>vm' st'. vf_NewVirtualMachine witness_env witness_net_vm witness_state = (Inr vm', st')"
  by (simp add: witness_env_def witness_state_def witness_net_vm_def vf_NewVirtualMachine_def VirtualMachine_toVz_def
      NewVirtualMachineConfiguration_def toVzBootloader_def toVzEFIBootloader_def vz_do_def
      platform_of_def NewGenericPlatformConfiguration_def wrapV_def wrapW_def set_platform_def
      modify_def update_config_def cfg_toVz_def VirtioNet_Add_def VirtioNet.defs connectUnixPath_def
      localUnixSocketPath_def local_socket_name_def witness_local_name maxUnixgramPathLen_def dial_unix_def check_def
      on_resources_def dup_file_def register_def VirtioNet_toVz_def add_vsock_for_def add_console_def
      emptyConfiguration_def bindS_def returnS_def virtioNetZero_def Let_def)

text \<open>
  Whatever the outcome of building the machine, the exit handlers leave nothing of it
  behind: no descriptor that was opened for a device stays open and no file it made stays,
  provided that no network device is connected to a unix socket path.
\<close>

theorem machine_released:
  assumes "list_all no_unix_path (VmDevices vm)" "\<forall>h \<in> set (VfHandlers st). handler_ok h"
    and "vf_NewVirtualMachine env vm st = (r, st')"
  shows "released (VfRes st) (after_exit st')"
proof -
  have "tidy (VfRes st) st" using assms(2) by (simp add: tidy_def)
  from preservesD [OF exit_tidy.machine [OF assms(1)] assms(3) this]
  show ?thesis by (rule tidy_released)
qed

definition witness_disk_vm :: VirtualMachine where
  "witness_disk_vm = witness_net_vm\<lparr>VmDevices := [DevBlk (virtioBlkNewEmpty\<lparr>ImagePath := ''/dev/disk4'',
    DiskType := ''dev''\<rparr>)]\<rparr>"

theorem machine_released_witness:
  "released (VfRes witness_state)
    (after_exit (snd (vf_NewVirtualMachine witness_env witness_disk_vm witness_state)))"
  by (rule machine_released [OF _ _ surjective_pairing])
    (simp_all add: witness_disk_vm_def witness_state_def)

text \<open>
  When the machine was built, the exit handlers remove the local socket and close the
  descriptor of every network device that was connected to a unix socket path, along with
  everything else.
\<close>

theorem built_machine_released:
  assumes "\<forall>h \<in> set (VfHandlers st). handler_ok h"
    and "vf_NewVirtualMachine env vm st = (Inr vm', st')"
  shows "released (VfRes st) (after_exit st')"
proof -
  have "tidy (VfRes st) st" using assms(1) by (simp add: tidy_def)
  from keepsD [OF tidy_machine assms(2) this] show ?thesis by (rule tidy_released)
qed

theorem built_machine_released_witness:
  "\<exists>st'. released (VfRes witness_state) (after_exit st')
    \<and> st' = snd (vf_NewVirtualMachine witness_env witness_net_vm witness_state)"
proof -
  from witness_built obtain vm' st'
    where b: "vf_NewVirtualMachine witness_env witness_net_vm witness_state = (Inr vm', st')" by blast
  have "released (VfRes witness_state) (after_exit st')"
    by (rule built_machine_released [OF _ b]) (simp add: witness_state_def)
  with b show ?thesis by simp
qed

text \<open>
  C38. When connecting to a unix socket path fails after the local socket was bound, whichever
  of the later steps fails (the connection, the access to the descriptor, sending the magic,
  duplicating the descriptor, closing the connection), the device is refused and the socket
  stays: its removal is registered only after the connection, so no exit handler removes it.
\<close>

theorem net_socket_left:
  assumes "localUnixSocketPath env (filepath_Dir (UnixSocketPath d)) st = (Inr name, st1)"
    and "length name < 104" "BindUnix env name = None" "UnixSocketPath d \<noteq> []"
    and "ConnectUnix env name (UnixSocketPath d) \<noteq> None \<or> SyscallConnErr env \<noteq> None
      \<or> ControlErr env \<noteq> None \<or> VfkitMagic d \<and> SendErr env \<noteq> None
      \<or> (\<exists>e. DupFile env (ResFds (VfRes st1)) = Inl e) \<or> CloseConnErr env \<noteq> None"
  shows "\<exists>e st'. VirtioNet_Add env d st = (Inl e, st') \<and> VfHandlers st' = VfHandlers st
    \<and> ResFiles (VfRes st') name = OpenFails (Sys ''socket'')"
proof -
  let ?d = "VirtioNet.extend d \<lparr>LocalAddr = None\<rparr>"
  have d: "UnixSocketPath ?d = UnixSocketPath d" "VfkitMagic ?d = VfkitMagic d"
    by (simp_all add: VirtioNet.defs)
  have "VfHandlers st1 = VfHandlers st"
    using assms(1) by (auto simp: localUnixSocketPath_def Let_def check_def on_resources_def
        modify_def bindS_def returnS_def split: option.splits)
  then have "\<exists>e st'. connectUnixPath env ?d st = (Inl e, st') \<and> VfHandlers st' = VfHandlers st
      \<and> ResFiles (VfRes st') name = OpenFails (Sys ''socket'')"
    unfolding connectUnixPath_def d
      bindS_Inr [where m = "localUnixSocketPath env (filepath_Dir (UnixSocketPath d))", OF assms(1)]
    using assms(2,3,5)
    by (cases "DupFile env (ResFds (VfRes st1))")
      (auto simp: maxUnixgramPathLen_def dial_unix_def check_def on_resources_def modify_def dup_file_def
        bind_socket_def open_fd_def bindS_def returnS_def split: option.splits)
  then show ?thesis
    using assms(4) d by (auto simp: VirtioNet_Add_def Let_def)
qed

theorem net_socket_left_witness:
  "\<exists>e st'. VirtioNet_Add (witness_env\<lparr>ConnectUnix := \<lambda>_ _. Some (Sys ''connection refused'')\<rparr>)
        (virtioNetZero\<lparr>UnixSocketPath := ''/run/net'', VfkitMagic := True\<rparr>) witness_state = (Inl e, st')
    \<and> VfHandlers st' = VfHandlers witness_state
    \<and> ResFiles (VfRes st') ''/run/vfkit-10-ff.sock'' = OpenFails (Sys ''socket'')"
  by (rule net_socket_left [where ?st1.0 = "witness_state\<lparr>VfRes := remove_file ''/run/vfkit-10-ff.sock'' (VfRes witness_state)\<rparr>"])
    (simp_all add: witness_env_def localUnixSocketPath_def local_socket_name_def witness_local_name
      check_def on_resources_def modify_def bindS_def returnS_def Let_def)

end
