(* ===== verification/VzSpec.thy ===== *)
theory VzSpec
  imports VzCleanup
begin

section \<open>What the built configuration holds\<close>

text \<open>
  The abstract specification of \<open>toVz\<close>: the configuration is a function of the devices
  alone, but for the numbers of the descriptors that were opened, which \<open>erase\<close> forgets.
\<close>

fun erase_attachment :: "attachment \<Rightarrow> attachment" where
  "erase_attachment (BlockAttachment (fd, path) ro) = BlockAttachment (0, path) ro"
| "erase_attachment a = a"

fun erase_storage :: "storage_config \<Rightarrow> storage_config" where
  "erase_storage (NVMeStorage a) = NVMeStorage (erase_attachment a)"
| "erase_storage (BlkStorage a i) = BlkStorage (erase_attachment a) i"
| "erase_storage (USBStorage a) = USBStorage (erase_attachment a)"
| "erase_storage (NbdStorage a i d) = NbdStorage (erase_attachment a) i d"

fun erase_net_attachment :: "net_attachment \<Rightarrow> net_attachment" where
  "erase_net_attachment (FileHandleNet fd) = FileHandleNet 0"
| "erase_net_attachment NATNet = NATNet"

definition erase_net :: "net_config \<Rightarrow> net_config" where
  "erase_net c = c\<lparr>NetAttachment := erase_net_attachment (NetAttachment c)\<rparr>"

definition erase :: "vm_configuration \<Rightarrow> vm_configuration" where
  "erase cfg = cfg\<lparr>StorageDevices := map erase_storage (StorageDevices cfg),
    NetworkDevices := map erase_net (NetworkDevices cfg),
    ConsolePorts := map (\<lambda>_. 0) (ConsolePorts cfg)\<rparr>"

subsection \<open>The contribution of each device\<close>

definition disk_attachment :: "'a DiskStorageConfig_scheme \<Rightarrow> attachment" where
  "disk_attachment c =
    (if DiskType c = DiskBackendBlockDevice then BlockAttachment (0, ImagePath c) (ReadOnly c)
     else ImageAttachment (ImagePath c) (ReadOnly c))"

fun storage_of :: "device \<Rightarrow> storage_config option" where
  "storage_of (DevNVMe d) = Some (NVMeStorage (disk_attachment d))"
| "storage_of (DevUSB d) = Some (USBStorage (disk_attachment d))"
| "storage_of (DevBlk d) = Some (BlkStorage (disk_attachment d)
     (if BlkDeviceIdentifier d = [] then None else Some (BlkDeviceIdentifier d)))"
| "storage_of (DevNbd d) = Some (NbdStorage
     (NbdAttachment (URI d) (Timeout d) (ReadOnly d) (SynchronizationModeVZ d)) (NbdDeviceIdentifier d) d)"
| "storage_of d = None"

fun sharing_of :: "device \<Rightarrow> sharing_config option" where
  "sharing_of (DevFs d) = Some (DirectoryShare
     (if MountTag d \<noteq> [] then MountTag d else filepath_Base (SharedDir d)) (SharedDir d))"
| "sharing_of (DevRosetta d) = Some (LinuxRosettaShare (MountTag d))"
| "sharing_of d = None"

fun graphics_of :: "bool \<Rightarrow> device \<Rightarrow> graphics_config option" where
  "graphics_of macos (DevGPU d) =
     Some (if macos then MacGraphics (Width d) (Height d) else VirtioGraphics (Width d) (Height d))"
| "graphics_of macos d = None"

fun net_of :: "device \<Rightarrow> net_config option" where
  "net_of (DevNet d) = Some \<lparr>NetAttachment =
       (if Socket d \<noteq> None \<or> UnixSocketPath d \<noteq> [] then FileHandleNet 0 else NATNet),
     NetMAC = (if MacAddress d = [] then None else Some (MacAddress d))\<rparr>"
| "net_of d = None"

fun serial_of :: "device \<Rightarrow> serial_config option" where
  "serial_of (DevSerial d) =
     (if UsesPty d then None else Some (if UsesStdio d then StdioSerial else FileSerial (LogFile d)))"
| "serial_of d = None"

fun console_of :: "device \<Rightarrow> nat option" where
  "console_of (DevSerial d) = (if UsesPty d then Some 0 else None)"
| "console_of d = None"

fun pointing_of :: "device \<Rightarrow> unit option" where
  "pointing_of (DevInput d) = (if InputType d = VirtioInputPointingDevice then Some () else None)"
| "pointing_of d = None"

fun keyboard_of :: "device \<Rightarrow> unit option" where
  "keyboard_of (DevInput d) = (if InputType d = VirtioInputPointingDevice then None else Some ())"
| "keyboard_of d = None"

fun entropy_of :: "device \<Rightarrow> unit option" where
  "entropy_of (DevRng d) = Some ()"
| "entropy_of d = None"

fun vsock_of :: "device \<Rightarrow> unit option" where
  "vsock_of (DevVsock d) = Some ()"
| "vsock_of d = None"

fun balloon_of :: "device \<Rightarrow> unit option" where
  "balloon_of (DevBalloon d) = Some ()"
| "balloon_of d = None"

definition at_most_one :: "'a list \<Rightarrow> nat" where
  "at_most_one xs = (if xs = [] then 0 else 1)"

definition devices_configuration :: "bool \<Rightarrow> device list \<Rightarrow> vm_configuration" where
  "devices_configuration macos ds =
    \<lparr>StorageDevices = List.map_filter storage_of ds,
     DirectorySharing = List.map_filter sharing_of ds,
     Keyboards = length (List.map_filter keyboard_of ds),
     PointingDevices = length (List.map_filter pointing_of ds),
     GraphicsDevices = List.map_filter (graphics_of macos) ds,
     NetworkDevices = List.map_filter net_of ds,
     EntropyDevices = length (List.map_filter entropy_of ds),
     SerialPorts = List.map_filter serial_of ds,
     SocketDevices = at_most_one (List.map_filter vsock_of ds),
     ConsolePorts = List.map_filter console_of ds,
     Balloons = at_most_one (List.map_filter balloon_of ds)\<rparr>"

text \<open>Time synchronisation and ignition need a vsock device for a port that is not 0.\<close>

definition port_wanted :: "u32 option \<Rightarrow> bool" where
  "port_wanted p \<longleftrightarrow> p \<noteq> None \<and> p \<noteq> Some 0"

definition machine_configuration :: "bool \<Rightarrow> VirtualMachine \<Rightarrow> vm_configuration" where
  "machine_configuration macos vm =
    (let cfg = devices_configuration macos (VmDevices vm)
     in if port_wanted (map_option TimeSyncPort (Timesync vm))
           \<or> port_wanted (map_option VsockPort (VmIgnition vm))
        then cfg\<lparr>SocketDevices := 1\<rparr> else cfg)"

subsection \<open>The functions of pkg/vf meet it\<close>

text \<open>Everything up to the last step of adding a device leaves the configuration alone.\<close>

definition framed :: "vm_configuration \<Rightarrow> string \<Rightarrow> vf_state \<Rightarrow> bool" where
  "framed c p st \<longleftrightarrow> VfConfig st = c \<and> PlatformType st = p"

lemma framed_open [preserves_intros]:
  "preserves (framed c p) (open_block_device env path ro)" "preserves (framed c p) (open_pty env)"
  by (simp_all add: preserves_def framed_def open_block_device_def open_pty_def
      split: sum.split prod.split)

lemma framed_change [preserves_intros]:
  "preserves (framed c p) (register h)" "preserves (framed c p) (on_resources f)"
  "preserves (framed c p) (dup_file env)"
  by (simp_all add: preserves_def framed_def register_def on_resources_def modify_def dup_file_def
      split: sum.split)

interpretation frame: vz_invariant env "framed c p" for env c p
proof
  show call: "framed c p (st\<lparr>VzCalls := cs\<rparr>)" if "framed c p st" for st cs
    using that by (simp add: framed_def)
  have "preserves (framed c p) (attach_block_device env ro f)" for ro f
    by (auto simp: preserves_def framed_def attach_block_device_def vz_do_def Let_def bindS_def
        on_resources_def register_def modify_def returnS_def split: option.split)
  then show "preserves (framed c p) (bindS (open_block_device env path ro) (attach_block_device env ro))"
    for path ro by (intro preserves_intros)
  show "preserves (framed c p) (open_console env)"
    unfolding open_console_def by (intro preserves_intros)
qed

lemma frameD: "preserves (framed (VfConfig st) (PlatformType st)) m \<Longrightarrow> m st = (r, st') \<Longrightarrow>
    VfConfig st' = VfConfig st \<and> PlatformType st' = PlatformType st"
  using preservesD [of "framed (VfConfig st) (PlatformType st)" m st r st'] by (simp add: framed_def)

lemma collectE:
  assumes "bindS m (\<lambda>c. update_config (f c)) st = (Inr u, st')"
    and "preserves (framed (VfConfig st) (PlatformType st)) m"
  obtains c st1 where "m st = (Inr c, st1)" "VfConfig st' = f c (VfConfig st)"
    "PlatformType st' = PlatformType st"
proof -
  from assms(1) obtain c st1 where c: "m st = (Inr c, st1)" "update_config (f c) st1 = (Inr u, st')"
    by (rule bindS_InrE)
  from frameD [OF assms(2) c(1)] c show thesis
    by (auto simp: update_config_def modify_def intro: that)
qed

text \<open>The results of the \<open>toVz\<close> functions.\<close>

lemma disk_toVz:
  "DiskStorageConfig_toVz env c st = (Inr a, st') \<Longrightarrow> erase_attachment a = disk_attachment c"
  by (auto simp: DiskStorageConfig_toVz_def disk_attachment_def DiskBackendImage_def
      DiskBackendDefault_def DiskBackendBlockDevice_def open_block_device_def attach_block_device_def
      vz_do_def Let_def bindS_def returnS_def on_resources_def register_def modify_def
      split: if_splits option.splits sum.splits)

lemma storage_toVz:
  "NVMExpressController_toVz env nvme st = (Inr s, st') \<Longrightarrow> Some (erase_storage s) = storage_of (DevNVMe nvme)"
  "USBMassStorage_toVz env usb st = (Inr s, st') \<Longrightarrow> Some (erase_storage s) = storage_of (DevUSB usb)"
  "VirtioBlk_toVz env blk st = (Inr s, st') \<Longrightarrow> Some (erase_storage s) = storage_of (DevBlk blk)"
  "NetworkBlockDevice_toVz env nbd st = (Inr s, st') \<Longrightarrow> Some (erase_storage s) = storage_of (DevNbd nbd)"
  by (auto simp: NVMExpressController_toVz_def USBMassStorage_toVz_def VirtioBlk_toVz_def
      NetworkBlockDevice_toVz_def Let_def elim!: bindS_InrE dest!: disk_toVz split: if_splits)

lemma sharing_toVz:
  "VirtioFs_toVz env fs st = (Inr s, st') \<Longrightarrow> Some s = sharing_of (DevFs fs)"
  "RosettaShare_toVz env r st = (Inr s, st') \<Longrightarrow> Some s = sharing_of (DevRosetta r)"
  by (auto simp: VirtioFs_toVz_def RosettaShare_toVz_def Let_def elim!: bindS_InrE split: if_splits)

lemma graphics_toVz:
  "VirtioGPU_toVz env gpu st = (Inr g, st') \<Longrightarrow>
    Some g = graphics_of (PlatformType st = ''macos'') (DevGPU gpu)"
  by (auto simp: VirtioGPU_toVz_def newMacGraphicsDeviceConfiguration_def
      newVirtioGraphicsDeviceConfiguration_def elim!: bindS_InrE split: if_splits)

lemma input_toVz:
  "VirtioInput_toVz env inp st = (Inr c, st') \<Longrightarrow>
    c = (if InputType inp = VirtioInputPointingDevice then PointingConfig else KeyboardConfig)"
  by (auto simp: VirtioInput_toVz_def elim!: bindS_InrE split: if_splits)

lemma serial_toVz:
  "VirtioSerial_toVz env s st = (Inr c, st') \<Longrightarrow>
    c = (if UsesStdio s then StdioSerial else FileSerial (LogFile s))"
  by (auto simp: VirtioSerial_toVz_def Let_def elim!: bindS_InrE split: if_splits)

lemma net_toVz:
  assumes "VirtioNet_toVz env dev st = (Inr c, st')"
  shows "erase_net c = \<lparr>NetAttachment = (if Socket dev \<noteq> None then FileHandleNet 0 else NATNet),
    NetMAC = (if MacAddress dev = [] then None else Some (MacAddress dev))\<rparr>"
  using assms by (auto simp: VirtioNet_toVz_def Let_def erase_net_def elim!: bindS_InrE
      split: option.splits if_splits)

lemma framed_connect: "preserves (framed c p) (connectUnixPath env dev)"
  unfolding connectUnixPath_def localUnixSocketPath_def dial_unix_def Let_def
  by (intro preserves_intros)

definition opt_list :: "'a option \<Rightarrow> 'a list" where
  "opt_list x = (case x of None \<Rightarrow> [] | Some y \<Rightarrow> [y])"

definition add_configuration :: "bool \<Rightarrow> device \<Rightarrow> vm_configuration \<Rightarrow> vm_configuration" where
  "add_configuration macos d cfg =
    \<lparr>StorageDevices = StorageDevices cfg @ opt_list (storage_of d),
     DirectorySharing = DirectorySharing cfg @ opt_list (sharing_of d),
     Keyboards = Keyboards cfg + length (opt_list (keyboard_of d)),
     PointingDevices = PointingDevices cfg + length (opt_list (pointing_of d)),
     GraphicsDevices = GraphicsDevices cfg @ opt_list (graphics_of macos d),
     NetworkDevices = NetworkDevices cfg @ opt_list (net_of d),
     EntropyDevices = EntropyDevices cfg + length (opt_list (entropy_of d)),
     SerialPorts = SerialPorts cfg @ opt_list (serial_of d),
     SocketDevices = (if vsock_of d \<noteq> None \<and> SocketDevices cfg = 0 then 1 else SocketDevices cfg),
     ConsolePorts = ConsolePorts cfg @ opt_list (console_of d),
     Balloons = (if balloon_of d \<noteq> None then 1 else Balloons cfg)\<rparr>"

lemma opt_list_simps: "opt_list None = []" "opt_list (Some x) = [x]"
  by (simp_all add: opt_list_def)

lemma map_filter_snoc: "List.map_filter f (xs @ [x]) = List.map_filter f xs @ opt_list (f x)"
  by (simp add: List.map_filter_def opt_list_def split: option.split)

lemma devices_configuration_snoc:
  "devices_configuration macos (ds @ [d]) = add_configuration macos d (devices_configuration macos ds)"
  by (auto simp: devices_configuration_def add_configuration_def map_filter_snoc at_most_one_def
      opt_list_def split: option.split)

text \<open>One device: its contribution is added, and the platform type stays.\<close>

definition adds :: "vf_state \<Rightarrow> device \<Rightarrow> vf_state \<Rightarrow> bool" where
  "adds st d st' \<longleftrightarrow> erase (VfConfig st') = add_configuration (PlatformType st = ''macos'') d (erase (VfConfig st))
    \<and> PlatformType st' = PlatformType st"

lemma collect_step:
  assumes "bindS m (\<lambda>c. update_config (f c)) st = (Inr u, st')" "\<And>c p. preserves (framed c p) m"
    and "\<And>c st1. m st = (Inr c, st1) \<Longrightarrow> erase (f c (VfConfig st))
      = add_configuration (PlatformType st = ''macos'') d (erase (VfConfig st))"
  shows "adds st d st'"
proof -
  obtain c st1 where "m st = (Inr c, st1)" "VfConfig st' = f c (VfConfig st)"
    "PlatformType st' = PlatformType st"
    using assms(1,2) by (rule collectE)
  with assms(3) show ?thesis by (simp add: adds_def)
qed

lemmas adds_eval = add_configuration_def erase_def opt_list_simps

lemma storage_step:
  assumes "bindS m add_storage st = (Inr u, st')" "\<And>c p. preserves (framed c p) m"
    and "\<And>s st1. m st = (Inr s, st1) \<Longrightarrow> Some (erase_storage s) = storage_of d"
    and "d = DevNVMe nvme \<or> d = DevUSB usb \<or> d = DevBlk blk \<or> d = DevNbd nbd"
  shows "adds st d st'"
proof (rule collect_step [OF assms(1) [unfolded add_storage_def] assms(2)])
  fix s st1 assume "m st = (Inr s, st1)"
  from assms(3) [OF this, symmetric] assms(4)
  show "erase ((VfConfig st)\<lparr>StorageDevices := StorageDevices (VfConfig st) @ [s]\<rparr>)
      = add_configuration (PlatformType st = ''macos'') d (erase (VfConfig st))"
    by (cases "VfConfig st") (auto simp: adds_eval simp del: storage_of.simps)
qed

lemma sharing_step:
  assumes "bindS m add_sharing st = (Inr u, st')" "\<And>c p. preserves (framed c p) m"
    and "\<And>s st1. m st = (Inr s, st1) \<Longrightarrow> Some s = sharing_of d"
    and "d = DevFs fs \<or> d = DevRosetta r"
  shows "adds st d st'"
proof (rule collect_step [OF assms(1) [unfolded add_sharing_def] assms(2)])
  fix s st1 assume "m st = (Inr s, st1)"
  from assms(3) [OF this, symmetric] assms(4)
  show "erase ((VfConfig st)\<lparr>DirectorySharing := DirectorySharing (VfConfig st) @ [s]\<rparr>)
      = add_configuration (PlatformType st = ''macos'') d (erase (VfConfig st))"
    by (cases "VfConfig st") (auto simp: adds_eval simp del: sharing_of.simps)
qed

lemma blk_step:
  assumes "VirtioBlk_Add env blk st = (Inr u, st')"
  shows "adds st (DevBlk blk) st'"
proof (rule storage_step [where m = "VirtioBlk_toVz env blk"])
  show "bindS (VirtioBlk_toVz env blk) add_storage st = (Inr u, st')"
    using assms by (auto simp: VirtioBlk_Add_def bindS_eq_Inr split: if_splits)
  show "\<And>s st1. VirtioBlk_toVz env blk st = (Inr s, st1) \<Longrightarrow>
      Some (erase_storage s) = storage_of (DevBlk blk)" by (rule storage_toVz(3))
qed (simp_all add: frame.disks(3))

lemma gpu_step:
  assumes "VirtioGPU_Add env gpu st = (Inr u, st')"
  shows "adds st (DevGPU gpu) st'"
proof (rule collect_step [OF assms [unfolded VirtioGPU_Add_def] frame.graphics])
  fix g st1 assume "VirtioGPU_toVz env gpu st = (Inr g, st1)"
  from graphics_toVz [OF this]
  show "erase ((VfConfig st)\<lparr>GraphicsDevices := GraphicsDevices (VfConfig st) @ [g]\<rparr>)
      = add_configuration (PlatformType st = ''macos'') (DevGPU gpu) (erase (VfConfig st))"
    by (cases "VfConfig st") (auto simp: adds_eval)
qed

lemma vz_do_framed: "preserves (framed c p) (vz_do env call)"
  by (rule frame.vz_do)

lemma rng_step: "VirtioRng_Add env r st = (Inr u, st') \<Longrightarrow> adds st (DevRng r) st'"
  unfolding VirtioRng_Add_def VirtioRng_toVz_def
  by (erule collect_step) (auto simp: vz_do_framed, cases "VfConfig st", simp add: adds_eval)

lemma balloon_step: "VirtioBalloon_Add env b st = (Inr u, st') \<Longrightarrow> adds st (DevBalloon b) st'"
  unfolding VirtioBalloon_Add_def VirtioBalloon_toVz_def
  by (erule collect_step) (auto simp: vz_do_framed, cases "VfConfig st", simp add: adds_eval)

lemma input_step:
  assumes "VirtioInput_Add env inp st = (Inr u, st')"
  shows "adds st (DevInput inp) st'"
proof -
  have "bindS (VirtioInput_toVz env inp) (\<lambda>conf. update_config
      (\<lambda>cfg. if conf = PointingConfig then cfg\<lparr>PointingDevices := Suc (PointingDevices cfg)\<rparr>
        else cfg\<lparr>Keyboards := Suc (Keyboards cfg)\<rparr>)) st = (Inr u, st')"
    using assms unfolding VirtioInput_Add_def by (auto simp: bindS_eq_Inr split: if_splits)
  then show ?thesis
    by (rule collect_step)
      (use frame.input in \<open>auto dest!: input_toVz\<close>, cases "VfConfig st",
        auto simp: adds_eval split: if_splits)
qed

lemma vsock_add:
  assumes "VirtioVsock_Add env v st = (Inr u, st')"
  shows "VfConfig st' = (if SocketDevices (VfConfig st) = 0 then (VfConfig st)\<lparr>SocketDevices := 1\<rparr>
      else VfConfig st) \<and> PlatformType st' = PlatformType st"
proof (cases "SocketDevices (VfConfig st) = 0")
  case True
  then have "bindS (vz_do env VzSocketDevice)
      (\<lambda>_. update_config (\<lambda>cfg. cfg\<lparr>SocketDevices := Suc (SocketDevices cfg)\<rparr>)) st = (Inr u, st')"
    using assms by (simp add: VirtioVsock_Add_def)
  then show ?thesis using True by (elim collectE) (auto simp: vz_do_framed)
qed (use assms in \<open>simp add: VirtioVsock_Add_def\<close>)

lemma vsock_step: "VirtioVsock_Add env v st = (Inr u, st') \<Longrightarrow> adds st (DevVsock v) st'"
  using vsock_add [of env v st u st'] by (cases "VfConfig st") (simp add: adds_def adds_eval)

lemma serial_step:
  assumes "VirtioSerial_Add env d st = (Inr d', st')"
  shows "adds st (DevSerial d) st'"
proof (cases "UsesPty d")
  case True
  with assms obtain st1 where "bindS (VirtioSerial_toVzConsole env d)
      (\<lambda>c. update_config (\<lambda>cfg. cfg\<lparr>ConsolePorts := ConsolePorts cfg @ [fst c]\<rparr>)) st = (Inr (), st1)" "st1 = st'"
    by (auto simp: VirtioSerial_Add_def bindS_eq_Inr split: if_splits)
  then show ?thesis
    using True frame.serial(2) by (auto elim!: collect_step intro: exI)
      (cases "VfConfig st", auto simp: adds_eval)
next
  case False
  with assms obtain st1 where "bindS (VirtioSerial_toVz env d)
      (\<lambda>c. update_config (\<lambda>cfg. cfg\<lparr>SerialPorts := SerialPorts cfg @ [c]\<rparr>)) st = (Inr (), st1)" "st1 = st'"
    by (auto simp: VirtioSerial_Add_def bindS_eq_Inr split: if_splits)
  then show ?thesis
    using False frame.serial(1) by (auto elim!: collect_step dest!: serial_toVz)
      (cases "VfConfig st", auto simp: adds_eval)
qed

lemma connect_device:
  assumes "connectUnixPath env dev st = (Inr dev', st')"
  shows "Socket dev' \<noteq> None \<and> MacAddress dev' = MacAddress dev"
  using assms by (auto simp: connectUnixPath_def elim!: bindS_InrE split: if_splits)

lemma net_step:
  assumes "VirtioNet_Add env d st = (Inr d', st')"
  shows "adds st (DevNet d) st'"
proof -
  let ?d = "VirtioNet.extend d \<lparr>LocalAddr = None\<rparr>"
  let ?m = "bindS (if UnixSocketPath ?d \<noteq> [] then connectUnixPath env ?d else returnS (Inr ?d))
    (\<lambda>dev. bindS (register (Shutdown dev)) (\<lambda>_. VirtioNet_toVz env dev))"
  have "bindS ?m (\<lambda>c. update_config (\<lambda>cfg. cfg\<lparr>NetworkDevices := NetworkDevices cfg @ [c]\<rparr>)) st = (Inr (), st')"
    using assms by (fastforce simp: VirtioNet_Add_def Let_def bindS_eq_Inr)
  then show ?thesis
  proof (rule collect_step)
    show "preserves (framed c p) ?m" for c p
      by (intro preserves_intros framed_connect frame.net)
    fix c st1 assume "?m st = (Inr c, st1)"
    then obtain dev st2 st3 where dev: "(if UnixSocketPath ?d \<noteq> [] then connectUnixPath env ?d else returnS (Inr ?d)) st = (Inr dev, st2)"
      and c: "VirtioNet_toVz env dev st3 = (Inr c, st1)"
      by (elim bindS_InrE) auto
    have "MacAddress dev = MacAddress d" "Socket dev \<noteq> None \<longleftrightarrow> Socket d \<noteq> None \<or> UnixSocketPath d \<noteq> []"
      using dev connect_device [of env ?d st dev st2] by (auto simp: VirtioNet.defs split: if_splits)
    with net_toVz [OF c] show "erase ((VfConfig st)\<lparr>NetworkDevices := NetworkDevices (VfConfig st) @ [c]\<rparr>)
        = add_configuration (PlatformType st = ''macos'') (DevNet d) (erase (VfConfig st))"
      by (cases "VfConfig st") (auto simp: adds_eval)
  qed
qed

lemma device_step:
  assumes "AddToVirtualMachineConfig env d st = (Inr d', st')"
  shows "adds st d st'"
proof (cases d)
  case (DevRosetta r)
  with assms have "bindS (RosettaShare_toVz env r) add_sharing st = (Inr (), st')"
    by (auto simp: RosettaShare_Add_def bindS_eq_Inr split: if_splits)
  then show ?thesis
    unfolding DevRosetta by (rule sharing_step [OF _ frame.sharing(2) sharing_toVz(2)]) auto
next
  case (DevFs fs)
  with assms have "bindS (VirtioFs_toVz env fs) add_sharing st = (Inr (), st')"
    by (auto simp: VirtioFs_Add_def bindS_eq_Inr)
  then show ?thesis
    unfolding DevFs by (rule sharing_step [OF _ frame.sharing(1) sharing_toVz(1)]) auto
next
  case (DevNVMe dev)
  with assms have "bindS (NVMExpressController_toVz env dev) add_storage st = (Inr (), st')"
    by (auto simp: NVMExpressController_Add_def bindS_eq_Inr)
  then show ?thesis
    unfolding DevNVMe by (rule storage_step [OF _ frame.disks(1) storage_toVz(1)]) auto
next
  case (DevUSB dev)
  with assms have "bindS (USBMassStorage_toVz env dev) add_storage st = (Inr (), st')"
    by (auto simp: USBMassStorage_Add_def bindS_eq_Inr)
  then show ?thesis
    unfolding DevUSB by (rule storage_step [OF _ frame.disks(2) storage_toVz(2)]) auto
next
  case (DevNbd dev)
  with assms have "bindS (NetworkBlockDevice_toVz env dev) add_storage st = (Inr (), st')"
    by (auto simp: NetworkBlockDevice_Add_def bindS_eq_Inr)
  then show ?thesis
    unfolding DevNbd by (rule storage_step [OF _ frame.disks(4) storage_toVz(4)]) auto
qed (use assms in \<open>auto elim!: bindS_InrE dest: blk_step net_step rng_step serial_step vsock_step
    input_step gpu_step balloon_step\<close>)

lemma devices_step:
  "add_devices env ds st = (Inr ds', st') \<Longrightarrow> PlatformType st' = PlatformType st
    \<and> erase (VfConfig st') = foldl (\<lambda>cfg d. add_configuration (PlatformType st = ''macos'') d cfg) (erase (VfConfig st)) ds"
proof (induction ds arbitrary: st ds')
  case (Cons d ds)
  then obtain d' ds'' st1 where "AddToVirtualMachineConfig env d st = (Inr d', st1)"
    "add_devices env ds st1 = (Inr ds'', st')"
    by (auto elim!: bindS_InrE)
  with Cons.IH [OF this(2)] device_step show ?case by (auto simp: adds_def)
qed simp

lemma devices_configuration_foldl:
  "foldl (\<lambda>cfg d. add_configuration macos d cfg) (devices_configuration macos []) ds
    = devices_configuration macos ds"
  by (induction ds rule: rev_induct) (simp_all add: devices_configuration_snoc)

subsection \<open>The machine\<close>

lemma vsock_for_add:
  assumes "add_vsock_for env port st = (Inr u, st')"
  shows "VfConfig st' = (if port_wanted port \<and> SocketDevices (VfConfig st) = 0
      then (VfConfig st)\<lparr>SocketDevices := 1\<rparr> else VfConfig st) \<and> PlatformType st' = PlatformType st"
  using assms by (auto simp: add_vsock_for_def port_wanted_def dest!: vsock_add
      split: option.splits if_splits)

lemma cfg_toVz_spec:
  assumes "cfg_toVz env vm st = (Inr vm', st')" "VfConfig st = emptyConfiguration"
  shows "erase (VfConfig st') = machine_configuration (PlatformType st = ''macos'') vm"
proof -
  from assms(1) obtain ds st1 st2 st3 u v where
    d: "add_devices env (VmDevices vm) st = (Inr ds, st1)"
    and t: "add_vsock_for env (map_option TimeSyncPort (Timesync vm)) st1 = (Inr u, st2)"
    and i: "add_vsock_for env (map_option VsockPort (VmIgnition vm)) st2 = (Inr v, st3)"
    and rest: "\<exists>st4. add_console env st3 = (Inr (), st4) \<and> vz_do env VzValidate st4 = (Inr (), st')"
    unfolding cfg_toVz_def by (elim bindS_InrE) (auto split: if_splits)
  have "VfConfig st' = VfConfig st3"
    using rest by (auto simp: add_console_def vz_do_def Let_def split: if_splits option.splits)
  moreover have "erase emptyConfiguration = devices_configuration (PlatformType st = ''macos'') []"
    by (simp add: emptyConfiguration_def erase_def devices_configuration_def at_most_one_def)
  then have "erase (VfConfig st1) = devices_configuration (PlatformType st = ''macos'') (VmDevices vm)"
    using devices_step [OF d] by (simp add: assms(2) devices_configuration_foldl)
  ultimately show ?thesis
    using vsock_for_add [OF t] vsock_for_add [OF i]
    by (cases "VfConfig st1") (auto simp: machine_configuration_def Let_def erase_def
        devices_configuration_def at_most_one_def split: if_splits)
qed

definition is_macos :: "VirtualMachine \<Rightarrow> bool" where
  "is_macos vm \<longleftrightarrow> (case VmBootloader vm of Some (BootMacOS b) \<Rightarrow> True | _ \<Rightarrow> False)"

lemma platform_spec:
  assumes "platform_of env vm st = (Inr u, st')"
  shows "VfConfig st' = VfConfig st \<and> (PlatformType st' = ''macos'' \<longleftrightarrow> is_macos vm)"
proof -
  have mac: "VfConfig st' = VfConfig st" if "NewMacPlatformConfiguration env b st = (r, st')" for b r st'
  proof -
    have "preserves (framed (VfConfig st) (PlatformType st)) (NewMacPlatformConfiguration env b)"
      unfolding NewMacPlatformConfiguration_def by (intro preserves_intros vz_do_framed)
    from frameD [OF this that] show ?thesis by simp
  qed
  have gen: "VfConfig st' = VfConfig st" if "wrapV s (NewGenericPlatformConfiguration env vm) st = (r, st')" for s r st'
  proof -
    have "preserves (framed (VfConfig st) (PlatformType st)) (wrapV s (NewGenericPlatformConfiguration env vm))"
      unfolding NewGenericPlatformConfiguration_def by (intro preserves_intros vz_do_framed)
    from frameD [OF this that] show ?thesis by simp
  qed
  show ?thesis
  proof (cases "is_macos vm")
    case True
    then obtain b where b: "VmBootloader vm = Some (BootMacOS b)"
      by (auto simp: is_macos_def split: option.splits bootloader.splits)
    obtain r st1 where r: "NewMacPlatformConfiguration env b st = (r, st1)"
      by (cases "NewMacPlatformConfiguration env b st") auto
    have "PlatformType st' = ''macos'' \<and> VfConfig st' = VfConfig st1"
      using assms by (cases r) (auto simp: platform_of_def b r set_platform_def modify_def bindS_def
          returnS_def split: if_splits)
    then show ?thesis using True mac [OF r] by simp
  next
    case False
    then have "platform_of env vm = bindS (wrapV ''error creating generic platform configuration''
        (NewGenericPlatformConfiguration env vm)) (\<lambda>_. set_platform ''linux'')"
      by (auto simp: platform_of_def is_macos_def split: option.split bootloader.split)
    then obtain v st1 where "wrapV ''error creating generic platform configuration''
        (NewGenericPlatformConfiguration env vm) st = (Inr v, st1)" "set_platform ''linux'' st1 = (Inr u, st')"
      using assms by (auto elim: bindS_InrE)
    with gen False show ?thesis by (auto simp: set_platform_def modify_def)
  qed
qed

lemma machine_spec:
  assumes "vf_NewVirtualMachine env vm st = (Inr vm', st')"
  shows "erase (VfConfig st') = machine_configuration (is_macos vm) vm"
proof -
  from assms obtain u v st1 st2 st3 where
    c: "NewVirtualMachineConfiguration env vm st = (Inr u, st1)"
    and p: "platform_of env vm st1 = (Inr v, st2)"
    and t: "cfg_toVz env vm st2 = (Inr vm', st3)"
    and m: "vz_do env VzMachine st3 = (Inr (), st')"
    unfolding vf_NewVirtualMachine_def VirtualMachine_toVz_def by (elim bindS_InrE) auto
  have "VfConfig st1 = emptyConfiguration"
    using c by (auto simp: NewVirtualMachineConfiguration_def update_config_def modify_def elim!: bindS_InrE)
  with platform_spec [OF p] cfg_toVz_spec [OF t]
  have "erase (VfConfig st3) = machine_configuration (is_macos vm) vm" by simp
  then show ?thesis using m by (auto simp: vz_do_def Let_def split: option.splits)
qed

lemma listen_erase:
  "ListenNetworkBlockDevices (map erase_storage cs) = ListenNetworkBlockDevices cs"
proof (induction cs)
  case (Cons c cs)
  show ?case
  proof (cases c)
    case (NbdStorage a i n)
    then show ?thesis using Cons by (cases a) (auto split: prod.split)
  qed (use Cons in auto)
qed simp

lemma listen_storage_of: "ListenNetworkBlockDevices (List.map_filter storage_of ds) = Inr ()"
proof (induction ds)
  case (Cons d ds)
  then show ?case by (cases d) (simp_all add: List.map_filter_simps)
qed (simp add: List.map_filter_simps)

text \<open>A machine with two vsock devices, a block device, and a connected network device.\<close>

definition witness_spec_vm :: VirtualMachine where
  "witness_spec_vm = witness_net_vm\<lparr>
    VmDevices := [DevVsock virtioVsockZero, DevBlk (virtioBlkNewEmpty\<lparr>ImagePath := ''/dev/disk4'',
      DiskType := ''dev''\<rparr>), DevVsock virtioVsockZero, DevBalloon ()] @ VmDevices witness_net_vm,
    Timesync := Some \<lparr>TimeSyncPort = 1234\<rparr>\<rparr>"

lemma witness_spec_built:
  "\<exists>vm' st'. vf_NewVirtualMachine witness_env witness_spec_vm witness_state = (Inr vm', st')"
  by (simp add: witness_env_def witness_state_def witness_spec_vm_def witness_net_vm_def
      vf_NewVirtualMachine_def VirtualMachine_toVz_def NewVirtualMachineConfiguration_def toVzBootloader_def
      toVzEFIBootloader_def vz_do_def platform_of_def NewGenericPlatformConfiguration_def wrapV_def
      wrapW_def set_platform_def modify_def update_config_def cfg_toVz_def VirtioNet_Add_def
      VirtioNet.defs connectUnixPath_def localUnixSocketPath_def local_socket_name_def witness_local_name
      maxUnixgramPathLen_def dial_unix_def check_def on_resources_def dup_file_def register_def
      VirtioNet_toVz_def add_vsock_for_def add_console_def emptyConfiguration_def bindS_def
      returnS_def virtioNetZero_def VirtioVsock_Add_def VirtioBlk_Add_def VirtioBlk_toVz_def
      DiskStorageConfig_toVz_def DiskBackendImage_def DiskBackendDefault_def
      DiskBackendBlockDevice_def DiskBackendType_IsValid_def open_block_device_def
      attach_block_device_def add_storage_def virtioBlkNewEmpty_def VirtioBalloon_Add_def VirtioBalloon_toVz_def Let_def)

text \<open>
  C6. The virtual machine that \<open>pkg/vf\<close> builds is the one the configuration describes: the
  storage, sharing, graphics, network, serial and console devices are those of the
  configuration in its order, there is one vsock device when any vsock device, a time
  synchronisation port or an ignition port asks for one, and one balloon at most.
\<close>

theorem built_configuration:
  assumes "vf_NewVirtualMachine env vm st = (Inr vm', st')"
  shows "erase (VfConfig st') = machine_configuration (is_macos vm) vm"
  using assms by (rule machine_spec)

theorem built_configuration_witness:
  "erase (VfConfig (snd (vf_NewVirtualMachine witness_env witness_spec_vm witness_state)))
    = machine_configuration False witness_spec_vm"
proof -
  from witness_spec_built obtain vm' st'
    where b: "vf_NewVirtualMachine witness_env witness_spec_vm witness_state = (Inr vm', st')" by blast
  have "is_macos witness_spec_vm = False"
    by (simp add: is_macos_def witness_spec_vm_def witness_net_vm_def)
  with built_configuration [OF b] b show ?thesis by simp
qed

text \<open>
  Once the machine is built, \<open>ListenNetworkBlockDevices\<close> cannot fail: every network
  block device in its configuration has a network block attachment.
\<close>

theorem nbd_listen_ok:
  assumes "vf_NewVirtualMachine env vm st = (Inr vm', st')"
  shows "ListenNetworkBlockDevices (StorageDevices (VfConfig st')) = Inr ()"
proof -
  have "map erase_storage (StorageDevices (VfConfig st')) = List.map_filter storage_of (VmDevices vm)"
    using arg_cong [OF machine_spec [OF assms], of StorageDevices]
    by (simp add: erase_def machine_configuration_def devices_configuration_def Let_def)
  then show ?thesis using listen_erase [of "StorageDevices (VfConfig st')"] listen_storage_of by simp
qed

theorem nbd_listen_ok_witness:
  "ListenNetworkBlockDevices (StorageDevices (VfConfig
    (snd (vf_NewVirtualMachine witness_env witness_net_vm witness_state)))) = Inr ()"
proof -
  from witness_built obtain vm' st'
    where b: "vf_NewVirtualMachine witness_env witness_net_vm witness_state = (Inr vm', st')" by blast
  from nbd_listen_ok [OF b] b show ?thesis by simp
qed

end
