(* ===== verification/Vsock.thy ===== *)
theory Vsock
  imports VzSpec
begin

section \<open>Exposing vsock ports\<close>

text \<open>
  \<open>pkg/vf/vsock.go\<close>: a port of the guest is exposed on a unix socket of the host, in one
  of two directions, through \<open>github.com/inetaf/tcpproxy\<close>. The proxy calls the functions
  it is given with the addresses it was given: the model has these functions and addresses,
  and the outcome of binding a socket and of the calls on the device as arguments.
\<close>

subsection \<open>The code\<close>

text \<open>\<open>vm.SocketDevices()\<close> has \<open>n\<close> elements; \<open>dial\<close> is \<open>Connect\<close> of the device.\<close>

definition vsock_count_error :: "nat \<Rightarrow> error" where
  "vsock_count_error n =
    Errorf (''VM has too many/not enough virtio-vsock devices ('' @ dec n @ '')'')"

definition ConnectVsockSync :: "nat \<Rightarrow> (u32 \<Rightarrow> error + 'c) \<Rightarrow> u32 \<Rightarrow> error + 'c" where
  "ConnectVsockSync n dial port = (if n \<noteq> 1 then Inl (vsock_count_error n) else dial port)"

definition unexpected_scheme :: "string \<Rightarrow> error" where
  "unexpected_scheme s = Errorf (''unexpected scheme '' @ [CHR 0x27] @ s @ [CHR 0x27])"

text \<open>The \<open>ListenFunc\<close> of \<open>connectVsock\<close>: the name of the socket it listens on.\<close>

definition connect_ListenFunc :: "(string \<Rightarrow> error + string) \<Rightarrow> string \<Rightarrow> error + string" where
  "connect_ListenFunc ip laddr =
    bindE (url_Parse ip laddr) (\<lambda>parsed.
      if UrlScheme parsed = ''unix'' then Inr (url_EscapedPath parsed)
      else Inl (unexpected_scheme (UrlScheme parsed)))"

text \<open>Its \<open>DialContext\<close>, for the address \<open>vsock:port\<close>.\<close>

definition connect_DialContext ::
    "(string \<Rightarrow> error + string) \<Rightarrow> nat \<Rightarrow> (u32 \<Rightarrow> error + 'c) \<Rightarrow> u32 \<Rightarrow> string \<Rightarrow> error + 'c" where
  "connect_DialContext ip n dial port addr =
    bindE (url_Parse ip addr) (\<lambda>parsed.
      if UrlScheme parsed = ''vsock'' then ConnectVsockSync n dial port
      else Inl (unexpected_scheme (UrlScheme parsed)))"

definition connectVsock ::
    "(string \<Rightarrow> error + string) \<Rightarrow> (string \<Rightarrow> error option) \<Rightarrow> string \<Rightarrow> error + string" where
  "connectVsock ip listenUnix vsockPath =
    bindE (connect_ListenFunc ip (''unix://:'' @ vsockPath)) (\<lambda>name.
      case listenUnix name of Some e \<Rightarrow> Inl e | None \<Rightarrow> Inr name)"

text \<open>The \<open>ListenFunc\<close> of \<open>listenVsock\<close>: the port it listens on.\<close>

definition listen_ListenFunc :: "(string \<Rightarrow> error + string) \<Rightarrow> nat \<Rightarrow> string \<Rightarrow> error + u32" where
  "listen_ListenFunc ip n laddr =
    bindE (url_Parse ip laddr) (\<lambda>parsed.
      if UrlScheme parsed = ''vsock'' then
        bindE (ParseUint (url_Port parsed) 32) (\<lambda>port.
          if n \<noteq> 1 then Inl (vsock_count_error n) else Inr (of_nat port))
      else Inl (unexpected_scheme (UrlScheme parsed)))"

text \<open>Its \<open>DialContext\<close>: the name of the socket it connects to.\<close>

definition listen_DialContext :: "(string \<Rightarrow> error + string) \<Rightarrow> string \<Rightarrow> error + string" where
  "listen_DialContext ip addr =
    bindE (url_Parse ip addr) (\<lambda>parsed.
      if UrlScheme parsed = ''unix'' then Inr (UrlPath parsed)
      else Inl (unexpected_scheme (UrlScheme parsed)))"

definition listenVsock ::
    "(string \<Rightarrow> error + string) \<Rightarrow> nat \<Rightarrow> (u32 \<Rightarrow> error option) \<Rightarrow> u32 \<Rightarrow> error + u32" where
  "listenVsock ip n listenPort port =
    bindE (listen_ListenFunc ip n (''vsock://:'' @ dec (unat port))) (\<lambda>port.
      case listenPort port of Some e \<Rightarrow> Inl e | None \<Rightarrow> Inr port)"

text \<open>What is exposed: a unix socket of the host, or a port of the guest.\<close>

datatype exposed = HostSocket string u32 | GuestPort u32 string

record vsock_host =
  VsIp :: "string \<Rightarrow> error + string"
  VsDevices :: nat
  VsListenUnix :: "string \<Rightarrow> error option"
  VsListenPort :: "u32 \<Rightarrow> error option"

definition ExposeVsock :: "vsock_host \<Rightarrow> u32 \<Rightarrow> string \<Rightarrow> bool \<Rightarrow> error + exposed" where
  "ExposeVsock h port vsockPath listen =
    (if listen then
       mapE (\<lambda>p. GuestPort p vsockPath) (listenVsock (VsIp h) (VsDevices h) (VsListenPort h) port)
     else mapE (\<lambda>name. HostSocket name port) (connectVsock (VsIp h) (VsListenUnix h) vsockPath))"

subsection \<open>Lemmas\<close>

text \<open>An absolute path without characters that a URL gives a meaning to.\<close>

definition url_path :: "string \<Rightarrow> bool" where
  "url_path p \<longleftrightarrow> plain_path p \<and> \<not> has_prefix p ''//'' \<and> CHR ''#'' \<notin> set p"

lemma url_Parse_no_fragment:
  "CHR ''#'' \<notin> set s \<Longrightarrow> url_Parse ip s = url_parse ip False s"
  by (simp add: url_Parse_def cut_absent mapE_def bindE_def split: sum.split)

lemma scan_vsock:
  "scan_scheme [] (CHR ''v'' # CHR ''s'' # CHR ''o'' # CHR ''c'' # CHR ''k'' # CHR '':'' # s) = Some (''vsock'', s)"
  by (simp add: scan_scheme.simps is_alpha_def is_digit_def)

lemma escape_path_nonstar: "has_prefix p ''/'' \<Longrightarrow> p \<noteq> ''*''"
  by (auto simp: has_prefix_def)

lemma escape_path_length: "length q \<le> length (escape_path q)"
  by (induction q) (auto simp: Let_def)

lemma escaped_plain:
  assumes "plain_path p"
  shows "url_EscapedPath \<lparr>UrlScheme = s, UrlHost = h, UrlPath = p, UrlRawPath = raw_path p p\<rparr>
    = (if valid_encoded_path p then p else escape_path p)"
proof -
  have p: "p \<noteq> []" "p \<noteq> ''*''" "unescape False p = Inr p"
    using assms by (auto simp: plain_path_def has_prefix_def unescape_pct_free)
  have "valid_encoded_path p" if "escape_path p = p"
  proof -
    have "list_all path_unescaped q" if "escape_path q = q" for q
      using that
    proof (induction q)
      case (Cons c q)
      show ?case
      proof (cases "path_unescaped c")
        case False
        then have "length (escape_path (c # q)) > length (c # q)"
          using escape_path_length [of q] by (simp add: Let_def)
        with Cons.prems show ?thesis by simp
      qed (use Cons in simp)
    qed simp
    with that show ?thesis by (auto simp: valid_encoded_path_def list_all_iff)
  qed
  then show ?thesis using p by (auto simp: url_EscapedPath_def raw_path_def)
qed

lemma connect_path:
  assumes "url_path p"
  shows "connect_ListenFunc ip (''unix://:'' @ p) = Inr (if valid_encoded_path p then p else escape_path p)"
proof -
  have p: "plain_path p" "CHR ''#'' \<notin> set p" "CHR ''?'' \<notin> set p" "pct_free p"
    using assms by (auto simp: url_path_def plain_path_def)
  have "url_parse ip False (''unix://:'' @ p)
      = setPath p \<lparr>UrlScheme = ''unix'', UrlHost = '':'', UrlPath = [], UrlRawPath = []\<rparr>"
  proof (rule url_parse_authority [where a = "'':''"])
    show "\<not> list_ex is_ctl (''unix://:'' @ p)"
      using p(1) by (auto simp: plain_path_def list_ex_iff list_all_iff is_ctl_def)
    show "getScheme (''unix://:'' @ p) = Inr (''unix'', ''//'' @ '':'' @ p)"
      by (simp add: getScheme_def scan_scheme_eval)
    show "parseAuthority ip '':'' = Inr '':''"
      by (simp add: parseAuthority_def parseHost_def cut_last_def validOptionalPort_def host_char_def)
    show "p \<noteq> [] \<Longrightarrow> hd p = CHR ''/''"
      using p(1) by (cases p) (auto simp: plain_path_def has_prefix_def)
  qed (use p(3) to_lower_eval in simp_all)
  moreover have "CHR ''#'' \<notin> set (''unix://:'' @ p)" using p(2) by simp
  ultimately have "url_Parse ip (''unix://:'' @ p)
      = Inr \<lparr>UrlScheme = ''unix'', UrlHost = '':'', UrlPath = p, UrlRawPath = raw_path p p\<rparr>"
    using url_Parse_no_fragment [of "''unix://:'' @ p" ip] p(4)
    by (simp del: append_Cons append.simps add: setPath_pct_free)
  then show ?thesis using escaped_plain [OF p(1)] by (simp add: connect_ListenFunc_def)
qed

lemma listen_path:
  assumes "url_path p"
  shows "listen_DialContext ip (''unix:'' @ p) = Inr p"
proof -
  have p: "plain_path p" "\<not> has_prefix p ''//''" "CHR ''#'' \<notin> set p" "CHR ''?'' \<notin> set p" "pct_free p"
    "has_prefix p ''/''"
    using assms by (auto simp: url_path_def plain_path_def)
  have "\<not> list_ex is_ctl (''unix:'' @ p)"
    using p(1) by (auto simp: plain_path_def list_ex_iff list_all_iff is_ctl_def)
  moreover have "getScheme (''unix:'' @ p) = Inr (''unix'', p)"
    by (simp add: getScheme_def scan_scheme_eval)
  moreover have "fst (cut (CHR ''?'') p) = p" by (rule cut_no_sep [OF p(4)])
  ultimately have "url_parse ip False (''unix:'' @ p)
      = setPath p \<lparr>UrlScheme = ''unix'', UrlHost = [], UrlPath = [], UrlRawPath = []\<rparr>"
    using p(2,6) by (simp add: url_parse_def to_lower_def)
  then have "url_parse ip False (''unix:'' @ p)
      = Inr \<lparr>UrlScheme = ''unix'', UrlHost = [], UrlPath = p, UrlRawPath = raw_path p p\<rparr>"
    using p(5) by (simp add: setPath_pct_free)
  moreover have "CHR ''#'' \<notin> set (''unix:'' @ p)" using p(3) by simp
  ultimately show ?thesis
    using url_Parse_no_fragment [of "''unix:'' @ p" ip]
    by (simp add: listen_DialContext_def)
qed

lemma listen_port:
  "listen_ListenFunc ip n (''vsock://:'' @ dec (unat port))
    = (if n = 1 then Inr port else Inl (vsock_count_error n))"
proof -
  let ?d = "dec (unat port)"
  have h: "plain_host [] ?d"
    using dec_digits by (auto simp: plain_host_def list_all_iff)
  note t = plain_host_chars [OF plain_host_all [OF h], simplified]
  note c = cut_last_port [OF h, simplified]
  have "url_parse ip False (''vsock://:'' @ ?d)
      = setPath [] \<lparr>UrlScheme = ''vsock'', UrlHost = CHR '':'' # ?d, UrlPath = [], UrlRawPath = []\<rparr>"
  proof (rule url_parse_authority [where a = "CHR '':'' # ?d"])
    show "\<not> list_ex is_ctl (''vsock://:'' @ ?d)" using t(3) by (simp add: is_ctl_def)
    show "getScheme (''vsock://:'' @ ?d) = Inr (''vsock'', ''//'' @ (CHR '':'' # ?d) @ [])"
      by (simp add: getScheme_def scan_vsock)
    have "validOptionalPort (CHR '':'' # ?d)"
      using h by (simp add: validOptionalPort_def plain_host_def)
    moreover have "unescape True ?d = Inr ?d"
      by (rule unescape_host_chars) (use t in \<open>auto simp: pct_free_def\<close>)
    ultimately show "parseAuthority ip (CHR '':'' # ?d) = Inr (CHR '':'' # ?d)"
      using t c by (simp add: parseAuthority_def parseHost_def unescape_host_chars cut_last_def [of "CHR ''@''"])
    show "map to_lower ''vsock'' = ''vsock''" by (simp add: to_lower_def)
  qed (use t in simp_all)
  moreover have "CHR ''#'' \<notin> set (''vsock://:'' @ ?d)"
    using dec_no_char [of "CHR ''#''"] by (simp add: is_digit_def)
  ultimately have "url_Parse ip (''vsock://:'' @ ?d) = Inr \<lparr>UrlScheme = ''vsock'',
      UrlHost = CHR '':'' # ?d, UrlPath = [], UrlRawPath = []\<rparr>"
    using url_Parse_no_fragment [of "''vsock://:'' @ ?d" ip]
    by (simp del: append_Cons append.simps add: setPath_def raw_path_def)
  moreover have "url_Port \<lparr>UrlScheme = ''vsock'', UrlHost = CHR '':'' # ?d, UrlPath = [], UrlRawPath = []\<rparr> = ?d"
    using c h by (simp add: url_Port_def validOptionalPort_def plain_host_def)
  moreover have "ParseUint ?d 32 = Inr (unat port)"
    by (rule ParseUint_dec) (use unsigned_less [of port] in simp)
  ultimately show ?thesis by (simp add: listen_ListenFunc_def)
qed

subsection \<open>Properties\<close>

text \<open>
  C37. For an absolute path, the guest-to-host direction connects to the socket of that name,
  but the host-to-guest direction listens on the escaped path: the two agree only when a
  URL may contain every character of the path as it is. (A space does not: the socket for
  \<open>/tmp/a b\<close> is made as \<open>/tmp/a%20b\<close>.)
\<close>

theorem vsock_socket_names:
  assumes "url_path p" "\<And>name. VsListenUnix h name = None"
  shows "listen_DialContext ip (''unix:'' @ p) = Inr p
    \<and> ExposeVsock h port p False
      = Inr (HostSocket (if valid_encoded_path p then p else escape_path p) port)"
  using listen_path [OF assms(1)] connect_path [OF assms(1)] assms(2)
  by (simp add: ExposeVsock_def connectVsock_def)

theorem vsock_socket_names_witness:
  "listen_DialContext Inr (''unix:'' @ ''/tmp/a b'') = Inr ''/tmp/a b''
    \<and> ExposeVsock \<lparr>VsIp = Inr, VsDevices = 1, VsListenUnix = \<lambda>_. None, VsListenPort = \<lambda>_. None\<rparr>
        5 ''/tmp/a b'' False
      = Inr (HostSocket ''/tmp/a%20b'' 5)"
proof -
  let ?h = "\<lparr>VsIp = Inr, VsDevices = 1, VsListenUnix = \<lambda>_. None, VsListenPort = \<lambda>_. None\<rparr>"
  have "url_path ''/tmp/a b''"
    by (simp add: url_path_def plain_path_def has_prefix_def pct_free_def is_ctl_def)
  moreover have "\<not> valid_encoded_path ''/tmp/a b''" "escape_path ''/tmp/a b'' = ''/tmp/a%20b''"
    by code_simp+
  ultimately show ?thesis
    using vsock_socket_names [of "''/tmp/a b''" ?h Inr 5] by simp
qed

lemma socket_devices_one:
  assumes "vf_NewVirtualMachine env vm st = (Inr vm', st')"
    and "list_ex (\<lambda>d. vsock_of d \<noteq> None) (VmDevices vm)
      \<or> port_wanted (map_option TimeSyncPort (Timesync vm))
      \<or> port_wanted (map_option VsockPort (VmIgnition vm))"
  shows "SocketDevices (VfConfig st') = 1"
proof -
  have "SocketDevices (VfConfig st') = SocketDevices (machine_configuration (is_macos vm) vm)"
    using arg_cong [OF machine_spec [OF assms(1)], of SocketDevices] by (simp add: erase_def)
  moreover have "List.map_filter vsock_of (VmDevices vm) \<noteq> []"
    if "list_ex (\<lambda>d. vsock_of d \<noteq> None) (VmDevices vm)"
    using that by (induction "VmDevices vm") (auto simp: List.map_filter_def list_ex_iff filter_empty_conv)
  ultimately show ?thesis
    using assms(2) by (auto simp: machine_configuration_def Let_def devices_configuration_def at_most_one_def)
qed

text \<open>
  On a built machine with a vsock device, or with a port for time synchronisation or
  ignition, the device is found: no vsock operation fails for want of a device or for too
  many of them, and a port is exposed under the number it was configured with.
\<close>

theorem vsock_device_found:
  assumes "vf_NewVirtualMachine env vm st = (Inr vm', st')"
    and "list_ex (\<lambda>d. vsock_of d \<noteq> None) (VmDevices vm)
      \<or> port_wanted (map_option TimeSyncPort (Timesync vm))
      \<or> port_wanted (map_option VsockPort (VmIgnition vm))"
    and "VsDevices h = SocketDevices (VfConfig st')"
  shows "ConnectVsockSync (VsDevices h) dial port = dial port
    \<and> ExposeVsock h port path True = (case VsListenPort h port of
        Some e \<Rightarrow> Inl e | None \<Rightarrow> Inr (GuestPort port path))"
proof -
  have "VsDevices h = 1" using socket_devices_one [OF assms(1,2)] assms(3) by simp
  then show ?thesis
    unfolding ConnectVsockSync_def ExposeVsock_def listenVsock_def listen_port
    by (simp split: option.split)
qed

theorem vsock_device_found_witness:
  "ConnectVsockSync 1 Inr (7 :: u32) = Inr 7
    \<and> ExposeVsock \<lparr>VsIp = Inr, VsDevices = 1, VsListenUnix = \<lambda>_. None, VsListenPort = \<lambda>_. None\<rparr>
        7 ''/tmp/s'' True = Inr (GuestPort 7 ''/tmp/s'')"
proof -
  let ?h = "\<lparr>VsIp = Inr, VsDevices = 1, VsListenUnix = \<lambda>_. None, VsListenPort = \<lambda>_. None\<rparr>"
  from witness_spec_built obtain vm' st'
    where b: "vf_NewVirtualMachine witness_env witness_spec_vm witness_state = (Inr vm', st')" by blast
  have w: "list_ex (\<lambda>d. vsock_of d \<noteq> None) (VmDevices witness_spec_vm)"
    by (simp add: witness_spec_vm_def)
  have "VsDevices ?h = SocketDevices (VfConfig st')"
    using socket_devices_one [OF b] w by simp
  from vsock_device_found [OF b _ this, of Inr 7 "''/tmp/s''"] w show ?thesis by simp
qed

end
