(* ===== verification/TimeSyncLoop.thy ===== *)
theory TimeSyncLoop
  imports Vsock
begin

section \<open>Time synchronisation with the guest\<close>

text \<open>
  \<open>cmd/vfkit/timesync.go\<close>: the goroutine that tells the guest the time whenever the host
  wakes up. The notifications are those of \<open>mac-sleep-notifier\<close>; what a wakeup finds (the
  outcome of a connection, the clock, the outcome of writing and reading) comes with it.
\<close>

subsection \<open>The code\<close>

text \<open>Both lines end with a newline.\<close>

definition set_time_command :: "int \<Rightarrow> string" where
  "set_time_command now =
    ''{\"execute\": \"guest-set-time\", \"arguments\":{\"time\": '' @ dec_int now @ ''}}'' @ [CHR 0x0A]"

definition set_time_answer :: string where
  "set_time_answer = ''{\"return\": {}}'' @ [CHR 0x0A]"

record wakeup =
  UnixNano :: int
  DialOutcome :: "u32 \<Rightarrow> error + unit"
  WriteOutcome :: "string \<Rightarrow> error option"
  ReadOutcome :: "error + string"

definition syncGuestTime :: "wakeup \<Rightarrow> error option" where
  "syncGuestTime w =
    (case WriteOutcome w (set_time_command (UnixNano w)) of
       Some e \<Rightarrow> Some e
     | None \<Rightarrow>
         (case ReadOutcome w of
            Inl e \<Rightarrow> Some e
          | Inr response \<Rightarrow>
              if response \<noteq> set_time_answer then
                Some (Errorf (''unexpected response from qemu-guest-agent: '' @ response))
              else None))"

datatype activity = Asleep | Awake wakeup

text \<open>What the goroutine does: connections it tries, synchronisations, and the close.\<close>

datatype sync_action = SyncConnect "error option" | SyncTime string "error option" | SyncClose

text \<open>The flag says whether there is a connection; \<open>n\<close> is the number of vsock devices.\<close>

fun watchWakeupNotifications :: "nat \<Rightarrow> u32 \<Rightarrow> bool \<Rightarrow> activity list \<Rightarrow> sync_action list" where
  "watchWakeupNotifications n vsockPort connected [] = (if connected then [SyncClose] else [])"
| "watchWakeupNotifications n vsockPort connected (Asleep # activities) =
     watchWakeupNotifications n vsockPort connected activities"
| "watchWakeupNotifications n vsockPort connected (Awake w # activities) =
     (if \<not> connected then
        (case ConnectVsockSync n (DialOutcome w) vsockPort of
           Inl err \<Rightarrow> [SyncConnect (Some err)]
         | Inr conn \<Rightarrow>
             SyncConnect None # SyncTime (set_time_command (UnixNano w)) (syncGuestTime w)
               # watchWakeupNotifications n vsockPort True activities)
      else SyncTime (set_time_command (UnixNano w)) (syncGuestTime w)
        # watchWakeupNotifications n vsockPort connected activities)"

text \<open>The port that a goroutine is started for, if any.\<close>

definition setupGuestTimeSync :: "TimeSync option \<Rightarrow> u32 option" where
  "setupGuestTimeSync timesync = map_option TimeSyncPort timesync"

subsection \<open>Lemmas\<close>

fun wakeups :: "activity list \<Rightarrow> wakeup list" where
  "wakeups [] = []"
| "wakeups (Asleep # as) = wakeups as"
| "wakeups (Awake w # as) = w # wakeups as"

definition sync_of :: "wakeup \<Rightarrow> sync_action" where
  "sync_of w = SyncTime (set_time_command (UnixNano w)) (syncGuestTime w)"

lemma watch_connected:
  "watchWakeupNotifications n port True as = map sync_of (wakeups as) @ [SyncClose]"
  by (induction as rule: wakeups.induct) (simp_all add: sync_of_def)

lemma watch_unconnected:
  "watchWakeupNotifications n port False as =
    (case wakeups as of
       [] \<Rightarrow> []
     | w # ws \<Rightarrow>
         (case ConnectVsockSync n (DialOutcome w) port of
            Inl e \<Rightarrow> [SyncConnect (Some e)]
          | Inr u \<Rightarrow> SyncConnect None # map sync_of (w # ws) @ [SyncClose]))"
  by (induction as rule: wakeups.induct)
    (simp_all add: sync_of_def watch_connected split: sum.split list.split)

subsection \<open>Properties\<close>

text \<open>
  C36. On a machine built with a time synchronisation port, everything hangs on the first
  wakeup: if the guest accepts a connection then, every wakeup sends one command with the
  time, on that one connection, whatever became of the commands before; if it does not, there
  is no further attempt and the guest is never told the time.
\<close>

theorem timesync_first_wakeup:
  assumes "vf_NewVirtualMachine env vm st = (Inr vm', st')"
    and "setupGuestTimeSync (Timesync vm) = Some port" "port \<noteq> 0" "wakeups as = w # ws"
  shows "watchWakeupNotifications (SocketDevices (VfConfig st')) port False as =
    (case DialOutcome w port of
       Inl e \<Rightarrow> [SyncConnect (Some e)]
     | Inr u \<Rightarrow> SyncConnect None # map sync_of (w # ws) @ [SyncClose])"
proof -
  have "port_wanted (map_option TimeSyncPort (Timesync vm))"
    using assms(2,3) by (auto simp: setupGuestTimeSync_def port_wanted_def)
  then have "SocketDevices (VfConfig st') = 1"
    using socket_devices_one [OF assms(1)] by simp
  then show ?thesis by (simp add: watch_unconnected assms(4) ConnectVsockSync_def)
qed

definition witness_wakeup :: "(error + unit) \<Rightarrow> wakeup" where
  "witness_wakeup r = \<lparr>UnixNano = 17, DialOutcome = \<lambda>_. r, WriteOutcome = \<lambda>_. None,
    ReadOutcome = Inr set_time_answer\<rparr>"

theorem timesync_first_wakeup_witness:
  "watchWakeupNotifications 1 1234 False
      [Asleep, Awake (witness_wakeup (Inl (Sys ''refused''))), Awake (witness_wakeup (Inr ()))]
    = [SyncConnect (Some (Sys ''refused''))]"
proof -
  let ?as = "[Asleep, Awake (witness_wakeup (Inl (Sys ''refused''))), Awake (witness_wakeup (Inr ()))]"
  from witness_spec_built obtain vm' st'
    where b: "vf_NewVirtualMachine witness_env witness_spec_vm witness_state = (Inr vm', st')" by blast
  have t: "setupGuestTimeSync (Timesync witness_spec_vm) = Some 1234"
    by (simp add: setupGuestTimeSync_def witness_spec_vm_def)
  then have "SocketDevices (VfConfig st') = 1"
    using socket_devices_one [OF b] by (simp add: port_wanted_def witness_spec_vm_def)
  moreover have "wakeups ?as = witness_wakeup (Inl (Sys ''refused'')) # [witness_wakeup (Inr ())]"
    by simp
  note timesync_first_wakeup [OF b t _ this]
  ultimately show ?thesis by (simp add: witness_wakeup_def)
qed

end
