(* ===== verification/RunMachine.thy ===== *)
theory RunMachine
  imports VmWait TimeSyncLoop
begin

section \<open>Running the machine\<close>

text \<open>
  \<open>runVirtualMachine\<close> of \<open>cmd/vfkit/main.go\<close>: it starts the machine, waits until it runs,
  exposes the vsock ports, starts the helpers, and waits until it stops. The record
  \<open>run_env\<close> holds what the framework and the host answer. The model returns the actions in
  order along with the result, which is \<open>None\<close> as long as the function waits.
\<close>

subsection \<open>The code\<close>

datatype run_action =
    ServeIgnition string u32
  | StartVM
  | Exposed exposed
  | WatchTime u32
  | ShowGUI int int
  | Closed exposed

text \<open>
  The events of each of the two waits, the outcome of exposing a port given the ports that
  are exposed, the last first, and that of the window of the machine. A window that is open
  keeps the main goroutine: it has no outcome until it is closed.
\<close>

record run_env =
  StartErr :: "error option"
  StartEvents :: "wait_event list"
  VsockHost :: "exposed list \<Rightarrow> vsock_host"
  GuiOutcome :: "int \<Rightarrow> int \<Rightarrow> (error + unit) option"
  StopEvents :: "wait_event list"

text \<open>
  A device without a URL, and one that cannot be exposed, are skipped. Closing a port that is
  exposed is deferred: the closers are kept on a stack.
\<close>

fun expose_vsocks ::
    "run_env \<Rightarrow> VirtioVsock list \<Rightarrow> exposed list \<Rightarrow> run_action list \<times> exposed list" where
  "expose_vsocks env [] defers = ([], defers)"
| "expose_vsocks env (vsock # vsockDevs) defers =
     (if SocketURL vsock = [] then expose_vsocks env vsockDevs defers
      else case ExposeVsock (VsockHost env defers) (Port vsock) (SocketURL vsock) (Listen vsock) of
        Inl err \<Rightarrow> expose_vsocks env vsockDevs defers
      | Inr closer \<Rightarrow>
          (case expose_vsocks env vsockDevs (closer # defers) of
             (actions, defers) \<Rightarrow> (Exposed closer # actions, defers)))"

fun run_deferred :: "exposed list \<Rightarrow> run_action list" where
  "run_deferred [] = []"
| "run_deferred (closer # defers) = Closed closer # run_deferred defers"

text \<open>The first GPU with a window: the loop stops after it.\<close>

fun start_gui :: "run_env \<Rightarrow> VirtioGPU list \<Rightarrow> run_action list \<times> (error + unit) option" where
  "start_gui env [] = ([], Some (Inr ()))"
| "start_gui env (gpuDev # gpuDevs) =
     (if UsesGUI gpuDev then
        ([ShowGUI (Width gpuDev) (Height gpuDev)], GuiOutcome env (Width gpuDev) (Height gpuDev))
      else start_gui env gpuDevs)"

text \<open>A nil channel never fires.\<close>

definition without_timeout :: "wait_event list \<Rightarrow> wait_event list" where
  "without_timeout evs = filter (\<lambda>ev. ev \<noteq> TimeoutFired) evs"

definition wait_for_stop :: "run_env \<Rightarrow> (error + unit) option" where
  "wait_for_stop env =
    (case waitForVMState VmStopped (without_timeout (StopEvents env)) of
       None \<Rightarrow> None
     | Some (Inl e) \<Rightarrow> Some (Inl (ErrorfV ''virtualization error'' e))
     | Some (Inr u) \<Rightarrow> Some (Inr u))"

definition ignition_actions :: "VirtualMachine \<Rightarrow> run_action list" where
  "ignition_actions vm =
    (case VmIgnition vm of Some i \<Rightarrow> [ServeIgnition (ConfigPath i) (VsockPort i)] | None \<Rightarrow> [])"

definition timesync_actions :: "VirtualMachine \<Rightarrow> run_action list" where
  "timesync_actions vm =
    (case setupGuestTimeSync (Timesync vm) of Some p \<Rightarrow> [WatchTime p] | None \<Rightarrow> [])"

text \<open>From the exposed ports on.\<close>

definition run_exposed ::
    "run_env \<Rightarrow> VirtualMachine \<Rightarrow> storage_config list \<Rightarrow> (error + unit) option \<times> run_action list" where
  "run_exposed env vm storage =
    (case ListenNetworkBlockDevices storage of
       Inl e \<Rightarrow> (Some (Inl e), [])
     | Inr u \<Rightarrow>
         (case start_gui env (VirtioGPUDevices vm) of
            (gui, None) \<Rightarrow> (None, timesync_actions vm @ gui)
          | (gui, Some (Inl e)) \<Rightarrow> (Some (Inl e), timesync_actions vm @ gui)
          | (gui, Some (Inr u)) \<Rightarrow> (wait_for_stop env, timesync_actions vm @ gui)))"

text \<open>The deferred calls run when the function returns, with or without an error.\<close>

definition runVirtualMachine ::
    "run_env \<Rightarrow> VirtualMachine \<Rightarrow> storage_config list \<Rightarrow> (error + unit) option \<times> run_action list" where
  "runVirtualMachine env vm storage =
    (case StartErr env of
       Some e \<Rightarrow> (Some (Inl e), ignition_actions vm)
     | None \<Rightarrow>
         let started = ignition_actions vm @ [StartVM] in
         (case waitForVMState VmRunning (with_timeout (StartEvents env)) of
            None \<Rightarrow> (None, started)
          | Some (Inl e) \<Rightarrow> (Some (Inl e), started)
          | Some (Inr u) \<Rightarrow>
              (case expose_vsocks env (VirtioVsockDevices vm) [] of
                 (exposing, defers) \<Rightarrow>
                   (case run_exposed env vm storage of
                      (None, actions) \<Rightarrow> (None, started @ exposing @ actions)
                    | (Some r, actions) \<Rightarrow>
                        (Some r, started @ exposing @ actions @ run_deferred defers)))))"

text \<open>
  The goroutine of \<open>ServeIgnition\<close>: the file it serves and the port it serves it on, when it
  gets that far. The HTTP server itself is \<open>net/http\<close>.
\<close>

definition startIgnitionProvisionerServer ::
    "file_env \<Rightarrow> nat \<Rightarrow> (u32 \<Rightarrow> error option) \<Rightarrow> string \<Rightarrow> u32 \<Rightarrow> error + string \<times> u32" where
  "startIgnitionProvisionerServer fs n listenPort configPath vsockPort =
    (case os_Open fs configPath of
       Some e \<Rightarrow> Inl e
     | None \<Rightarrow>
         if n \<noteq> 1 then Inl (vsock_count_error n)
         else (case listenPort vsockPort of
             Some e \<Rightarrow> Inl e
           | None \<Rightarrow> Inr (configPath, vsockPort)))"

subsection \<open>Lemmas\<close>

fun exposed_by :: "run_action \<Rightarrow> exposed option" where
  "exposed_by (Exposed x) = Some x" | "exposed_by a = None"

fun closed_by :: "run_action \<Rightarrow> exposed option" where
  "closed_by (Closed x) = Some x" | "closed_by a = None"

abbreviation exposures :: "run_action list \<Rightarrow> exposed list" where
  "exposures \<equiv> List.map_filter exposed_by"

abbreviation closes :: "run_action list \<Rightarrow> exposed list" where
  "closes \<equiv> List.map_filter closed_by"

lemma map_filter_simps [simp]:
  "List.map_filter f [] = []"
  "List.map_filter f (x # xs) = (case f x of None \<Rightarrow> List.map_filter f xs | Some y \<Rightarrow> y # List.map_filter f xs)"
  "List.map_filter f (xs @ ys) = List.map_filter f xs @ List.map_filter f ys"
  by (simp_all add: List.map_filter_def split: option.split)

text \<open>The windows that are opened.\<close>

fun window_of :: "run_action \<Rightarrow> (int \<times> int) option" where
  "window_of (ShowGUI a b) = Some (a, b)" | "window_of a = None"

abbreviation windows :: "run_action list \<Rightarrow> (int \<times> int) list" where
  "windows \<equiv> List.map_filter window_of"

lemma run_deferred_map: "run_deferred defers = map Closed defers"
  by (induction defers) simp_all

lemma deferred_actions [simp]:
  "exposures (map Closed xs) = []" "closes (map Closed xs) = xs" "windows (map Closed xs) = []"
  by (induction xs) simp_all

lemma helper_actions [simp]:
  "exposures (ignition_actions vm) = []" "closes (ignition_actions vm) = []"
  "windows (ignition_actions vm) = []"
  "exposures (timesync_actions vm) = []" "closes (timesync_actions vm) = []"
  "windows (timesync_actions vm) = []"
  by (simp_all add: ignition_actions_def timesync_actions_def split: option.split)

text \<open>The stack of deferred calls has the ports exposed, the last first.\<close>

lemma expose_vsocks_actions:
  assumes "expose_vsocks env ds defers = (actions, defers')"
  shows "defers' = rev (exposures actions) @ defers" "closes actions = []" "windows actions = []"
  using assms
  by (induction ds arbitrary: defers actions)
    (auto split: if_splits sum.splits prod.splits)

text \<open>The window that is opened, and its outcome.\<close>

definition gui_outcome :: "run_env \<Rightarrow> VirtualMachine \<Rightarrow> (error + unit) option" where
  "gui_outcome env vm =
    (case find UsesGUI (VirtioGPUDevices vm) of
       None \<Rightarrow> Some (Inr ())
     | Some g \<Rightarrow> GuiOutcome env (Width g) (Height g))"

definition gui_windows :: "VirtualMachine \<Rightarrow> (int \<times> int) list" where
  "gui_windows vm = (case find UsesGUI (VirtioGPUDevices vm) of
      None \<Rightarrow> [] | Some g \<Rightarrow> [(Width g, Height g)])"

lemma start_gui_find:
  "snd (start_gui env gpus) = (case find UsesGUI gpus of
      None \<Rightarrow> Some (Inr ()) | Some g \<Rightarrow> GuiOutcome env (Width g) (Height g))"
  "fst (start_gui env gpus) = (case find UsesGUI gpus of
      None \<Rightarrow> [] | Some g \<Rightarrow> [ShowGUI (Width g) (Height g)])"
  by (induction gpus) simp_all

lemma start_gui_windows:
  assumes "start_gui env (VirtioGPUDevices vm) = (gui, r)"
  shows "exposures gui = []" "closes gui = []" "windows gui = gui_windows vm" "r = gui_outcome env vm"
  using start_gui_find [of env "VirtioGPUDevices vm"] assms
  by (auto simp: gui_windows_def gui_outcome_def split: option.splits)

lemma run_exposed_actions:
  assumes "run_exposed env vm storage = (r, actions)"
  shows "exposures actions = []" "closes actions = []"
    and "ListenNetworkBlockDevices storage = Inr () \<Longrightarrow> windows actions = gui_windows vm"
proof -
  obtain gui g where "start_gui env (VirtioGPUDevices vm) = (gui, g)" by fastforce
  with start_gui_windows [OF this] assms
  show "exposures actions = []" "closes actions = []"
    and "ListenNetworkBlockDevices storage = Inr () \<Longrightarrow> windows actions = gui_windows vm"
    by (auto simp: run_exposed_def split: sum.splits option.splits)
qed

lemma run_exposed_result:
  "fst (run_exposed env vm storage) = (case ListenNetworkBlockDevices storage of
      Inl e \<Rightarrow> Some (Inl e)
    | Inr u \<Rightarrow> (case gui_outcome env vm of None \<Rightarrow> None | Some (Inl e) \<Rightarrow> Some (Inl e)
        | Some (Inr u) \<Rightarrow> wait_for_stop env))"
proof -
  obtain gui g where g: "start_gui env (VirtioGPUDevices vm) = (gui, g)" by fastforce
  show ?thesis
    unfolding run_exposed_def g using start_gui_windows(4) [OF g]
    by (simp split: sum.split option.split)
qed

text \<open>
  The shape of a run: the actions before the deferred calls, which close nothing, and the
  deferred calls, when it returned.
\<close>

definition well_closed :: "bool \<Rightarrow> run_action list \<Rightarrow> bool" where
  "well_closed returned actions \<longleftrightarrow> (\<exists>pre. closes pre = []
    \<and> actions = pre @ (if returned then map Closed (rev (exposures pre)) else []))"

lemma well_closedI:
  "closes pre = [] \<Longrightarrow> actions = pre @ (if returned then map Closed (rev (exposures pre)) else [])
    \<Longrightarrow> well_closed returned actions"
  unfolding well_closed_def by blast

lemma run_closes:
  assumes "runVirtualMachine env vm storage = (r, actions)"
  shows "well_closed (r \<noteq> None) actions"
proof -
  let ?start = "ignition_actions vm @ [StartVM]"
  obtain x defers where x: "expose_vsocks env (VirtioVsockDevices vm) [] = (x, defers)" by fastforce
  obtain r' as where e: "run_exposed env vm storage = (r', as)" by fastforce
  note x' = expose_vsocks_actions [OF x] and e' = run_exposed_actions [OF e]
  consider "actions = ignition_actions vm" | "actions = ?start"
    | "r = r'" "actions = ?start @ x @ as @ (if r \<noteq> None then map Closed defers else [])"
    using assms x e by (auto simp: runVirtualMachine_def Let_def run_deferred_map
        split: option.splits sum.splits)
  then show ?thesis
  proof cases
    case 1
    then show ?thesis by (intro well_closedI [of "ignition_actions vm"]) simp_all
  next
    case 2
    then show ?thesis by (intro well_closedI [of ?start]) simp_all
  next
    case 3
    then show ?thesis using x' e' by (intro well_closedI [of "?start @ x @ as"]) simp_all
  qed
qed

text \<open>The outcome of the last wait, and of what comes before it.\<close>

lemma wait_for_stop_find:
  "wait_for_stop env = Some (Inr ()) \<longleftrightarrow>
    find (\<lambda>ev. ev \<in> {StateChanged VmStopped, StateChanged VmError}) (StopEvents env)
      = Some (StateChanged VmStopped)"
  "wait_for_stop env = None \<longleftrightarrow>
    find (\<lambda>ev. ev \<in> {StateChanged VmStopped, StateChanged VmError}) (StopEvents env) = None"
proof -
  have "waitForVMState VmStopped (without_timeout evs)
      = (case find (\<lambda>ev. ev \<in> {StateChanged VmStopped, StateChanged VmError}) evs of
          None \<Rightarrow> None | Some ev \<Rightarrow> select_case VmStopped ev)" for evs
  proof (induction evs)
    case (Cons ev evs)
    then show ?case by (cases "(VmStopped, ev)" rule: select_case.cases) (auto simp: without_timeout_def)
  qed (simp add: without_timeout_def)
  note w = this [of "StopEvents env"]
  let ?P = "\<lambda>ev. ev \<in> {StateChanged VmStopped, StateChanged VmError}"
  have "ev = StateChanged VmStopped \<or> ev = StateChanged VmError" if "find ?P evs = Some ev" for ev evs
    using that by (auto simp: find_Some_iff)
  from this [of "StopEvents env"] w
  show "wait_for_stop env = Some (Inr ()) \<longleftrightarrow>
    find (\<lambda>ev. ev \<in> {StateChanged VmStopped, StateChanged VmError}) (StopEvents env)
      = Some (StateChanged VmStopped)"
    "wait_for_stop env = None \<longleftrightarrow>
    find (\<lambda>ev. ev \<in> {StateChanged VmStopped, StateChanged VmError}) (StopEvents env) = None"
    by (cases "find ?P (StopEvents env)"; fastforce simp: wait_for_stop_def)+
qed

definition machine_up :: "run_env \<Rightarrow> storage_config list \<Rightarrow> bool" where
  "machine_up env storage \<longleftrightarrow> StartErr env = None
    \<and> waitForVMState VmRunning (with_timeout (StartEvents env)) = Some (Inr ())
    \<and> ListenNetworkBlockDevices storage = Inr ()"

lemma run_decided:
  obtains e where "fst (runVirtualMachine env vm storage)
    = (if machine_up env storage then
         (case gui_outcome env vm of None \<Rightarrow> None | Some (Inl e) \<Rightarrow> Some (Inl e)
          | Some (Inr u) \<Rightarrow> wait_for_stop env)
       else Some (Inl e))"
proof -
  have up: "fst (runVirtualMachine env vm storage) = fst (run_exposed env vm storage)"
    if "StartErr env = None" "waitForVMState VmRunning (with_timeout (StartEvents env)) = Some (Inr ())"
    using that by (auto simp: runVirtualMachine_def Let_def split: option.split prod.split)
  show thesis
  proof (cases "machine_up env storage")
    case True
    then show thesis
      using that up by (auto simp: machine_up_def run_exposed_result)
  next
    case False
    have "\<exists>e. fst (runVirtualMachine env vm storage) = Some (Inl e)"
    proof (cases "StartErr env = None
        \<and> waitForVMState VmRunning (with_timeout (StartEvents env)) = Some (Inr ())")
      case True
      with False show ?thesis
        using up by (cases "ListenNetworkBlockDevices storage") (auto simp: machine_up_def run_exposed_result)
    next
      case False
      then show ?thesis
        using timed_wait_returns [of VmRunning "StartEvents env"]
        by (auto simp: runVirtualMachine_def Let_def split: option.split sum.split)
    qed
    with False that show thesis by auto
  qed
qed

text \<open>The windows opened by a run that ends well.\<close>

lemma run_windows:
  assumes "runVirtualMachine env vm storage = (Some (Inr ()), actions)"
  shows "windows actions = gui_windows vm"
proof -
  obtain x defers where x: "expose_vsocks env (VirtioVsockDevices vm) [] = (x, defers)" by fastforce
  obtain r as where e: "run_exposed env vm storage = (r, as)" by fastforce
  have "ListenNetworkBlockDevices storage = Inr ()"
    using assms run_exposed_result [of env vm storage] e
    by (cases "ListenNetworkBlockDevices storage")
      (auto simp: runVirtualMachine_def Let_def split: option.splits sum.splits prod.splits)
  then show ?thesis
    using assms x e expose_vsocks_actions [OF x] run_exposed_actions(3) [OF e]
    by (auto simp: runVirtualMachine_def Let_def run_deferred_map split: option.splits sum.splits)
qed

text \<open>What a vsock device is exposed as.\<close>

definition exposure :: "VirtioVsock \<Rightarrow> exposed" where
  "exposure d =
    (if Listen d then GuestPort (Port d) (SocketURL d)
     else HostSocket (if valid_encoded_path (SocketURL d) then SocketURL d
       else escape_path (SocketURL d)) (Port d))"

text \<open>The host lets the socket or the port be bound.\<close>

fun granted :: "vsock_host \<Rightarrow> exposed \<Rightarrow> bool" where
  "granted h (HostSocket name p) \<longleftrightarrow> VsListenUnix h name = None"
| "granted h (GuestPort p path) \<longleftrightarrow> VsListenPort h p = None"

text \<open>A path that a URL can hold as it is; the other direction does not need one.\<close>

definition plain_socket :: "VirtioVsock \<Rightarrow> bool" where
  "plain_socket d \<longleftrightarrow> Listen d \<or> url_path (SocketURL d)"

lemma expose_one:
  assumes "VsDevices h = 1" "plain_socket d"
  shows "granted h (exposure d) \<Longrightarrow> ExposeVsock h (Port d) (SocketURL d) (Listen d) = Inr (exposure d)"
    and "\<not> granted h (exposure d) \<Longrightarrow> \<exists>e. ExposeVsock h (Port d) (SocketURL d) (Listen d) = Inl e"
proof -
  have "(granted h (exposure d) \<longrightarrow> ExposeVsock h (Port d) (SocketURL d) (Listen d) = Inr (exposure d))
    \<and> (\<not> granted h (exposure d) \<longrightarrow> (\<exists>e. ExposeVsock h (Port d) (SocketURL d) (Listen d) = Inl e))"
  proof (cases "Listen d")
    case True
    then show ?thesis
      using assms(1) unfolding ExposeVsock_def listenVsock_def listen_port
      by (auto simp: exposure_def)
  next
    case False
    then have "url_path (SocketURL d)" using assms(2) by (simp add: plain_socket_def)
    from connect_path [OF this] False show ?thesis
      unfolding ExposeVsock_def connectVsock_def by (auto simp: exposure_def)
  qed
  then show "granted h (exposure d) \<Longrightarrow> ExposeVsock h (Port d) (SocketURL d) (Listen d) = Inr (exposure d)"
    "\<not> granted h (exposure d) \<Longrightarrow> \<exists>e. ExposeVsock h (Port d) (SocketURL d) (Listen d) = Inl e"
    by blast+
qed

text \<open>The ports exposed are those of the devices that the host grants, each in its turn.\<close>

lemma expose_all:
  assumes "\<And>xs. VsDevices (VsockHost env xs) = 1"
    and "list_all (\<lambda>d. SocketURL d = [] \<or> plain_socket d) ds"
  shows "\<exists>I. exposures (fst (expose_vsocks env ds defers))
      = nths (map exposure (filter (\<lambda>d. SocketURL d \<noteq> []) ds)) I
    \<and> (\<forall>i < length (filter (\<lambda>d. SocketURL d \<noteq> []) ds). i \<in> I \<longleftrightarrow>
      granted (VsockHost env (rev (nths (map exposure (filter (\<lambda>d. SocketURL d \<noteq> []) ds)) (I \<inter> {..<i})) @ defers))
        (map exposure (filter (\<lambda>d. SocketURL d \<noteq> []) ds) ! i))"
  using assms(2)
proof (induction ds arbitrary: defers)
  case (Cons d ds)
  let ?xs = "map exposure (filter (\<lambda>d. SocketURL d \<noteq> []) ds)"
  show ?case
  proof (cases "SocketURL d = []")
    case False
    then have p: "plain_socket d" using Cons.prems by simp
    let ?g = "granted (VsockHost env defers) (exposure d)"
    let ?defers = "if ?g then exposure d # defers else defers"
    obtain I where I: "exposures (fst (expose_vsocks env ds ?defers)) = nths ?xs I"
      "\<And>i. i < length ?xs \<Longrightarrow> i \<in> I \<longleftrightarrow> granted (VsockHost env (rev (nths ?xs (I \<inter> {..<i})) @ ?defers)) (?xs ! i)"
      using Cons.IH [of ?defers] Cons.prems by auto
    let ?J = "Suc ` I \<union> (if ?g then {0} else {})"
    have J: "{j. Suc j \<in> ?J} = I" "0 \<in> ?J \<longleftrightarrow> ?g" by auto
    have x: "exposures (fst (expose_vsocks env (d # ds) defers)) = nths (exposure d # ?xs) ?J"
      using expose_one [OF assms(1) p, of defers] False I(1)
      unfolding nths_Cons J by (cases ?g) (auto split: prod.split)
    have "i \<in> ?J \<longleftrightarrow> granted (VsockHost env (rev (nths (exposure d # ?xs) (?J \<inter> {..<i})) @ defers))
        ((exposure d # ?xs) ! i)" if "i < length (exposure d # ?xs)" for i
    proof (cases i)
      case 0
      then show ?thesis by (simp add: J(2))
    next
      case (Suc j)
      have "{k. Suc k \<in> ?J \<inter> {..<i}} = I \<inter> {..<j}" "0 \<in> ?J \<inter> {..<i} \<longleftrightarrow> ?g"
        using Suc by auto
      then show ?thesis
        using I(2) [of j] that Suc unfolding nths_Cons by (cases ?g) auto
    qed
    with x False show ?thesis by (intro exI [of _ ?J]) simp
  qed (use Cons in simp)
qed simp

lemma has_vsock:
  "List.map_filter isVirtioVsock ds \<noteq> [] \<Longrightarrow> list_ex (\<lambda>d. vsock_of d \<noteq> None) ds"
proof (induction ds)
  case (Cons d ds)
  then show ?case by (cases d) auto
qed simp

text \<open>
  Building the machine changes network and serial devices only: every other kind of device
  is in the machine as it is in the configuration.
\<close>

lemma add_devices_kept:
  assumes "\<And>d. isV (DevNet d) = None" "\<And>d. isV (DevSerial d) = None"
  shows "add_devices env ds st = (Inr ds', st') \<Longrightarrow> filter_devices isV ds' = filter_devices isV ds"
proof (induction ds arbitrary: ds' st)
  case (Cons d ds)
  from Cons.prems obtain d' ds1 st1 where d: "AddToVirtualMachineConfig env d st = (Inr d', st1)"
    and ds: "add_devices env ds st1 = (Inr ds1, st')" "ds' = d' # ds1"
    by (auto elim!: bindS_InrE)
  have "isV d' = isV d"
    using d assms by (cases d) (auto elim!: bindS_InrE)
  with Cons.IH [OF ds(1)] ds(2) show ?case by (simp split: option.split)
qed simp

lemma built_kept:
  assumes "\<And>d. isV (DevNet d) = None" "\<And>d. isV (DevSerial d) = None"
    and "vf_NewVirtualMachine env vm st = (Inr vm', st')"
  shows "FilterDevices isV vm' = FilterDevices isV vm"
proof -
  obtain ds' st1 st2 where "add_devices env (VmDevices vm) st1 = (Inr ds', st2)"
    and "vm' = vm\<lparr>VmDevices := ds'\<rparr>"
    using assms(3) unfolding vf_NewVirtualMachine_def VirtualMachine_toVz_def cfg_toVz_def
    by (elim bindS_InrE) (auto split: if_splits)
  then show ?thesis
    using add_devices_kept [of isV, OF assms(1,2)] by (auto simp: FilterDevices_def)
qed

lemma built_vsocks:
  "vf_NewVirtualMachine env vm st = (Inr vm', st') \<Longrightarrow> VirtioVsockDevices vm' = VirtioVsockDevices vm"
  unfolding VirtioVsockDevices_def by (rule built_kept [rotated 2]) simp_all

lemma built_gpus:
  "vf_NewVirtualMachine env vm st = (Inr vm', st') \<Longrightarrow> VirtioGPUDevices vm' = VirtioGPUDevices vm"
  unfolding VirtioGPUDevices_def by (rule built_kept [rotated 2]) simp_all

subsection \<open>Properties\<close>

text \<open>
  C8. Once the machine has started and reported in time that it runs, and its network block
  devices are in order, the run is decided by its window, if it has one, and then by the
  machine: it ends without an error exactly when the machine stops before it reports an
  error, and goes on only while the window is open or the machine reports neither. In every
  other case the run ends with an error.
\<close>

theorem run_result:
  "(fst (runVirtualMachine env vm storage) = Some (Inr ()) \<longleftrightarrow>
      machine_up env storage \<and> gui_outcome env vm = Some (Inr ())
      \<and> find (\<lambda>ev. ev \<in> {StateChanged VmStopped, StateChanged VmError}) (StopEvents env)
          = Some (StateChanged VmStopped))
    \<and> (fst (runVirtualMachine env vm storage) = None \<longleftrightarrow>
      machine_up env storage \<and> (gui_outcome env vm = None \<or> gui_outcome env vm = Some (Inr ())
      \<and> find (\<lambda>ev. ev \<in> {StateChanged VmStopped, StateChanged VmError}) (StopEvents env) = None))"
proof (rule run_decided)
  fix e
  assume "fst (runVirtualMachine env vm storage)
      = (if machine_up env storage then
           (case gui_outcome env vm of None \<Rightarrow> None | Some (Inl e) \<Rightarrow> Some (Inl e)
            | Some (Inr u) \<Rightarrow> wait_for_stop env)
         else Some (Inl e))"
  then show ?thesis by (auto simp: wait_for_stop_find split: option.splits sum.splits)
qed

text \<open>
  C30. On a machine built from the configuration, once it runs, the vsock devices that have a
  URL are exposed in their order, each exactly if the host lets its socket or its port be
  bound, given the ports exposed before it: a device that is refused does not keep those
  after it from being exposed. The path of a socket that vfkit listens on is one that a URL
  can hold as it is.
\<close>

theorem vsocks_exposed:
  assumes "vf_NewVirtualMachine vzenv vm st = (Inr vm', st')"
    and "list_all (\<lambda>d. SocketURL d = [] \<or> plain_socket d) (VirtioVsockDevices vm)"
    and "\<And>xs. VsDevices (VsockHost env xs) = SocketDevices (VfConfig st')"
    and "StartErr env = None" "waitForVMState VmRunning (with_timeout (StartEvents env)) = Some (Inr ())"
  defines "xs \<equiv> map exposure (filter (\<lambda>d. SocketURL d \<noteq> []) (VirtioVsockDevices vm))"
  shows "\<exists>I. exposures (snd (runVirtualMachine env vm' (StorageDevices (VfConfig st')))) = nths xs I
    \<and> (\<forall>i < length xs. i \<in> I \<longleftrightarrow> granted (VsockHost env (rev (nths xs (I \<inter> {..<i})))) (xs ! i))"
proof -
  obtain x defers where x: "expose_vsocks env (VirtioVsockDevices vm) [] = (x, defers)" by fastforce
  obtain r actions where e: "run_exposed env vm' (StorageDevices (VfConfig st')) = (r, actions)" by fastforce
  have "exposures (snd (runVirtualMachine env vm' (StorageDevices (VfConfig st')))) = exposures x"
    using run_exposed_actions(1) [OF e] assms(4,5) x built_vsocks [OF assms(1)]
    by (simp add: runVirtualMachine_def e run_deferred_map Let_def split: option.split)
  moreover have "\<exists>I. exposures x = nths xs I
    \<and> (\<forall>i < length xs. i \<in> I \<longleftrightarrow> granted (VsockHost env (rev (nths xs (I \<inter> {..<i})))) (xs ! i))"
  proof (cases "VirtioVsockDevices vm = []")
    case True
    then show ?thesis using x by (simp add: xs_def)
  next
    case False
    have "VirtioVsockDevices vm = List.map_filter isVirtioVsock (VmDevices vm)"
      by (simp add: VirtioVsockDevices_def FilterDevices_def filter_devices_map_filter)
    then have "list_ex (\<lambda>d. vsock_of d \<noteq> None) (VmDevices vm)" using False has_vsock by simp
    then have "SocketDevices (VfConfig st') = 1" using socket_devices_one [OF assms(1)] by blast
    then show ?thesis
      using expose_all [OF _ assms(2), of env "[]"] assms(3) x by (simp add: xs_def)
  qed
  ultimately show ?thesis by simp
qed

definition witness_run_vm :: VirtualMachine where
  "witness_run_vm = witness_net_vm\<lparr>VmDevices :=
    [DevVsock \<lparr>Port = 5, SocketURL = ''/run/v'', Listen = False\<rparr>,
     DevVsock \<lparr>Port = 6, SocketURL = ''/run/w'', Listen = True\<rparr>]\<rparr>"

lemma witness_run_built:
  "\<exists>vm' st'. vf_NewVirtualMachine witness_env witness_run_vm witness_state = (Inr vm', st')
    \<and> SocketDevices (VfConfig st') = 1"
  by (simp add: witness_env_def witness_state_def witness_run_vm_def witness_net_vm_def
      vf_NewVirtualMachine_def VirtualMachine_toVz_def NewVirtualMachineConfiguration_def toVzBootloader_def
      toVzEFIBootloader_def vz_do_def platform_of_def NewGenericPlatformConfiguration_def wrapV_def
      wrapW_def set_platform_def modify_def update_config_def cfg_toVz_def VirtioVsock_Add_def
      add_vsock_for_def add_console_def emptyConfiguration_def bindS_def returnS_def Let_def)

definition witness_run_env :: run_env where
  "witness_run_env = \<lparr>StartErr = None, StartEvents = [StateChanged VmRunning],
    VsockHost = \<lambda>_. \<lparr>VsIp = Inr, VsDevices = 1, VsListenUnix = \<lambda>_. None, VsListenPort = \<lambda>_. None\<rparr>,
    GuiOutcome = \<lambda>_ _. Some (Inr ()), StopEvents = [StateChanged VmStopped]\<rparr>"

text \<open>The socket of the first device is in use; the second device is exposed.\<close>

definition witness_busy_env :: run_env where
  "witness_busy_env = witness_run_env\<lparr>VsockHost := \<lambda>_. \<lparr>VsIp = Inr, VsDevices = 1,
    VsListenUnix = \<lambda>name. if name = ''/run/v'' then Some (Sys ''address already in use'') else None,
    VsListenPort = \<lambda>_. None\<rparr>\<rparr>"

theorem vsocks_exposed_witness:
  "\<exists>vm' st'. vf_NewVirtualMachine witness_env witness_run_vm witness_state = (Inr vm', st')
    \<and> exposures (snd (runVirtualMachine witness_busy_env vm' (StorageDevices (VfConfig st'))))
      = [GuestPort 6 ''/run/w'']"
proof -
  from witness_run_built obtain vm' st'
    where b: "vf_NewVirtualMachine witness_env witness_run_vm witness_state = (Inr vm', st')"
      "SocketDevices (VfConfig st') = 1" by blast
  have d: "VirtioVsockDevices witness_run_vm = [\<lparr>Port = 5, SocketURL = ''/run/v'', Listen = False\<rparr>,
      \<lparr>Port = 6, SocketURL = ''/run/w'', Listen = True\<rparr>]"
    by (simp add: witness_run_vm_def VirtioVsockDevices_def FilterDevices_def)
  have u: "url_path ''/run/v''" "valid_encoded_path ''/run/v''" by code_simp+
  let ?xs = "map exposure (filter (\<lambda>d. SocketURL d \<noteq> []) (VirtioVsockDevices witness_run_vm))"
  have xs: "?xs = [HostSocket ''/run/v'' 5, GuestPort 6 ''/run/w'']"
    using u(2) by (simp add: d exposure_def)
  have "\<exists>I. exposures (snd (runVirtualMachine witness_busy_env vm' (StorageDevices (VfConfig st')))) = nths ?xs I
    \<and> (\<forall>i < length ?xs. i \<in> I \<longleftrightarrow> granted (VsockHost witness_busy_env (rev (nths ?xs (I \<inter> {..<i})))) (?xs ! i))"
    by (rule vsocks_exposed [OF b(1)])
      (use b(2) u(1) in \<open>simp_all add: d plain_socket_def witness_busy_env_def witness_run_env_def with_timeout_def\<close>)
  then obtain I where I: "exposures (snd (runVirtualMachine witness_busy_env vm' (StorageDevices (VfConfig st')))) = nths ?xs I"
    "0 \<notin> I" "Suc 0 \<in> I"
    unfolding xs by (auto simp: All_less_Suc numeral_2_eq_2 witness_busy_env_def)
  then show ?thesis using b(1) unfolding xs by (auto simp: nths_Cons)
qed

end
