(* ===== verification/RootCommand.thy ===== *)
theory RootCommand
  imports RunMachine Launcher
begin

section \<open>The vfkit command\<close>

text \<open>
  \<open>runVFKit\<close> of \<open>cmd/vfkit/main.go\<close> and \<open>RunE\<close> of \<open>cmd/vfkit/root.go\<close>: the whole life of
  the process, from the options to the exit handlers. Everything the process asks of the
  outside is in the record \<open>host\<close>.
\<close>

subsection \<open>The code\<close>

text \<open>
  \<open>GoroutineRuns\<close> and \<open>ListenerReturns\<close>: whether the goroutine of the REST service gets to
  run before the main one ends, and whether its listener has come to an end by then.
  \<open>DoneBefore\<close> is the number of actions of the main goroutine by the time it has.
\<close>

record host =
  Launch :: launch_host
  VzHost :: vz_env
  RunHost :: run_env
  ProxiesErr :: "error option"
  ReadDir :: "error + dir_entry list"
  PidExists :: "int \<Rightarrow> error + bool"
  RemoveErr :: "string \<Rightarrow> error option"
  GoroutineRuns :: bool
  ListenerReturns :: "listen_on \<Rightarrow> bool"
  DoneBefore :: nat

datatype outcome = Returned "error + unit" | StillRunning | ExitsAtOnce

text \<open>
  A function on the files and handlers of the host, on the state of the process: the handlers
  it registers come after those that are there.
\<close>

definition lift_handler :: "(file_env \<Rightarrow> file_env) \<Rightarrow> resources \<Rightarrow> resources" where
  "lift_handler h r = r\<lparr>ResFiles := h (ResFiles r)\<rparr>"

definition on_host :: "(host_state \<Rightarrow> 'a \<times> host_state) \<Rightarrow> vf_state \<Rightarrow> 'a \<times> vf_state" where
  "on_host f st =
    (case f \<lparr>HostFiles = ResFiles (VfRes st), HostDirs = ResDirs (VfRes st), HostHandlers = []\<rparr> of
       (r, hst) \<Rightarrow>
         (r, st\<lparr>VfRes := (VfRes st)\<lparr>ResFiles := HostFiles hst, ResDirs := HostDirs hst\<rparr>,
           VfHandlers := VfHandlers st @ map lift_handler (HostHandlers hst)\<rparr>))"

text \<open>The first GPU among the devices.\<close>

fun mark_first_gpu :: "device list \<Rightarrow> device list" where
  "mark_first_gpu [] = []"
| "mark_first_gpu (dev # devs) =
     (case dev of
        DevGPU gpu \<Rightarrow> DevGPU (gpu\<lparr>UsesGUI := True\<rparr>) # devs
      | _ \<Rightarrow> dev # mark_first_gpu devs)"

text \<open>The socket that \<open>gin\<close> binds for a unix endpoint.\<close>

fun bind_listener :: "listen_on \<Rightarrow> resources \<Rightarrow> resources" where
  "bind_listener (ListenUnix path) r = bind_socket path r"
| "bind_listener l r = r"

text \<open>Starting the service: whether it ends the process with \<open>logrus.Fatal\<close>.\<close>

definition start_service :: "host \<Rightarrow> Endpoint \<Rightarrow> vf_state \<Rightarrow> bool \<times> vf_state" where
  "start_service h ep st =
    (if \<not> GoroutineRuns h then (False, st)
     else case on_host (service_Start ep) st of
       (l, st) \<Rightarrow>
         if exits_at_once l \<or> ListenerReturns h l then (True, st)
         else (False, st\<lparr>VfRes := bind_listener l (VfRes st)\<rparr>))"

definition run_outcome :: "(error + unit) option \<Rightarrow> outcome" where
  "run_outcome r = (case r of None \<Rightarrow> StillRunning | Some x \<Rightarrow> Returned x)"

definition runVFKit ::
    "host \<Rightarrow> Options \<Rightarrow> VirtualMachine \<Rightarrow> vf_state \<Rightarrow> outcome \<times> run_action list \<times> vf_state" where
  "runVFKit h opts vmConfig st =
    (let vmConfig = (if OptUseGUI opts
           then vmConfig\<lparr>VmDevices := mark_first_gpu (VmDevices vmConfig)\<rparr> else vmConfig) in
     case vf_NewVirtualMachine (VzHost h) vmConfig st of
       (Inl e, st) \<Rightarrow> (Returned (Inl e), [], st)
     | (Inr vm, st) \<Rightarrow>
         (case runVirtualMachine (RunHost h) vm (StorageDevices (VfConfig st)) of
            (r, actions) \<Rightarrow>
              if OptRestfulURI opts \<noteq> DefaultRestfulURI then
                (case NewServer (IpHost (VzHost h)) (ProxiesErr h) (OptRestfulURI opts) of
                   Inl e \<Rightarrow> (Returned (Inl e), [], st)
                 | Inr srv \<Rightarrow>
                     (case start_service h (SvcEndpoint srv) st of
                        (True, st) \<Rightarrow> (ExitsAtOnce, take (DoneBefore h) actions, st)
                      | (False, st) \<Rightarrow> (run_outcome r, actions, st)))
              else (run_outcome r, actions, st)))"

text \<open>The three levels that are known; the number of a level is that of \<open>logrus\<close>.\<close>

datatype log_level = ErrorLevel | InfoLevel | DebugLevel

definition getLogLevel :: "string \<Rightarrow> error + log_level" where
  "getLogLevel level =
    (if level = ''error'' then Inr ErrorLevel
     else if level = ''debug'' then Inr DebugLevel
     else if level = ''info'' then Inr InfoLevel
     else Inl (Errorf (''unknown log level: '' @ level)))"

definition set_log_level :: "Options \<Rightarrow> error + unit" where
  "set_log_level opts =
    (if 0 < length (OptLogLevel opts) then mapE (\<lambda>_. ()) (getLogLevel (OptLogLevel opts)) else Inr ())"

text \<open>The error of the cleanup is logged.\<close>

definition remove_stale :: "host \<Rightarrow> vf_state \<Rightarrow> vf_state" where
  "remove_stale h st =
    (case CleanupStaleCloudInitISO (TempDir (LhIso (Launch h))) (ReadDir h) (PidExists h) (RemoveErr h) of
       (err, removed) \<Rightarrow> foldl (\<lambda>st path. st\<lparr>VfRes := remove_file path (VfRes st)\<rparr>) st removed)"

text \<open>The body of \<open>RunE\<close>, before the deferred call.\<close>

definition run_command :: "host \<Rightarrow> Options \<Rightarrow> vf_state \<Rightarrow> outcome \<times> run_action list \<times> vf_state" where
  "run_command h opts st =
    (case set_log_level opts of
       Inl e \<Rightarrow> (Returned (Inl e), [], st)
     | Inr u \<Rightarrow>
         (case on_host (newVMConfiguration (Launch h) opts) (remove_stale h st) of
            (Inl e, st) \<Rightarrow> (Returned (Inl e), [], st)
          | (Inr (vmConfig, opts), st) \<Rightarrow> runVFKit h opts vmConfig st))"

text \<open>
  The deferred \<open>ExecuteExitHandlers\<close> runs when the function returns: not when \<open>logrus.Fatal\<close>
  ends the process.
\<close>

definition RunE :: "host \<Rightarrow> Options \<Rightarrow> vf_state \<Rightarrow> outcome \<times> run_action list \<times> resources" where
  "RunE h opts st =
    (case run_command h opts st of
       (out, actions, st) \<Rightarrow>
         (case out of
            Returned r \<Rightarrow> (out, actions, after_exit st)
          | _ \<Rightarrow> (out, actions, VfRes st)))"

text \<open>The exit code of the process: \<open>Execute\<close> prints the error and exits with 1.\<close>

fun exit_code :: "outcome \<Rightarrow> nat option" where
  "exit_code (Returned (Inl e)) = Some 1"
| "exit_code (Returned (Inr u)) = Some 0"
| "exit_code StillRunning = None"
| "exit_code ExitsAtOnce = Some 1"

subsection \<open>What the steps do to the host\<close>

text \<open>The pid file, if there is one to write.\<close>

definition pid_files :: "Options \<Rightarrow> string list" where
  "pid_files opts = (if OptPidFile opts = [] then [] else [OptPidFile opts])"

text \<open>
  A step on the host registers removals only, changes no file but those it registers the
  removal of and those in \<open>P\<close>, and makes no directory but those in \<open>D\<close>.
\<close>

definition grows :: "string set \<Rightarrow> string set \<Rightarrow> host_state \<Rightarrow> host_state \<Rightarrow> bool" where
  "grows P D st st' \<longleftrightarrow> HostDirs st' \<subseteq> HostDirs st \<union> D
    \<and> (\<exists>paths. HostHandlers st' = HostHandlers st @ map os_Remove paths
      \<and> (\<forall>p. p \<in> P \<or> p \<in> set paths \<or> HostFiles st' p = HostFiles st p))"

named_theorems grows_intros

lemma growsI:
  assumes "HostHandlers st' = HostHandlers st @ map os_Remove paths" "HostDirs st' \<subseteq> HostDirs st \<union> D"
    and "\<And>p. p \<notin> P \<Longrightarrow> p \<notin> set paths \<Longrightarrow> HostFiles st' p = HostFiles st p"
  shows "grows P D st st'"
  using assms unfolding grows_def by blast

lemma grows_refl [grows_intros]: "grows P D st st"
  by (rule growsI [where paths = "[]"]) simp_all

lemma grows_trans: "grows P D a b \<Longrightarrow> grows P D b c \<Longrightarrow> grows P D a c"
  unfolding grows_def
proof (elim exE conjE)
  fix ps qs
  assume "HostHandlers b = HostHandlers a @ map os_Remove ps" "HostHandlers c = HostHandlers b @ map os_Remove qs"
    and "\<forall>p. p \<in> P \<or> p \<in> set ps \<or> HostFiles b p = HostFiles a p"
    and "\<forall>p. p \<in> P \<or> p \<in> set qs \<or> HostFiles c p = HostFiles b p"
    and "HostDirs b \<subseteq> HostDirs a \<union> D" "HostDirs c \<subseteq> HostDirs b \<union> D"
  then show "HostDirs c \<subseteq> HostDirs a \<union> D \<and> (\<exists>paths. HostHandlers c = HostHandlers a @ map os_Remove paths
      \<and> (\<forall>p. p \<in> P \<or> p \<in> set paths \<or> HostFiles c p = HostFiles a p))"
    by (intro conjI exI [of _ "ps @ qs"]) (auto, metis)
qed

lemma grows_bindS [grows_intros]:
  assumes "\<And>st. grows P D st (snd (m st))" "\<And>a st. grows P D st (snd (f a st))"
  shows "grows P D st (snd (bindS m f st))"
proof (cases "m st")
  case (Pair r st')
  then have "grows P D st st'" using assms(1) [of st] by simp
  with Pair assms(2) show ?thesis by (cases r) (auto intro: grows_trans)
qed

lemma grows_returnS [grows_intros]: "grows P D st (snd (returnS r st))"
  by (simp add: returnS_def grows_refl)

lemma grows_cloudInit [grows_intros]:
  "image_dirs h \<subseteq> D \<Longrightarrow> grows P D st (snd (generateCloudInitImage h paths st))"
proof (cases "generateCloudInitImage h paths st")
  case (Pair r st')
  assume D: "image_dirs h \<subseteq> D"
  show ?thesis
    using generateCloudInitImage_effect [OF Pair]
  proof (elim conjE disjE exE)
    assume "HostFiles st' = HostFiles st" "HostHandlers st' = HostHandlers st"
      "HostDirs st' \<subseteq> HostDirs st \<union> image_dirs h"
    then show ?thesis using Pair D by (auto intro!: growsI [where paths = "[]"])
  next
    fix img c
    assume "HostHandlers st' = HostHandlers st @ [os_Remove img]"
      "HostFiles st' = (HostFiles st)(img := Contents c)" "HostDirs st' \<subseteq> HostDirs st \<union> image_dirs h"
    then show ?thesis using Pair D by (auto intro!: growsI [where paths = "[img]"])
  qed
qed

lemma grows_pid [grows_intros]:
  "set (pid_files opts) \<subseteq> P \<Longrightarrow> grows P D st (snd (write_pid_file h opts st))"
  by (auto simp: write_pid_file_def WritePidFile_def Process_New_def pid_files_def grows_refl Let_def
      intro!: growsI [where paths = "[]"] split: sum.split option.splits)

lemma grows_devices [grows_intros]: "grows P D st (snd (add_cmdline_devices opts vm st))"
  by (simp add: add_cmdline_devices_def grows_refl split: prod.split option.split)

lemma grows_if [grows_intros]:
  "grows P D st (snd (m st)) \<Longrightarrow> grows P D st (snd (m' st))
    \<Longrightarrow> grows P D st (snd ((if b then m else m') st))"
  by simp

lemma pid_files_device [simp]: "pid_files (opts\<lparr>OptDevices := ds\<rparr>) = pid_files opts"
  by (simp add: pid_files_def)

lemma grows_newVMConfiguration:
  "grows (set (pid_files opts)) (image_dirs (LhIso h)) st (snd (newVMConfiguration h opts st))"
  unfolding newVMConfiguration_def Let_def
  by (intro grows_intros subset_refl) simp

text \<open>
  On the state of the process: what is tidy stays tidy, with the files of \<open>P\<close> as they are
  now and the directories of \<open>D\<close>.
\<close>

definition allowing :: "string set \<Rightarrow> string set \<Rightarrow> vf_state \<Rightarrow> resources \<Rightarrow> resources" where
  "allowing P D st r0 = (with_files P (ResFiles (VfRes st)) r0)\<lparr>ResDirs := ResDirs r0 \<union> D\<rparr>"

lemma handler_ok_lift [simp]: "handler_ok (lift_handler (os_Remove p))"
  by (auto simp: handler_ok_def lift_handler_def os_Remove_def absent_def)

lemma lift_Remove: "ResFiles (lift_handler (os_Remove p) r) p = absent"
  by (simp add: lift_handler_def os_Remove_def absent_def)

lemma tidy_on_host:
  assumes "tidy r0 st" "on_host f st = (r, st')" "\<And>hst. grows P D hst (snd (f hst))"
  shows "tidy (allowing P D st' r0) st'"
proof -
  let ?hst = "\<lparr>HostFiles = ResFiles (VfRes st), HostDirs = ResDirs (VfRes st), HostHandlers = []\<rparr>"
  obtain paths where paths: "HostHandlers (snd (f ?hst)) = map os_Remove paths"
    "\<And>p. p \<in> P \<or> p \<in> set paths \<or> HostFiles (snd (f ?hst)) p = ResFiles (VfRes st) p"
    "HostDirs (snd (f ?hst)) \<subseteq> ResDirs (VfRes st) \<union> D"
    using assms(3) [of ?hst] by (auto simp: grows_def)
  have st': "VfHandlers st' = VfHandlers st @ map (\<lambda>p. lift_handler (os_Remove p)) paths"
    "ResFds (VfRes st') = ResFds (VfRes st)" "ResFiles (VfRes st') = HostFiles (snd (f ?hst))"
    "ResDirs (VfRes st') = HostDirs (snd (f ?hst))"
    using assms(2) paths(1) by (auto simp: on_host_def split: prod.splits)
  show ?thesis unfolding tidy_def
  proof (intro conjI ballI allI)
    show "handler_ok h" if "h \<in> set (VfHandlers st')" for h
      using that assms(1) by (auto simp: st'(1) tidy_def)
    show "ResDirs (VfRes st') \<subseteq> ResDirs (allowing P D st' r0)"
      using assms(1) paths(3) by (auto simp: st'(4) tidy_def allowing_def)
  next
    fix fd assume "fd \<in> ResFds (VfRes st')"
    then have "fd \<in> ResFds r0 \<or> (\<exists>h \<in> set (VfHandlers st). \<forall>r. fd \<notin> ResFds (h r))"
      using assms(1) unfolding st'(2) tidy_def by blast
    then show "fd \<in> ResFds (allowing P D st' r0)
        \<or> (\<exists>h \<in> set (VfHandlers st'). \<forall>r. fd \<notin> ResFds (h r))"
      unfolding st'(1) by (auto simp: allowing_def with_files_def)
  next
    fix p
    let ?goal = "ResFiles (VfRes st') p = ResFiles (allowing P D st' r0) p
        \<or> ResFiles (VfRes st') p = absent \<or> (\<exists>h \<in> set (VfHandlers st'). \<forall>r. ResFiles (h r) p = absent)"
    consider "p \<in> P" | "p \<in> set paths" | "p \<notin> P" "ResFiles (VfRes st') p = ResFiles (VfRes st) p"
      using paths(2) [of p] by (auto simp: st'(3))
    then show ?goal
    proof cases
      case 1
      then show ?thesis by (simp add: allowing_def with_files_def)
    next
      case 2
      then have "lift_handler (os_Remove p) \<in> set (VfHandlers st')" by (auto simp: st'(1))
      then show ?thesis using lift_Remove by blast
    next
      case 3
      then have "ResFiles (VfRes st') p = ResFiles r0 p \<or> ResFiles (VfRes st') p = absent
          \<or> (\<exists>h \<in> set (VfHandlers st). \<forall>r. ResFiles (h r) p = absent)"
        using assms(1) by (auto simp: tidy_def)
      with 3 show ?thesis unfolding st'(1) by (auto simp: allowing_def with_files_def)
    qed
  qed
qed

lemma allowing_nothing [simp]: "allowing {} {} st r = r"
  by (simp add: allowing_def with_files_def)

lemma tidy_remove_stale: "tidy r0 st \<Longrightarrow> tidy r0 (remove_stale h st)"
proof -
  have "tidy r0 (foldl (\<lambda>st path. st\<lparr>VfRes := remove_file path (VfRes st)\<rparr>) st paths)"
    if "tidy r0 st" for st paths
    using that by (induction paths arbitrary: st) (simp_all add: tidy_remove)
  then show "tidy r0 st \<Longrightarrow> tidy r0 (remove_stale h st)"
    by (simp add: remove_stale_def split: prod.split)
qed

lemma grows_service: "grows {} {} hst (snd (service_Start ep hst))"
  by (auto simp: service_Start_def RegisterExitHandler_def grows_refl
      intro: growsI [where paths = "[EpPath ep]"] split: ServiceScheme.split)

lemma tidy_bind:
  assumes "tidy r0 st" "h \<in> set (VfHandlers st)" "\<And>r. ResFiles (h r) path = absent"
    and "bind_listener l (VfRes st) = bind_socket path (VfRes st)"
  shows "tidy r0 (st\<lparr>VfRes := bind_listener l (VfRes st)\<rparr>)"
proof -
  have "\<exists>h \<in> set (VfHandlers st). \<forall>r. ResFiles (h r) path = absent" using assms(2,3) by blast
  then show ?thesis using assms(1,4) by (simp add: tidy_def bind_socket_def)
qed

text \<open>The socket of the service is paid for by the handler registered before it.\<close>

lemma tidy_service:
  assumes "tidy r0 st" "start_service h ep st = (b, st')"
  shows "tidy r0 st'"
proof -
  obtain l st1 where on: "on_host (service_Start ep) st = (l, st1)" by fastforce
  have t: "tidy r0 st1" using tidy_on_host [OF assms(1) on grows_service] by simp
  have "tidy r0 (st1\<lparr>VfRes := bind_listener l (VfRes st1)\<rparr>)"
  proof (cases l)
    case (ListenUnix path)
    then have "EpScheme ep = Unix" "path = EpPath ep"
      using on by (auto simp: on_host_def service_Start_def split: prod.splits ServiceScheme.splits)
    then have "lift_handler (os_Remove path) \<in> set (VfHandlers st1)"
      using on by (auto simp: on_host_def service_Start_def RegisterExitHandler_def)
    then show ?thesis
      using t by (intro tidy_bind) (auto simp: ListenUnix lift_Remove)
  qed (use t in simp_all)
  then show ?thesis
    using assms t on by (auto simp: start_service_def split: if_splits)
qed

lemma local_sockets_mark [simp]: "local_sockets env (mark_first_gpu ds) = local_sockets env ds"
  by (induction ds) (auto simp: local_sockets_def split: device.split)

lemma no_unix_path_sockets: "local_sockets env ds = [] \<Longrightarrow> list_all no_unix_path ds"
proof (induction ds)
  case (Cons d ds)
  then show ?case by (cases d) (auto simp: local_sockets_def split: if_splits)
qed simp

text \<open>
  A run leaves the process tidy, but for the local sockets of its network devices when it
  fails.
\<close>

lemma tidy_run:
  assumes "tidy r0 st" "runVFKit h opts vm st = (out, actions, st')"
  shows "tidy r0 st' \<or> (\<exists>e. out = Returned (Inl e)) \<and> local_sockets (VzHost h) (VmDevices vm) \<noteq> []
    \<and> tidy (sparing (local_sockets (VzHost h) (VmDevices vm)) r0 st') st'"
proof -
  let ?vm = "if OptUseGUI opts then vm\<lparr>VmDevices := mark_first_gpu (VmDevices vm)\<rparr> else vm"
  let ?ps = "local_sockets (VzHost h) (VmDevices vm)"
  have ps: "local_sockets (VzHost h) (VmDevices ?vm) = ?ps" by simp
  obtain r st1 where b: "vf_NewVirtualMachine (VzHost h) ?vm st = (r, st1)" by fastforce
  note t = leavesD [OF leaves_machine assms(1) b, unfolded ps]
  show ?thesis
  proof (cases r)
    case (Inl e)
    then have out: "out = Returned (Inl e)" "st' = st1"
      using assms(2) b by (auto simp: runVFKit_def Let_def)
    show ?thesis
    proof (cases "?ps = []")
      case True
      then have "list_all no_unix_path (VmDevices ?vm)"
        using no_unix_path_sockets [of "VzHost h" "VmDevices ?vm"] by simp
      from preservesD [OF exit_tidy.machine [OF this] b assms(1)] show ?thesis
        by (simp add: out(2))
    qed (use t Inl out in auto)
  next
    case (Inr vm')
    with t have "tidy r0 st1" by simp
    then show ?thesis
      using assms(2) b Inr
      by (auto simp: runVFKit_def Let_def intro: tidy_service split: prod.splits if_splits sum.splits bool.splits)
  qed
qed

text \<open>The local sockets of the configuration that the options describe.\<close>

definition configured_sockets :: "host \<Rightarrow> Options \<Rightarrow> vf_state \<Rightarrow> string list" where
  "configured_sockets h opts st =
    (case fst (on_host (newVMConfiguration (Launch h) opts) (remove_stale h st)) of
       Inl e \<Rightarrow> []
     | Inr (vm, opts') \<Rightarrow> local_sockets (VzHost h) (VmDevices vm))"

lemma tidy_command:
  assumes "run_command h opts st = (out, actions, st')" "VfHandlers st = []"
  obtains fs where "tidy (with_files (set (pid_files opts)) fs (VfRes st)
        \<lparr>ResDirs := ResDirs (VfRes st) \<union> image_dirs (LhIso (Launch h))\<rparr>) st'"
  | fs e where "out = Returned (Inl e)" "configured_sockets h opts st \<noteq> []"
    "tidy (sparing (configured_sockets h opts st) (with_files (set (pid_files opts)) fs (VfRes st)
        \<lparr>ResDirs := ResDirs (VfRes st) \<union> image_dirs (LhIso (Launch h))\<rparr>) st') st'"
proof -
  let ?P = "set (pid_files opts)" and ?D = "image_dirs (LhIso (Launch h))"
  have t0: "tidy (VfRes st) st" using assms(2) by (simp add: tidy_def)
  obtain c st1 where on: "on_host (newVMConfiguration (Launch h) opts) (remove_stale h st) = (c, st1)"
    by fastforce
  have t1: "tidy (allowing ?P ?D st1 (VfRes st)) st1"
    using tidy_on_host [OF tidy_remove_stale [OF t0] on grows_newVMConfiguration] .
  show thesis
  proof (cases "set_log_level opts")
    case (Inl e)
    then have "st' = st" using assms(1) by (simp add: run_command_def)
    moreover have "with_files ?P (ResFiles (VfRes st)) (VfRes st) = VfRes st"
      by (simp add: with_files_def)
    ultimately show thesis
      using t0 by (intro that(1) [of "ResFiles (VfRes st)"]) (auto simp: tidy_def)
  next
    case (Inr u)
    show thesis
    proof (cases c)
      case (Inl e)
      with assms(1) Inr on have "st' = st1" by (simp add: run_command_def)
      with t1 show thesis by (intro that(1)) (simp add: allowing_def)
    next
      case (Inr x)
      then obtain vm opts' where c: "c = Inr (vm, opts')" by (cases x) auto
      with assms(1) \<open>set_log_level opts = Inr u\<close> on
      have k: "runVFKit h opts' vm st1 = (out, actions, st')" by (simp add: run_command_def)
      have "configured_sockets h opts st = local_sockets (VzHost h) (VmDevices vm)"
        using on c by (simp add: configured_sockets_def)
      with tidy_run [OF t1 k] that show thesis unfolding allowing_def by metis
    qed
  qed
qed

subsection \<open>A run with a window\<close>

definition witness_start :: vf_state where
  "witness_start = witness_state\<lparr>VfRes :=
    \<lparr>ResFiles = HostFiles witness_host_state, ResDirs = HostDirs witness_host_state,
      ResFds = {0, 1, 2}\<rparr>\<rparr>"

definition witness_run_host :: "bool \<Rightarrow> host" where
  "witness_run_host b = \<lparr>Launch = witness_host, VzHost = witness_env\<lparr>Arm64 := False\<rparr>, RunHost = witness_run_env,
    ProxiesErr = None, ReadDir = Inr [], PidExists = \<lambda>_. Inr True, RemoveErr = \<lambda>_. None,
    GoroutineRuns = b, ListenerReturns = \<lambda>_. False, DoneBefore = 1\<rparr>"

lemma witness_on_host:
  assumes "newVMConfiguration witness_host opts witness_host_state = (Inr (vm, opts'), witness_host_state)"
  shows "on_host (newVMConfiguration (Launch (witness_run_host b)) opts)
      (remove_stale (witness_run_host b) witness_start) = (Inr (vm, opts'), witness_start)"
proof -
  have s: "\<lparr>HostFiles = HostFiles witness_host_state, HostDirs = HostDirs witness_host_state,
      HostHandlers = []\<rparr> = witness_host_state"
    by (simp add: witness_host_state_def)
  have "remove_stale (witness_run_host b) witness_start = witness_start"
    by (simp add: remove_stale_def witness_run_host_def CleanupStaleCloudInitISO_def Let_def)
  then show ?thesis
    by (simp add: on_host_def witness_run_host_def witness_start_def s assms)
      (simp add: witness_host_state_def witness_state_def)
qed

lemmas witness_configuration = witness_on_host [OF witness_gui_run_uri]

lemma witness_gui_built:
  "\<exists>st'. vf_NewVirtualMachine (VzHost (witness_run_host b))
      (witness_gui_vm\<lparr>VmDevices := mark_first_gpu (VmDevices witness_gui_vm)\<rparr>) witness_start
    = (Inr witness_gui_vm, st') \<and> StorageDevices (VfConfig st') = []"
  by (simp add: witness_run_host_def witness_env_def witness_start_def witness_state_def
      witness_gui_vm_def NewVirtualMachine_def vf_NewVirtualMachine_def VirtualMachine_toVz_def
      NewVirtualMachineConfiguration_def toVzBootloader_def toVzLinuxBootloader_def
      NewLinuxBootloader_def vz_do_def platform_of_def NewGenericPlatformConfiguration_def
      wrapV_def wrapW_def set_platform_def modify_def update_config_def cfg_toVz_def
      VirtioRng_Add_def VirtioRng_toVz_def VirtioGPU_Add_def VirtioGPU_toVz_def newVirtioGraphicsDeviceConfiguration_def
      VirtioInput_Add_def VirtioInput_toVz_def VirtioInputPointingDevice_def
      add_vsock_for_def add_console_def emptyConfiguration_def bindS_def returnS_def Let_def)

lemma witness_ran:
  "runVirtualMachine witness_run_env witness_gui_vm []
    = (Some (Inr ()), [StartVM, ShowGUI 800 600])"
  by (simp add: runVirtualMachine_def witness_run_env_def witness_gui_vm_def NewVirtualMachine_def
      ignition_actions_def with_timeout_def VirtioVsockDevices_def VirtioGPUDevices_def
      FilterDevices_def run_exposed_def timesync_actions_def setupGuestTimeSync_def wait_for_stop_def
      without_timeout_def)

lemma witness_run_done:
  "\<exists>st'. runVFKit (witness_run_host b) witness_gui_opts witness_gui_vm witness_start
    = (Returned (Inr ()), [StartVM, ShowGUI 800 600], st')"
proof -
  obtain st' where v: "vf_NewVirtualMachine (VzHost (witness_run_host b))
      (witness_gui_vm\<lparr>VmDevices := mark_first_gpu (VmDevices witness_gui_vm)\<rparr>) witness_start
    = (Inr witness_gui_vm, st')" "StorageDevices (VfConfig st') = []"
    using witness_gui_built by blast
  have "OptRestfulURI witness_gui_opts = DefaultRestfulURI" "OptUseGUI witness_gui_opts"
    "RunHost (witness_run_host b) = witness_run_env"
    by (simp_all add: witness_gui_opts_def default_options_def witness_run_host_def)
  then show ?thesis
    using v witness_ran by (simp add: runVFKit_def run_outcome_def Let_def)
qed

lemma witness_RunE:
  "\<exists>res. RunE (witness_run_host b) witness_gui_opts witness_start
    = (Returned (Inr ()), [StartVM, ShowGUI 800 600], res)"
proof -
  obtain st' where r: "runVFKit (witness_run_host b) witness_gui_opts witness_gui_vm witness_start
    = (Returned (Inr ()), [StartVM, ShowGUI 800 600], st')"
    using witness_run_done by blast
  have "witness_gui_opts\<lparr>OptRestfulURI := OptRestfulURI witness_gui_opts\<rparr> = witness_gui_opts" by simp
  note c = witness_configuration [of b "OptRestfulURI witness_gui_opts", unfolded this]
  have "OptLogLevel witness_gui_opts = []"
    by (simp add: witness_gui_opts_def default_options_def)
  with r c show ?thesis by (simp add: RunE_def run_command_def set_log_level_def)
qed

subsection \<open>A run with two ports\<close>

definition witness_port_opts :: Options where
  "witness_port_opts = default_options\<lparr>OptVmlinuzPath := ''k'',
    OptDevices := [''virtio-vsock,port=5,socketURL=/run/v,connect'',
      ''virtio-vsock,port=6,socketURL=/run/w,listen'']\<rparr>"

definition witness_port_vm :: VirtualMachine where
  "witness_port_vm = (NewVirtualMachine binary_units 1 512 (Some (BootLinux (NewLinuxBootloader ''k'' [] []))))
    \<lparr>VmDevices := VmDevices witness_run_vm\<rparr>"

lemma witness_port_devices:
  "traverseE (deviceFromCmdLine fs) (OptDevices witness_port_opts) = Inr (VmDevices witness_run_vm)"
proof -
  have "map device_arg (VmDevices witness_run_vm) = OptDevices witness_port_opts"
    unfolding witness_run_vm_def witness_port_opts_def by code_simp
  moreover have "\<forall>d \<in> set (VmDevices witness_run_vm). device_printable fs d"
    by (simp add: witness_run_vm_def vsock_printable_def comma_free_def)
  ultimately show ?thesis using devices_read [of "VmDevices witness_run_vm" fs] by simp
qed

lemma witness_port_configuration:
  "newVMConfiguration witness_host witness_port_opts witness_host_state
    = (Inr (witness_port_vm, witness_port_opts), witness_host_state)"
proof -
  let ?c = "NewVirtualMachine binary_units 1 512 (Some (BootLinux (NewLinuxBootloader ''k'' [] [])))"
  have o': "OptPidFile witness_port_opts = []" "OptCloudInitFiles witness_port_opts = stringSliceZero"
    "OptTimeSync witness_port_opts = []" "OptIgnitionPath witness_port_opts = []"
    "\<not> OptUseGUI witness_port_opts" "\<not> OptNested witness_port_opts"
    "OptVcpus witness_port_opts = 1" "OptMemoryMiB witness_port_opts = 512"
    by (simp_all add: witness_port_opts_def default_options_def)
  have b: "newBootloaderConfiguration witness_port_opts = Inr (BootLinux (NewLinuxBootloader ''k'' [] []))"
    by (simp add: newBootloaderConfiguration_def newLegacyBootloader_def witness_port_opts_def
        default_options_def)
  have c: "?c\<lparr>Nested := False\<rparr> = ?c" by (simp add: NewVirtualMachine_def)
  have g: "generateCloudInitImage (LhIso witness_host)
      (stringSlice_GetSlice (OptCloudInitFiles witness_port_opts)) st = (Inr [], st)" for st
    by (simp add: o' generateCloudInitImage_def stringSlice_GetSlice_def stringSliceZero_def)
  have p: "write_pid_file witness_host witness_port_opts st = (Inr (), st)" for st
    by (simp add: write_pid_file_def o')
  have d: "add_cmdline_devices witness_port_opts ?c st = (Inr witness_port_vm, st)" for st
    using vm_AddDevices_ok [OF witness_port_devices, of _ ?c]
    by (simp add: add_cmdline_devices_def witness_port_vm_def NewVirtualMachine_def)
  have t: "vm_AddTimeSyncFromCmdLine [] ?c = Inr ?c" by (simp add: vm_AddTimeSyncFromCmdLine_def)
  have i: "add_ignition witness_port_opts vm = Inr vm" for vm
    by (simp add: add_ignition_def vm_AddIgnitionFileFromCmdLine_def o')
  have w: "LhUnits witness_host = binary_units" by (simp add: witness_host_def)
  show ?thesis
    using g p d by (simp add: newVMConfiguration_def b o' Let_def w c t i returnS_def add_gui_devices_def)
qed

lemma witness_port_built:
  "\<exists>st'. vf_NewVirtualMachine (VzHost (witness_run_host b)) witness_port_vm witness_start
    = (Inr witness_port_vm, st') \<and> StorageDevices (VfConfig st') = []"
  by (simp add: witness_run_host_def witness_env_def witness_start_def witness_state_def
      witness_port_vm_def witness_run_vm_def NewVirtualMachine_def vf_NewVirtualMachine_def
      VirtualMachine_toVz_def NewVirtualMachineConfiguration_def toVzBootloader_def
      toVzLinuxBootloader_def NewLinuxBootloader_def vz_do_def platform_of_def
      NewGenericPlatformConfiguration_def wrapV_def wrapW_def set_platform_def modify_def
      update_config_def cfg_toVz_def VirtioVsock_Add_def add_vsock_for_def add_console_def
      emptyConfiguration_def bindS_def returnS_def Let_def)

lemma witness_port_ran:
  "runVirtualMachine witness_run_env witness_port_vm []
    = (Some (Inr ()), [StartVM, Exposed (HostSocket ''/run/v'' 5), Exposed (GuestPort 6 ''/run/w''),
        Closed (GuestPort 6 ''/run/w''), Closed (HostSocket ''/run/v'' 5)])"
proof -
  let ?d = "\<lparr>Port = 5, SocketURL = ''/run/v'', Listen = False\<rparr>"
  let ?e = "\<lparr>Port = 6, SocketURL = ''/run/w'', Listen = True\<rparr>"
  have u: "url_path ''/run/v''" "valid_encoded_path ''/run/v''" by code_simp+
  have h: "VsDevices (VsockHost witness_run_env xs) = 1" "granted (VsockHost witness_run_env xs) x" for xs x
    by (cases x; simp add: witness_run_env_def)+
  have x: "exposure ?d = HostSocket ''/run/v'' 5" "exposure ?e = GuestPort 6 ''/run/w''"
    using u(2) by (simp_all add: exposure_def)
  have p: "plain_socket ?d" "plain_socket ?e" using u(1) by (simp_all add: plain_socket_def)
  have "expose_vsocks witness_run_env [?d, ?e] []
      = ([Exposed (HostSocket ''/run/v'' 5), Exposed (GuestPort 6 ''/run/w'')],
         [GuestPort 6 ''/run/w'', HostSocket ''/run/v'' 5])"
    using expose_one(1) [OF h(1) p(1) h(2)] expose_one(1) [OF h(1) p(2) h(2)] by (simp add: x)
  moreover have "VirtioVsockDevices witness_port_vm = [?d, ?e]"
    by (simp add: witness_port_vm_def witness_run_vm_def VirtioVsockDevices_def FilterDevices_def)
  moreover have "run_exposed witness_run_env witness_port_vm [] = (Some (Inr ()), [])"
    by (simp add: witness_run_env_def witness_port_vm_def witness_run_vm_def NewVirtualMachine_def
        VirtioGPUDevices_def FilterDevices_def run_exposed_def timesync_actions_def
        setupGuestTimeSync_def wait_for_stop_def without_timeout_def)
  moreover have "StartErr witness_run_env = None" "ignition_actions witness_port_vm = []"
    "waitForVMState VmRunning (with_timeout (StartEvents witness_run_env)) = Some (Inr ())"
    by (simp_all add: witness_run_env_def with_timeout_def ignition_actions_def witness_port_vm_def
        NewVirtualMachine_def)
  ultimately show ?thesis by (simp add: runVirtualMachine_def)
qed

lemma witness_port_RunE:
  "\<exists>res. RunE (witness_run_host b) witness_port_opts witness_start
    = (Returned (Inr ()), [StartVM, Exposed (HostSocket ''/run/v'' 5), Exposed (GuestPort 6 ''/run/w''),
        Closed (GuestPort 6 ''/run/w''), Closed (HostSocket ''/run/v'' 5)], res)"
proof -
  have c: "on_host (newVMConfiguration (Launch (witness_run_host b)) witness_port_opts)
      (remove_stale (witness_run_host b) witness_start) = (Inr (witness_port_vm, witness_port_opts), witness_start)"
    by (rule witness_on_host [OF witness_port_configuration])
  obtain st' where v: "vf_NewVirtualMachine (VzHost (witness_run_host b)) witness_port_vm witness_start
    = (Inr witness_port_vm, st')" "StorageDevices (VfConfig st') = []"
    using witness_port_built by blast
  have o': "OptRestfulURI witness_port_opts = DefaultRestfulURI" "\<not> OptUseGUI witness_port_opts"
    "OptLogLevel witness_port_opts = []" "RunHost (witness_run_host b) = witness_run_env"
    by (simp_all add: witness_port_opts_def default_options_def witness_run_host_def)
  show ?thesis
    using v witness_port_ran c o'
    by (simp add: RunE_def run_command_def set_log_level_def runVFKit_def run_outcome_def Let_def)
qed

subsection \<open>Properties\<close>

text \<open>
  C5. When the command has returned and executed the exit handlers, every file that the program
  made on the host is gone again (the cloud-init image, the sockets of the network devices
  and of the REST service), with two exceptions: the pid file, and, only when the command
  failed, the local socket of a network device with a unix socket path. The only directories
  left are those on the way to the one for cloud-init images, which is made when missing.
  Every descriptor opened for a device is closed, except that a failure with such a network
  device may leave some open. The files that the framework or \<open>tcpproxy\<close> write are not part of
  this.
\<close>

theorem process_released:
  assumes "RunE h opts st = (Returned r, actions, res)" "VfHandlers st = []"
  shows "(\<forall>p. ResFiles res p = ResFiles (VfRes st) p \<or> ResFiles res p = absent
      \<or> p \<in> set (pid_files opts)
      \<or> (\<exists>e. r = Inl e) \<and> p \<in> set (configured_sockets h opts st))
    \<and> ResDirs res \<subseteq> ResDirs (VfRes st) \<union> image_dirs (LhIso (Launch h))
    \<and> (ResFds res \<subseteq> ResFds (VfRes st) \<or> (\<exists>e. r = Inl e) \<and> configured_sockets h opts st \<noteq> [])"
proof -
  let ?r0 = "\<lambda>fs. with_files (set (pid_files opts)) fs (VfRes st)
        \<lparr>ResDirs := ResDirs (VfRes st) \<union> image_dirs (LhIso (Launch h))\<rparr>"
  obtain st' where run: "run_command h opts st = (Returned r, actions, st')" "res = after_exit st'"
    using assms(1) by (auto simp: RunE_def split: prod.splits outcome.splits)
  show ?thesis
  proof (rule tidy_command [OF run(1) assms(2)])
    fix fs assume "tidy (?r0 fs) st'"
    from tidy_released [OF this] show ?thesis
      unfolding run(2) by (auto simp: released_def with_files_def split: if_splits)
  next
    fix fs e
    assume "Returned r = Returned (Inl e)" "configured_sockets h opts st \<noteq> []"
      and "tidy (sparing (configured_sockets h opts st) (?r0 fs) st') st'"
    with tidy_released [OF this(3)] show ?thesis
      unfolding run(2) by (auto simp: released_def sparing_def with_files_def split: if_splits)
  qed
qed

theorem process_released_witness:
  "\<exists>res. RunE (witness_run_host False) witness_gui_opts witness_start
      = (Returned (Inr ()), [StartVM, ShowGUI 800 600], res)
    \<and> (\<forall>p. ResFiles res p = ResFiles (VfRes witness_start) p \<or> ResFiles res p = absent)
    \<and> ResFds res \<subseteq> ResFds (VfRes witness_start)"
proof -
  from witness_RunE [of False] obtain res where r: "RunE (witness_run_host False) witness_gui_opts witness_start
      = (Returned (Inr ()), [StartVM, ShowGUI 800 600], res)" by blast
  have "VfHandlers witness_start = []" by (simp add: witness_start_def witness_state_def)
  moreover have "pid_files witness_gui_opts = []"
    by (simp add: pid_files_def witness_gui_opts_def default_options_def)
  ultimately show ?thesis using process_released [OF r] r by auto
qed

text \<open>
  C31. When the command has returned, every port that it exposed was closed exactly once, in the
  reverse order, after everything else it did, whether it returned an error or not; as long
  as it runs, it has closed none.
\<close>

theorem ports_closed:
  assumes "RunE h opts st = (out, actions, res)" "out \<noteq> ExitsAtOnce"
  shows "\<exists>pre. closes pre = []
    \<and> actions = pre @ (if out = StillRunning then [] else map Closed (rev (exposures pre)))"
proof -
  obtain st' where run: "run_command h opts st = (out, actions, st')"
    using assms(1) by (auto simp: RunE_def split: prod.splits outcome.splits)
  have none: "well_closed b []" for b by (rule well_closedI [of "[]"]) simp_all
  have "well_closed (out \<noteq> StillRunning) actions"
    using run assms(2) none run_closes
    by (fastforce simp: run_command_def runVFKit_def run_outcome_def Let_def
        split: sum.splits prod.splits if_splits bool.splits option.splits)
  then show ?thesis by (cases "out = StillRunning") (auto simp: well_closed_def)
qed

theorem ports_closed_witness:
  "\<exists>res pre. RunE (witness_run_host False) witness_port_opts witness_start
      = (Returned (Inr ()), pre @ map Closed (rev (exposures pre)), res)
    \<and> closes pre = [] \<and> exposures pre = [HostSocket ''/run/v'' 5, GuestPort 6 ''/run/w'']"
proof -
  let ?actions = "[StartVM, Exposed (HostSocket ''/run/v'' 5), Exposed (GuestPort 6 ''/run/w''),
      Closed (GuestPort 6 ''/run/w''), Closed (HostSocket ''/run/v'' 5)]"
  from witness_port_RunE obtain res where r: "RunE (witness_run_host False) witness_port_opts witness_start
      = (Returned (Inr ()), ?actions, res)" by blast
  from ports_closed [OF r] obtain pre where pre: "closes pre = []"
    "?actions = pre @ map Closed (rev (exposures pre))" by auto
  then have "exposures ?actions = exposures pre" by (metis append_Nil2 deferred_actions(1) map_filter_simps(3))
  then have "exposures pre = [HostSocket ''/run/v'' 5, GuestPort 6 ''/run/w'']" by simp
  with r pre show ?thesis by metis
qed

text \<open>
  C32. When the goroutine of the REST service comes to its end before the machine does, vfkit
  exits with code 1 and no exit handler is executed: the machine is gone and what it took
  stays. For an endpoint with the scheme \<open>none\<close> but another URI than \<open>none://\<close>, this
  happens as soon as the goroutine runs.
\<close>

theorem rest_exit_skips_handlers:
  assumes "set_log_level opts = Inr ()" "GoroutineRuns h"
    and "on_host (newVMConfiguration (Launch h) opts) (remove_stale h st) = (Inr (vm, opts'), st1)"
    and "vf_NewVirtualMachine (VzHost h) (if OptUseGUI opts'
        then vm\<lparr>VmDevices := mark_first_gpu (VmDevices vm)\<rparr> else vm) st1 = (Inr vm', st2)"
    and "OptRestfulURI opts' \<noteq> DefaultRestfulURI"
    and "NewServer (IpHost (VzHost h)) (ProxiesErr h) (OptRestfulURI opts') = Inr srv"
    and "on_host (service_Start (SvcEndpoint srv)) st2 = (l, st3)"
    and "EpScheme (SvcEndpoint srv) = NoScheme \<or> ListenerReturns h l"
  shows "RunE h opts st = (ExitsAtOnce, take (DoneBefore h)
      (snd (runVirtualMachine (RunHost h) vm' (StorageDevices (VfConfig st2)))), VfRes st2)
    \<and> exit_code ExitsAtOnce = Some 1"
proof -
  have "exits_at_once l \<or> ListenerReturns h l"
    using assms(7,8) by (auto simp: on_host_def service_Start_def)
  then have "start_service h (SvcEndpoint srv) st2 = (True, st3)"
    using assms(2,7) by (simp add: start_service_def)
  moreover have "VfRes st3 = VfRes st2"
    using assms(7) by (auto simp: on_host_def service_Start_def split: prod.splits ServiceScheme.splits)
  ultimately show ?thesis
    using assms(1,3-6)
    by (cases "runVirtualMachine (RunHost h) vm' (StorageDevices (VfConfig st2))")
      (simp add: RunE_def run_command_def runVFKit_def Let_def)
qed

theorem rest_exit_skips_handlers_witness:
  "\<exists>res. RunE (witness_run_host True) (witness_gui_opts\<lparr>OptRestfulURI := ''none:///''\<rparr>) witness_start
      = (ExitsAtOnce, [StartVM], res)
    \<and> exit_code ExitsAtOnce = Some 1"
proof -
  let ?opts = "witness_gui_opts\<lparr>OptRestfulURI := ''none:///''\<rparr>"
  let ?h = "witness_run_host True"
  obtain st' where v: "vf_NewVirtualMachine (VzHost ?h)
      (witness_gui_vm\<lparr>VmDevices := mark_first_gpu (VmDevices witness_gui_vm)\<rparr>) witness_start
    = (Inr witness_gui_vm, st')" "StorageDevices (VfConfig st') = []"
    using witness_gui_built by blast
  have o': "set_log_level ?opts = Inr ()" "OptUseGUI ?opts" "OptRestfulURI ?opts \<noteq> DefaultRestfulURI"
    by (simp_all add: set_log_level_def witness_gui_opts_def default_options_def DefaultRestfulURI_def)
  let ?srv = "\<lparr>SvcEndpoint = \<lparr>EpHost = [], EpPath = ''/'', EpScheme = NoScheme\<rparr>, SvcRoutes = routes\<rparr>"
  have "NewServer Inr None ''none:///'' = Inr ?srv" by code_simp
  then have srv: "NewServer (IpHost (VzHost ?h)) (ProxiesErr ?h) (OptRestfulURI ?opts) = Inr ?srv"
    by (simp add: witness_run_host_def witness_env_def)
  obtain l st3 where l: "on_host (service_Start (SvcEndpoint ?srv)) st' = (l, st3)" by fastforce
  have d: "DoneBefore ?h = 1" "RunHost ?h = witness_run_env" "GoroutineRuns ?h"
    by (simp_all add: witness_run_host_def)
  have "RunE ?h ?opts witness_start = (ExitsAtOnce, take (DoneBefore ?h)
      (snd (runVirtualMachine (RunHost ?h) witness_gui_vm (StorageDevices (VfConfig st')))), VfRes st')
    \<and> exit_code ExitsAtOnce = Some 1"
    by (rule rest_exit_skips_handlers [OF o'(1) d(3) witness_configuration _ o'(3) srv l])
      (use v o'(2) in simp_all)
  then show ?thesis using d v(2) witness_ran by simp
qed

text \<open>
  C33. With \<open>--gui\<close>, a run that ends well has opened exactly one window, of the size of the
  first GPU of the configuration.
\<close>

theorem gui_window:
  assumes "runVFKit h opts vm st = (Returned (Inr ()), actions, st')"
    and "OptUseGUI opts" "VirtioGPUDevices vm = g # gs"
  shows "windows actions = [(Width g, Height g)]"
proof -
  let ?vm = "vm\<lparr>VmDevices := mark_first_gpu (VmDevices vm)\<rparr>"
  obtain vm' st1 where b: "vf_NewVirtualMachine (VzHost h) ?vm st = (Inr vm', st1)"
    and r: "runVirtualMachine (RunHost h) vm' (StorageDevices (VfConfig st1)) = (Some (Inr ()), actions)"
    using assms(1,2) by (auto simp: runVFKit_def run_outcome_def Let_def
        split: prod.splits sum.splits if_splits bool.splits option.splits)
  have "filter_devices isVirtioGPU ds = g # gs \<Longrightarrow>
      filter_devices isVirtioGPU (mark_first_gpu ds) = g\<lparr>UsesGUI := True\<rparr> # gs" for ds
    by (induction ds) (auto split: device.splits option.splits)
  then have gpus: "VirtioGPUDevices vm' = g\<lparr>UsesGUI := True\<rparr> # gs"
    using built_gpus [OF b] assms(3) by (simp add: VirtioGPUDevices_def FilterDevices_def)
  show ?thesis using run_windows [OF r] gpus by (simp add: gui_windows_def)
qed

theorem gui_window_witness:
  "windows [StartVM, ShowGUI 800 600] = [(800, 600)]"
proof -
  obtain st' where r: "runVFKit (witness_run_host True) witness_gui_opts witness_gui_vm witness_start
    = (Returned (Inr ()), [StartVM, ShowGUI 800 600], st')"
    using witness_run_done by blast
  have "OptUseGUI witness_gui_opts"
    "VirtioGPUDevices witness_gui_vm = [\<lparr>Width = 800, Height = 600, UsesGUI = True\<rparr>]"
    by (simp_all add: witness_gui_opts_def witness_gui_vm_def VirtioGPUDevices_def FilterDevices_def)
  from gui_window [OF r this] show ?thesis by simp
qed

end
