(* ===== verification/Spec2Isabelle.thy ===== *)
theory Spec2Isabelle
  imports DeviceTypes RestApi RootCommand
begin

text \<open>
  vfkit (\<open>github.com/crc-org/vfkit\<close>): a verification development.

  \<^bold>\<open>The program.\<close> vfkit starts one virtual machine with Apple's Virtualization framework. The
  command (\<open>cmd/vfkit\<close>) reads flags into options (\<open>pkg/cmdline\<close>), makes a machine configuration
  of them (\<open>pkg/config\<close>), converts it to the objects of the framework (\<open>pkg/vf\<close>), serves a REST
  interface (\<open>pkg/rest\<close>), runs the machine until it stops, and gives back what it took on the
  host with exit handlers (\<open>pkg/util\<close>). \<open>pkg/config\<close> is also a library: a client builds a
  configuration and prints it as a command line for vfkit (\<open>VirtualMachine.ToCmdLine\<close>) or as
  JSON, and \<open>pkg/process\<close> finds the vfkit process of a pid file.

  \<^bold>\<open>Theories of the language.\<close> \<open>Prelude\<close>: errors as values, the error monads of functions and of
  state-changing functions (\<open>bindE\<close>, \<open>foldE\<close>, \<open>traverseE\<close>, \<open>bindS\<close>), files of the host. \<open>GoStd\<close>,
  \<open>GoStrconv\<close>, \<open>GoNet\<close>, \<open>GoUtf8\<close>, \<open>GoPath\<close>, \<open>GoUrl\<close>, \<open>GoJson\<close>: what the code uses of Go's standard
  library, as functions on byte strings, with round-trip lemmas.

  \<^bold>\<open>Theories of the program\<close>, in the order of the imports:
  \<^item> \<open>Options\<close> (\<open>option\<close>, \<open>strToOption\<close>), and the locales \<open>vm_component\<close> and \<open>parsed_component\<close>: what
    \<open>ToCmdLine\<close> prints, \<open>FromOptions\<close> reads. Every device interprets them.
  \<^item> \<open>StorageDevices\<close>, \<open>BlockDevices\<close>, \<open>NbdDevice\<close>, \<open>VirtioDevices\<close>, \<open>SharingDevices\<close>, \<open>NetDevice\<close>:
    the thirteen devices of \<open>pkg/config/virtio.go\<close>; \<open>Devices\<close>: the interface \<open>VirtioDevice\<close> and
    \<open>deviceFromCmdLine\<close>; \<open>Bootloaders\<close> (\<open>bootloader.go\<close>); \<open>VMConfig\<close> (\<open>config.go\<close>); \<open>JsonConfig\<close>
    (\<open>json.go\<close>).
  \<^item> \<open>StringSlice\<close> (\<open>pkg/cmdline/string_slice.go\<close>), \<open>Cmdline\<close> (\<open>cmdline.go\<close>, \<open>version.go\<close>),
    \<open>Process\<close> (\<open>pkg/process\<close>), \<open>CloudInit\<close> (\<open>pkg/util\<close> and the cloud-init functions of \<open>main.go\<close>),
    \<open>Launcher\<close> (\<open>newVMConfiguration\<close>), \<open>DeviceTypes\<close> (the invariant of the devices it makes).
  \<^item> \<open>Rest\<close> and \<open>RestApi\<close> (\<open>pkg/rest\<close>): endpoints, routes, handlers.
  \<^item> \<open>VzState\<close>: calls to the framework, the configuration under construction and the resources
    of the process; \<open>VzDevices\<close> (\<open>pkg/vf/virtio.go\<close>, \<open>rosetta_*.go\<close>), \<open>VzNet\<close> (\<open>virtionet.go\<close>),
    \<open>VzMachine\<close> (\<open>vm.go\<close>, \<open>vm_*.go\<close>, \<open>bootloader.go\<close>), \<open>Vsock\<close> (\<open>vsock.go\<close>). \<open>VzLogic\<close> has the
    locales \<open>vz_invariant\<close> and \<open>vz_steady\<close>: an invariant kept by the steps that open and register
    things is kept by building a machine. \<open>VzCleanup\<close> and \<open>VzSpec\<close> interpret them.
  \<^item> \<open>VmWait\<close> (\<open>waitForVMState\<close>, \<open>shutdownFunc\<close>), \<open>TimeSyncLoop\<close> (\<open>timesync.go\<close>), \<open>RunMachine\<close>
    (\<open>runVirtualMachine\<close>), \<open>RootCommand\<close> (\<open>runVFKit\<close>, \<open>root.go\<close>).

  \<^bold>\<open>What the properties show.\<close>
  \<^item> Round trips: the command line of a configuration is read back by the vfkit command as the
    same configuration; every printable device, pid file, endpoint and JSON document likewise,
    with the exact losses where the code has some.
  \<^item> The configuration: what \<open>newVMConfiguration\<close> returns, that its devices are well-formed, and
    that the machine built from it has exactly the devices of an abstract description of it.
  \<^item> The run: when it ends and how, that no stop is missed unless two loops share a channel, that
    a shutdown comes to an end, which ports are exposed and that they are closed.
  \<^item> The host: what is left of the program's files, directories and descriptors after the command
    returned. Two ways to leave something behind are properties of their own: a network
    connection that fails half-way, and an end of the process through the REST service.

  \<^bold>\<open>Parameters and hypotheses.\<close> Code outside the repository is an argument: pflag and cobra
  (\<open>cobra_ok\<close>), strongunits (\<open>su_ok\<close>), gopsutil, the ISO writer and the temporary
  names (\<open>iso_host\<close>), the check of bracketed hosts by netip (\<open>ip\<close>), the order of Go's map
  iteration (\<open>permutes\<close>), the framework and the system calls (\<open>vz_env\<close>, where the outcome of a
  call may depend on all earlier ones), the events of the machine (\<open>run_env\<close>), the channels of
  state notifications (\<open>chan\<close>), and the scheduling of the REST goroutine (\<open>host\<close>).

  \<^bold>\<open>Termination.\<close> No definition needs fuel: loops over data are structural, and the loops that
  wait are functions of the events they receive, with \<open>None\<close> for a wait that goes on; a timeout
  is an event that always comes.

  \<^bold>\<open>Not modelled.\<close> The text of JSON, the contents of HTTP messages and the servers of net/http and
  gin; the copying of bytes by tcpproxy; log messages; the mutex of the exit handlers (their
  registration and execution are atomic steps) and the interleaving of the ignition and time
  synchronisation goroutines with the main one; the unix sockets that tcpproxy binds, which its
  \<open>Close\<close> removes; the files that the framework writes (EFI variable stores, serial logs); terminal attributes; the template of the version flag; \<open>tools/dummy.go\<close>, which
  has no code; and the helpers of the integration tests (\<open>test/\<close>, \<open>pkg/process/testdata\<close>), which
  download guest images and start the built command.
\<close>

end
